(* ===== verification/HDCP_Prelude.thy ===== *)
theory HDCP_Prelude
  imports Main "HOL-Library.Word"
begin

unbundle bit_operations_syntax

text \<open>
  Shared vocabulary of the development: the machine types of the driver
  (\<open>uint8_t\<close>, \<open>uint32_t\<close>, byte buffers), the byte-copy primitives that
  the driver uses on its fixed-size buffers (\<open>memset\<close> followed by
  \<open>memcpy\<close>), the single-bit flag operations on the \<open>hdcp_state\<close> bitmask,
  and the de-duplicating enqueue of the kernel's kthread worker.  Every lemma here
  is generic and is used by several component theories.
\<close>

section \<open>Machine types and lemma collections\<close>

type_synonym u8 = "8 word"
type_synonym u32 = "32 word"
type_synonym u64 = "64 word"
type_synonym bytes = "u8 list"

text \<open>
  \<open>hdcp_frame\<close> collects the frame lemmas of the component theories (which
  fields an operation leaves alone); \<open>hdcp_consts\<close> the definitions of the
  driver's \<open>#define\<close> constants, so that proofs unfold them by name.
\<close>

named_theorems hdcp_frame "fields an operation of the driver model does not change"
named_theorems hdcp_consts "numeric constants of the driver"
named_theorems hdcp_inv_rules "preservation of the handle invariant by one operation"
named_theorems hdcp_safe_rules "preservation of memory safety by one operation"

section \<open>Kernel error numbers\<close>

text \<open>\<open>linux/errno.h\<close>: functions return them negated.\<close>

definition EINVAL :: int where [hdcp_consts]: "EINVAL = 22"
definition ENOMEM :: int where [hdcp_consts]: "ENOMEM = 12"
definition EBUSY :: int where [hdcp_consts]: "EBUSY = 16"
definition EPROBE_DEFER :: int where [hdcp_consts]: "EPROBE_DEFER = 517"
definition ENODEV :: int where [hdcp_consts]: "ENODEV = 19"
definition ETIMEDOUT :: int where [hdcp_consts]: "ETIMEDOUT = 110"

text \<open>
  \<open>linux/err.h\<close>: the error codes are \<open>-MAX_ERRNO..-1\<close>;
  \<open>IS_ERR_VALUE(rc)\<close> on an \<open>int\<close> (sign-extended to \<open>unsigned long\<close>) holds
  exactly of them.
\<close>

definition MAX_ERRNO :: int where [hdcp_consts]: "MAX_ERRNO = 4095"

definition IS_ERR_VALUE :: "int \<Rightarrow> bool" where
  "IS_ERR_VALUE rc \<longleftrightarrow> - MAX_ERRNO \<le> rc \<and> rc < 0"

section \<open>Reading and copying bytes\<close>

text \<open>
  A C byte array is a list; a read past the part the model knows returns 0 (the
  secure buffer and the \<open>kzalloc\<close>'d buffers of the driver are zero-filled).
\<close>

definition byte_at :: "bytes \<Rightarrow> nat \<Rightarrow> u8" where
  "byte_at xs i = (if i < length xs then xs ! i else 0)"

text \<open>\<open>memcpy(dst, src, n)\<close> reads the first \<open>n\<close> bytes of \<open>src\<close>.\<close>

definition copy_bytes :: "bytes \<Rightarrow> nat \<Rightarrow> bytes" where
  "copy_bytes src n = map (byte_at src) [0..<n]"

text \<open>
  \<open>memset(buf, 0, cap); memcpy(buf, src, n)\<close> on a buffer of \<open>cap\<close> bytes: the
  buffer keeps its size; whether \<open>n\<close> fits is a separate question, answered by
  \<open>overflows\<close>.
\<close>

definition zero_fill :: "nat \<Rightarrow> bytes \<Rightarrow> bytes" where
  "zero_fill cap xs = take cap (xs @ replicate cap 0)"

definition overflows :: "nat \<Rightarrow> u32 \<Rightarrow> bool" where
  "overflows cap n \<longleftrightarrow> cap < unat n"

lemma length_copy_bytes [simp]: "length (copy_bytes src n) = n"
  by (simp add: copy_bytes_def)

lemma copy_bytes_nth [simp]: "i < n \<Longrightarrow> copy_bytes src n ! i = byte_at src i"
  by (simp add: copy_bytes_def)

lemma copy_bytes_prefix: "n \<le> length src \<Longrightarrow> copy_bytes src n = take n src"
  by (rule nth_equalityI) (simp_all add: byte_at_def)

lemma copy_bytes_idem: "copy_bytes (copy_bytes src n) n = copy_bytes src n"
  by (simp add: copy_bytes_prefix)

lemma length_zero_fill [simp]: "length (zero_fill cap xs) = cap"
  by (simp add: zero_fill_def)

lemma take_zero_fill: "length xs \<le> cap \<Longrightarrow> take (length xs) (zero_fill cap xs) = xs"
  by (simp add: zero_fill_def)

lemma byte_at_zero_fill:
  "i < cap \<Longrightarrow> byte_at (zero_fill cap xs) i = byte_at xs i"
  by (auto simp: byte_at_def zero_fill_def nth_append)

lemma copy_bytes_zero_fill:
  "n \<le> cap \<Longrightarrow> copy_bytes (zero_fill cap xs) n = copy_bytes xs n"
  by (rule nth_equalityI) (simp_all add: byte_at_zero_fill)

lemma byte_at_copy_bytes: "i < n \<Longrightarrow> byte_at (copy_bytes src n) i = byte_at src i"
  by (simp add: byte_at_def)

section \<open>Single-bit flags in a word\<close>

text \<open>
  The driver keeps its session state as a bitmask (\<open>enum hdcp_state\<close>) and
  changes it with \<open>|=\<close> and \<open>&= ~\<close>.  The lemmas say how a test of one flag
  sees setting or clearing the same or a disjoint flag.
\<close>

definition flag_set :: "'a::len word \<Rightarrow> 'a word \<Rightarrow> bool" where
  "flag_set s f \<longleftrightarrow> s AND f \<noteq> 0"

lemma and_not_disjoint: "(f::'a::len word) AND g = 0 \<Longrightarrow> g AND NOT f = g"
  by (simp add: bit_eq_iff bit_and_iff bit_not_iff) (metis bit_and_iff bit_0_eq)

lemma flag_set_or_same: "(f::'a::len word) \<noteq> 0 \<Longrightarrow> flag_set (s OR f) f"
  by (simp add: flag_set_def word_ao_absorbs)

lemma flag_set_or_other:
  "(f::'a::len word) AND g = 0 \<Longrightarrow> flag_set (s OR f) g = flag_set s g"
  by (simp add: flag_set_def bit.conj_disj_distrib2)

lemma flag_set_clear_same: "\<not> flag_set ((s::'a::len word) AND NOT f) f"
  by (simp add: flag_set_def and.assoc)

lemma flag_set_clear_other:
  assumes "(f::'a::len word) AND g = 0"
  shows "flag_set (s AND NOT f) g = flag_set s g"
proof -
  from assms have "g AND NOT f = g" by (rule and_not_disjoint)
  then show ?thesis by (metis flag_set_def and.assoc and.commute)
qed

lemma flag_set_clear_mono: "\<not> flag_set s g \<Longrightarrow> \<not> flag_set ((s::'a::len word) AND NOT f) g"
  by (simp add: flag_set_def bit_eq_iff bit_and_iff bit_not_iff)

lemma mask_or_and_not:
  "(m::'a::len word) AND x = 0 \<Longrightarrow> (m OR x) AND NOT x = m"
  by (simp add: bit_eq_iff bit_and_iff bit_or_iff bit_not_iff) (metis bit_and_iff bit_0_eq)

lemma flag_set_zero [simp]: "\<not> flag_set 0 f"
  by (simp add: flag_set_def)

text \<open>A C comparison \<open>x < 0\<close> on an unsigned field is always false.\<close>

lemma unsigned_not_negative [simp]: "\<not> ((w::'a::len word) < 0)"
  by simp

lemma unsigned_le_zero: "((w::'a::len word) \<le> 0) = (w = 0)"
  by simp

section \<open>Maxima\<close>

text \<open>Folding \<open>max\<close> into a maximum over a finite set, as the driver's loops do.\<close>

lemma max_Max_insert: "finite S \<Longrightarrow> max x (Max (insert y S)) = Max (insert (max x y) S)"
  by (cases "S = {}") (simp_all add: max.assoc)

lemma Max_insert_insert:
  "finite S \<Longrightarrow> Max (insert x (insert y S)) = Max (insert (max x y) S)"
  by (simp add: max_Max_insert [symmetric])

section \<open>The kthread worker queue\<close>

text \<open>
  \<open>queue_kthread_work\<close> appends a work item to the worker's list unless the
  item is already pending there (its list node is not empty): each work item is in
  the list at most once.
\<close>

definition queue_kthread_work :: "'w \<Rightarrow> 'w list \<Rightarrow> 'w list" where
  "queue_kthread_work w q = (if w \<in> set q then q else q @ [w])"

lemma distinct_queue_kthread_work:
  "distinct q \<Longrightarrow> distinct (queue_kthread_work w q)"
  by (simp add: queue_kthread_work_def)

lemma set_queue_kthread_work [simp]:
  "set (queue_kthread_work w q) = insert w (set q)"
  by (auto simp: queue_kthread_work_def)

lemma queue_kthread_work_nonempty [simp]: "queue_kthread_work w q \<noteq> []"
  by (auto simp: queue_kthread_work_def)

lemma queue_kthread_work_pending: "w \<in> set q \<Longrightarrow> queue_kthread_work w q = q"
  by (simp add: queue_kthread_work_def)

end
