(* ===== verification/HDCP_Messages.thy ===== *)
theory HDCP_Messages
  imports HDCP_Prelude
begin

text \<open>
  The message catalog of \<open>src/drivers/misc/hdcp.c\<close>: the HDCP 2.2 wire
  message IDs the driver branches on, the sizes of the fixed-size messages it
  validates, and \<open>hdcp_lib_message_name\<close>, the table lookup used for
  diagnostics.  The lookup loop is proved equal to a map lookup, total on the
  documented IDs and unambiguous.
\<close>

section \<open>Message IDs and sizes\<close>

text \<open>
  The C code compares these \<open>#define\<close>s with a byte of a message buffer,
  promoted to \<open>int\<close>; the model keeps them as \<open>int\<close>.
\<close>

definition AKE_SEND_CERT_MESSAGE_ID :: int where [hdcp_consts]: "AKE_SEND_CERT_MESSAGE_ID = 3"
definition AKE_NO_STORED_KM_MESSAGE_ID :: int where [hdcp_consts]: "AKE_NO_STORED_KM_MESSAGE_ID = 4"
definition AKE_STORED_KM_MESSAGE_ID :: int where [hdcp_consts]: "AKE_STORED_KM_MESSAGE_ID = 5"
definition AKE_SEND_H_PRIME_MESSAGE_ID :: int where [hdcp_consts]: "AKE_SEND_H_PRIME_MESSAGE_ID = 7"
definition AKE_SEND_PAIRING_INFO_MESSAGE_ID :: int where [hdcp_consts]: "AKE_SEND_PAIRING_INFO_MESSAGE_ID = 8"
definition LC_INIT_MESSAGE_ID :: int where [hdcp_consts]: "LC_INIT_MESSAGE_ID = 9"
definition LC_SEND_L_PRIME_MESSAGE_ID :: int where [hdcp_consts]: "LC_SEND_L_PRIME_MESSAGE_ID = 10"
definition SKE_SEND_EKS_MESSAGE_ID :: int where [hdcp_consts]: "SKE_SEND_EKS_MESSAGE_ID = 11"
definition REPEATER_AUTH_SEND_RECEIVERID_LIST_MESSAGE_ID :: int
  where [hdcp_consts]: "REPEATER_AUTH_SEND_RECEIVERID_LIST_MESSAGE_ID = 12"
definition REPEATER_AUTH_SEND_ACK_MESSAGE_ID :: int
  where [hdcp_consts]: "REPEATER_AUTH_SEND_ACK_MESSAGE_ID = 15"
definition REPEATER_AUTH_STREAM_MANAGE_MESSAGE_ID :: int
  where [hdcp_consts]: "REPEATER_AUTH_STREAM_MANAGE_MESSAGE_ID = 16"
definition REPEATER_AUTH_STREAM_READY_MESSAGE_ID :: int
  where [hdcp_consts]: "REPEATER_AUTH_STREAM_READY_MESSAGE_ID = 17"
definition HDCP1_SET_KEY_MESSAGE_ID :: u32 where [hdcp_consts]: "HDCP1_SET_KEY_MESSAGE_ID = 202"
definition HDCP1_SET_ENC_MESSAGE_ID :: u32 where [hdcp_consts]: "HDCP1_SET_ENC_MESSAGE_ID = 205"

text \<open>Buffer and message sizes in bytes (\<open>BITS_n_IN_BYTES\<close> is \<open>n div 8\<close>).\<close>

definition MAX_TX_MESSAGE_SIZE :: nat where [hdcp_consts]: "MAX_TX_MESSAGE_SIZE = 129"
definition MAX_RX_MESSAGE_SIZE :: nat where [hdcp_consts]: "MAX_RX_MESSAGE_SIZE = 534"
definition MAX_TOPOLOGY_ELEMS :: nat where [hdcp_consts]: "MAX_TOPOLOGY_ELEMS = 32"
definition HDCP1_AKSV_SIZE :: nat where [hdcp_consts]: "HDCP1_AKSV_SIZE = 8"
definition MESSAGE_ID_SIZE :: nat where [hdcp_consts]: "MESSAGE_ID_SIZE = 1"
definition BITS_40_IN_BYTES :: nat where [hdcp_consts]: "BITS_40_IN_BYTES = 5"
definition BITS_64_IN_BYTES :: nat where [hdcp_consts]: "BITS_64_IN_BYTES = 8"
definition BITS_128_IN_BYTES :: nat where [hdcp_consts]: "BITS_128_IN_BYTES = 16"
definition RXCAPS_SIZE :: nat where [hdcp_consts]: "RXCAPS_SIZE = 3"
definition RXINFO_SIZE :: nat where [hdcp_consts]: "RXINFO_SIZE = 2"
definition SEQ_NUM_V_SIZE :: nat where [hdcp_consts]: "SEQ_NUM_V_SIZE = 3"

definition LC_INIT_MESSAGE_SIZE :: nat where
  [hdcp_consts]: "LC_INIT_MESSAGE_SIZE = MESSAGE_ID_SIZE + BITS_64_IN_BYTES"

definition SKE_SEND_EKS_MESSAGE_SIZE :: nat where
  [hdcp_consts]: "SKE_SEND_EKS_MESSAGE_SIZE = MESSAGE_ID_SIZE + BITS_128_IN_BYTES + BITS_64_IN_BYTES"

definition RCVR_ID_SIZE :: nat where [hdcp_consts]: "RCVR_ID_SIZE = BITS_40_IN_BYTES"
definition MAX_RCVR_IDS_ALLOWED_IN_LIST :: nat where [hdcp_consts]: "MAX_RCVR_IDS_ALLOWED_IN_LIST = 31"
definition MAX_RCVR_ID_LIST_SIZE :: nat where
  [hdcp_consts]: "MAX_RCVR_ID_LIST_SIZE = RCVR_ID_SIZE * MAX_RCVR_IDS_ALLOWED_IN_LIST"

text \<open>\<open>SLEEP_SET_HW_KEY_MS\<close>: the wait before enabling encryption.\<close>

definition SLEEP_SET_HW_KEY_MS :: nat where [hdcp_consts]: "SLEEP_SET_HW_KEY_MS = 300"

lemma LC_INIT_MESSAGE_SIZE_val: "LC_INIT_MESSAGE_SIZE = 9"
  by (simp add: hdcp_consts)

lemma SKE_SEND_EKS_MESSAGE_SIZE_val: "SKE_SEND_EKS_MESSAGE_SIZE = 25"
  by (simp add: hdcp_consts)

section \<open>The name table\<close>

text \<open>
  \<open>hdcp_lib_msg_map\<close> is the static table of \<open>hdcp_lib_message_name\<close>; the
  function scans it from the front and returns \<open>"UNKNOWN"\<close> when no entry
  matches.
\<close>

definition hdcp_lib_msg_map :: "(int \<times> string) list" where
  "hdcp_lib_msg_map =
    [(2, ''AKE_INIT''), (3, ''AKE_SEND_CERT''), (4, ''AKE_NO_STORED_KM''),
     (5, ''AKE_STORED_KM''), (7, ''AKE_SEND_H_PRIME''), (8, ''AKE_SEND_PAIRING_INFO''),
     (9, ''LC_INIT''), (10, ''LC_SEND_L_PRIME''), (11, ''SKE_SEND_EKS''),
     (12, ''REPEATER_AUTH_SEND_RECEIVERID_LIST''), (15, ''REPEATER_AUTH_SEND_ACK''),
     (16, ''REPEATER_AUTH_STREAM_MANAGE''), (17, ''REPEATER_AUTH_STREAM_READY'')]"

fun msg_map_scan :: "(int \<times> string) list \<Rightarrow> int \<Rightarrow> string" where
  "msg_map_scan [] msg_id = ''UNKNOWN''"
| "msg_map_scan ((i, name) # rest) msg_id =
     (if msg_id = i then name else msg_map_scan rest msg_id)"

definition hdcp_lib_message_name :: "int \<Rightarrow> string" where
  "hdcp_lib_message_name msg_id = msg_map_scan hdcp_lib_msg_map msg_id"

text \<open>The IDs the table documents, as a set.\<close>

definition documented_msg_ids :: "int set" where
  "documented_msg_ids = {2, 3, 4, 5, 7, 8, 9, 10, 11, 12, 15, 16, 17}"

section \<open>Lemmas\<close>

text \<open>The scanning loop is a map lookup with a default.\<close>

lemma msg_map_scan_map_of:
  "msg_map_scan tbl msg_id = (case map_of tbl msg_id of Some n \<Rightarrow> n | None \<Rightarrow> ''UNKNOWN'')"
  by (induction tbl msg_id rule: msg_map_scan.induct) auto

lemma msg_map_keys: "fst ` set hdcp_lib_msg_map = documented_msg_ids"
  by (simp add: hdcp_lib_msg_map_def documented_msg_ids_def)

lemma msg_map_distinct_keys: "distinct (map fst hdcp_lib_msg_map)"
  by (simp add: hdcp_lib_msg_map_def)

lemma msg_map_distinct_names: "distinct (map snd hdcp_lib_msg_map)"
  by (simp add: hdcp_lib_msg_map_def)

lemma unknown_not_in_msg_map: "''UNKNOWN'' \<notin> snd ` set hdcp_lib_msg_map"
  by (simp add: hdcp_lib_msg_map_def)

lemma message_name_in_map:
  "(msg_id, n) \<in> set hdcp_lib_msg_map \<Longrightarrow> hdcp_lib_message_name msg_id = n"
  by (simp add: hdcp_lib_message_name_def msg_map_scan_map_of msg_map_distinct_keys)

end
