(* ===== verification/HDCP_Interfaces.thy ===== *)
theory HDCP_Interfaces
  imports HDCP_Prelude
begin

text \<open>
  The interfaces through which the HDCP 2.2 library of
  \<open>src/drivers/misc/hdcp.c\<close> talks to its collaborators, none of which is
  under \<open>src/\<close>:
  \<^item> the HDMI client (\<open>linux/hdcp_qseecom.h\<close>): the wakeup commands it sends
    into the library and the notifications the library sends back;
  \<^item> the secure world (QSEECOM): the request the driver writes into the shared
    buffer and the response it reads back;
  \<^item> the observable trace of a handle: every secure-world call, every client
    notification and every sleep, in order;
  \<^item> the environment: how the secure world, the kernel allocator and the
    scheduler answer.  Each answer may depend on the whole trace so far, so the
    environment covers any stateful secure application and any allocator.
\<close>

section \<open>Client vocabulary\<close>

text \<open>\<open>enum hdcp_lib_wakeup_cmd\<close>: commands from the HDMI driver into the library.\<close>

datatype hdcp_lib_wakeup_cmd =
    HDCP_LIB_WKUP_CMD_INVALID
  | HDCP_LIB_WKUP_CMD_START
  | HDCP_LIB_WKUP_CMD_STOP
  | HDCP_LIB_WKUP_CMD_MSG_SEND_SUCCESS
  | HDCP_LIB_WKUP_CMD_MSG_SEND_FAILED
  | HDCP_LIB_WKUP_CMD_MSG_RECV_SUCCESS
  | HDCP_LIB_WKUP_CMD_MSG_RECV_FAILED
  | HDCP_LIB_WKUP_CMD_MSG_RECV_TIMEOUT
  | HDCP_LIB_WKUP_CMD_QUERY_STREAM_TYPE

text \<open>\<open>enum hdmi_hdcp_wakeup_cmd\<close>: notifications from the library to the client.\<close>

datatype hdmi_hdcp_wakeup_cmd =
    HDMI_HDCP_WKUP_CMD_INVALID
  | HDMI_HDCP_WKUP_CMD_SEND_MESSAGE
  | HDMI_HDCP_WKUP_CMD_RECV_MESSAGE
  | HDMI_HDCP_WKUP_CMD_STATUS_SUCCESS
  | HDMI_HDCP_WKUP_CMD_STATUS_FAILED
  | HDMI_HDCP_WKUP_CMD_LINK_POLL

text \<open>\<open>struct hdcp_lib_wakeup_data\<close> (the opaque \<open>context\<close> pointer is the handle itself).\<close>

record hdcp_lib_wakeup_data =
  wk_cmd :: hdcp_lib_wakeup_cmd
  recvd_msg_buf :: bytes
  recvd_msg_len :: u32
  wk_timeout :: u32

text \<open>
  \<open>struct hdmi_hdcp_wakeup_data\<close>.  \<open>send_msg_buf\<close> points at the library's
  transmit buffer; the model records that buffer's contents at the time of the call.
\<close>

record hdmi_hdcp_wakeup_data =
  cdata_cmd :: hdmi_hdcp_wakeup_cmd
  send_msg_buf :: bytes
  send_msg_len :: u32
  cdata_timeout :: u32

text \<open>\<open>struct hdmi_hdcp_wakeup_data cdata = {cmd}\<close>: every other field zero.\<close>

definition cdata_of :: "hdmi_hdcp_wakeup_cmd \<Rightarrow> hdmi_hdcp_wakeup_data" where
  "cdata_of c = \<lparr>cdata_cmd = c, send_msg_buf = [], send_msg_len = 0, cdata_timeout = 0\<rparr>"

section \<open>Secure-world requests and responses\<close>

text \<open>
  One constructor per request structure of \<open>hdcp.c\<close> that the driver sends,
  with the fields the call site writes.  \<open>hdcp_lib_library_unload\<close> sends a
  \<open>hdcp_deinit_req\<close> without writing its \<open>ctxhandle\<close>: that field is
  \<open>None\<close>.
\<close>

datatype tz_req =
    Req_init u32
  | Req_deinit u32 "u32 option"
  | Req_rcvd_msg u32 u32 u32 bytes
  | Req_set_hw_key u32 u32
  | Req_send_timeout u32 u32
  | Req_query_stream_type u32 u32
  | Req_hdcp1_key_set u32
  | Req_hdcp1_set_enc u32 u32

text \<open>Every request structure starts with its \<open>commandid\<close>.\<close>

fun req_commandid :: "tz_req \<Rightarrow> u32" where
  "req_commandid (Req_init c) = c"
| "req_commandid (Req_deinit c _) = c"
| "req_commandid (Req_rcvd_msg c _ _ _) = c"
| "req_commandid (Req_set_hw_key c _) = c"
| "req_commandid (Req_send_timeout c _) = c"
| "req_commandid (Req_query_stream_type c _) = c"
| "req_commandid (Req_hdcp1_key_set c) = c"
| "req_commandid (Req_hdcp1_set_enc c _) = c"

text \<open>
  The response region of the shared buffer, as the fields the response structures
  of \<open>hdcp.c\<close> give it: each call site reads the fields of its own structure
  (\<open>status\<close>, \<open>commandid\<close>, \<open>ctxhandle\<close>, \<open>state\<close>, \<open>timeout\<close>,
  \<open>flag\<close>, \<open>msglen\<close>, \<open>msg\<close>; \<open>ret\<close> and \<open>ksv\<close> for HDCP 1.x).  All
  are \<open>uint32_t\<close> or bytes, as declared.
\<close>

record tz_rsp =
  rsp_status :: u32
  rsp_commandid :: u32
  rsp_ctxhandle :: u32
  rsp_state :: u32
  rsp_timeout :: u32
  rsp_flag :: u32
  rsp_msglen :: u32
  rsp_msg :: bytes
  rsp_ret :: u32
  rsp_ksv :: bytes

section \<open>The observable trace\<close>

datatype io_event =
    TzCommand tz_req
  | TzStartApp string
  | TzShutdownApp
  | ClientNotify hdmi_hdcp_wakeup_data
  | Sleep nat

fun is_tz_command :: "io_event \<Rightarrow> bool" where
  "is_tz_command (TzCommand _) = True"
| "is_tz_command _ = False"

fun notified_cmd :: "io_event \<Rightarrow> hdmi_hdcp_wakeup_cmd option" where
  "notified_cmd (ClientNotify d) = Some (cdata_cmd d)"
| "notified_cmd _ = None"

text \<open>The notifications of a trace, in order.\<close>

definition notifications :: "io_event list \<Rightarrow> hdmi_hdcp_wakeup_cmd list" where
  "notifications t = List.map_filter notified_cmd t"

definition tz_commands :: "io_event list \<Rightarrow> tz_req list" where
  "tz_commands t = [r. TzCommand r \<leftarrow> t]"

lemma notifications_append [simp]:
  "notifications (xs @ ys) = notifications xs @ notifications ys"
  by (simp add: notifications_def map_filter_def)

lemma notifications_Nil [simp]: "notifications [] = []"
  by (simp add: notifications_def map_filter_def)

lemma notifications_Cons [simp]:
  "notifications (e # t) =
     (case notified_cmd e of None \<Rightarrow> notifications t | Some c \<Rightarrow> c # notifications t)"
  by (simp add: notifications_def map_filter_def split: option.split)

lemma tz_commands_append [simp]:
  "tz_commands (xs @ ys) = tz_commands xs @ tz_commands ys"
  by (simp add: tz_commands_def)

lemma tz_commands_Nil [simp]: "tz_commands [] = []"
  by (simp add: tz_commands_def)

lemma tz_commands_Cons [simp]:
  "tz_commands (e # t) = (case e of TzCommand r \<Rightarrow> r # tz_commands t | _ \<Rightarrow> tz_commands t)"
  by (simp add: tz_commands_def split: io_event.split)

section \<open>The environment\<close>

text \<open>
  \<open>tz_send\<close> is \<open>qseecom_send_command\<close>: its return code and the response
  the secure application wrote.  \<open>tz_start_app\<close> and \<open>tz_shutdown_app\<close>
  are the return codes of \<open>qseecom_start_app\<close> and \<open>qseecom_shutdown_app\<close>;
  \<open>kzalloc_ok\<close> says whether an allocation of that many bytes succeeds.
\<close>

record tee_env =
  tz_send :: "io_event list \<Rightarrow> tz_req \<Rightarrow> int \<times> tz_rsp"
  tz_start_app :: "io_event list \<Rightarrow> string \<Rightarrow> int"
  tz_shutdown_app :: "io_event list \<Rightarrow> int"
  kzalloc_ok :: "io_event list \<Rightarrow> nat \<Rightarrow> bool"

end
