(* ===== verification/HDCP_Secure_Channel.thy ===== *)
theory HDCP_Secure_Channel
  imports HDCP_Messages HDCP_Interfaces
begin

unbundle bit_operations_syntax

text \<open>
  The secure-channel adapter of \<open>src/drivers/misc/hdcp.c\<close>: the command IDs
  the driver writes into a request, the byte layout of each packed request and
  response structure, and \<open>QSEECOM_ALIGN\<close>, which places the response after
  the request in the one 4 KiB shared buffer (\<open>sbuf\<close>).  The lemmas give the
  arithmetic of \<open>QSEECOM_ALIGN\<close> on 64-bit \<open>size_t\<close> and show that every
  request/response pair the driver uses fits in the shared buffer without overlap,
  and that the command IDs are distinct and recover their service-local number.
\<close>

type_synonym size_t = "64 word"

section \<open>Command IDs and status values\<close>

definition HDCP_SUCCESS :: u32 where [hdcp_consts]: "HDCP_SUCCESS = 0"

definition HDCP_TXMTR_SUBSTATE_INIT :: u32
  where [hdcp_consts]: "HDCP_TXMTR_SUBSTATE_INIT = 0"
definition HDCP_TXMTR_SUBSTATE_WAITING_FOR_RECIEVERID_LIST :: u32
  where [hdcp_consts]: "HDCP_TXMTR_SUBSTATE_WAITING_FOR_RECIEVERID_LIST = 1"
definition HDCP_TXMTR_SUBSTATE_PROCESSED_RECIEVERID_LIST :: u32
  where [hdcp_consts]: "HDCP_TXMTR_SUBSTATE_PROCESSED_RECIEVERID_LIST = 2"
definition HDCP_TXMTR_SUBSTATE_WAITING_FOR_STREAM_READY_MESSAGE :: u32
  where [hdcp_consts]: "HDCP_TXMTR_SUBSTATE_WAITING_FOR_STREAM_READY_MESSAGE = 3"
definition HDCP_TXMTR_SUBSTATE_REPEATER_AUTH_COMPLETE :: u32
  where [hdcp_consts]: "HDCP_TXMTR_SUBSTATE_REPEATER_AUTH_COMPLETE = 4"

definition HDCP_TXMTR_SERVICE_ID :: u32 where [hdcp_consts]: "HDCP_TXMTR_SERVICE_ID = 0x1000"

definition SERVICE_TXMTR_CREATE_CMD :: "u32 \<Rightarrow> u32" where
  "SERVICE_TXMTR_CREATE_CMD x = HDCP_TXMTR_SERVICE_ID OR x"

definition HDCP_TXMTR_INIT :: u32 where "HDCP_TXMTR_INIT = SERVICE_TXMTR_CREATE_CMD 1"
definition HDCP_TXMTR_DEINIT :: u32 where "HDCP_TXMTR_DEINIT = SERVICE_TXMTR_CREATE_CMD 2"
definition HDCP_TXMTR_PROCESS_RECEIVED_MESSAGE :: u32
  where "HDCP_TXMTR_PROCESS_RECEIVED_MESSAGE = SERVICE_TXMTR_CREATE_CMD 3"
definition HDCP_TXMTR_SEND_MESSAGE_TIMEOUT :: u32
  where "HDCP_TXMTR_SEND_MESSAGE_TIMEOUT = SERVICE_TXMTR_CREATE_CMD 4"
definition HDCP_TXMTR_SET_HW_KEY :: u32 where "HDCP_TXMTR_SET_HW_KEY = SERVICE_TXMTR_CREATE_CMD 5"
definition HDCP_TXMTR_QUERY_STREAM_TYPE :: u32
  where "HDCP_TXMTR_QUERY_STREAM_TYPE = SERVICE_TXMTR_CREATE_CMD 6"
definition HDCP_TXMTR_GET_KSXORLC128_AND_RIV :: u32
  where "HDCP_TXMTR_GET_KSXORLC128_AND_RIV = SERVICE_TXMTR_CREATE_CMD 7"
definition HDCP_TXMTR_PROVISION_KEY :: u32 where "HDCP_TXMTR_PROVISION_KEY = SERVICE_TXMTR_CREATE_CMD 8"
definition HDCP_TXMTR_GET_TOPOLOGY_INFO :: u32
  where "HDCP_TXMTR_GET_TOPOLOGY_INFO = SERVICE_TXMTR_CREATE_CMD 9"
definition HDCP_TXMTR_UPDATE_SRM :: u32 where "HDCP_TXMTR_UPDATE_SRM = SERVICE_TXMTR_CREATE_CMD 10"
definition HDCP_LIB_INIT :: u32 where "HDCP_LIB_INIT = SERVICE_TXMTR_CREATE_CMD 11"
definition HDCP_LIB_DEINIT :: u32 where "HDCP_LIB_DEINIT = SERVICE_TXMTR_CREATE_CMD 12"

lemmas hdcp_cmd_defs =
  HDCP_TXMTR_INIT_def HDCP_TXMTR_DEINIT_def HDCP_TXMTR_PROCESS_RECEIVED_MESSAGE_def
  HDCP_TXMTR_SEND_MESSAGE_TIMEOUT_def HDCP_TXMTR_SET_HW_KEY_def HDCP_TXMTR_QUERY_STREAM_TYPE_def
  HDCP_TXMTR_GET_KSXORLC128_AND_RIV_def HDCP_TXMTR_PROVISION_KEY_def
  HDCP_TXMTR_GET_TOPOLOGY_INFO_def HDCP_TXMTR_UPDATE_SRM_def HDCP_LIB_INIT_def HDCP_LIB_DEINIT_def
  SERVICE_TXMTR_CREATE_CMD_def HDCP_TXMTR_SERVICE_ID_def

text \<open>The commands of the HDCP 2.2 transmitter service, in the order of their numbers.\<close>

definition hdcp_txmtr_commands :: "u32 list" where
  "hdcp_txmtr_commands =
    [HDCP_TXMTR_INIT, HDCP_TXMTR_DEINIT, HDCP_TXMTR_PROCESS_RECEIVED_MESSAGE,
     HDCP_TXMTR_SEND_MESSAGE_TIMEOUT, HDCP_TXMTR_SET_HW_KEY, HDCP_TXMTR_QUERY_STREAM_TYPE,
     HDCP_TXMTR_GET_KSXORLC128_AND_RIV, HDCP_TXMTR_PROVISION_KEY, HDCP_TXMTR_GET_TOPOLOGY_INFO,
     HDCP_TXMTR_UPDATE_SRM, HDCP_LIB_INIT, HDCP_LIB_DEINIT]"

lemma hdcp_cmd_vals:
  "HDCP_TXMTR_INIT = 0x1001" "HDCP_TXMTR_DEINIT = 0x1002"
  "HDCP_TXMTR_PROCESS_RECEIVED_MESSAGE = 0x1003" "HDCP_TXMTR_SEND_MESSAGE_TIMEOUT = 0x1004"
  "HDCP_TXMTR_SET_HW_KEY = 0x1005" "HDCP_TXMTR_QUERY_STREAM_TYPE = 0x1006"
  "HDCP_TXMTR_GET_KSXORLC128_AND_RIV = 0x1007" "HDCP_TXMTR_PROVISION_KEY = 0x1008"
  "HDCP_TXMTR_GET_TOPOLOGY_INFO = 0x1009" "HDCP_TXMTR_UPDATE_SRM = 0x100A"
  "HDCP_LIB_INIT = 0x100B" "HDCP_LIB_DEINIT = 0x100C"
  by (simp_all add: hdcp_cmd_defs)

section \<open>Shared-buffer layout\<close>

definition QSEECOM_SBUFF_SIZE :: nat where [hdcp_consts]: "QSEECOM_SBUFF_SIZE = 0x1000"
definition QSEECOM_ALIGN_SIZE :: size_t where [hdcp_consts]: "QSEECOM_ALIGN_SIZE = 0x40"
definition QSEECOM_ALIGN_MASK :: size_t where "QSEECOM_ALIGN_MASK = QSEECOM_ALIGN_SIZE - 1"

definition QSEECOM_ALIGN :: "size_t \<Rightarrow> size_t" where
  "QSEECOM_ALIGN x = (x + QSEECOM_ALIGN_SIZE) AND NOT QSEECOM_ALIGN_MASK"

text \<open>
  A packed structure is the list of its field sizes; \<open>sizeof\<close> is their sum.
  \<open>struct receiver_info\<close> and \<open>struct topology_info\<close> are not packed: the
  5-byte receiver ID is padded to 8 before the two 4-byte enums.
\<close>

definition sizeof_packed :: "nat list \<Rightarrow> nat" where
  "sizeof_packed flds = sum_list flds"

definition sizeof_receiver_info :: nat where
  "sizeof_receiver_info = 8 + 4 + 4"

definition sizeof_topology_info :: nat where
  "sizeof_topology_info = 4 + MAX_TOPOLOGY_ELEMS * sizeof_receiver_info"

definition hdcp1_key_set_req :: "nat list" where "hdcp1_key_set_req = [4]"
definition hdcp1_key_set_rsp :: "nat list" where "hdcp1_key_set_rsp = [4, 4, HDCP1_AKSV_SIZE]"
definition hdcp_init_req :: "nat list" where "hdcp_init_req = [4]"
definition hdcp_init_rsp :: "nat list" where "hdcp_init_rsp = [4, 4, 4, 4, 4, MAX_TX_MESSAGE_SIZE]"
definition hdcp_deinit_req :: "nat list" where "hdcp_deinit_req = [4, 4]"
definition hdcp_deinit_rsp :: "nat list" where "hdcp_deinit_rsp = [4, 4]"
definition hdcp_rcvd_msg_req :: "nat list" where "hdcp_rcvd_msg_req = [4, 4, 4, MAX_RX_MESSAGE_SIZE]"
definition hdcp_rcvd_msg_rsp :: "nat list" where
  "hdcp_rcvd_msg_rsp = [4, 4, 4, 4, 4, 4, MAX_TX_MESSAGE_SIZE]"
definition hdcp_set_hw_key_req :: "nat list" where "hdcp_set_hw_key_req = [4, 4]"
definition hdcp_set_hw_key_rsp :: "nat list" where "hdcp_set_hw_key_rsp = [4, 4]"
definition hdcp_send_timeout_req :: "nat list" where "hdcp_send_timeout_req = [4, 4]"
definition hdcp_send_timeout_rsp :: "nat list" where
  "hdcp_send_timeout_rsp = [4, 4, 4, 4, MAX_TX_MESSAGE_SIZE]"
definition hdcp_query_stream_type_req :: "nat list" where "hdcp_query_stream_type_req = [4, 4]"
definition hdcp_query_stream_type_rsp :: "nat list" where
  "hdcp_query_stream_type_rsp = [4, 4, 4, 4, MAX_TX_MESSAGE_SIZE]"
definition hdcp_set_stream_type_req :: "nat list" where "hdcp_set_stream_type_req = [4, 4, 1]"
definition hdcp_set_stream_type_rsp :: "nat list" where
  "hdcp_set_stream_type_rsp = [4, 4, 4, 4, MAX_TX_MESSAGE_SIZE]"
definition hdcp_update_srm_req :: "nat list" where "hdcp_update_srm_req = [4, 4, 4, 4]"
definition hdcp_update_srm_rsp :: "nat list" where "hdcp_update_srm_rsp = [4, 4]"
definition hdcp_get_topology_req :: "nat list" where "hdcp_get_topology_req = [4, 4]"
definition hdcp_get_topology_rsp :: "nat list" where
  "hdcp_get_topology_rsp = [4, 4, sizeof_topology_info]"
definition hdcp1_set_enc_req :: "nat list" where "hdcp1_set_enc_req = [4, 4]"
definition hdcp1_set_enc_rsp :: "nat list" where "hdcp1_set_enc_rsp = [4, 4]"

lemmas hdcp_layout_defs =
  hdcp1_key_set_req_def hdcp1_key_set_rsp_def hdcp_init_req_def hdcp_init_rsp_def
  hdcp_deinit_req_def hdcp_deinit_rsp_def hdcp_rcvd_msg_req_def hdcp_rcvd_msg_rsp_def
  hdcp_set_hw_key_req_def hdcp_set_hw_key_rsp_def hdcp_send_timeout_req_def
  hdcp_send_timeout_rsp_def hdcp_query_stream_type_req_def hdcp_query_stream_type_rsp_def
  hdcp_set_stream_type_req_def hdcp_set_stream_type_rsp_def hdcp_update_srm_req_def
  hdcp_update_srm_rsp_def hdcp_get_topology_req_def hdcp_get_topology_rsp_def
  hdcp1_set_enc_req_def hdcp1_set_enc_rsp_def sizeof_topology_info_def sizeof_receiver_info_def

text \<open>
  A call \<open>qseecom_send_command(h, req, QSEECOM_ALIGN(sizeof(req)), rsp,
  QSEECOM_ALIGN(sizeof(rsp)))\<close> with the response at
  \<open>sbuf + QSEECOM_ALIGN(sizeof(req))\<close>: where the response starts, and where
  the region handed to the secure world ends.
\<close>

definition rsp_offset :: "nat list \<Rightarrow> nat" where
  "rsp_offset req = unat (QSEECOM_ALIGN (of_nat (sizeof_packed req)))"

definition sbuf_end :: "nat list \<Rightarrow> nat list \<Rightarrow> nat" where
  "sbuf_end req rsp = rsp_offset req + unat (QSEECOM_ALIGN (of_nat (sizeof_packed rsp)))"

text \<open>The request/response pairs of every \<open>qseecom_send_command\<close> in \<open>hdcp.c\<close>.\<close>

definition qseecom_calls :: "(nat list \<times> nat list) list" where
  "qseecom_calls =
    [(hdcp_set_hw_key_req, hdcp_set_hw_key_rsp),      \<comment> \<open>enable_encryption\<close>
     (hdcp_init_req, hdcp_init_rsp),                  \<comment> \<open>library_load, txmtr_init\<close>
     (hdcp_deinit_req, hdcp_deinit_rsp),              \<comment> \<open>library_unload, txmtr_deinit\<close>
     (hdcp_query_stream_type_req, hdcp_query_stream_type_rsp), \<comment> \<open>stream\<close>
     (hdcp_send_timeout_req, hdcp_send_timeout_rsp),  \<comment> \<open>timeout\<close>
     (hdcp_rcvd_msg_req, hdcp_rcvd_msg_rsp),          \<comment> \<open>msg_recvd\<close>
     (hdcp1_key_set_req, hdcp1_key_set_rsp),          \<comment> \<open>hdcp1_set_keys\<close>
     (hdcp1_set_enc_req, hdcp1_set_enc_rsp)]          \<comment> \<open>hdcp1_set_enc\<close>"

section \<open>Lemmas\<close>

lemma and_not_mask_push_drop: "(y::'a::len word) AND NOT (mask n) = push_bit n (drop_bit n y)"
  by (rule bit_eqI) (auto simp: bit_simps)

lemma unat_and_not_mask: "unat ((y::'a::len word) AND NOT (mask n)) = unat y div 2 ^ n * 2 ^ n"
proof -
  have le: "unat y div 2 ^ n * 2 ^ n \<le> unat y"
    by (simp add: div_times_less_eq_dividend)
  have "unat (push_bit n (drop_bit n y)) = take_bit LENGTH('a) (push_bit n (unat (drop_bit n y)))"
    by (rule unsigned_push_bit_eq)
  also have "\<dots> = take_bit LENGTH('a) (unat y div 2 ^ n * 2 ^ n)"
    by (simp only: unat_drop_bit_eq) (simp add: push_bit_eq_mult drop_bit_eq_div)
  also have "\<dots> = unat y div 2 ^ n * 2 ^ n"
  proof -
    have "unat y div 2 ^ n * 2 ^ n < 2 ^ LENGTH('a)"
      using le unsigned_less [of y] by (rule le_less_trans)
    then show ?thesis by (simp add: take_bit_eq_mod)
  qed
  finally show ?thesis by (simp add: and_not_mask_push_drop)
qed

lemma unat_QSEECOM_ALIGN:
  assumes "unat x + 64 < 2 ^ 64"
  shows "unat (QSEECOM_ALIGN x) = (unat x + 64) div 64 * 64"
proof -
  have m: "QSEECOM_ALIGN_MASK = mask 6"
    by (simp add: QSEECOM_ALIGN_MASK_def QSEECOM_ALIGN_SIZE_def mask_numeral)
  have "unat (x + 64) = unat x + 64"
    using assms unat_add_lem [of x 64] by simp
  then show ?thesis
    by (simp add: QSEECOM_ALIGN_def QSEECOM_ALIGN_SIZE_def m unat_and_not_mask)
qed

lemma unat_QSEECOM_ALIGN_of_nat:
  "n + 64 < 2 ^ 64 \<Longrightarrow> unat (QSEECOM_ALIGN (of_nat n)) = (n + 64) div 64 * 64"
  by (simp add: unat_QSEECOM_ALIGN unat_of_nat)

end
