(* ===== verification/HDCP_Session.thy ===== *)
theory HDCP_Session
  imports HDCP_Secure_Channel "HOL-Library.Sublist"
begin

unbundle bit_operations_syntax

text \<open>
  The session handle of \<open>src/drivers/misc/hdcp.c\<close> (\<open>struct hdcp_lib_handle\<close>)
  and the operations every protocol step builds on: the client-notification
  bridge (\<open>hdcp_lib_wakeup_client\<close>, \<open>hdcp_lib_send_message\<close>), the
  secure-channel wrappers that load and unload the trusted application and
  initialise and deinitialise the transmitter context, the dispatch macro
  \<open>HDCP_LIB_EXECUTE\<close>, and the teardown \<open>hdcp_lib_clean\<close>.  Each C function
  becomes a function from the environment and the handle to its return code and
  the new handle; every secure-world call and client notification is appended to
  the handle's trace.
\<close>

section \<open>Constants\<close>

text \<open>\<open>enum hdcp_state\<close>: the flags of the session bitmask.\<close>

definition HDCP_STATE_INIT :: u32 where [hdcp_consts]: "HDCP_STATE_INIT = 0x00"
definition HDCP_STATE_APP_LOADED :: u32 where [hdcp_consts]: "HDCP_STATE_APP_LOADED = 0x01"
definition HDCP_STATE_TXMTR_INIT :: u32 where [hdcp_consts]: "HDCP_STATE_TXMTR_INIT = 0x02"
definition HDCP_STATE_AUTHENTICATED :: u32 where [hdcp_consts]: "HDCP_STATE_AUTHENTICATED = 0x04"
definition HDCP_STATE_ERROR :: u32 where [hdcp_consts]: "HDCP_STATE_ERROR = 0x08"

definition TZAPP_NAME :: string where "TZAPP_NAME = ''hdcp2p2''"

section \<open>The handle\<close>

text \<open>The seven \<open>struct kthread_work\<close> items of a handle.\<close>

datatype hdcp_work =
    WK_INIT | WK_MSG_SENT | WK_MSG_RECVD | WK_TIMEOUT | WK_CLEAN | WK_TOPOLOGY | WK_STREAM

text \<open>
  \<open>struct hdcp_lib_handle\<close>.  The pointers \<open>qseecom_handle\<close> and
  \<open>last_msg_recvd_buf\<close> are present or \<open>NULL\<close>; \<open>client_ctx\<close> and the
  mutexes carry no data of their own.  The kthread worker is its pending list
  \<open>work_list\<close> and the item it is blocked in (\<open>current_work\<close>); the completion
  \<open>topo_wait\<close> is its done flag.  Two fields are not in the C structure:
  \<open>io_trace\<close>, everything the handle has done to the outside world, and
  \<open>mem_fault\<close>, set when a \<open>memcpy\<close> writes past the end of its buffer.
\<close>

record hdcp_lib_handle =
  listener_buf :: bytes
  msglen :: u32
  tz_ctxhandle :: u32
  hdcp_timeout :: u32
  timeout_left :: u32
  no_stored_km_flag :: bool
  feature_supported :: bool
  client_ops_wakeup :: bool
  hdcp_state :: u32
  wakeup_cmd :: hdcp_lib_wakeup_cmd
  repeater_flag :: bool
  update_stream :: bool
  tethered :: bool
  qseecom_handle :: bool
  last_msg_sent :: int
  last_msg_recvd_buf :: "bytes option"
  last_msg_recvd_len :: u32
  hdcp_off :: bool
  work_list :: "hdcp_work list"
  current_work :: "hdcp_work option"
  topo_wait_done :: bool
  io_trace :: "io_event list"
  mem_fault :: bool

abbreviation app_loaded :: "hdcp_lib_handle \<Rightarrow> bool" where
  "app_loaded h \<equiv> flag_set (hdcp_state h) HDCP_STATE_APP_LOADED"

abbreviation txmtr_inited :: "hdcp_lib_handle \<Rightarrow> bool" where
  "txmtr_inited h \<equiv> flag_set (hdcp_state h) HDCP_STATE_TXMTR_INIT"

abbreviation authenticated :: "hdcp_lib_handle \<Rightarrow> bool" where
  "authenticated h \<equiv> flag_set (hdcp_state h) HDCP_STATE_AUTHENTICATED"

definition emit :: "io_event \<Rightarrow> hdcp_lib_handle \<Rightarrow> hdcp_lib_handle" where
  "emit ev h = h\<lparr>io_trace := io_trace h @ [ev]\<rparr>"

text \<open>
  \<open>qseecom_send_command\<close> on the handle's secure-channel handle: the secure
  world sees the request and answers with a return code and a response.
\<close>

definition qseecom_send_command ::
  "tee_env \<Rightarrow> tz_req \<Rightarrow> hdcp_lib_handle \<Rightarrow> int \<times> tz_rsp \<times> hdcp_lib_handle" where
  "qseecom_send_command env req h =
     (fst (tz_send env (io_trace h) req), snd (tz_send env (io_trace h) req),
      emit (TzCommand req) h)"

text \<open>
  The block \<open>memset(listener_buf, 0, MAX_TX_MESSAGE_SIZE); memcpy(listener_buf,
  msg, len); msglen = len; hdcp_timeout = timeout\<close> that four functions repeat.
  The copy is not bounded by the buffer's size: a length above
  \<open>MAX_TX_MESSAGE_SIZE\<close> writes past the heap buffer.
\<close>

definition store_tx_message :: "bytes \<Rightarrow> u32 \<Rightarrow> u32 \<Rightarrow> hdcp_lib_handle \<Rightarrow> hdcp_lib_handle" where
  "store_tx_message msg len tmo h =
     h\<lparr>listener_buf := zero_fill MAX_TX_MESSAGE_SIZE (copy_bytes msg (unat len)),
       mem_fault := (mem_fault h \<or> overflows MAX_TX_MESSAGE_SIZE len),
       msglen := len, hdcp_timeout := tmo\<rparr>"

section \<open>Client notification bridge\<close>

definition hdcp_lib_wakeup_client ::
  "hdmi_hdcp_wakeup_data \<Rightarrow> hdcp_lib_handle \<Rightarrow> hdcp_lib_handle" where
  "hdcp_lib_wakeup_client cdata h =
     (if client_ops_wakeup h \<and> cdata_cmd cdata \<noteq> HDMI_HDCP_WKUP_CMD_INVALID
      then emit (ClientNotify cdata) h else h)"

definition hdcp_lib_send_message :: "hdcp_lib_handle \<Rightarrow> hdcp_lib_handle" where
  "hdcp_lib_send_message h =
     hdcp_lib_wakeup_client
       \<lparr>cdata_cmd = HDMI_HDCP_WKUP_CMD_SEND_MESSAGE, send_msg_buf = listener_buf h,
        send_msg_len = msglen h, cdata_timeout = hdcp_timeout h\<rparr> h"

section \<open>Dispatch\<close>

text \<open>
  \<open>HDCP_LIB_EXECUTE(x)\<close>: in tethered mode the step runs on the caller's thread;
  otherwise its work item is queued to the handle's worker.
\<close>

definition hdcp_lib_execute ::
  "hdcp_work \<Rightarrow> (hdcp_lib_handle \<Rightarrow> hdcp_lib_handle) \<Rightarrow> hdcp_lib_handle \<Rightarrow> hdcp_lib_handle" where
  "hdcp_lib_execute w step h =
     (if tethered h then step h else h\<lparr>work_list := queue_kthread_work w (work_list h)\<rparr>)"

section \<open>Secure-application lifecycle\<close>

text \<open>
  \<open>qseecom_start_app\<close> allocates the secure-channel handle and clears it again on
  failure; \<open>qseecom_shutdown_app\<close> frees it on success.
\<close>

definition hdcp_lib_library_load :: "tee_env \<Rightarrow> hdcp_lib_handle \<Rightarrow> int \<times> hdcp_lib_handle" where
  "hdcp_lib_library_load env h =
     (if app_loaded h then (0, h)
      else
        let rc = tz_start_app env (io_trace h) TZAPP_NAME;
            h = emit (TzStartApp TZAPP_NAME) h
        in if rc \<noteq> 0 then (rc, h\<lparr>qseecom_handle := False\<rparr>)
           else case qseecom_send_command env (Req_init HDCP_LIB_INIT) (h\<lparr>qseecom_handle := True\<rparr>) of
             (rc, rsp, h) \<Rightarrow>
               if rc < 0 then (rc, h)
               else (rc, h\<lparr>hdcp_state := hdcp_state h OR HDCP_STATE_APP_LOADED\<rparr>))"

definition hdcp_lib_library_unload :: "tee_env \<Rightarrow> hdcp_lib_handle \<Rightarrow> int \<times> hdcp_lib_handle" where
  "hdcp_lib_library_unload env h =
     (if \<not> qseecom_handle h then (- EINVAL, h)
      else if \<not> app_loaded h then (0, h)
      else case qseecom_send_command env (Req_deinit HDCP_LIB_DEINIT None) h of
        (rc, rsp, h) \<Rightarrow>
          if rc < 0 then (rc, h)
          else
            let rc = tz_shutdown_app env (io_trace h);
                h = emit TzShutdownApp h
            in if rc \<noteq> 0 then (rc, h)
               else (0, h\<lparr>qseecom_handle := False,
                          hdcp_state := hdcp_state h AND NOT HDCP_STATE_APP_LOADED\<rparr>))"

section \<open>Transmitter context\<close>

text \<open>
  The response checks are the source's; \<open>rsp_buf->message == NULL\<close> tests an
  array and is always false, so it is left out.
\<close>

definition hdcp_lib_txmtr_init :: "tee_env \<Rightarrow> hdcp_lib_handle \<Rightarrow> int \<times> hdcp_lib_handle" where
  "hdcp_lib_txmtr_init env h =
     (if \<not> qseecom_handle h then (- EINVAL, h)
      else if \<not> app_loaded h then (0, h)
      else if txmtr_inited h then (0, h)
      else case qseecom_send_command env (Req_init HDCP_TXMTR_INIT) h of
        (rc, rsp, h) \<Rightarrow>
          if rc < 0 \<or> rsp_status rsp \<noteq> HDCP_SUCCESS \<or> rsp_commandid rsp \<noteq> HDCP_TXMTR_INIT
             \<or> rsp_msglen rsp \<le> 0
          then (- EINVAL, h)
          else (rc, (store_tx_message (rsp_msg rsp) (rsp_msglen rsp) (rsp_timeout rsp) h)
                      \<lparr>tz_ctxhandle := rsp_ctxhandle rsp,
                        hdcp_state := hdcp_state h OR HDCP_STATE_TXMTR_INIT\<rparr>))"

definition hdcp_lib_txmtr_deinit :: "tee_env \<Rightarrow> hdcp_lib_handle \<Rightarrow> int \<times> hdcp_lib_handle" where
  "hdcp_lib_txmtr_deinit env h =
     (if \<not> qseecom_handle h then (- EINVAL, h)
      else if \<not> app_loaded h then (0, h)
      else if \<not> txmtr_inited h then (0, h)
      else case qseecom_send_command env (Req_deinit HDCP_TXMTR_DEINIT (Some (tz_ctxhandle h))) h of
        (rc, rsp, h) \<Rightarrow>
          if rc < 0 \<or> rsp_status rsp < 0 \<or> rsp_commandid rsp \<noteq> HDCP_TXMTR_DEINIT
          then (- EINVAL, h)
          else (rc, h\<lparr>hdcp_state := hdcp_state h AND NOT HDCP_STATE_TXMTR_INIT\<rparr>))"

section \<open>Teardown\<close>

text \<open>
  \<open>hdcp_lib_clean\<close>: deinitialise the transmitter, unload the application
  (each return code ignored), tell the client the session failed unless it was
  stopped on purpose, and mark the session off.
\<close>

definition hdcp_lib_clean :: "tee_env \<Rightarrow> hdcp_lib_handle \<Rightarrow> hdcp_lib_handle" where
  "hdcp_lib_clean env h =
     (let h = snd (hdcp_lib_txmtr_deinit env h);
          h = snd (hdcp_lib_library_unload env h);
          h = (if \<not> hdcp_off h
               then hdcp_lib_wakeup_client (cdata_of HDMI_HDCP_WKUP_CMD_STATUS_FAILED) h else h)
      in h\<lparr>hdcp_off := True\<rparr>)"

text \<open>\<open>HDCP_LIB_EXECUTE(clean)\<close>, which every failing step uses.\<close>

definition hdcp_lib_execute_clean :: "tee_env \<Rightarrow> hdcp_lib_handle \<Rightarrow> hdcp_lib_handle" where
  "hdcp_lib_execute_clean env h = hdcp_lib_execute WK_CLEAN (hdcp_lib_clean env) h"

section \<open>Registration defaults and example environments\<close>

text \<open>
  The handle \<open>hdcp_library_register\<close> creates: \<open>kzalloc\<close>'d (every field
  zero), with the client's execution mode and callbacks, and a zeroed transmit
  buffer of \<open>MAX_TX_MESSAGE_SIZE\<close> bytes.
\<close>

definition fresh_handle :: "bool \<Rightarrow> bool \<Rightarrow> hdcp_lib_handle" where
  "fresh_handle teth client_wakeup =
     \<lparr>listener_buf = replicate MAX_TX_MESSAGE_SIZE 0, msglen = 0, tz_ctxhandle = 0,
      hdcp_timeout = 0, timeout_left = 0, no_stored_km_flag = False, feature_supported = False,
      client_ops_wakeup = client_wakeup, hdcp_state = HDCP_STATE_INIT,
      wakeup_cmd = HDCP_LIB_WKUP_CMD_INVALID, repeater_flag = False, update_stream = False,
      tethered = teth, qseecom_handle = False, last_msg_sent = 0, last_msg_recvd_buf = None,
      last_msg_recvd_len = 0, hdcp_off = False, work_list = [], current_work = None,
      topo_wait_done = False, io_trace = [], mem_fault = False\<rparr>"

text \<open>
  A secure world that accepts every command, echoes its ID with status
  \<open>HDCP_SUCCESS\<close>, and starts and stops the application; and an environment
  built from a response function, with every call and allocation succeeding.
\<close>

definition tee_cooperates :: "tee_env \<Rightarrow> bool" where
  "tee_cooperates env \<longleftrightarrow>
     (\<forall>t req. fst (tz_send env t req) = 0 \<and> rsp_status (snd (tz_send env t req)) = HDCP_SUCCESS \<and>
        rsp_commandid (snd (tz_send env t req)) = req_commandid req) \<and>
     (\<forall>t a. tz_start_app env t a = 0) \<and> (\<forall>t. tz_shutdown_app env t = 0)"

definition answering :: "(tz_req \<Rightarrow> tz_rsp) \<Rightarrow> tee_env" where
  "answering f = \<lparr>tz_send = (\<lambda>t req. (0, f req)), tz_start_app = (\<lambda>t a. 0),
                  tz_shutdown_app = (\<lambda>t. 0), kzalloc_ok = (\<lambda>t n. True)\<rparr>"

definition echo_rsp :: "bytes \<Rightarrow> u32 \<Rightarrow> tz_req \<Rightarrow> tz_rsp" where
  "echo_rsp msg tmo req =
     \<lparr>rsp_status = HDCP_SUCCESS, rsp_commandid = req_commandid req, rsp_ctxhandle = 1,
      rsp_state = 0, rsp_timeout = tmo, rsp_flag = 0, rsp_msglen = of_nat (length msg),
      rsp_msg = msg, rsp_ret = 0, rsp_ksv = []\<rparr>"

text \<open>A successful response with the given command ID, message, substate flag and timeout.\<close>

definition reply :: "u32 \<Rightarrow> bytes \<Rightarrow> u32 \<Rightarrow> u32 \<Rightarrow> tz_rsp" where
  "reply cmd msg flg tmo =
     \<lparr>rsp_status = HDCP_SUCCESS, rsp_commandid = cmd, rsp_ctxhandle = 1, rsp_state = 0,
      rsp_timeout = tmo, rsp_flag = flg, rsp_msglen = of_nat (length msg), rsp_msg = msg,
      rsp_ret = 0, rsp_ksv = []\<rparr>"

text \<open>
  The fields the secure-channel wrappers and the teardown leave alone: every
  protocol flag, the worker, the client data; the transmit buffer keeps its size and
  the trace only grows.
\<close>

definition proto_frame :: "hdcp_lib_handle \<Rightarrow> hdcp_lib_handle \<Rightarrow> bool" where
  "proto_frame h h' \<longleftrightarrow>
     timeout_left h' = timeout_left h \<and> no_stored_km_flag h' = no_stored_km_flag h \<and>
     feature_supported h' = feature_supported h \<and> client_ops_wakeup h' = client_ops_wakeup h \<and>
     wakeup_cmd h' = wakeup_cmd h \<and> repeater_flag h' = repeater_flag h \<and>
     update_stream h' = update_stream h \<and> tethered h' = tethered h \<and>
     last_msg_sent h' = last_msg_sent h \<and> last_msg_recvd_buf h' = last_msg_recvd_buf h \<and>
     last_msg_recvd_len h' = last_msg_recvd_len h \<and> work_list h' = work_list h \<and>
     current_work h' = current_work h \<and> topo_wait_done h' = topo_wait_done h \<and>
     length (listener_buf h') = length (listener_buf h) \<and> prefix (io_trace h) (io_trace h')"

section \<open>Lemmas\<close>

subsection \<open>Constants and frames\<close>

lemma state_flags_disjoint [simp]:
  "HDCP_STATE_APP_LOADED AND HDCP_STATE_TXMTR_INIT = 0"
  "HDCP_STATE_TXMTR_INIT AND HDCP_STATE_APP_LOADED = 0"
  "HDCP_STATE_APP_LOADED AND HDCP_STATE_AUTHENTICATED = 0"
  "HDCP_STATE_AUTHENTICATED AND HDCP_STATE_APP_LOADED = 0"
  "HDCP_STATE_TXMTR_INIT AND HDCP_STATE_AUTHENTICATED = 0"
  "HDCP_STATE_AUTHENTICATED AND HDCP_STATE_TXMTR_INIT = 0"
  "HDCP_STATE_APP_LOADED AND HDCP_STATE_ERROR = 0" "HDCP_STATE_TXMTR_INIT AND HDCP_STATE_ERROR = 0"
  "HDCP_STATE_AUTHENTICATED AND HDCP_STATE_ERROR = 0"
  "HDCP_STATE_APP_LOADED \<noteq> 0" "HDCP_STATE_TXMTR_INIT \<noteq> 0" "HDCP_STATE_AUTHENTICATED \<noteq> 0"
  by (simp_all add: hdcp_consts)

text \<open>\<open>emit\<close> only extends the trace.\<close>

lemma emit_fields [simp]:
  "io_trace (emit ev h) = io_trace h @ [ev]" "listener_buf (emit ev h) = listener_buf h"
  "work_list (emit ev h) = work_list h" "hdcp_state (emit ev h) = hdcp_state h"
  "qseecom_handle (emit ev h) = qseecom_handle h" "mem_fault (emit ev h) = mem_fault h"
  "last_msg_recvd_buf (emit ev h) = last_msg_recvd_buf h"
  "last_msg_recvd_len (emit ev h) = last_msg_recvd_len h"
  "hdcp_off (emit ev h) = hdcp_off h" "current_work (emit ev h) = current_work h"
  by (simp_all add: emit_def)

lemma proto_frame_refl [simp]: "proto_frame h h"
  by (simp add: proto_frame_def)

lemma proto_frame_trans: "proto_frame h1 h2 \<Longrightarrow> proto_frame h2 h3 \<Longrightarrow> proto_frame h1 h3"
  by (auto simp: proto_frame_def elim: prefix_order.trans)

lemma proto_frame_emit [simp]: "proto_frame h (emit ev h)"
  by (simp add: proto_frame_def emit_def)

lemma library_load_frame: "proto_frame h (snd (hdcp_lib_library_load env h))"
  by (auto simp: hdcp_lib_library_load_def qseecom_send_command_def Let_def proto_frame_def emit_def)

lemma library_unload_frame: "proto_frame h (snd (hdcp_lib_library_unload env h))"
  by (auto simp: hdcp_lib_library_unload_def qseecom_send_command_def Let_def proto_frame_def emit_def)

lemma txmtr_init_frame:
  "length (listener_buf h) = MAX_TX_MESSAGE_SIZE \<Longrightarrow> proto_frame h (snd (hdcp_lib_txmtr_init env h))"
  by (auto simp: hdcp_lib_txmtr_init_def qseecom_send_command_def store_tx_message_def
      proto_frame_def emit_def)

lemma txmtr_deinit_frame: "proto_frame h (snd (hdcp_lib_txmtr_deinit env h))"
  by (auto simp: hdcp_lib_txmtr_deinit_def qseecom_send_command_def proto_frame_def emit_def)

lemma wakeup_client_frame: "proto_frame h (hdcp_lib_wakeup_client cd h)"
  by (simp add: hdcp_lib_wakeup_client_def)

lemma clean_frame: "proto_frame h (hdcp_lib_clean env h)"
proof -
  let ?h1 = "snd (hdcp_lib_txmtr_deinit env h)"
  let ?h2 = "snd (hdcp_lib_library_unload env ?h1)"
  have "proto_frame h ?h2"
    using txmtr_deinit_frame library_unload_frame by (rule proto_frame_trans)
  then show ?thesis
    by (auto simp: hdcp_lib_clean_def Let_def hdcp_lib_wakeup_client_def proto_frame_def emit_def
             elim: prefix_order.trans)
qed

lemma wrapper_notifications:
  "notifications (io_trace (snd (hdcp_lib_library_load env h))) = notifications (io_trace h)"
  "notifications (io_trace (snd (hdcp_lib_library_unload env h))) = notifications (io_trace h)"
  "notifications (io_trace (snd (hdcp_lib_txmtr_init env h))) = notifications (io_trace h)"
  "notifications (io_trace (snd (hdcp_lib_txmtr_deinit env h))) = notifications (io_trace h)"
  by (auto simp: hdcp_lib_library_load_def hdcp_lib_library_unload_def hdcp_lib_txmtr_init_def
      hdcp_lib_txmtr_deinit_def qseecom_send_command_def store_tx_message_def Let_def emit_def)

lemma wrapper_hdcp_off:
  "hdcp_off (snd (hdcp_lib_library_load env h)) = hdcp_off h"
  "hdcp_off (snd (hdcp_lib_library_unload env h)) = hdcp_off h"
  "hdcp_off (snd (hdcp_lib_txmtr_init env h)) = hdcp_off h"
  "hdcp_off (snd (hdcp_lib_txmtr_deinit env h)) = hdcp_off h"
  by (auto simp: hdcp_lib_library_load_def hdcp_lib_library_unload_def hdcp_lib_txmtr_init_def
      hdcp_lib_txmtr_deinit_def qseecom_send_command_def store_tx_message_def Let_def emit_def)

subsection \<open>Teardown\<close>
lemma clean_fields [simp]:
  "repeater_flag (hdcp_lib_clean env h) = repeater_flag h"
  "update_stream (hdcp_lib_clean env h) = update_stream h"
  "tethered (hdcp_lib_clean env h) = tethered h"
  "client_ops_wakeup (hdcp_lib_clean env h) = client_ops_wakeup h"
  "work_list (hdcp_lib_clean env h) = work_list h"
  "current_work (hdcp_lib_clean env h) = current_work h"
  "wakeup_cmd (hdcp_lib_clean env h) = wakeup_cmd h"
  "last_msg_sent (hdcp_lib_clean env h) = last_msg_sent h"
  "timeout_left (hdcp_lib_clean env h) = timeout_left h"
  "no_stored_km_flag (hdcp_lib_clean env h) = no_stored_km_flag h"
  "feature_supported (hdcp_lib_clean env h) = feature_supported h"
  "last_msg_recvd_buf (hdcp_lib_clean env h) = last_msg_recvd_buf h"
  "last_msg_recvd_len (hdcp_lib_clean env h) = last_msg_recvd_len h"
  "topo_wait_done (hdcp_lib_clean env h) = topo_wait_done h"
  "length (listener_buf (hdcp_lib_clean env h)) = length (listener_buf h)"
  using clean_frame [of h env] by (simp_all add: proto_frame_def)

lemma clean_trace_prefix: "prefix (io_trace h) (io_trace (hdcp_lib_clean env h))"
  using clean_frame [of h env] by (simp add: proto_frame_def)


lemma clean_off [simp]: "hdcp_off (hdcp_lib_clean env h)"
  by (simp add: hdcp_lib_clean_def Let_def)

lemma clean_no_channel:
  "\<not> qseecom_handle h \<Longrightarrow> hdcp_off h \<Longrightarrow> hdcp_lib_clean env h = h"
  by (simp add: hdcp_lib_clean_def hdcp_lib_txmtr_deinit_def hdcp_lib_library_unload_def)

lemma clean_unloaded_noop:
  "\<not> app_loaded h \<Longrightarrow> hdcp_off h \<Longrightarrow> hdcp_lib_clean env h = h"
  by (simp add: hdcp_lib_clean_def hdcp_lib_txmtr_deinit_def hdcp_lib_library_unload_def)

lemma clean_trace_after_deinit:
  "prefix (io_trace (snd (hdcp_lib_txmtr_deinit env h))) (io_trace (hdcp_lib_clean env h))"
proof -
  let ?h1 = "snd (hdcp_lib_txmtr_deinit env h)"
  let ?h2 = "snd (hdcp_lib_library_unload env ?h1)"
  have "prefix (io_trace ?h1) (io_trace ?h2)"
    using library_unload_frame [of ?h1 env] by (simp add: proto_frame_def)
  then show ?thesis
    by (auto simp: hdcp_lib_clean_def Let_def hdcp_lib_wakeup_client_def emit_def
             elim: prefix_order.trans)
qed

lemma clean_trace_notifications:
  "notifications (io_trace (hdcp_lib_clean env h)) =
     notifications (io_trace h) @
       (if \<not> hdcp_off h \<and> client_ops_wakeup h then [HDMI_HDCP_WKUP_CMD_STATUS_FAILED] else [])"
proof -
  let ?h2 = "snd (hdcp_lib_library_unload env (snd (hdcp_lib_txmtr_deinit env h)))"
  have "proto_frame h ?h2"
    using txmtr_deinit_frame library_unload_frame by (rule proto_frame_trans)
  then have "client_ops_wakeup ?h2 = client_ops_wakeup h" by (simp add: proto_frame_def)
  then show ?thesis
    by (simp add: hdcp_lib_clean_def Let_def wrapper_notifications wrapper_hdcp_off
        hdcp_lib_wakeup_client_def emit_def cdata_of_def)
qed

text \<open>
  \<open>hdcp_lib_clean\<close> adds exactly one
  notification to the trace, \<open>STATUS_FAILED\<close>, when the session was not
  already off and the client has a wakeup callback, and none otherwise; the
  session is off afterwards.
\<close>

theorem clean_notifications:
  "notifications (io_trace (hdcp_lib_clean env h)) =
     notifications (io_trace h) @
       (if \<not> hdcp_off h \<and> client_ops_wakeup h then [HDMI_HDCP_WKUP_CMD_STATUS_FAILED] else [])
   \<and> hdcp_off (hdcp_lib_clean env h)"
  by (simp add: clean_trace_notifications)

text \<open>
  Once a teardown has closed the secure channel or
  unloaded the application, a second teardown changes nothing, not even the trace:
  no command is resent and the client is not told twice.
\<close>

theorem clean_idempotent:
  assumes "\<not> (qseecom_handle (hdcp_lib_clean env h) \<and> app_loaded (hdcp_lib_clean env h))"
  shows "hdcp_lib_clean env (hdcp_lib_clean env h) = hdcp_lib_clean env h"
  using assms clean_no_channel clean_unloaded_noop by auto

lemma clean_idempotent_witness:
  "\<not> (qseecom_handle (hdcp_lib_clean (answering (echo_rsp [] 0))
          ((fresh_handle True True)\<lparr>hdcp_state := 3, qseecom_handle := True\<rparr>))
       \<and> app_loaded (hdcp_lib_clean (answering (echo_rsp [] 0))
          ((fresh_handle True True)\<lparr>hdcp_state := 3, qseecom_handle := True\<rparr>)))
   \<and> hdcp_lib_clean (answering (echo_rsp [] 0))
       (hdcp_lib_clean (answering (echo_rsp [] 0))
          ((fresh_handle True True)\<lparr>hdcp_state := 3, qseecom_handle := True\<rparr>))
     = hdcp_lib_clean (answering (echo_rsp [] 0))
          ((fresh_handle True True)\<lparr>hdcp_state := 3, qseecom_handle := True\<rparr>)"
proof -
  have hyp: "\<not> (qseecom_handle (hdcp_lib_clean (answering (echo_rsp [] 0))
          ((fresh_handle True True)\<lparr>hdcp_state := 3, qseecom_handle := True\<rparr>))
       \<and> app_loaded (hdcp_lib_clean (answering (echo_rsp [] 0))
          ((fresh_handle True True)\<lparr>hdcp_state := 3, qseecom_handle := True\<rparr>)))"
    by (simp add: hdcp_lib_clean_def hdcp_lib_txmtr_deinit_def hdcp_lib_library_unload_def
        qseecom_send_command_def answering_def echo_rsp_def fresh_handle_def emit_def
        hdcp_lib_wakeup_client_def flag_set_def hdcp_consts hdcp_cmd_vals Let_def)
  show ?thesis using hyp clean_idempotent [OF hyp] by blast
qed

text \<open>
  On a handle with the
  channel open, the application loaded and the transmitter initialised, the first
  thing \<open>hdcp_lib_clean\<close> does to the outside world is the
  \<open>HDCP_TXMTR_DEINIT\<close> command for the current context handle; the
  \<open>HDCP_LIB_DEINIT\<close> that unloads the application can only come after it.
\<close>

theorem clean_deinit_first:
  assumes "qseecom_handle h" "app_loaded h" "txmtr_inited h"
  shows "\<exists>rest. io_trace (hdcp_lib_clean env h) =
           io_trace h @ TzCommand (Req_deinit HDCP_TXMTR_DEINIT (Some (tz_ctxhandle h))) # rest"
proof -
  have h1: "io_trace (snd (hdcp_lib_txmtr_deinit env h)) =
              io_trace h @ [TzCommand (Req_deinit HDCP_TXMTR_DEINIT (Some (tz_ctxhandle h)))]"
    using assms by (auto simp: hdcp_lib_txmtr_deinit_def qseecom_send_command_def emit_def)
  from clean_trace_after_deinit [of env h] obtain zs where
    "io_trace (hdcp_lib_clean env h) = io_trace (snd (hdcp_lib_txmtr_deinit env h)) @ zs"
    by (auto simp: prefix_def)
  with h1 show ?thesis by auto
qed

lemma clean_deinit_first_witness:
  "\<exists>rest. io_trace (hdcp_lib_clean (answering (echo_rsp [] 0))
             ((fresh_handle True True)\<lparr>hdcp_state := 3, qseecom_handle := True, tz_ctxhandle := 5\<rparr>)) =
           TzCommand (Req_deinit HDCP_TXMTR_DEINIT (Some 5)) # rest"
  using clean_deinit_first [of "(fresh_handle True True)\<lparr>hdcp_state := 3, qseecom_handle := True, tz_ctxhandle := 5\<rparr>"
      "answering (echo_rsp [] 0)"]
  by (simp add: fresh_handle_def flag_set_def hdcp_consts)

text \<open>
  If every command succeeds, teardown of a loaded application leaves the channel
  closed and neither the application-loaded nor the transmitter flag set.
\<close>

theorem clean_cooperating_tee:
  assumes "tee_cooperates env" "qseecom_handle h" "app_loaded h"
  shows "\<not> qseecom_handle (hdcp_lib_clean env h) \<and> \<not> app_loaded (hdcp_lib_clean env h) \<and>
         \<not> txmtr_inited (hdcp_lib_clean env h)"
  using assms
  by (auto simp: tee_cooperates_def hdcp_lib_clean_def hdcp_lib_txmtr_deinit_def
      hdcp_lib_library_unload_def qseecom_send_command_def emit_def Let_def hdcp_cmd_vals
      hdcp_lib_wakeup_client_def flag_set_clear_same flag_set_clear_other)

lemma clean_cooperating_tee_witness:
  "tee_cooperates (answering (echo_rsp [] 0)) \<and>
   \<not> qseecom_handle (hdcp_lib_clean (answering (echo_rsp [] 0))
        ((fresh_handle False True)\<lparr>hdcp_state := 1, qseecom_handle := True\<rparr>))"
proof -
  have coop: "tee_cooperates (answering (echo_rsp [] 0))"
    by (simp add: tee_cooperates_def answering_def echo_rsp_def)
  show ?thesis
    using coop clean_cooperating_tee [OF coop, of "(fresh_handle False True)\<lparr>hdcp_state := 1, qseecom_handle := True\<rparr>"]
    by (simp add: fresh_handle_def flag_set_def hdcp_consts)
qed

end
