(* ===== verification/HDCP_Protocol.thy ===== *)
theory HDCP_Protocol
  imports HDCP_Session
begin

unbundle bit_operations_syntax

text \<open>
  The protocol steps of \<open>src/drivers/misc/hdcp.c\<close>, each the whole C function
  with its guards, early returns and the calls that change state:
  \<open>hdcp_lib_stream\<close> (query the stream type for a repeater),
  \<open>hdcp_lib_enable_encryption\<close> (wait, then \<open>SET_HW_KEY\<close>),
  \<open>hdcp_lib_msg_sent\<close> (the client delivered a message),
  \<open>hdcp_lib_init\<close> (start a session), \<open>hdcp_lib_timeout\<close> (the sink did not
  answer), \<open>hdcp_lib_msg_recvd\<close> (the sink answered), and the topology wait of
  \<open>hdcp_lib_topology_work\<close>, split at its blocking point into the start and the
  end of the wait.  The kthread work wrappers are the functions the worker runs.
  A byte of a message compared with an ID is promoted to \<open>int\<close>
  (\<open>uint\<close>), as in C.
\<close>

section \<open>Stream type query\<close>

definition hdcp_lib_stream :: "tee_env \<Rightarrow> hdcp_lib_handle \<Rightarrow> hdcp_lib_handle" where
  "hdcp_lib_stream env h =
     (if \<not> qseecom_handle h then h
      else if hdcp_off h then h
      else if \<not> repeater_flag h then h
      else case qseecom_send_command env
                  (Req_query_stream_type HDCP_TXMTR_QUERY_STREAM_TYPE (tz_ctxhandle h)) h of
        (rc, rsp, h) \<Rightarrow>
          if rc < 0 \<or> rsp_status rsp < 0 \<or> rsp_msglen rsp \<le> 0
             \<or> rsp_commandid rsp \<noteq> HDCP_TXMTR_QUERY_STREAM_TYPE
          then h
          else
            let h = store_tx_message (rsp_msg rsp) (rsp_msglen rsp) (rsp_timeout rsp) h
            in if rc = 0 \<and> \<not> hdcp_off h then hdcp_lib_send_message h else h)"

section \<open>Encryption\<close>

text \<open>
  \<open>msleep(SLEEP_SET_HW_KEY_MS)\<close> is a \<open>Sleep\<close> event of the trace.  On failure
  the function tears the session down (unless it is already off) and returns the
  error.
\<close>

definition hdcp_lib_enable_encryption :: "tee_env \<Rightarrow> hdcp_lib_handle \<Rightarrow> int \<times> hdcp_lib_handle" where
  "hdcp_lib_enable_encryption env h =
     (if \<not> qseecom_handle h
      then (- EINVAL, if \<not> hdcp_off h then hdcp_lib_execute_clean env h else h)
      else
        let h = emit (Sleep SLEEP_SET_HW_KEY_MS) h
        in case qseecom_send_command env (Req_set_hw_key HDCP_TXMTR_SET_HW_KEY (tz_ctxhandle h)) h of
          (rc, rsp, h) \<Rightarrow>
            if rc < 0 \<or> rsp_status rsp < 0
            then (- EINVAL, if \<not> hdcp_off h then hdcp_lib_execute_clean env h else h)
            else (0, h\<lparr>hdcp_state := hdcp_state h OR HDCP_STATE_AUTHENTICATED\<rparr>))"

section \<open>Message sent\<close>

text \<open>
  The switch on \<open>last_msg_sent\<close>; the last \<open>hdcp_lib_wakeup_client\<close> after
  the switch sends whatever command the branch left in \<open>cdata\<close>.
\<close>

definition hdcp_lib_msg_sent :: "tee_env \<Rightarrow> hdcp_lib_handle \<Rightarrow> hdcp_lib_handle" where
  "hdcp_lib_msg_sent env h =
     (if last_msg_sent h = SKE_SEND_EKS_MESSAGE_ID then
        let h = (if repeater_flag h \<and> \<not> hdcp_off h
                 then h\<lparr>work_list := queue_kthread_work WK_TOPOLOGY (work_list h)\<rparr> else h)
        in case hdcp_lib_enable_encryption env h of
          (rc, h) \<Rightarrow>
            if rc = 0
            then hdcp_lib_wakeup_client (cdata_of HDMI_HDCP_WKUP_CMD_LINK_POLL)
                   (hdcp_lib_wakeup_client (cdata_of HDMI_HDCP_WKUP_CMD_STATUS_SUCCESS) h)
            else hdcp_lib_wakeup_client (cdata_of HDMI_HDCP_WKUP_CMD_INVALID)
                   (if \<not> hdcp_off h then hdcp_lib_execute_clean env h else h)
      else if last_msg_sent h = REPEATER_AUTH_SEND_ACK_MESSAGE_ID then
        (if update_stream h
         then hdcp_lib_wakeup_client (cdata_of HDMI_HDCP_WKUP_CMD_INVALID)
                ((hdcp_lib_execute WK_STREAM (hdcp_lib_stream env) h)\<lparr>update_stream := False\<rparr>)
         else hdcp_lib_wakeup_client (cdata_of HDMI_HDCP_WKUP_CMD_LINK_POLL) h)
      else hdcp_lib_wakeup_client
             ((cdata_of HDMI_HDCP_WKUP_CMD_RECV_MESSAGE)\<lparr>cdata_timeout := timeout_left h\<rparr>) h)"

definition hdcp_lib_msg_sent_work :: "tee_env \<Rightarrow> hdcp_lib_handle \<Rightarrow> hdcp_lib_handle" where
  "hdcp_lib_msg_sent_work env h =
     (if wakeup_cmd h \<noteq> HDCP_LIB_WKUP_CMD_MSG_SEND_SUCCESS then h else hdcp_lib_msg_sent env h)"

section \<open>Session start\<close>

definition hdcp_lib_init :: "tee_env \<Rightarrow> hdcp_lib_handle \<Rightarrow> hdcp_lib_handle" where
  "hdcp_lib_init env h =
     (if wakeup_cmd h \<noteq> HDCP_LIB_WKUP_CMD_START then h
      else case hdcp_lib_library_load env h of
        (rc, h) \<Rightarrow>
          if rc \<noteq> 0 then hdcp_lib_execute_clean env h
          else case hdcp_lib_txmtr_init env h of
            (rc, h) \<Rightarrow>
              if rc \<noteq> 0 then hdcp_lib_execute_clean env h else hdcp_lib_send_message h)"

section \<open>Receive timeout\<close>

text \<open>
  The secure world may answer a timeout with an \<open>LC_Init\<close> message to resend;
  a response that echoes \<open>HDCP_TXMTR_SEND_MESSAGE_TIMEOUT\<close> is treated as a
  failure.
\<close>

definition hdcp_lib_timeout :: "tee_env \<Rightarrow> hdcp_lib_handle \<Rightarrow> hdcp_lib_handle" where
  "hdcp_lib_timeout env h =
     (if \<not> qseecom_handle h then h
      else if hdcp_off h then h
      else case qseecom_send_command env
                  (Req_send_timeout HDCP_TXMTR_SEND_MESSAGE_TIMEOUT (tz_ctxhandle h)) h of
        (rc, rsp, h) \<Rightarrow>
          if rc < 0 \<or> rsp_status rsp \<noteq> HDCP_SUCCESS
          then (if \<not> hdcp_off h then hdcp_lib_execute_clean env h else h)
          else if rsp_commandid rsp = HDCP_TXMTR_SEND_MESSAGE_TIMEOUT
          then (if \<not> hdcp_off h then hdcp_lib_execute_clean env h else h)
          else if rsp_commandid rsp = HDCP_TXMTR_PROCESS_RECEIVED_MESSAGE
                  \<and> uint (byte_at (rsp_msg rsp) 0) = LC_INIT_MESSAGE_ID
                  \<and> unat (rsp_msglen rsp) = LC_INIT_MESSAGE_SIZE
          then (if \<not> hdcp_off h
                then hdcp_lib_send_message
                       (store_tx_message (rsp_msg rsp) (rsp_msglen rsp) (rsp_timeout rsp) h)
                else h)
          else h)"

section \<open>Message received\<close>

text \<open>
  The common exit of \<open>hdcp_lib_msg_recvd\<close>: notify the client with the prepared
  \<open>cdata\<close>, then tear down if the step failed and the session is still on.
\<close>

definition msg_recvd_exit ::
  "tee_env \<Rightarrow> hdmi_hdcp_wakeup_data \<Rightarrow> int \<Rightarrow> hdcp_lib_handle \<Rightarrow> hdcp_lib_handle" where
  "msg_recvd_exit env cdata rc h =
     (let h = hdcp_lib_wakeup_client cdata h
      in if rc \<noteq> 0 \<and> \<not> hdcp_off h then hdcp_lib_execute_clean env h else h)"

text \<open>
  The bytes \<open>last_msg_recvd_buf\<close> points at; a \<open>NULL\<close> buffer reads as no
  bytes, and copying from it is a memory fault.
\<close>

definition recvd_bytes :: "hdcp_lib_handle \<Rightarrow> bytes" where
  "recvd_bytes h = (case last_msg_recvd_buf h of None \<Rightarrow> [] | Some b \<Rightarrow> b)"

text \<open>
  The repeater check as the source writes it: the braces are missing, so only
  \<open>repeater_flag\<close> depends on the substate and the timeout, and
  \<open>update_stream\<close> is set for every \<open>SKE_Send_Eks\<close> of the right size.
\<close>

definition check_repeater :: "tz_rsp \<Rightarrow> hdcp_lib_handle \<Rightarrow> hdcp_lib_handle" where
  "check_repeater rsp h =
     (if uint (byte_at (rsp_msg rsp) 0) = SKE_SEND_EKS_MESSAGE_ID
         \<and> unat (rsp_msglen rsp) = SKE_SEND_EKS_MESSAGE_SIZE
      then (if rsp_flag rsp = HDCP_TXMTR_SUBSTATE_WAITING_FOR_RECIEVERID_LIST \<and> rsp_timeout rsp > 0
            then h\<lparr>repeater_flag := True\<rparr> else h)\<lparr>update_stream := True\<rparr>
      else h)"

definition hdcp_lib_msg_recvd :: "tee_env \<Rightarrow> hdcp_lib_handle \<Rightarrow> hdcp_lib_handle" where
  "hdcp_lib_msg_recvd env h =
     (if \<not> qseecom_handle h then h
      else if hdcp_off h then h
      else if last_msg_recvd_len h \<le> 0
      then msg_recvd_exit env (cdata_of HDMI_HDCP_WKUP_CMD_INVALID) (- EINVAL) h
      else if \<not> kzalloc_ok env (io_trace h) (unat (last_msg_recvd_len h))
      then msg_recvd_exit env (cdata_of HDMI_HDCP_WKUP_CMD_INVALID) (- ENOMEM) h
      else
        let len = last_msg_recvd_len h;
            m = copy_bytes (recvd_bytes h) (unat len);
            h = h\<lparr>mem_fault := (mem_fault h \<or> last_msg_recvd_buf h = None
                                 \<or> overflows MAX_RX_MESSAGE_SIZE len)\<rparr>
        in case qseecom_send_command env
                  (Req_rcvd_msg HDCP_TXMTR_PROCESS_RECEIVED_MESSAGE (tz_ctxhandle h) len m) h of
          (rc, rsp, h) \<Rightarrow>
            if uint (byte_at m 0) = AKE_SEND_H_PRIME_MESSAGE_ID \<and> no_stored_km_flag h
            then msg_recvd_exit env
                   ((cdata_of HDMI_HDCP_WKUP_CMD_RECV_MESSAGE)\<lparr>cdata_timeout := rsp_timeout rsp\<rparr>) rc
                   (h\<lparr>hdcp_timeout := rsp_timeout rsp\<rparr>)
            else if uint (byte_at m 0) = REPEATER_AUTH_STREAM_READY_MESSAGE_ID \<and> rc = 0
                    \<and> rsp_status rsp = 0
            then msg_recvd_exit env (cdata_of HDMI_HDCP_WKUP_CMD_LINK_POLL) rc h
            else if rc < 0 \<or> rsp_status rsp < 0 \<or> rsp_msglen rsp \<le> 0
                    \<or> rsp_commandid rsp \<noteq> HDCP_TXMTR_PROCESS_RECEIVED_MESSAGE
            then msg_recvd_exit env (cdata_of HDMI_HDCP_WKUP_CMD_INVALID) (- EINVAL) h
            else
              let h = h\<lparr>no_stored_km_flag :=
                          (uint (byte_at (rsp_msg rsp) 0) = AKE_NO_STORED_KM_MESSAGE_ID)\<rparr>;
                  h = check_repeater rsp h;
                  h = store_tx_message (rsp_msg rsp) (rsp_msglen rsp) (rsp_timeout rsp) h
              in msg_recvd_exit env
                   (if \<not> hdcp_off h
                    then \<lparr>cdata_cmd = HDMI_HDCP_WKUP_CMD_SEND_MESSAGE, send_msg_buf = listener_buf h,
                          send_msg_len = msglen h, cdata_timeout = hdcp_timeout h\<rparr>
                    else cdata_of HDMI_HDCP_WKUP_CMD_INVALID) rc h)"

section \<open>Topology wait\<close>

text \<open>
  \<open>hdcp_lib_topology_work\<close> re-arms the completion and blocks the worker for up
  to three seconds.  The model splits it: the start re-arms and marks the worker
  busy; the end is the return of \<open>wait_for_completion_timeout\<close>, a timeout
  exactly when no wakeup completed the wait in between.
\<close>

definition hdcp_lib_topology_wait_begin :: "hdcp_lib_handle \<Rightarrow> hdcp_lib_handle" where
  "hdcp_lib_topology_wait_begin h = h\<lparr>topo_wait_done := False, current_work := Some WK_TOPOLOGY\<rparr>"

definition hdcp_lib_topology_wait_end :: "tee_env \<Rightarrow> hdcp_lib_handle \<Rightarrow> hdcp_lib_handle" where
  "hdcp_lib_topology_wait_end env h =
     (let h = h\<lparr>current_work := None\<rparr>
      in if topo_wait_done h then h
         else if \<not> hdcp_off h then hdcp_lib_execute_clean env h else h)"

section \<open>Scenario fixtures\<close>

text \<open>
  Concrete inputs for the witnesses below: a session with the application loaded,
  the transmitter initialised and a client callback, in either execution mode; and
  a received-message buffer holding one message.
\<close>

definition active_handle :: "bool \<Rightarrow> hdcp_lib_handle" where
  "active_handle teth =
     (fresh_handle teth True)\<lparr>hdcp_state := HDCP_STATE_APP_LOADED OR HDCP_STATE_TXMTR_INIT,
                               qseecom_handle := True\<rparr>"

definition with_recvd :: "bytes \<Rightarrow> hdcp_lib_handle \<Rightarrow> hdcp_lib_handle" where
  "with_recvd m h = h\<lparr>last_msg_recvd_buf := Some m, last_msg_recvd_len := of_nat (length m)\<rparr>"

definition refusing :: tee_env where
  "refusing = \<lparr>tz_send = (\<lambda>t req. (- EINVAL, reply 0 [] 0 0)), tz_start_app = (\<lambda>t a. 0),
                tz_shutdown_app = (\<lambda>t. 0), kzalloc_ok = (\<lambda>t n. True)\<rparr>"

definition lc_init_reply :: tz_rsp where
  "lc_init_reply = reply HDCP_TXMTR_PROCESS_RECEIVED_MESSAGE [9, 1, 2, 3, 4, 5, 6, 7, 8] 0 50"

definition ske_reply :: "u32 \<Rightarrow> tz_rsp" where
  "ske_reply flg = reply HDCP_TXMTR_PROCESS_RECEIVED_MESSAGE (11 # replicate 24 0) flg 3000"

section \<open>Lemmas\<close>

lemmas fixture_defs = active_handle_def fresh_handle_def with_recvd_def answering_def reply_def
  refusing_def lc_init_reply_def ske_reply_def echo_rsp_def hdcp_consts hdcp_cmd_vals byte_at_def
  flag_set_def recvd_bytes_def copy_bytes_def

text \<open>
  \<open>hdcp_lib_msg_sent\<close> and \<open>hdcp_lib_init\<close> with the results of the
  functions they call named, for proofs that follow one branch at a time.
\<close>

lemma hdcp_lib_msg_sent_eq:
  assumes "hdcp_lib_enable_encryption env
             (if repeater_flag h \<and> \<not> hdcp_off h
              then h\<lparr>work_list := queue_kthread_work WK_TOPOLOGY (work_list h)\<rparr> else h) = (rc, h1)"
  shows "hdcp_lib_msg_sent env h =
          (if last_msg_sent h = SKE_SEND_EKS_MESSAGE_ID then
             (if rc = 0
              then hdcp_lib_wakeup_client (cdata_of HDMI_HDCP_WKUP_CMD_LINK_POLL)
                     (hdcp_lib_wakeup_client (cdata_of HDMI_HDCP_WKUP_CMD_STATUS_SUCCESS) h1)
              else hdcp_lib_wakeup_client (cdata_of HDMI_HDCP_WKUP_CMD_INVALID)
                     (if \<not> hdcp_off h1 then hdcp_lib_execute_clean env h1 else h1))
           else if last_msg_sent h = REPEATER_AUTH_SEND_ACK_MESSAGE_ID then
             (if update_stream h
              then hdcp_lib_wakeup_client (cdata_of HDMI_HDCP_WKUP_CMD_INVALID)
                     ((hdcp_lib_execute WK_STREAM (hdcp_lib_stream env) h)\<lparr>update_stream := False\<rparr>)
              else hdcp_lib_wakeup_client (cdata_of HDMI_HDCP_WKUP_CMD_LINK_POLL) h)
           else hdcp_lib_wakeup_client
                  ((cdata_of HDMI_HDCP_WKUP_CMD_RECV_MESSAGE)\<lparr>cdata_timeout := timeout_left h\<rparr>) h)"
  by (simp add: hdcp_lib_msg_sent_def Let_def assms)

lemma hdcp_lib_init_eq:
  assumes "hdcp_lib_library_load env h = (rc1, h1)" "hdcp_lib_txmtr_init env h1 = (rc2, h2)"
  shows "hdcp_lib_init env h =
           (if wakeup_cmd h \<noteq> HDCP_LIB_WKUP_CMD_START then h
            else if rc1 \<noteq> 0 then hdcp_lib_execute_clean env h1
            else if rc2 \<noteq> 0 then hdcp_lib_execute_clean env h2
            else hdcp_lib_send_message h2)"
  by (simp add: hdcp_lib_init_def assms)

lemma msg_recvd_ske_flags:
  assumes buf: "last_msg_recvd_len h \<noteq> 0" "kzalloc_ok env (io_trace h) (unat (last_msg_recvd_len h))"
    and st: "qseecom_handle h" "\<not> hdcp_off h"
    and rsp: "tz_send env (io_trace h) (Req_rcvd_msg HDCP_TXMTR_PROCESS_RECEIVED_MESSAGE (tz_ctxhandle h)
                 (last_msg_recvd_len h) (copy_bytes (recvd_bytes h) (unat (last_msg_recvd_len h)))) = (rc, r)"
    and plain: "\<not> (uint (byte_at (recvd_bytes h) 0) = AKE_SEND_H_PRIME_MESSAGE_ID \<and> no_stored_km_flag h)"
      "uint (byte_at (recvd_bytes h) 0) \<noteq> REPEATER_AUTH_STREAM_READY_MESSAGE_ID"
    and ok: "0 \<le> rc" "rsp_commandid r = HDCP_TXMTR_PROCESS_RECEIVED_MESSAGE"
    and ske: "uint (byte_at (rsp_msg r) 0) = SKE_SEND_EKS_MESSAGE_ID"
      "unat (rsp_msglen r) = SKE_SEND_EKS_MESSAGE_SIZE"
  shows "update_stream (hdcp_lib_msg_recvd env h) \<and>
         repeater_flag (hdcp_lib_msg_recvd env h) =
           (repeater_flag h \<or> (rsp_flag r = HDCP_TXMTR_SUBSTATE_WAITING_FOR_RECIEVERID_LIST \<and> 0 < rsp_timeout r))"
proof -
  have "0 < unat (last_msg_recvd_len h)" using buf(1) by (simp add: unat_gt_0)
  then have m0: "byte_at (copy_bytes (recvd_bytes h) (unat (last_msg_recvd_len h))) 0 = byte_at (recvd_bytes h) 0"
    by (simp add: byte_at_copy_bytes)
  have len: "rsp_msglen r \<noteq> 0"
    using ske(2) by (auto simp: hdcp_consts)
  show ?thesis
    using buf st rsp plain ok ske m0 len
    by (auto simp: hdcp_lib_msg_recvd_def qseecom_send_command_def emit_def check_repeater_def
        store_tx_message_def msg_recvd_exit_def hdcp_lib_wakeup_client_def Let_def
        hdcp_lib_execute_clean_def hdcp_lib_execute_def)
qed

text \<open>
  C4 (repeater detection): when the secure world answers a received message with an
  \<open>SKE_Send_Eks\<close> of exactly \<open>SKE_SEND_EKS_MESSAGE_SIZE\<close> bytes, the session
  becomes a repeater session exactly if it already was one or the response's substate
  is \<open>WAITING_FOR_RECIEVERID_LIST\<close> with a positive timeout.
\<close>

theorem msg_recvd_repeater_flag:
  assumes buf: "last_msg_recvd_len h \<noteq> 0" "kzalloc_ok env (io_trace h) (unat (last_msg_recvd_len h))"
    and st: "qseecom_handle h" "\<not> hdcp_off h"
    and rsp: "tz_send env (io_trace h) (Req_rcvd_msg HDCP_TXMTR_PROCESS_RECEIVED_MESSAGE (tz_ctxhandle h)
                 (last_msg_recvd_len h) (copy_bytes (recvd_bytes h) (unat (last_msg_recvd_len h)))) = (rc, r)"
    and plain: "\<not> (uint (byte_at (recvd_bytes h) 0) = AKE_SEND_H_PRIME_MESSAGE_ID \<and> no_stored_km_flag h)"
      "uint (byte_at (recvd_bytes h) 0) \<noteq> REPEATER_AUTH_STREAM_READY_MESSAGE_ID"
    and ok: "0 \<le> rc" "rsp_commandid r = HDCP_TXMTR_PROCESS_RECEIVED_MESSAGE"
    and ske: "uint (byte_at (rsp_msg r) 0) = SKE_SEND_EKS_MESSAGE_ID"
      "unat (rsp_msglen r) = SKE_SEND_EKS_MESSAGE_SIZE"
  shows "repeater_flag (hdcp_lib_msg_recvd env h) =
           (repeater_flag h \<or> (rsp_flag r = HDCP_TXMTR_SUBSTATE_WAITING_FOR_RECIEVERID_LIST \<and> 0 < rsp_timeout r))"
  using msg_recvd_ske_flags [OF buf st rsp plain ok ske] by blast

theorem msg_recvd_repeater_flag_witness:
  "repeater_flag (hdcp_lib_msg_recvd (answering (\<lambda>_. ske_reply HDCP_TXMTR_SUBSTATE_WAITING_FOR_RECIEVERID_LIST))
       (with_recvd [8, 1, 2] (active_handle True))) =
   (repeater_flag (with_recvd [8, 1, 2] (active_handle True)) \<or>
      (rsp_flag (ske_reply HDCP_TXMTR_SUBSTATE_WAITING_FOR_RECIEVERID_LIST) = HDCP_TXMTR_SUBSTATE_WAITING_FOR_RECIEVERID_LIST
       \<and> 0 < rsp_timeout (ske_reply HDCP_TXMTR_SUBSTATE_WAITING_FOR_RECIEVERID_LIST)))"
  by (rule msg_recvd_repeater_flag [where rc = 0]) (simp_all add: fixture_defs)

text \<open>
  C33 (stream update requested for non-repeaters): because of the missing braces in the
  repeater check, the same response sets \<open>update_stream\<close> even when the substate
  says the sink is not a repeater and the session stays a non-repeater session.
\<close>

theorem msg_recvd_update_stream_without_repeater:
  assumes buf: "last_msg_recvd_len h \<noteq> 0" "kzalloc_ok env (io_trace h) (unat (last_msg_recvd_len h))"
    and st: "qseecom_handle h" "\<not> hdcp_off h"
    and rsp: "tz_send env (io_trace h) (Req_rcvd_msg HDCP_TXMTR_PROCESS_RECEIVED_MESSAGE (tz_ctxhandle h)
                 (last_msg_recvd_len h) (copy_bytes (recvd_bytes h) (unat (last_msg_recvd_len h)))) = (rc, r)"
    and plain: "\<not> (uint (byte_at (recvd_bytes h) 0) = AKE_SEND_H_PRIME_MESSAGE_ID \<and> no_stored_km_flag h)"
      "uint (byte_at (recvd_bytes h) 0) \<noteq> REPEATER_AUTH_STREAM_READY_MESSAGE_ID"
    and ok: "0 \<le> rc" "rsp_commandid r = HDCP_TXMTR_PROCESS_RECEIVED_MESSAGE"
    and ske: "uint (byte_at (rsp_msg r) 0) = SKE_SEND_EKS_MESSAGE_ID"
      "unat (rsp_msglen r) = SKE_SEND_EKS_MESSAGE_SIZE"
    and nonrep: "\<not> repeater_flag h" "rsp_flag r \<noteq> HDCP_TXMTR_SUBSTATE_WAITING_FOR_RECIEVERID_LIST"
  shows "update_stream (hdcp_lib_msg_recvd env h) \<and> \<not> repeater_flag (hdcp_lib_msg_recvd env h)"
  using msg_recvd_ske_flags [OF buf st rsp plain ok ske] nonrep by blast

theorem msg_recvd_update_stream_without_repeater_witness:
  "update_stream (hdcp_lib_msg_recvd (answering (\<lambda>_. ske_reply HDCP_TXMTR_SUBSTATE_INIT))
       (with_recvd [8, 1, 2] (active_handle True)))
   \<and> \<not> repeater_flag (hdcp_lib_msg_recvd (answering (\<lambda>_. ske_reply HDCP_TXMTR_SUBSTATE_INIT))
       (with_recvd [8, 1, 2] (active_handle True)))"
  by (rule msg_recvd_update_stream_without_repeater [where rc = 0 and r = "ske_reply HDCP_TXMTR_SUBSTATE_INIT"])
     (simp_all add: fixture_defs)

text \<open>
  C5 (timeout resend law): when the secure world answers a receive timeout with an \<open>LC_Init\<close> message of exactly \<open>LC_INIT_MESSAGE_SIZE\<close> bytes, \<open>hdcp_lib_timeout\<close> sends one command and then hands that message to the client unchanged (same bytes, same length) with the secure world's timeout.
\<close>

theorem timeout_resends_lc_init:
  assumes rsp: "tz_send env (io_trace h) (Req_send_timeout HDCP_TXMTR_SEND_MESSAGE_TIMEOUT (tz_ctxhandle h)) = (rc, r)"
    and ok: "0 \<le> rc" "rsp_status r = HDCP_SUCCESS" "rsp_commandid r = HDCP_TXMTR_PROCESS_RECEIVED_MESSAGE"
    and lc: "uint (byte_at (rsp_msg r) 0) = LC_INIT_MESSAGE_ID" "unat (rsp_msglen r) = LC_INIT_MESSAGE_SIZE"
    and st: "qseecom_handle h" "\<not> hdcp_off h" "client_ops_wakeup h"
  shows "\<exists>d. io_trace (hdcp_lib_timeout env h) =
              io_trace h @ [TzCommand (Req_send_timeout HDCP_TXMTR_SEND_MESSAGE_TIMEOUT (tz_ctxhandle h)),
                            ClientNotify d]
            \<and> cdata_cmd d = HDMI_HDCP_WKUP_CMD_SEND_MESSAGE \<and> send_msg_len d = rsp_msglen r
            \<and> copy_bytes (send_msg_buf d) (unat (send_msg_len d)) = copy_bytes (rsp_msg r) LC_INIT_MESSAGE_SIZE
            \<and> cdata_timeout d = rsp_timeout r"
proof -
  have ne: "rsp_commandid r \<noteq> HDCP_TXMTR_SEND_MESSAGE_TIMEOUT"
    using ok(3) by (simp add: hdcp_cmd_vals)
  have le: "LC_INIT_MESSAGE_SIZE \<le> MAX_TX_MESSAGE_SIZE" by (simp add: hdcp_consts)
  show ?thesis
    using rsp ok lc st ne le
    by (simp add: hdcp_lib_timeout_def qseecom_send_command_def emit_def store_tx_message_def
        hdcp_lib_send_message_def hdcp_lib_wakeup_client_def copy_bytes_zero_fill copy_bytes_idem)
qed

theorem timeout_resends_lc_init_witness:
  "\<exists>d. io_trace (hdcp_lib_timeout (answering (\<lambda>_. lc_init_reply)) (active_handle True)) =
        io_trace (active_handle True) @
          [TzCommand (Req_send_timeout HDCP_TXMTR_SEND_MESSAGE_TIMEOUT (tz_ctxhandle (active_handle True))),
           ClientNotify d]
      \<and> cdata_cmd d = HDMI_HDCP_WKUP_CMD_SEND_MESSAGE \<and> send_msg_len d = rsp_msglen lc_init_reply
      \<and> copy_bytes (send_msg_buf d) (unat (send_msg_len d)) = copy_bytes (rsp_msg lc_init_reply) LC_INIT_MESSAGE_SIZE
      \<and> cdata_timeout d = rsp_timeout lc_init_reply"
  by (rule timeout_resends_lc_init [where rc = 0]) (simp_all add: fixture_defs)

text \<open>
  With the channel open, \<open>hdcp_lib_enable_encryption\<close> first sleeps \<open>SLEEP_SET_HW_KEY_MS\<close> (at least the 200 ms HDCP 2.2 requires) and only then sends \<open>SET_HW_KEY\<close>.
\<close>

theorem enable_encryption_sleeps_first:
  assumes "qseecom_handle h"
  shows "\<exists>rest. io_trace (snd (hdcp_lib_enable_encryption env h)) =
           io_trace h @ Sleep SLEEP_SET_HW_KEY_MS #
             TzCommand (Req_set_hw_key HDCP_TXMTR_SET_HW_KEY (tz_ctxhandle h)) # rest
         \<and> 200 \<le> SLEEP_SET_HW_KEY_MS"
proof -
  let ?h1 = "emit (TzCommand (Req_set_hw_key HDCP_TXMTR_SET_HW_KEY (tz_ctxhandle h))) (emit (Sleep SLEEP_SET_HW_KEY_MS) h)"
  have "prefix (io_trace ?h1) (io_trace (snd (hdcp_lib_enable_encryption env h)))"
    using assms clean_trace_prefix [of ?h1 env]
    by (auto simp: hdcp_lib_enable_encryption_def qseecom_send_command_def hdcp_lib_execute_clean_def
        hdcp_lib_execute_def emit_def Let_def)
  then show ?thesis by (auto simp: prefix_def emit_def hdcp_consts)
qed

theorem enable_encryption_sleeps_first_witness:
  "\<exists>rest. io_trace (snd (hdcp_lib_enable_encryption (answering (echo_rsp [] 0)) (active_handle True))) =
      io_trace (active_handle True) @ Sleep SLEEP_SET_HW_KEY_MS #
        TzCommand (Req_set_hw_key HDCP_TXMTR_SET_HW_KEY (tz_ctxhandle (active_handle True))) # rest
   \<and> 200 \<le> SLEEP_SET_HW_KEY_MS"
  by (rule enable_encryption_sleeps_first) (simp add: fixture_defs)

text \<open>
  C34 (failed SET_HW_KEY status goes unnoticed): the status of the \<open>SET_HW_KEY\<close> response is a \<open>uint32_t\<close> compared with \<open>< 0\<close>, so whenever the transport call itself succeeds, encryption is reported enabled and the session marked authenticated, whatever status the secure world returned.
\<close>

theorem enable_encryption_status_unchecked:
  assumes "qseecom_handle h"
    and "tz_send env (io_trace h @ [Sleep SLEEP_SET_HW_KEY_MS])
           (Req_set_hw_key HDCP_TXMTR_SET_HW_KEY (tz_ctxhandle h)) = (rc, r)"
    and "0 \<le> rc"
  shows "fst (hdcp_lib_enable_encryption env h) = 0 \<and> authenticated (snd (hdcp_lib_enable_encryption env h))"
  using assms
  by (simp add: hdcp_lib_enable_encryption_def qseecom_send_command_def emit_def flag_set_or_same)

theorem enable_encryption_status_unchecked_witness:
  "fst (hdcp_lib_enable_encryption
         (answering (\<lambda>_. (reply HDCP_TXMTR_SET_HW_KEY [] 0 0)\<lparr>rsp_status := 0xFFFFFFFF\<rparr>)) (active_handle True)) = 0
   \<and> authenticated (snd (hdcp_lib_enable_encryption
         (answering (\<lambda>_. (reply HDCP_TXMTR_SET_HW_KEY [] 0 0)\<lparr>rsp_status := 0xFFFFFFFF\<rparr>)) (active_handle True)))"
  by (rule enable_encryption_status_unchecked [where rc = 0]) (simp_all add: fixture_defs)

text \<open>
  After the client confirms \<open>SKE_Send_Eks\<close>, if \<open>SET_HW_KEY\<close> fails in the transport, the session is torn down and the client gets exactly one \<open>STATUS_FAILED\<close> (when it has a callback) and nothing else.
\<close>

theorem msg_sent_encryption_failure_tethered:
  assumes "last_msg_sent h = SKE_SEND_EKS_MESSAGE_ID" "tethered h" "\<not> hdcp_off h" "qseecom_handle h"
    and "fst (tz_send env (io_trace h @ [Sleep SLEEP_SET_HW_KEY_MS])
           (Req_set_hw_key HDCP_TXMTR_SET_HW_KEY (tz_ctxhandle h))) < 0"
  shows "notifications (io_trace (hdcp_lib_msg_sent env h)) =
           notifications (io_trace h) @
             (if client_ops_wakeup h then [HDMI_HDCP_WKUP_CMD_STATUS_FAILED] else [])
         \<and> hdcp_off (hdcp_lib_msg_sent env h)"
  using assms
  by (simp add: hdcp_lib_msg_sent_def hdcp_lib_enable_encryption_def qseecom_send_command_def
      emit_def hdcp_lib_execute_clean_def hdcp_lib_execute_def clean_trace_notifications
      hdcp_lib_wakeup_client_def cdata_of_def Let_def hdcp_consts)

theorem msg_sent_encryption_failure_tethered_witness:
  "notifications (io_trace (hdcp_lib_msg_sent refusing ((active_handle True)\<lparr>last_msg_sent := 11\<rparr>))) =
     notifications (io_trace ((active_handle True)\<lparr>last_msg_sent := 11\<rparr>)) @
       (if client_ops_wakeup ((active_handle True)\<lparr>last_msg_sent := 11\<rparr>)
        then [HDMI_HDCP_WKUP_CMD_STATUS_FAILED] else [])
   \<and> hdcp_off (hdcp_lib_msg_sent refusing ((active_handle True)\<lparr>last_msg_sent := 11\<rparr>))"
  by (rule msg_sent_encryption_failure_tethered) (simp_all add: fixture_defs)

text \<open>
  In the same situation on the worker, the teardown is queued exactly once, although both \<open>hdcp_lib_enable_encryption\<close> and \<open>hdcp_lib_msg_sent\<close> ask for it, and the client hears nothing yet.
\<close>

theorem msg_sent_encryption_failure_threaded:
  assumes "last_msg_sent h = SKE_SEND_EKS_MESSAGE_ID" "\<not> tethered h" "\<not> hdcp_off h" "qseecom_handle h"
    and "WK_CLEAN \<notin> set (work_list h)" "\<not> repeater_flag h"
    and "fst (tz_send env (io_trace h @ [Sleep SLEEP_SET_HW_KEY_MS])
           (Req_set_hw_key HDCP_TXMTR_SET_HW_KEY (tz_ctxhandle h))) < 0"
  shows "work_list (hdcp_lib_msg_sent env h) = work_list h @ [WK_CLEAN]
         \<and> notifications (io_trace (hdcp_lib_msg_sent env h)) = notifications (io_trace h)"
  using assms
  by (simp add: hdcp_lib_msg_sent_def hdcp_lib_enable_encryption_def qseecom_send_command_def
      emit_def hdcp_lib_execute_clean_def hdcp_lib_execute_def queue_kthread_work_def
      hdcp_lib_wakeup_client_def cdata_of_def Let_def hdcp_consts)

theorem msg_sent_encryption_failure_threaded_witness:
  "work_list (hdcp_lib_msg_sent refusing ((active_handle False)\<lparr>last_msg_sent := 11\<rparr>)) =
     work_list ((active_handle False)\<lparr>last_msg_sent := 11\<rparr>) @ [WK_CLEAN]
   \<and> notifications (io_trace (hdcp_lib_msg_sent refusing ((active_handle False)\<lparr>last_msg_sent := 11\<rparr>))) =
     notifications (io_trace ((active_handle False)\<lparr>last_msg_sent := 11\<rparr>))"
  by (rule msg_sent_encryption_failure_threaded) (simp_all add: fixture_defs)

text \<open>
  C6 (message sent, other messages): for any message other than \<open>SKE_Send_Eks\<close> and \<open>RepeaterAuth_Send_Ack\<close>, \<open>hdcp_lib_msg_sent\<close> only asks the client to receive the next message, carrying the timeout of the last wakeup.
\<close>

theorem msg_sent_default_recv:
  assumes "last_msg_sent h \<noteq> SKE_SEND_EKS_MESSAGE_ID" "last_msg_sent h \<noteq> REPEATER_AUTH_SEND_ACK_MESSAGE_ID"
    and "client_ops_wakeup h"
  shows "hdcp_lib_msg_sent env h =
           emit (ClientNotify \<lparr>cdata_cmd = HDMI_HDCP_WKUP_CMD_RECV_MESSAGE, send_msg_buf = [],
                               send_msg_len = 0, cdata_timeout = timeout_left h\<rparr>) h"
  using assms by (simp add: hdcp_lib_msg_sent_def hdcp_lib_wakeup_client_def cdata_of_def)

theorem msg_sent_default_recv_witness:
  "hdcp_lib_msg_sent refusing ((active_handle True)\<lparr>last_msg_sent := AKE_SEND_CERT_MESSAGE_ID, timeout_left := 100\<rparr>) =
     emit (ClientNotify \<lparr>cdata_cmd = HDMI_HDCP_WKUP_CMD_RECV_MESSAGE, send_msg_buf = [], send_msg_len = 0,
                         cdata_timeout = timeout_left ((active_handle True)\<lparr>last_msg_sent := AKE_SEND_CERT_MESSAGE_ID, timeout_left := 100\<rparr>)\<rparr>)
       ((active_handle True)\<lparr>last_msg_sent := AKE_SEND_CERT_MESSAGE_ID, timeout_left := 100\<rparr>)"
  by (rule msg_sent_default_recv) (simp_all add: fixture_defs)

text \<open>
  A successful response to \<open>SEND_MESSAGE_TIMEOUT\<close> whose command ID echoes \<open>SEND_MESSAGE_TIMEOUT\<close> makes \<open>hdcp_lib_timeout\<close> tear the session down with a \<open>STATUS_FAILED\<close>.
\<close>

theorem timeout_echo_tears_down:
  assumes "tz_send env (io_trace h) (Req_send_timeout HDCP_TXMTR_SEND_MESSAGE_TIMEOUT (tz_ctxhandle h)) = (rc, r)"
    and "0 \<le> rc" "rsp_status r = HDCP_SUCCESS" "rsp_commandid r = HDCP_TXMTR_SEND_MESSAGE_TIMEOUT"
    and "qseecom_handle h" "\<not> hdcp_off h" "tethered h" "client_ops_wakeup h"
  shows "notifications (io_trace (hdcp_lib_timeout env h)) =
           notifications (io_trace h) @ [HDMI_HDCP_WKUP_CMD_STATUS_FAILED]
         \<and> hdcp_off (hdcp_lib_timeout env h)"
  using assms
  by (simp add: hdcp_lib_timeout_def qseecom_send_command_def emit_def hdcp_lib_execute_clean_def
      hdcp_lib_execute_def clean_trace_notifications)

theorem timeout_echo_tears_down_witness:
  "notifications (io_trace (hdcp_lib_timeout (answering (\<lambda>_. reply HDCP_TXMTR_SEND_MESSAGE_TIMEOUT [] 0 0)) (active_handle True))) =
     notifications (io_trace (active_handle True)) @ [HDMI_HDCP_WKUP_CMD_STATUS_FAILED]
   \<and> hdcp_off (hdcp_lib_timeout (answering (\<lambda>_. reply HDCP_TXMTR_SEND_MESSAGE_TIMEOUT [] 0 0)) (active_handle True))"
  by (rule timeout_echo_tears_down [where rc = 0 and r = "reply HDCP_TXMTR_SEND_MESSAGE_TIMEOUT [] 0 0"]) (simp_all add: fixture_defs)

text \<open>
  A successful timeout response that neither echoes the command nor carries an \<open>LC_Init\<close> of the right size leaves the session on with no notification and no teardown: the only effect is the command sent.
\<close>

theorem timeout_other_response_stalls:
  assumes "tz_send env (io_trace h) (Req_send_timeout HDCP_TXMTR_SEND_MESSAGE_TIMEOUT (tz_ctxhandle h)) = (rc, r)"
    and "0 \<le> rc" "rsp_status r = HDCP_SUCCESS" "rsp_commandid r \<noteq> HDCP_TXMTR_SEND_MESSAGE_TIMEOUT"
    and "\<not> (rsp_commandid r = HDCP_TXMTR_PROCESS_RECEIVED_MESSAGE
             \<and> uint (byte_at (rsp_msg r) 0) = LC_INIT_MESSAGE_ID
             \<and> unat (rsp_msglen r) = LC_INIT_MESSAGE_SIZE)"
    and "qseecom_handle h" "\<not> hdcp_off h"
  shows "hdcp_lib_timeout env h =
           emit (TzCommand (Req_send_timeout HDCP_TXMTR_SEND_MESSAGE_TIMEOUT (tz_ctxhandle h))) h"
  using assms by (auto simp: hdcp_lib_timeout_def qseecom_send_command_def emit_def)

theorem timeout_other_response_stalls_witness:
  "hdcp_lib_timeout (answering (\<lambda>_. reply HDCP_TXMTR_PROCESS_RECEIVED_MESSAGE [3] 0 0)) (active_handle True) =
     emit (TzCommand (Req_send_timeout HDCP_TXMTR_SEND_MESSAGE_TIMEOUT (tz_ctxhandle (active_handle True))))
       (active_handle True)"
  by (rule timeout_other_response_stalls [where rc = 0 and r = "reply HDCP_TXMTR_PROCESS_RECEIVED_MESSAGE [3] 0 0"]) (simp_all add: fixture_defs)

text \<open>
  When the \<open>QUERY_STREAM_TYPE\<close> command fails, \<open>hdcp_lib_stream\<close> neither notifies the client nor tears the session down.
\<close>

theorem stream_failure_no_teardown:
  assumes "qseecom_handle h" "\<not> hdcp_off h" "repeater_flag h"
    and "fst (tz_send env (io_trace h) (Req_query_stream_type HDCP_TXMTR_QUERY_STREAM_TYPE (tz_ctxhandle h))) < 0"
  shows "hdcp_lib_stream env h =
           emit (TzCommand (Req_query_stream_type HDCP_TXMTR_QUERY_STREAM_TYPE (tz_ctxhandle h))) h"
  using assms by (simp add: hdcp_lib_stream_def qseecom_send_command_def emit_def)
theorem stream_failure_no_teardown_witness:
  "hdcp_lib_stream refusing ((active_handle True)\<lparr>repeater_flag := True\<rparr>) =
     emit (TzCommand (Req_query_stream_type HDCP_TXMTR_QUERY_STREAM_TYPE
             (tz_ctxhandle ((active_handle True)\<lparr>repeater_flag := True\<rparr>))))
       ((active_handle True)\<lparr>repeater_flag := True\<rparr>)"
  by (rule stream_failure_no_teardown) (simp_all add: fixture_defs)

text \<open>
  When the sink's \<open>AKE_Send_H_prime\<close> arrives in the no-stored-km flow and the transport call succeeds, the client is asked for the next message and the session stays on, whatever status the secure world returned.
\<close>

theorem msg_recvd_h_prime_ignores_status:
  assumes buf: "last_msg_recvd_len h \<noteq> 0" "kzalloc_ok env (io_trace h) (unat (last_msg_recvd_len h))"
    and st: "qseecom_handle h" "\<not> hdcp_off h" "client_ops_wakeup h"
    and rsp: "tz_send env (io_trace h) (Req_rcvd_msg HDCP_TXMTR_PROCESS_RECEIVED_MESSAGE (tz_ctxhandle h)
                 (last_msg_recvd_len h) (copy_bytes (recvd_bytes h) (unat (last_msg_recvd_len h)))) = (0, r)"
    and hp: "uint (byte_at (recvd_bytes h) 0) = AKE_SEND_H_PRIME_MESSAGE_ID" "no_stored_km_flag h"
  shows "notifications (io_trace (hdcp_lib_msg_recvd env h)) =
           notifications (io_trace h) @ [HDMI_HDCP_WKUP_CMD_RECV_MESSAGE]
         \<and> \<not> hdcp_off (hdcp_lib_msg_recvd env h) \<and> hdcp_timeout (hdcp_lib_msg_recvd env h) = rsp_timeout r"
proof -
  have "0 < unat (last_msg_recvd_len h)" using buf(1) by (simp add: unat_gt_0)
  then have m0: "byte_at (copy_bytes (recvd_bytes h) (unat (last_msg_recvd_len h))) 0 = byte_at (recvd_bytes h) 0"
    by (simp add: byte_at_copy_bytes)
  show ?thesis
    using buf st rsp hp m0
    by (simp add: hdcp_lib_msg_recvd_def qseecom_send_command_def emit_def msg_recvd_exit_def
        hdcp_lib_wakeup_client_def Let_def cdata_of_def)
qed

theorem msg_recvd_h_prime_ignores_status_witness:
  "notifications (io_trace (hdcp_lib_msg_recvd
        (answering (\<lambda>_. (reply HDCP_TXMTR_PROCESS_RECEIVED_MESSAGE [] 0 0)\<lparr>rsp_status := 0xFFFFFFFF\<rparr>))
        ((with_recvd [7, 1, 2] (active_handle True))\<lparr>no_stored_km_flag := True\<rparr>))) =
     notifications (io_trace ((with_recvd [7, 1, 2] (active_handle True))\<lparr>no_stored_km_flag := True\<rparr>))
       @ [HDMI_HDCP_WKUP_CMD_RECV_MESSAGE]
   \<and> \<not> hdcp_off (hdcp_lib_msg_recvd
        (answering (\<lambda>_. (reply HDCP_TXMTR_PROCESS_RECEIVED_MESSAGE [] 0 0)\<lparr>rsp_status := 0xFFFFFFFF\<rparr>))
        ((with_recvd [7, 1, 2] (active_handle True))\<lparr>no_stored_km_flag := True\<rparr>))
   \<and> hdcp_timeout (hdcp_lib_msg_recvd
        (answering (\<lambda>_. (reply HDCP_TXMTR_PROCESS_RECEIVED_MESSAGE [] 0 0)\<lparr>rsp_status := 0xFFFFFFFF\<rparr>))
        ((with_recvd [7, 1, 2] (active_handle True))\<lparr>no_stored_km_flag := True\<rparr>))
     = rsp_timeout ((reply HDCP_TXMTR_PROCESS_RECEIVED_MESSAGE [] 0 0)\<lparr>rsp_status := 0xFFFFFFFF\<rparr>)"
  by (rule msg_recvd_h_prime_ignores_status) (simp_all add: fixture_defs)

text \<open>
  C29 (unchecked response length overflows the transmit buffer): a successful response to a received message whose length exceeds \<open>MAX_TX_MESSAGE_SIZE\<close> is copied into the 129-byte transmit buffer anyway: a write past its end.
\<close>

theorem msg_recvd_tx_overflow:
  assumes buf: "last_msg_recvd_len h \<noteq> 0" "kzalloc_ok env (io_trace h) (unat (last_msg_recvd_len h))"
    and st: "qseecom_handle h" "\<not> hdcp_off h"
    and rsp: "tz_send env (io_trace h) (Req_rcvd_msg HDCP_TXMTR_PROCESS_RECEIVED_MESSAGE (tz_ctxhandle h)
                 (last_msg_recvd_len h) (copy_bytes (recvd_bytes h) (unat (last_msg_recvd_len h)))) = (0, r)"
    and plain: "\<not> (uint (byte_at (recvd_bytes h) 0) = AKE_SEND_H_PRIME_MESSAGE_ID \<and> no_stored_km_flag h)"
      "uint (byte_at (recvd_bytes h) 0) \<noteq> REPEATER_AUTH_STREAM_READY_MESSAGE_ID"
    and ok: "rsp_commandid r = HDCP_TXMTR_PROCESS_RECEIVED_MESSAGE"
    and big: "MAX_TX_MESSAGE_SIZE < unat (rsp_msglen r)"
  shows "mem_fault (hdcp_lib_msg_recvd env h)"
proof -
  have "0 < unat (last_msg_recvd_len h)" using buf(1) by (simp add: unat_gt_0)
  then have m0: "byte_at (copy_bytes (recvd_bytes h) (unat (last_msg_recvd_len h))) 0 = byte_at (recvd_bytes h) 0"
    by (simp add: byte_at_copy_bytes)
  have len: "rsp_msglen r \<noteq> 0" using big by auto
  show ?thesis
    using buf st rsp plain ok m0 len big
    by (auto simp: hdcp_lib_msg_recvd_def qseecom_send_command_def emit_def check_repeater_def
        store_tx_message_def msg_recvd_exit_def hdcp_lib_wakeup_client_def Let_def overflows_def)
qed

theorem msg_recvd_tx_overflow_witness:
  "mem_fault (hdcp_lib_msg_recvd (answering (\<lambda>_. reply HDCP_TXMTR_PROCESS_RECEIVED_MESSAGE (replicate 200 0) 0 0))
     (with_recvd [8, 1, 2] (active_handle True)))"
  by (rule msg_recvd_tx_overflow [where r = "reply HDCP_TXMTR_PROCESS_RECEIVED_MESSAGE (replicate 200 0) 0 0"])
     (simp_all add: fixture_defs)

text \<open>
  C3 (start yields one outbound message): with a cooperating secure world and a non-empty first message, \<open>hdcp_lib_init\<close> loads the application, initialises the transmitter and sends the client exactly one notification, \<open>SEND_MESSAGE\<close>.
\<close>

theorem init_success_one_message:
  assumes coop: "tee_cooperates env"
    and msg: "\<forall>t. rsp_msglen (snd (tz_send env t (Req_init HDCP_TXMTR_INIT))) \<noteq> 0"
    and st: "wakeup_cmd h = HDCP_LIB_WKUP_CMD_START" "hdcp_state h = HDCP_STATE_INIT" "client_ops_wakeup h"
  shows "notifications (io_trace (hdcp_lib_init env h)) =
           notifications (io_trace h) @ [HDMI_HDCP_WKUP_CMD_SEND_MESSAGE]
         \<and> app_loaded (hdcp_lib_init env h) \<and> txmtr_inited (hdcp_lib_init env h)"
  using coop msg st
  by (simp add: tee_cooperates_def hdcp_lib_init_def hdcp_lib_library_load_def hdcp_lib_txmtr_init_def
      qseecom_send_command_def emit_def Let_def store_tx_message_def hdcp_lib_send_message_def
      hdcp_lib_wakeup_client_def hdcp_cmd_vals flag_set_or_same flag_set_or_other hdcp_consts
      flag_set_def)

theorem init_success_one_message_witness:
  "notifications (io_trace (hdcp_lib_init (answering (echo_rsp [2, 1, 2, 3] 0))
       ((fresh_handle True True)\<lparr>wakeup_cmd := HDCP_LIB_WKUP_CMD_START\<rparr>))) =
     notifications (io_trace ((fresh_handle True True)\<lparr>wakeup_cmd := HDCP_LIB_WKUP_CMD_START\<rparr>))
       @ [HDMI_HDCP_WKUP_CMD_SEND_MESSAGE]
   \<and> app_loaded (hdcp_lib_init (answering (echo_rsp [2, 1, 2, 3] 0))
       ((fresh_handle True True)\<lparr>wakeup_cmd := HDCP_LIB_WKUP_CMD_START\<rparr>))
   \<and> txmtr_inited (hdcp_lib_init (answering (echo_rsp [2, 1, 2, 3] 0))
       ((fresh_handle True True)\<lparr>wakeup_cmd := HDCP_LIB_WKUP_CMD_START\<rparr>))"
  by (rule init_success_one_message) (simp_all add: fixture_defs tee_cooperates_def)

end
