(* ===== verification/HDCP_Dispatch.thy ===== *)
theory HDCP_Dispatch
  imports HDCP_Protocol
begin

unbundle bit_operations_syntax

text \<open>
  The entry points of \<open>src/drivers/misc/hdcp.c\<close> and the worker that runs the
  queued steps: \<open>hdcp_lib_check_valid_state\<close> and \<open>hdcp_lib_wakeup\<close> (the
  client's commands), \<open>hdcp_lib_update_exec_type\<close>,
  \<open>hdcp_lib_client_feature_supported\<close>, the seven kthread work functions,
  \<open>hdcp_library_register\<close> and \<open>hdcp_library_deregister\<close> over a heap of
  handles and the client's context pointer (\<open>hdcp_lib_mem\<close>).  The whole
  library is then a step relation on the handle: one event is a client call or one
  step of the worker thread, and \<open>hdcp_reachable\<close> is every handle a registered
  handle reaches by any interleaving of events.
\<close>

section \<open>Validating a wakeup\<close>

text \<open>
  \<open>hdcp_lib_check_worker_status\<close> only logs and is left out.  Both early exits
  of the non-\<open>START\<close> branch (session off, application not loaded) jump to
  \<open>exit\<close> with \<open>rc\<close> still 0, so they reject nothing.
\<close>

definition hdcp_lib_check_valid_state :: "hdcp_lib_handle \<Rightarrow> int" where
  "hdcp_lib_check_valid_state h =
     (if wakeup_cmd h = HDCP_LIB_WKUP_CMD_START
      then (if work_list h \<noteq> [] then - EBUSY else 0)
      else if hdcp_off h then 0
      else if \<not> app_loaded h then 0
      else 0)"

definition hdcp_lib_update_exec_type :: "bool \<Rightarrow> hdcp_lib_handle \<Rightarrow> hdcp_lib_handle" where
  "hdcp_lib_update_exec_type teth h = (if tethered h = teth then h else h\<lparr>tethered := teth\<rparr>)"

text \<open>
  \<open>hdcp_lib_client_feature_supported\<close>: the first query loads the application,
  and on success records the answer and unloads it again.
\<close>

definition hdcp_lib_client_feature_supported ::
  "tee_env \<Rightarrow> hdcp_lib_handle \<Rightarrow> bool \<times> hdcp_lib_handle" where
  "hdcp_lib_client_feature_supported env h =
     (if feature_supported h then (True, h)
      else case hdcp_lib_library_load env h of
        (rc, h) \<Rightarrow>
          if rc = 0 then (True, snd (hdcp_lib_library_unload env (h\<lparr>feature_supported := True\<rparr>)))
          else (False, h))"

section \<open>The wakeup entry point\<close>

text \<open>
  The \<open>switch\<close> of \<open>hdcp_lib_wakeup\<close>.  \<open>listener_buf\<close> is
  \<open>unsigned char *\<close>, so \<open>last_msg_sent\<close> gets the first byte as a
  non-negative \<open>int\<close>.
\<close>

definition hdcp_lib_wakeup_dispatch :: "tee_env \<Rightarrow> hdcp_lib_handle \<Rightarrow> hdcp_lib_handle" where
  "hdcp_lib_wakeup_dispatch env h =
     (case wakeup_cmd h of
        HDCP_LIB_WKUP_CMD_START \<Rightarrow>
          hdcp_lib_execute WK_INIT (hdcp_lib_init env)
            (h\<lparr>no_stored_km_flag := False, repeater_flag := False, update_stream := False,
               last_msg_sent := 0, hdcp_timeout := 0, timeout_left := 0, hdcp_off := False,
               hdcp_state := HDCP_STATE_INIT\<rparr>)
      | HDCP_LIB_WKUP_CMD_STOP \<Rightarrow>
          hdcp_lib_execute WK_CLEAN (hdcp_lib_clean env) (h\<lparr>hdcp_off := True\<rparr>)
      | HDCP_LIB_WKUP_CMD_MSG_SEND_SUCCESS \<Rightarrow>
          hdcp_lib_execute WK_MSG_SENT (hdcp_lib_msg_sent env)
            (h\<lparr>last_msg_sent := uint (byte_at (listener_buf h) 0)\<rparr>)
      | HDCP_LIB_WKUP_CMD_MSG_SEND_FAILED \<Rightarrow> hdcp_lib_execute_clean env h
      | HDCP_LIB_WKUP_CMD_MSG_RECV_FAILED \<Rightarrow> hdcp_lib_execute_clean env h
      | HDCP_LIB_WKUP_CMD_MSG_RECV_SUCCESS \<Rightarrow> hdcp_lib_execute WK_MSG_RECVD (hdcp_lib_msg_recvd env) h
      | HDCP_LIB_WKUP_CMD_MSG_RECV_TIMEOUT \<Rightarrow> hdcp_lib_execute WK_TIMEOUT (hdcp_lib_timeout env) h
      | HDCP_LIB_WKUP_CMD_QUERY_STREAM_TYPE \<Rightarrow> hdcp_lib_execute WK_STREAM (hdcp_lib_stream env) h
      | HDCP_LIB_WKUP_CMD_INVALID \<Rightarrow> h)"

text \<open>
  \<open>hdcp_lib_wakeup\<close>: record the command and the time left, validate, copy the
  received message (on allocation failure the old buffer is already freed and the
  new length already stored), complete the topology wait, dispatch.  The command
  and the timeout are stored before validation, also when it rejects the call.
\<close>

definition hdcp_lib_wakeup ::
  "tee_env \<Rightarrow> hdcp_lib_wakeup_data \<Rightarrow> hdcp_lib_handle \<Rightarrow> int \<times> hdcp_lib_handle" where
  "hdcp_lib_wakeup env d h =
     (let h = h\<lparr>wakeup_cmd := wk_cmd d, timeout_left := wk_timeout d\<rparr>;
          rc = hdcp_lib_check_valid_state h
      in if rc \<noteq> 0 then (rc, h)
      else if recvd_msg_len d \<noteq> 0 \<and> \<not> kzalloc_ok env (io_trace h) (unat (recvd_msg_len d))
      then (- ENOMEM, h\<lparr>last_msg_recvd_len := recvd_msg_len d, last_msg_recvd_buf := None\<rparr>)
      else
        let h = (if recvd_msg_len d \<noteq> 0
                 then h\<lparr>last_msg_recvd_len := recvd_msg_len d,
                        last_msg_recvd_buf := Some (copy_bytes (recvd_msg_buf d) (unat (recvd_msg_len d)))\<rparr>
                 else h)
        in (0, hdcp_lib_wakeup_dispatch env (h\<lparr>topo_wait_done := True\<rparr>)))"

section \<open>The worker\<close>

text \<open>The work functions, each the step its \<open>kthread_work\<close> item runs.\<close>

definition hdcp_lib_init_work :: "tee_env \<Rightarrow> hdcp_lib_handle \<Rightarrow> hdcp_lib_handle" where
  "hdcp_lib_init_work env h = hdcp_lib_init env h"

definition hdcp_lib_msg_recvd_work :: "tee_env \<Rightarrow> hdcp_lib_handle \<Rightarrow> hdcp_lib_handle" where
  "hdcp_lib_msg_recvd_work env h = hdcp_lib_msg_recvd env h"

definition hdcp_lib_manage_timeout_work :: "tee_env \<Rightarrow> hdcp_lib_handle \<Rightarrow> hdcp_lib_handle" where
  "hdcp_lib_manage_timeout_work env h = hdcp_lib_timeout env h"

definition hdcp_lib_cleanup_work :: "tee_env \<Rightarrow> hdcp_lib_handle \<Rightarrow> hdcp_lib_handle" where
  "hdcp_lib_cleanup_work env h = hdcp_lib_clean env h"

definition hdcp_lib_query_stream_work :: "tee_env \<Rightarrow> hdcp_lib_handle \<Rightarrow> hdcp_lib_handle" where
  "hdcp_lib_query_stream_work env h = hdcp_lib_stream env h"

text \<open>The \<open>init_kthread_work\<close> bindings of \<open>hdcp_library_register\<close>.\<close>

definition hdcp_lib_run_work :: "tee_env \<Rightarrow> hdcp_work \<Rightarrow> hdcp_lib_handle \<Rightarrow> hdcp_lib_handle" where
  "hdcp_lib_run_work env w h =
     (case w of
        WK_INIT \<Rightarrow> hdcp_lib_init_work env h
      | WK_MSG_SENT \<Rightarrow> hdcp_lib_msg_sent_work env h
      | WK_MSG_RECVD \<Rightarrow> hdcp_lib_msg_recvd_work env h
      | WK_TIMEOUT \<Rightarrow> hdcp_lib_manage_timeout_work env h
      | WK_CLEAN \<Rightarrow> hdcp_lib_cleanup_work env h
      | WK_TOPOLOGY \<Rightarrow> hdcp_lib_topology_wait_begin h
      | WK_STREAM \<Rightarrow> hdcp_lib_query_stream_work env h)"

text \<open>
  One turn of \<open>kthread_worker_fn\<close> (kernel code, modelled from its contract):
  when the worker is idle it takes the first pending item off the list and runs
  it; the item may be queued again while it runs.  \<open>None\<close>: nothing to do.
\<close>

definition kthread_worker_step :: "tee_env \<Rightarrow> hdcp_lib_handle \<Rightarrow> hdcp_lib_handle option" where
  "kthread_worker_step env h =
     (case (current_work h, work_list h) of
        (None, w # ws) \<Rightarrow> Some (hdcp_lib_run_work env w (h\<lparr>work_list := ws\<rparr>))
      | _ \<Rightarrow> None)"

section \<open>Registration\<close>

text \<open>
  \<open>struct hdcp_register_data\<close>: which pointers the client passed.
  \<open>reg_client_ops\<close> is \<open>None\<close> for a \<open>NULL\<close> \<open>client_ops\<close> and otherwise
  says whether it has a \<open>wakeup\<close> callback.
\<close>

record hdcp_register_data =
  reg_txmtr_ops :: bool
  reg_client_ops :: "bool option"
  reg_hdcp_ctx :: bool
  reg_tethered :: bool

text \<open>
  The memory that registration and deregistration touch, in the manner of a
  heap of references: the handles \<open>kzalloc\<close>'d by \<open>hdcp_library_register\<close>
  and not yet \<open>kzfree\<close>'d, by address (\<open>lib_heap\<close>); the allocator's next
  address; the client's context pointer \<open>*data->hdcp_ctx\<close> (\<open>None\<close> is
  \<open>NULL\<close>); and whether a freed handle has been used or freed again.
\<close>

record hdcp_lib_mem =
  lib_heap :: "nat \<Rightarrow> hdcp_lib_handle option"
  next_addr :: nat
  hdcp_ctx :: "nat option"
  heap_fault :: bool

definition empty_lib_mem :: hdcp_lib_mem where
  "empty_lib_mem = \<lparr>lib_heap = Map.empty, next_addr = 0, hdcp_ctx = None, heap_fault = False\<rparr>"

text \<open>
  \<open>hdcp_library_register\<close> (lines 1464--1549).  The allocator and
  \<open>kthread_run\<close> are parameters: whether the handle and the transmit buffer
  can be allocated, and the thread's error code (0 when it started).  The
  handle is allocated at \<open>next_addr\<close>; the error path (\<open>error:\<close>) frees it,
  and the handle is stored in \<open>*data->hdcp_ctx\<close> before \<open>kthread_run\<close>, as in
  the source.  The transmit buffer is part of the handle (\<open>fresh_handle\<close>).
\<close>

definition hdcp_library_register_mem ::
  "bool \<Rightarrow> bool \<Rightarrow> int \<Rightarrow> hdcp_register_data \<Rightarrow> hdcp_lib_mem \<Rightarrow> int \<times> hdcp_lib_mem" where
  "hdcp_library_register_mem handle_ok buf_ok thread_rc d m =
     (if \<not> reg_txmtr_ops d then (- EINVAL, m)
      else case reg_client_ops d of
        None \<Rightarrow> (- EINVAL, m)
      | Some cw \<Rightarrow>
          if \<not> reg_hdcp_ctx d then (- EINVAL, m)
          else if \<not> handle_ok then (- ENOMEM, m)
          else
            let a = next_addr m;
                m = m\<lparr>lib_heap := (lib_heap m)(a \<mapsto> fresh_handle (reg_tethered d) cw),
                      next_addr := Suc a\<rparr>
            in if \<not> buf_ok then (- ENOMEM, m\<lparr>lib_heap := (lib_heap m)(a := None)\<rparr>)
               else
                 let m = m\<lparr>hdcp_ctx := Some a\<rparr>
                 in if thread_rc \<noteq> 0 then (thread_rc, m\<lparr>lib_heap := (lib_heap m)(a := None)\<rparr>)
                    else (0, m))"

text \<open>
  The outcome of a registration by a client whose context pointer starts
  \<open>NULL\<close>: the return code, the handle \<open>*data->hdcp_ctx\<close> points to if it is
  still allocated, and whether \<open>*data->hdcp_ctx\<close> was set.
\<close>

definition hdcp_library_register ::
  "bool \<Rightarrow> bool \<Rightarrow> int \<Rightarrow> hdcp_register_data \<Rightarrow> int \<times> hdcp_lib_handle option \<times> bool" where
  "hdcp_library_register handle_ok buf_ok thread_rc d =
     (case hdcp_library_register_mem handle_ok buf_ok thread_rc d empty_lib_mem of
        (rc, m) \<Rightarrow> (rc, (case hdcp_ctx m of None \<Rightarrow> None | Some a \<Rightarrow> lib_heap m a), hdcp_ctx m \<noteq> None))"

text \<open>
  \<open>hdcp_library_deregister\<close> (lines 1551--1568) on the context pointer: a
  \<open>NULL\<close> context returns at once; otherwise the handle's thread is stopped and
  the handle freed.  If the address no longer holds a live handle,
  \<open>kthread_stop(handle->thread)\<close> reads freed memory and \<open>kzfree(handle)\<close>
  frees it a second time: \<open>heap_fault\<close>.
\<close>

definition hdcp_library_deregister :: "nat option \<Rightarrow> hdcp_lib_mem \<Rightarrow> hdcp_lib_mem" where
  "hdcp_library_deregister p m =
     (case p of
        None \<Rightarrow> m
      | Some a \<Rightarrow>
          (case lib_heap m a of
             None \<Rightarrow> m\<lparr>heap_fault := True\<rparr>
           | Some h \<Rightarrow> m\<lparr>lib_heap := (lib_heap m)(a := None)\<rparr>))"

section \<open>The library as a transition system\<close>

text \<open>
  The events: a client call (\<open>wakeup\<close>, \<open>update_exec_type\<close>,
  \<open>feature_supported\<close>), one turn of the worker, or the end of the worker's
  topology wait.  Client calls are serialised by \<open>wakeup_mutex\<close>; the model
  takes each worker step as one event between client calls.
\<close>

datatype hdcp_event =
    Ev_wakeup hdcp_lib_wakeup_data
  | Ev_update_exec_type bool
  | Ev_feature_supported
  | Ev_worker
  | Ev_topology_wait_end

definition hdcp_event_step :: "tee_env \<Rightarrow> hdcp_event \<Rightarrow> hdcp_lib_handle \<Rightarrow> hdcp_lib_handle option" where
  "hdcp_event_step env e h =
     (case e of
        Ev_wakeup d \<Rightarrow> Some (snd (hdcp_lib_wakeup env d h))
      | Ev_update_exec_type t \<Rightarrow> Some (hdcp_lib_update_exec_type t h)
      | Ev_feature_supported \<Rightarrow> Some (snd (hdcp_lib_client_feature_supported env h))
      | Ev_worker \<Rightarrow> kthread_worker_step env h
      | Ev_topology_wait_end \<Rightarrow>
          (if current_work h = Some WK_TOPOLOGY then Some (hdcp_lib_topology_wait_end env h) else None))"

fun run_events :: "tee_env \<Rightarrow> hdcp_event list \<Rightarrow> hdcp_lib_handle \<Rightarrow> hdcp_lib_handle option" where
  "run_events env [] h = Some h"
| "run_events env (e # es) h =
     (case hdcp_event_step env e h of None \<Rightarrow> None | Some h' \<Rightarrow> run_events env es h')"

inductive hdcp_reachable :: "tee_env \<Rightarrow> hdcp_lib_handle \<Rightarrow> bool" for env where
  registered: "hdcp_library_register True True 0 d = (0, Some h, True) \<Longrightarrow> hdcp_reachable env h"
| step: "hdcp_reachable env h \<Longrightarrow> hdcp_event_step env e h = Some h' \<Longrightarrow> hdcp_reachable env h'"

text \<open>A client wakeup with no message.\<close>

definition wk :: "hdcp_lib_wakeup_cmd \<Rightarrow> hdcp_lib_wakeup_data" where
  "wk c = \<lparr>wk_cmd = c, recvd_msg_buf = [], recvd_msg_len = 0, wk_timeout = 0\<rparr>"

section \<open>Invariants\<close>

text \<open>
  The handle invariant: the transmit buffer keeps its \<open>MAX_TX_MESSAGE_SIZE\<close>
  bytes, each work item is pending at most once, \<open>HDCP_STATE_ERROR\<close> is never
  set, and whenever the application is marked loaded the secure-channel handle is
  allocated.
\<close>

definition hdcp_inv :: "hdcp_lib_handle \<Rightarrow> bool" where
  "hdcp_inv h \<longleftrightarrow>
     length (listener_buf h) = MAX_TX_MESSAGE_SIZE \<and> distinct (work_list h) \<and>
     \<not> flag_set (hdcp_state h) HDCP_STATE_ERROR \<and> (app_loaded h \<longrightarrow> qseecom_handle h)"

text \<open>
  The conditions of the memory-safety theorem: every response of the secure world
  fits the transmit buffer and every allocation succeeds (\<open>tee_bounded\<close>);
  every message the client passes fits the request buffer
  (\<open>client_event_ok\<close>).  \<open>recv_ok\<close> is the state part: no fault so far, a
  non-zero received length always has its buffer, and that length fits.
\<close>

definition tee_bounded :: "tee_env \<Rightarrow> bool" where
  "tee_bounded env \<longleftrightarrow>
     (\<forall>t req. unat (rsp_msglen (snd (tz_send env t req))) \<le> MAX_TX_MESSAGE_SIZE) \<and>
     (\<forall>t n. kzalloc_ok env t n)"

definition client_event_ok :: "hdcp_event \<Rightarrow> bool" where
  "client_event_ok e =
     (case e of Ev_wakeup d \<Rightarrow> unat (recvd_msg_len d) \<le> MAX_RX_MESSAGE_SIZE | _ \<Rightarrow> True)"

definition recv_ok :: "hdcp_lib_handle \<Rightarrow> bool" where
  "recv_ok h \<longleftrightarrow>
     \<not> mem_fault h \<and> (last_msg_recvd_len h \<noteq> 0 \<longrightarrow> last_msg_recvd_buf h \<noteq> None) \<and>
     unat (last_msg_recvd_len h) \<le> MAX_RX_MESSAGE_SIZE"

section \<open>Scenario fixtures\<close>

text \<open>
  A cooperating secure world whose every response carries a four-byte message, a
  client wakeup with a message, and a short session: start, message sent, message
  received.
\<close>

definition coop_env :: tee_env where
  "coop_env = answering (echo_rsp [3, 1, 2, 3] 0)"

definition msg_wk :: "hdcp_lib_wakeup_cmd \<Rightarrow> bytes \<Rightarrow> hdcp_lib_wakeup_data" where
  "msg_wk c m = \<lparr>wk_cmd = c, recvd_msg_buf = m, recvd_msg_len = of_nat (length m), wk_timeout = 0\<rparr>"

definition demo_events :: "hdcp_event list" where
  "demo_events = [Ev_wakeup (wk HDCP_LIB_WKUP_CMD_START), Ev_wakeup (wk HDCP_LIB_WKUP_CMD_MSG_SEND_SUCCESS),
                  Ev_wakeup (msg_wk HDCP_LIB_WKUP_CMD_MSG_RECV_SUCCESS [3, 0, 0])]"

section \<open>Lemmas\<close>

subsection \<open>Registration\<close>

text \<open>
  What a client with a \<open>NULL\<close> context gets back from a registration, branch
  by branch.
\<close>

lemma hdcp_library_register_eq:
  "hdcp_library_register handle_ok buf_ok thread_rc d =
     (if \<not> reg_txmtr_ops d then (- EINVAL, None, False)
      else case reg_client_ops d of
        None \<Rightarrow> (- EINVAL, None, False)
      | Some cw \<Rightarrow>
          if \<not> reg_hdcp_ctx d then (- EINVAL, None, False)
          else if \<not> handle_ok then (- ENOMEM, None, False)
          else if \<not> buf_ok then (- ENOMEM, None, False)
          else if thread_rc \<noteq> 0 then (thread_rc, None, True)
          else (0, Some (fresh_handle (reg_tethered d) cw), True))"
  by (simp add: hdcp_library_register_def hdcp_library_register_mem_def empty_lib_mem_def Let_def
      split: option.split)

subsection \<open>The handle invariant\<close>

lemma hdcp_inv_upd [simp]:
  "hdcp_inv (h\<lparr>msglen := a\<rparr>) = hdcp_inv h" "hdcp_inv (h\<lparr>tz_ctxhandle := b\<rparr>) = hdcp_inv h"
  "hdcp_inv (h\<lparr>hdcp_timeout := c\<rparr>) = hdcp_inv h" "hdcp_inv (h\<lparr>timeout_left := c\<rparr>) = hdcp_inv h"
  "hdcp_inv (h\<lparr>no_stored_km_flag := x\<rparr>) = hdcp_inv h" "hdcp_inv (h\<lparr>feature_supported := x\<rparr>) = hdcp_inv h"
  "hdcp_inv (h\<lparr>wakeup_cmd := wc\<rparr>) = hdcp_inv h" "hdcp_inv (h\<lparr>repeater_flag := x\<rparr>) = hdcp_inv h"
  "hdcp_inv (h\<lparr>update_stream := x\<rparr>) = hdcp_inv h" "hdcp_inv (h\<lparr>tethered := x\<rparr>) = hdcp_inv h"
  "hdcp_inv (h\<lparr>last_msg_sent := i\<rparr>) = hdcp_inv h" "hdcp_inv (h\<lparr>last_msg_recvd_buf := ob\<rparr>) = hdcp_inv h"
  "hdcp_inv (h\<lparr>last_msg_recvd_len := c\<rparr>) = hdcp_inv h" "hdcp_inv (h\<lparr>hdcp_off := x\<rparr>) = hdcp_inv h"
  "hdcp_inv (h\<lparr>current_work := ow\<rparr>) = hdcp_inv h" "hdcp_inv (h\<lparr>topo_wait_done := x\<rparr>) = hdcp_inv h"
  "hdcp_inv (h\<lparr>io_trace := t\<rparr>) = hdcp_inv h" "hdcp_inv (h\<lparr>mem_fault := x\<rparr>) = hdcp_inv h"
  "hdcp_inv (emit ev h) = hdcp_inv h"
  by (simp_all add: hdcp_inv_def emit_def)

lemma hdcp_inv_store [hdcp_inv_rules]: "hdcp_inv h \<Longrightarrow> hdcp_inv (store_tx_message m l t h)"
  by (simp add: hdcp_inv_def store_tx_message_def)

lemma hdcp_inv_wakeup_client [hdcp_inv_rules]: "hdcp_inv h \<Longrightarrow> hdcp_inv (hdcp_lib_wakeup_client c h)"
  by (simp add: hdcp_lib_wakeup_client_def)

lemma hdcp_inv_send_message [hdcp_inv_rules]: "hdcp_inv h \<Longrightarrow> hdcp_inv (hdcp_lib_send_message h)"
  by (simp add: hdcp_lib_send_message_def hdcp_inv_rules)

lemma hdcp_inv_queue [hdcp_inv_rules]:
  "hdcp_inv h \<Longrightarrow> hdcp_inv (h\<lparr>work_list := queue_kthread_work w (work_list h)\<rparr>)"
  by (simp add: hdcp_inv_def distinct_queue_kthread_work)

lemma hdcp_inv_execute [hdcp_inv_rules]:
  "hdcp_inv h \<Longrightarrow> hdcp_inv (f h) \<Longrightarrow> hdcp_inv (hdcp_lib_execute w f h)"
  by (simp add: hdcp_lib_execute_def hdcp_inv_queue)

lemma hdcp_inv_qseecom [hdcp_inv_rules]:
  "hdcp_inv h \<Longrightarrow> qseecom_send_command env r h = (rc, rsp, h') \<Longrightarrow> hdcp_inv h'"
  by (auto simp: qseecom_send_command_def)

lemma hdcp_inv_load [hdcp_inv_rules]: "hdcp_inv h \<Longrightarrow> hdcp_inv (snd (hdcp_lib_library_load env h))"
  by (auto simp: hdcp_lib_library_load_def qseecom_send_command_def Let_def hdcp_inv_def
      flag_set_or_other split: prod.split)

lemma hdcp_inv_unload [hdcp_inv_rules]: "hdcp_inv h \<Longrightarrow> hdcp_inv (snd (hdcp_lib_library_unload env h))"
  by (auto simp: hdcp_lib_library_unload_def qseecom_send_command_def Let_def hdcp_inv_def emit_def
      flag_set_clear_mono flag_set_clear_same split: prod.split)

lemma hdcp_inv_txmtr_init [hdcp_inv_rules]: "hdcp_inv h \<Longrightarrow> hdcp_inv (snd (hdcp_lib_txmtr_init env h))"
  by (auto simp: hdcp_lib_txmtr_init_def qseecom_send_command_def hdcp_inv_def emit_def store_tx_message_def
      flag_set_or_other split: prod.split)

lemma hdcp_inv_txmtr_deinit [hdcp_inv_rules]: "hdcp_inv h \<Longrightarrow> hdcp_inv (snd (hdcp_lib_txmtr_deinit env h))"
  by (auto simp: hdcp_lib_txmtr_deinit_def qseecom_send_command_def hdcp_inv_def emit_def
      flag_set_clear_mono flag_set_clear_other split: prod.split)

lemma hdcp_inv_clean [hdcp_inv_rules]: "hdcp_inv h \<Longrightarrow> hdcp_inv (hdcp_lib_clean env h)"
  by (simp add: hdcp_lib_clean_def Let_def hdcp_inv_rules)

lemma hdcp_inv_execute_clean [hdcp_inv_rules]: "hdcp_inv h \<Longrightarrow> hdcp_inv (hdcp_lib_execute_clean env h)"
  by (simp add: hdcp_lib_execute_clean_def hdcp_inv_rules)


lemma hdcp_inv_stream [hdcp_inv_rules]: "hdcp_inv h \<Longrightarrow> hdcp_inv (hdcp_lib_stream env h)"
  by (auto simp: hdcp_lib_stream_def qseecom_send_command_def Let_def hdcp_inv_rules split: prod.split)

lemma hdcp_inv_enable_encryption [hdcp_inv_rules]:
  "hdcp_inv h \<Longrightarrow> hdcp_inv (snd (hdcp_lib_enable_encryption env h))"
  by (auto simp: hdcp_lib_enable_encryption_def qseecom_send_command_def Let_def hdcp_inv_rules
      split: prod.split) (auto simp: hdcp_inv_def flag_set_or_other)

lemma hdcp_inv_msg_sent [hdcp_inv_rules]: "hdcp_inv h \<Longrightarrow> hdcp_inv (hdcp_lib_msg_sent env h)"
proof -
  assume h: "hdcp_inv h"
  define hq where "hq = (if repeater_flag h \<and> \<not> hdcp_off h
                         then h\<lparr>work_list := queue_kthread_work WK_TOPOLOGY (work_list h)\<rparr> else h)"
  have q: "hdcp_inv hq" using h by (simp add: hq_def hdcp_inv_queue)
  obtain rc h1 where e: "hdcp_lib_enable_encryption env hq = (rc, h1)" by fastforce
  have "hdcp_inv h1" using hdcp_inv_enable_encryption [OF q, of env] e by simp
  then show ?thesis using h by (simp add: hdcp_lib_msg_sent_eq [OF e [unfolded hq_def]] hdcp_inv_rules)
qed

lemma hdcp_inv_init [hdcp_inv_rules]: "hdcp_inv h \<Longrightarrow> hdcp_inv (hdcp_lib_init env h)"
proof -
  assume h: "hdcp_inv h"
  obtain rc1 h1 where l: "hdcp_lib_library_load env h = (rc1, h1)" by fastforce
  have i1: "hdcp_inv h1" using hdcp_inv_load [OF h, of env] l by simp
  obtain rc2 h2 where t: "hdcp_lib_txmtr_init env h1 = (rc2, h2)" by fastforce
  have i2: "hdcp_inv h2" using hdcp_inv_txmtr_init [OF i1, of env] t by simp
  show ?thesis using h i1 i2 by (simp add: hdcp_lib_init_eq [OF l t] hdcp_inv_rules)
qed

lemma hdcp_inv_timeout [hdcp_inv_rules]: "hdcp_inv h \<Longrightarrow> hdcp_inv (hdcp_lib_timeout env h)"
  by (auto simp: hdcp_lib_timeout_def qseecom_send_command_def hdcp_inv_rules split: prod.split)

lemma hdcp_inv_msg_recvd_exit [hdcp_inv_rules]: "hdcp_inv h \<Longrightarrow> hdcp_inv (msg_recvd_exit env c rc h)"
  by (simp add: msg_recvd_exit_def Let_def hdcp_inv_rules)

lemma hdcp_inv_check_repeater [hdcp_inv_rules]: "hdcp_inv h \<Longrightarrow> hdcp_inv (check_repeater r h)"
  by (simp add: check_repeater_def)

lemma hdcp_inv_msg_recvd [hdcp_inv_rules]: "hdcp_inv h \<Longrightarrow> hdcp_inv (hdcp_lib_msg_recvd env h)"
  by (simp add: hdcp_lib_msg_recvd_def qseecom_send_command_def Let_def hdcp_inv_rules
      if_distrib [of hdcp_inv])

lemma hdcp_inv_topology [hdcp_inv_rules]:
  "hdcp_inv h \<Longrightarrow> hdcp_inv (hdcp_lib_topology_wait_begin h)"
  "hdcp_inv h \<Longrightarrow> hdcp_inv (hdcp_lib_topology_wait_end env h)"
  by (simp_all add: hdcp_lib_topology_wait_begin_def hdcp_lib_topology_wait_end_def Let_def hdcp_inv_rules)

lemma hdcp_inv_msg_sent_work [hdcp_inv_rules]: "hdcp_inv h \<Longrightarrow> hdcp_inv (hdcp_lib_msg_sent_work env h)"
  by (simp add: hdcp_lib_msg_sent_work_def hdcp_inv_rules)

lemma hdcp_inv_start_reset:
  "hdcp_inv h \<Longrightarrow> hdcp_inv (h\<lparr>no_stored_km_flag := False, repeater_flag := False, update_stream := False,
     last_msg_sent := 0, hdcp_timeout := 0, timeout_left := 0, hdcp_off := False,
     hdcp_state := HDCP_STATE_INIT\<rparr>)"
  by (simp add: hdcp_inv_def hdcp_consts)

lemma hdcp_inv_dispatch [hdcp_inv_rules]: "hdcp_inv h \<Longrightarrow> hdcp_inv (hdcp_lib_wakeup_dispatch env h)"
  by (cases "wakeup_cmd h")
     (simp_all add: hdcp_lib_wakeup_dispatch_def hdcp_inv_rules hdcp_inv_start_reset)

lemma hdcp_inv_wakeup [hdcp_inv_rules]: "hdcp_inv h \<Longrightarrow> hdcp_inv (snd (hdcp_lib_wakeup env d h))"
  by (simp add: hdcp_lib_wakeup_def Let_def hdcp_inv_rules)

lemma hdcp_inv_feature_supported [hdcp_inv_rules]:
  "hdcp_inv h \<Longrightarrow> hdcp_inv (snd (hdcp_lib_client_feature_supported env h))"
  using hdcp_inv_load [of h env] hdcp_inv_unload
  by (auto simp: hdcp_lib_client_feature_supported_def split: prod.split)

lemma hdcp_inv_worker:
  "hdcp_inv h \<Longrightarrow> kthread_worker_step env h = Some h' \<Longrightarrow> hdcp_inv h'"
proof -
  assume h: "hdcp_inv h" and s: "kthread_worker_step env h = Some h'"
  then obtain w ws where l: "work_list h = w # ws" and h': "h' = hdcp_lib_run_work env w (h\<lparr>work_list := ws\<rparr>)"
    by (auto simp: kthread_worker_step_def split: option.splits list.splits)
  have "hdcp_inv (h\<lparr>work_list := ws\<rparr>)" using h l by (simp add: hdcp_inv_def)
  then show ?thesis unfolding h'
    by (cases w) (simp_all add: hdcp_lib_run_work_def hdcp_lib_init_work_def hdcp_lib_msg_recvd_work_def
        hdcp_lib_manage_timeout_work_def hdcp_lib_cleanup_work_def hdcp_lib_query_stream_work_def hdcp_inv_rules)
qed

lemma hdcp_inv_event:
  "hdcp_inv h \<Longrightarrow> hdcp_event_step env e h = Some h' \<Longrightarrow> hdcp_inv h'"
proof (cases e)
  case Ev_worker
  then show "hdcp_inv h \<Longrightarrow> hdcp_event_step env e h = Some h' \<Longrightarrow> hdcp_inv h'"
    by (simp add: hdcp_event_step_def hdcp_inv_worker)
qed (auto simp: hdcp_event_step_def hdcp_lib_update_exec_type_def hdcp_inv_wakeup
      hdcp_inv_feature_supported hdcp_inv_topology split: if_splits)

lemma hdcp_inv_fresh: "hdcp_inv (fresh_handle teth cw)"
  by (simp add: hdcp_inv_def fresh_handle_def hdcp_consts)

lemma hdcp_reachable_inv: "hdcp_reachable env h \<Longrightarrow> hdcp_inv h"
proof (induction rule: hdcp_reachable.induct)
  case (registered d h)
  then show ?case by (auto simp: hdcp_library_register_eq hdcp_inv_fresh split: if_splits option.splits)
next
  case (step h e h')
  then show ?case by (blast intro: hdcp_inv_event)
qed


subsection \<open>Memory safety\<close>

lemma tee_bounded_rsp [simp]:
  "tee_bounded env \<Longrightarrow> unat (rsp_msglen (snd (tz_send env t req))) \<le> MAX_TX_MESSAGE_SIZE"
  "tee_bounded env \<Longrightarrow> kzalloc_ok env t n"
  by (simp_all add: tee_bounded_def)

lemma recv_ok_upd [simp]:
  "recv_ok (h\<lparr>listener_buf := bs\<rparr>) = recv_ok h"
  "recv_ok (h\<lparr>msglen := a\<rparr>) = recv_ok h" "recv_ok (h\<lparr>tz_ctxhandle := b\<rparr>) = recv_ok h"
  "recv_ok (h\<lparr>hdcp_timeout := c\<rparr>) = recv_ok h" "recv_ok (h\<lparr>timeout_left := c\<rparr>) = recv_ok h"
  "recv_ok (h\<lparr>no_stored_km_flag := x\<rparr>) = recv_ok h" "recv_ok (h\<lparr>feature_supported := x\<rparr>) = recv_ok h"
  "recv_ok (h\<lparr>wakeup_cmd := wc\<rparr>) = recv_ok h" "recv_ok (h\<lparr>repeater_flag := x\<rparr>) = recv_ok h"
  "recv_ok (h\<lparr>update_stream := x\<rparr>) = recv_ok h" "recv_ok (h\<lparr>tethered := x\<rparr>) = recv_ok h"
  "recv_ok (h\<lparr>last_msg_sent := i\<rparr>) = recv_ok h" "recv_ok (h\<lparr>hdcp_state := s\<rparr>) = recv_ok h"
  "recv_ok (h\<lparr>qseecom_handle := x\<rparr>) = recv_ok h" "recv_ok (h\<lparr>hdcp_off := x\<rparr>) = recv_ok h"
  "recv_ok (h\<lparr>work_list := ws\<rparr>) = recv_ok h"
  "recv_ok (h\<lparr>current_work := ow\<rparr>) = recv_ok h" "recv_ok (h\<lparr>topo_wait_done := x\<rparr>) = recv_ok h"
  "recv_ok (h\<lparr>io_trace := t\<rparr>) = recv_ok h" "recv_ok (emit ev h) = recv_ok h"
  by (simp_all add: recv_ok_def)

lemma recv_ok_store [hdcp_safe_rules]:
  "recv_ok h \<Longrightarrow> unat l \<le> MAX_TX_MESSAGE_SIZE \<Longrightarrow> recv_ok (store_tx_message m l t h)"
  by (simp add: recv_ok_def store_tx_message_def overflows_def)

lemma recv_ok_wakeup_client [hdcp_safe_rules]: "recv_ok h \<Longrightarrow> recv_ok (hdcp_lib_wakeup_client c h)"
  by (simp add: hdcp_lib_wakeup_client_def)

lemma recv_ok_send_message [hdcp_safe_rules]: "recv_ok h \<Longrightarrow> recv_ok (hdcp_lib_send_message h)"
  by (simp add: hdcp_lib_send_message_def hdcp_safe_rules)

lemma recv_ok_execute [hdcp_safe_rules]:
  "recv_ok h \<Longrightarrow> recv_ok (f h) \<Longrightarrow> recv_ok (hdcp_lib_execute w f h)"
  by (simp add: hdcp_lib_execute_def)

lemma recv_ok_load [hdcp_safe_rules]: "recv_ok h \<Longrightarrow> recv_ok (snd (hdcp_lib_library_load env h))"
  by (simp add: hdcp_lib_library_load_def qseecom_send_command_def Let_def split: prod.split)

lemma recv_ok_unload [hdcp_safe_rules]: "recv_ok h \<Longrightarrow> recv_ok (snd (hdcp_lib_library_unload env h))"
  by (simp add: hdcp_lib_library_unload_def qseecom_send_command_def Let_def split: prod.split)

lemma recv_ok_txmtr_init [hdcp_safe_rules]:
  "tee_bounded env \<Longrightarrow> recv_ok h \<Longrightarrow> recv_ok (snd (hdcp_lib_txmtr_init env h))"
  by (simp add: hdcp_lib_txmtr_init_def qseecom_send_command_def hdcp_safe_rules)

lemma recv_ok_txmtr_deinit [hdcp_safe_rules]: "recv_ok h \<Longrightarrow> recv_ok (snd (hdcp_lib_txmtr_deinit env h))"
  by (simp add: hdcp_lib_txmtr_deinit_def qseecom_send_command_def)

lemma recv_ok_clean [hdcp_safe_rules]: "recv_ok h \<Longrightarrow> recv_ok (hdcp_lib_clean env h)"
  by (simp add: hdcp_lib_clean_def Let_def hdcp_safe_rules)

lemma recv_ok_execute_clean [hdcp_safe_rules]: "recv_ok h \<Longrightarrow> recv_ok (hdcp_lib_execute_clean env h)"
  by (simp add: hdcp_lib_execute_clean_def hdcp_safe_rules)

lemma recv_ok_stream [hdcp_safe_rules]:
  "tee_bounded env \<Longrightarrow> recv_ok h \<Longrightarrow> recv_ok (hdcp_lib_stream env h)"
  by (simp add: hdcp_lib_stream_def qseecom_send_command_def Let_def hdcp_safe_rules)

lemma recv_ok_enable_encryption [hdcp_safe_rules]:
  "recv_ok h \<Longrightarrow> recv_ok (snd (hdcp_lib_enable_encryption env h))"
  by (simp add: hdcp_lib_enable_encryption_def qseecom_send_command_def Let_def hdcp_safe_rules)


lemma recv_ok_msg_sent [hdcp_safe_rules]:
  "tee_bounded env \<Longrightarrow> recv_ok h \<Longrightarrow> recv_ok (hdcp_lib_msg_sent env h)"
proof -
  assume b: "tee_bounded env" and h: "recv_ok h"
  define hq where "hq = (if repeater_flag h \<and> \<not> hdcp_off h
                         then h\<lparr>work_list := queue_kthread_work WK_TOPOLOGY (work_list h)\<rparr> else h)"
  have q: "recv_ok hq" using h by (simp add: hq_def)
  obtain rc h1 where e: "hdcp_lib_enable_encryption env hq = (rc, h1)" by fastforce
  have "recv_ok h1" using recv_ok_enable_encryption [OF q, of env] e by simp
  then show ?thesis using b h by (simp add: hdcp_lib_msg_sent_eq [OF e [unfolded hq_def]] hdcp_safe_rules)
qed

lemma recv_ok_init [hdcp_safe_rules]: "tee_bounded env \<Longrightarrow> recv_ok h \<Longrightarrow> recv_ok (hdcp_lib_init env h)"
proof -
  assume b: "tee_bounded env" and h: "recv_ok h"
  obtain rc1 h1 where l: "hdcp_lib_library_load env h = (rc1, h1)" by fastforce
  have i1: "recv_ok h1" using recv_ok_load [OF h, of env] l by simp
  obtain rc2 h2 where t: "hdcp_lib_txmtr_init env h1 = (rc2, h2)" by fastforce
  have i2: "recv_ok h2" using recv_ok_txmtr_init [OF b i1] t by simp
  show ?thesis using h i1 i2 by (simp add: hdcp_lib_init_eq [OF l t] hdcp_safe_rules)
qed

lemma lc_init_fits_tx: "LC_INIT_MESSAGE_SIZE \<le> MAX_TX_MESSAGE_SIZE"
  by (simp add: hdcp_consts)

lemma recv_ok_timeout [hdcp_safe_rules]:
  "tee_bounded env \<Longrightarrow> recv_ok h \<Longrightarrow> recv_ok (hdcp_lib_timeout env h)"
  by (simp add: hdcp_lib_timeout_def qseecom_send_command_def hdcp_safe_rules lc_init_fits_tx)

lemma recv_ok_msg_recvd_exit [hdcp_safe_rules]: "recv_ok h \<Longrightarrow> recv_ok (msg_recvd_exit env c rc h)"
  by (simp add: msg_recvd_exit_def Let_def hdcp_safe_rules)

lemma recv_ok_check_repeater [hdcp_safe_rules]: "recv_ok h \<Longrightarrow> recv_ok (check_repeater r h)"
  by (simp add: check_repeater_def)

lemma recv_ok_recvd_copy:
  "recv_ok h \<Longrightarrow> last_msg_recvd_len h \<noteq> 0 \<Longrightarrow>
   recv_ok (h\<lparr>mem_fault := (mem_fault h \<or> last_msg_recvd_buf h = None
                            \<or> overflows MAX_RX_MESSAGE_SIZE (last_msg_recvd_len h))\<rparr>)"
  by (simp add: recv_ok_def overflows_def)

lemma recv_ok_msg_recvd [hdcp_safe_rules]:
  "tee_bounded env \<Longrightarrow> recv_ok h \<Longrightarrow> recv_ok (hdcp_lib_msg_recvd env h)"
  by (simp add: hdcp_lib_msg_recvd_def qseecom_send_command_def Let_def hdcp_safe_rules
      recv_ok_recvd_copy if_distrib [of recv_ok])

lemma recv_ok_topology [hdcp_safe_rules]:
  "recv_ok h \<Longrightarrow> recv_ok (hdcp_lib_topology_wait_begin h)"
  "recv_ok h \<Longrightarrow> recv_ok (hdcp_lib_topology_wait_end env h)"
  by (simp_all add: hdcp_lib_topology_wait_begin_def hdcp_lib_topology_wait_end_def Let_def hdcp_safe_rules)

lemma recv_ok_msg_sent_work [hdcp_safe_rules]:
  "tee_bounded env \<Longrightarrow> recv_ok h \<Longrightarrow> recv_ok (hdcp_lib_msg_sent_work env h)"
  by (simp add: hdcp_lib_msg_sent_work_def hdcp_safe_rules)

lemma recv_ok_dispatch [hdcp_safe_rules]:
  "tee_bounded env \<Longrightarrow> recv_ok h \<Longrightarrow> recv_ok (hdcp_lib_wakeup_dispatch env h)"
  by (cases "wakeup_cmd h") (simp_all add: hdcp_lib_wakeup_dispatch_def hdcp_safe_rules)

lemma recv_ok_wakeup [hdcp_safe_rules]:
  assumes b: "tee_bounded env" and d: "unat (recvd_msg_len d) \<le> MAX_RX_MESSAGE_SIZE" and h: "recv_ok h"
  shows "recv_ok (snd (hdcp_lib_wakeup env d h))"
proof -
  have "recv_ok (h\<lparr>wakeup_cmd := wk_cmd d, timeout_left := wk_timeout d,
                   last_msg_recvd_len := recvd_msg_len d,
                   last_msg_recvd_buf := Some (copy_bytes (recvd_msg_buf d) (unat (recvd_msg_len d))),
                   topo_wait_done := True\<rparr>)"
    using h d by (simp add: recv_ok_def)
  moreover have "recv_ok (h\<lparr>wakeup_cmd := wk_cmd d, timeout_left := wk_timeout d, topo_wait_done := True\<rparr>)"
    using h by simp
  ultimately show ?thesis
    using b h by (auto simp: hdcp_lib_wakeup_def Let_def intro: recv_ok_dispatch)
qed

lemma recv_ok_feature_supported [hdcp_safe_rules]:
  "recv_ok h \<Longrightarrow> recv_ok (snd (hdcp_lib_client_feature_supported env h))"
  using recv_ok_load [of h env] recv_ok_unload
  by (auto simp: hdcp_lib_client_feature_supported_def split: prod.split)

lemma recv_ok_worker:
  "tee_bounded env \<Longrightarrow> recv_ok h \<Longrightarrow> kthread_worker_step env h = Some h' \<Longrightarrow> recv_ok h'"
  by (auto simp: kthread_worker_step_def hdcp_lib_run_work_def hdcp_lib_init_work_def
      hdcp_lib_msg_recvd_work_def hdcp_lib_manage_timeout_work_def hdcp_lib_cleanup_work_def
      hdcp_lib_query_stream_work_def hdcp_safe_rules split: option.splits list.splits hdcp_work.splits)

lemma recv_ok_event:
  "tee_bounded env \<Longrightarrow> client_event_ok e \<Longrightarrow> recv_ok h \<Longrightarrow> hdcp_event_step env e h = Some h' \<Longrightarrow>
   recv_ok h'"
proof (cases e)
  case Ev_worker
  then show "tee_bounded env \<Longrightarrow> client_event_ok e \<Longrightarrow> recv_ok h \<Longrightarrow> hdcp_event_step env e h = Some h' \<Longrightarrow>
   recv_ok h'"
    by (simp add: hdcp_event_step_def recv_ok_worker)
qed (auto simp: hdcp_event_step_def client_event_ok_def hdcp_lib_update_exec_type_def recv_ok_wakeup
      recv_ok_feature_supported recv_ok_topology split: if_splits)

lemma recv_ok_run_events:
  "tee_bounded env \<Longrightarrow> \<forall>e\<in>set es. client_event_ok e \<Longrightarrow> recv_ok h \<Longrightarrow> run_events env es h = Some h' \<Longrightarrow>
   recv_ok h'"
proof (induction es arbitrary: h)
  case Nil then show ?case by simp
next
  case (Cons e es)
  then show ?case by (auto split: option.splits intro: recv_ok_event)
qed

lemma mem_fault_wrappers [simp]:
  "mem_fault (snd (hdcp_lib_txmtr_deinit env h)) = mem_fault h"
  "mem_fault (snd (hdcp_lib_library_unload env h)) = mem_fault h"
  "mem_fault (hdcp_lib_wakeup_client cd h) = mem_fault h"
  by (simp_all add: hdcp_lib_txmtr_deinit_def hdcp_lib_library_unload_def hdcp_lib_wakeup_client_def
      qseecom_send_command_def Let_def split: prod.split)

lemma mem_fault_clean [simp]: "mem_fault (hdcp_lib_clean env h) = mem_fault h"
  by (simp add: hdcp_lib_clean_def Let_def)

lemma mem_fault_kept:
  "mem_fault h \<Longrightarrow> mem_fault (hdcp_lib_execute_clean env h)"
  "mem_fault h \<Longrightarrow> mem_fault (msg_recvd_exit env c rc h)"
  "mem_fault h \<Longrightarrow> mem_fault (store_tx_message m l t h)"
  "mem_fault h \<Longrightarrow> mem_fault (check_repeater r h)"
  by (simp_all add: hdcp_lib_execute_clean_def hdcp_lib_execute_def msg_recvd_exit_def Let_def
      store_tx_message_def check_repeater_def)

lemma msg_recvd_copy_fault:
  assumes "qseecom_handle h" "\<not> hdcp_off h" "last_msg_recvd_len h \<noteq> 0"
    and "kzalloc_ok env (io_trace h) (unat (last_msg_recvd_len h))"
    and "last_msg_recvd_buf h = None \<or> overflows MAX_RX_MESSAGE_SIZE (last_msg_recvd_len h)"
  shows "mem_fault (hdcp_lib_msg_recvd env h)"
  using assms
  by (simp add: hdcp_lib_msg_recvd_def qseecom_send_command_def Let_def mem_fault_kept
      if_distrib [of mem_fault])

subsection \<open>Properties of the library\<close>

lemma hdcp_reachable_fresh: "hdcp_reachable env (fresh_handle teth cw)"
  by (rule hdcp_reachable.registered [of "\<lparr>reg_txmtr_ops = True, reg_client_ops = Some cw,
        reg_hdcp_ctx = True, reg_tethered = teth\<rparr>"]) (simp add: hdcp_library_register_eq)

text \<open>
  No reachable handle ever has \<open>HDCP_STATE_ERROR\<close> set: the enum declares an error state that no code path of the driver sets.
\<close>

theorem reachable_no_error_state:
  "hdcp_reachable env h \<Longrightarrow> \<not> flag_set (hdcp_state h) HDCP_STATE_ERROR"
  using hdcp_reachable_inv by (simp add: hdcp_inv_def)

theorem reachable_no_error_state_witness:
  "\<not> flag_set (hdcp_state (fresh_handle False True)) HDCP_STATE_ERROR"
  by (rule reachable_no_error_state [OF hdcp_reachable_fresh [of coop_env]])

text \<open>
  C2 (a loaded application has a channel): in every reachable handle, whenever \<open>HDCP_STATE_APP_LOADED\<close> is set the secure-channel handle is allocated, so no command is sent on a freed channel while the state says loaded.
\<close>

theorem reachable_app_loaded_has_channel:
  "hdcp_reachable env h \<Longrightarrow> app_loaded h \<Longrightarrow> qseecom_handle h"
  using hdcp_reachable_inv by (simp add: hdcp_inv_def)

theorem reachable_app_loaded_has_channel_witness:
  "qseecom_handle (snd (hdcp_lib_wakeup coop_env (wk HDCP_LIB_WKUP_CMD_START) (fresh_handle True True)))"
proof -
  have r: "hdcp_reachable coop_env (snd (hdcp_lib_wakeup coop_env (wk HDCP_LIB_WKUP_CMD_START) (fresh_handle True True)))"
    by (rule hdcp_reachable.step [OF hdcp_reachable_fresh, of _ "Ev_wakeup (wk HDCP_LIB_WKUP_CMD_START)"])
       (simp add: hdcp_event_step_def)
  have "app_loaded (snd (hdcp_lib_wakeup coop_env (wk HDCP_LIB_WKUP_CMD_START) (fresh_handle True True)))"
    by code_simp
  then show ?thesis by (rule reachable_app_loaded_has_channel [OF r])
qed

lemma hdcp_library_register_fresh:
  "hdcp_library_register a b rc d = (0, Some h, p) \<Longrightarrow> h = fresh_handle (reg_tethered d) (the (reg_client_ops d))"
  by (auto simp: hdcp_library_register_eq split: if_splits option.splits)

lemma recv_ok_fresh: "recv_ok (fresh_handle teth cw)"
  by (simp add: recv_ok_def fresh_handle_def)

text \<open>
  C1 (memory safety): memory safety: when every response of the secure world fits the 129-byte transmit buffer, every allocation succeeds and every message the client passes has at most \<open>MAX_RX_MESSAGE_SIZE\<close> bytes, no interleaving of client calls and worker steps from a registered handle ever writes past a buffer or copies from a \<open>NULL\<close> buffer.
\<close>

theorem no_memory_fault:
  assumes "tee_bounded env" "\<forall>e\<in>set es. client_event_ok e"
    and "hdcp_library_register True True 0 d = (0, Some h, True)" "run_events env es h = Some h'"
  shows "\<not> mem_fault h'"
proof -
  have "recv_ok h" using hdcp_library_register_fresh [OF assms(3)] by (simp add: recv_ok_fresh)
  from recv_ok_run_events [OF assms(1,2) this assms(4)] show ?thesis by (simp add: recv_ok_def)
qed

lemma coop_env_bounded: "tee_bounded coop_env"
  by (simp add: tee_bounded_def coop_env_def answering_def echo_rsp_def hdcp_consts)

lemma demo_run: "run_events coop_env demo_events (fresh_handle True True) \<noteq> None"
  by code_simp

lemma demo_events_ok: "\<forall>e\<in>set demo_events. client_event_ok e"
  by code_simp

theorem no_memory_fault_witness:
  "\<exists>h'. run_events coop_env demo_events (fresh_handle True True) = Some h' \<and> \<not> mem_fault h'"
proof -
  obtain h' where r: "run_events coop_env demo_events (fresh_handle True True) = Some h'"
    using demo_run by auto
  have "\<not> mem_fault h'"
    by (rule no_memory_fault [OF coop_env_bounded demo_events_ok _ r,
          of "\<lparr>reg_txmtr_ops = True, reg_client_ops = Some True, reg_hdcp_ctx = True, reg_tethered = True\<rparr>"])
       (simp add: hdcp_library_register_eq)
  then show ?thesis using r by blast
qed


text \<open>
  \<open>hdcp_lib_check_valid_state\<close> rejects nothing but a busy \<open>START\<close>: after \<open>STOP\<close> a stale \<open>MSG_SEND_SUCCESS\<close> is still dispatched, returns 0 and the client is asked to receive the next message.
\<close>

theorem wakeup_after_stop_dispatches:
  assumes "hdcp_off h" "tethered h" "client_ops_wakeup h"
    and "wk_cmd d = HDCP_LIB_WKUP_CMD_MSG_SEND_SUCCESS" "recvd_msg_len d = 0"
    and "uint (byte_at (listener_buf h) 0) \<noteq> SKE_SEND_EKS_MESSAGE_ID"
      "uint (byte_at (listener_buf h) 0) \<noteq> REPEATER_AUTH_SEND_ACK_MESSAGE_ID"
  shows "fst (hdcp_lib_wakeup env d h) = 0
         \<and> notifications (io_trace (snd (hdcp_lib_wakeup env d h))) =
             notifications (io_trace h) @ [HDMI_HDCP_WKUP_CMD_RECV_MESSAGE]"
  using assms
  by (simp add: hdcp_lib_wakeup_def Let_def hdcp_lib_check_valid_state_def hdcp_lib_wakeup_dispatch_def
      hdcp_lib_execute_def hdcp_lib_msg_sent_def hdcp_lib_wakeup_client_def cdata_of_def emit_def)

theorem wakeup_after_stop_dispatches_witness:
  "fst (hdcp_lib_wakeup coop_env (wk HDCP_LIB_WKUP_CMD_MSG_SEND_SUCCESS) ((fresh_handle True True)\<lparr>hdcp_off := True\<rparr>)) = 0
   \<and> notifications (io_trace (snd (hdcp_lib_wakeup coop_env (wk HDCP_LIB_WKUP_CMD_MSG_SEND_SUCCESS)
        ((fresh_handle True True)\<lparr>hdcp_off := True\<rparr>)))) =
     notifications (io_trace ((fresh_handle True True)\<lparr>hdcp_off := True\<rparr>)) @ [HDMI_HDCP_WKUP_CMD_RECV_MESSAGE]"
  by (rule wakeup_after_stop_dispatches) (simp_all add: wk_def fresh_handle_def byte_at_def hdcp_consts)

text \<open>
  A \<open>START\<close> rejected with \<open>-EBUSY\<close> still overwrites \<open>wakeup_cmd\<close>, so the pending \<open>msg_sent\<close> work of the previous command finds the wrong command and does nothing: the worker only dequeues it.
\<close>

theorem rejected_start_drops_queued_msg_sent:
  assumes "work_list h = [WK_MSG_SENT]" "current_work h = None" "wk_cmd d = HDCP_LIB_WKUP_CMD_START"
  shows "fst (hdcp_lib_wakeup env d h) = - EBUSY
         \<and> kthread_worker_step env (snd (hdcp_lib_wakeup env d h)) =
             Some ((snd (hdcp_lib_wakeup env d h))\<lparr>work_list := []\<rparr>)"
  using assms
  by (simp add: hdcp_lib_wakeup_def Let_def hdcp_lib_check_valid_state_def kthread_worker_step_def
      hdcp_lib_run_work_def hdcp_lib_msg_sent_work_def hdcp_consts)

theorem rejected_start_drops_queued_msg_sent_witness:
  "fst (hdcp_lib_wakeup coop_env (wk HDCP_LIB_WKUP_CMD_START)
        ((fresh_handle False True)\<lparr>work_list := [WK_MSG_SENT], wakeup_cmd := HDCP_LIB_WKUP_CMD_MSG_SEND_SUCCESS\<rparr>)) = - EBUSY
   \<and> kthread_worker_step coop_env (snd (hdcp_lib_wakeup coop_env (wk HDCP_LIB_WKUP_CMD_START)
        ((fresh_handle False True)\<lparr>work_list := [WK_MSG_SENT], wakeup_cmd := HDCP_LIB_WKUP_CMD_MSG_SEND_SUCCESS\<rparr>))) =
     Some ((snd (hdcp_lib_wakeup coop_env (wk HDCP_LIB_WKUP_CMD_START)
        ((fresh_handle False True)\<lparr>work_list := [WK_MSG_SENT], wakeup_cmd := HDCP_LIB_WKUP_CMD_MSG_SEND_SUCCESS\<rparr>)))\<lparr>work_list := []\<rparr>)"
  by (rule rejected_start_drops_queued_msg_sent) (simp_all add: wk_def fresh_handle_def)

text \<open>
  C31 (feature query unloads a live session): the first \<open>feature_supported\<close> query during a running session unloads the application and frees the secure channel while the session stays on with \<open>TXMTR_INIT\<close> set, and the client is not told.
\<close>

theorem feature_query_unloads_active_session:
  assumes coop: "tee_cooperates env"
    and st: "\<not> feature_supported h" "app_loaded h" "txmtr_inited h" "qseecom_handle h" "\<not> hdcp_off h"
  shows "fst (hdcp_lib_client_feature_supported env h)
         \<and> \<not> app_loaded (snd (hdcp_lib_client_feature_supported env h))
         \<and> \<not> qseecom_handle (snd (hdcp_lib_client_feature_supported env h))
         \<and> txmtr_inited (snd (hdcp_lib_client_feature_supported env h))
         \<and> \<not> hdcp_off (snd (hdcp_lib_client_feature_supported env h))
         \<and> notifications (io_trace (snd (hdcp_lib_client_feature_supported env h))) = notifications (io_trace h)"
  using coop st
  by (simp add: tee_cooperates_def hdcp_lib_client_feature_supported_def hdcp_lib_library_load_def
      hdcp_lib_library_unload_def qseecom_send_command_def Let_def emit_def flag_set_clear_same
      flag_set_clear_other)

theorem feature_query_unloads_active_session_witness:
  "fst (hdcp_lib_client_feature_supported coop_env (active_handle True))
   \<and> \<not> app_loaded (snd (hdcp_lib_client_feature_supported coop_env (active_handle True)))
   \<and> \<not> qseecom_handle (snd (hdcp_lib_client_feature_supported coop_env (active_handle True)))
   \<and> txmtr_inited (snd (hdcp_lib_client_feature_supported coop_env (active_handle True)))
   \<and> \<not> hdcp_off (snd (hdcp_lib_client_feature_supported coop_env (active_handle True)))
   \<and> notifications (io_trace (snd (hdcp_lib_client_feature_supported coop_env (active_handle True)))) =
     notifications (io_trace (active_handle True))"
  by (rule feature_query_unloads_active_session)
     (simp_all add: coop_env_def tee_cooperates_def answering_def echo_rsp_def active_handle_def
      fresh_handle_def flag_set_def hdcp_consts)
text \<open>
  \<open>START\<close> on a session whose application is loaded resets \<open>hdcp_state\<close> and starts the application again without deinitialising the transmitter or unloading the application first.
\<close>

theorem start_while_loaded_restarts_app:
  assumes coop: "tee_cooperates env"
    and msg: "\<forall>t. rsp_msglen (snd (tz_send env t (Req_init HDCP_TXMTR_INIT))) \<noteq> 0"
    and st: "tethered h" "work_list h = []" "app_loaded h"
    and d: "wk_cmd d = HDCP_LIB_WKUP_CMD_START" "recvd_msg_len d = 0"
  shows "\<exists>new. io_trace (snd (hdcp_lib_wakeup env d h)) = io_trace h @ new
           \<and> TzStartApp TZAPP_NAME \<in> set new \<and> TzShutdownApp \<notin> set new
           \<and> Req_deinit HDCP_LIB_DEINIT None \<notin> set (tz_commands new)"
  using coop msg st d
  by (simp add: tee_cooperates_def hdcp_lib_wakeup_def Let_def hdcp_lib_check_valid_state_def
      hdcp_lib_wakeup_dispatch_def hdcp_lib_execute_def hdcp_lib_init_def hdcp_lib_library_load_def
      hdcp_lib_txmtr_init_def qseecom_send_command_def emit_def store_tx_message_def
      hdcp_lib_send_message_def hdcp_lib_wakeup_client_def hdcp_cmd_vals flag_set_or_same
      flag_set_or_other hdcp_consts flag_set_def)

theorem start_while_loaded_restarts_app_witness:
  "\<exists>new. io_trace (snd (hdcp_lib_wakeup coop_env (wk HDCP_LIB_WKUP_CMD_START) (active_handle True))) =
          io_trace (active_handle True) @ new
     \<and> TzStartApp TZAPP_NAME \<in> set new \<and> TzShutdownApp \<notin> set new
     \<and> Req_deinit HDCP_LIB_DEINIT None \<notin> set (tz_commands new)"
  by (rule start_while_loaded_restarts_app)
     (simp_all add: coop_env_def tee_cooperates_def answering_def echo_rsp_def active_handle_def
      fresh_handle_def wk_def flag_set_def hdcp_consts)
text \<open>
  C30 (allocation failure leaves a dangling length): when \<open>hdcp_lib_wakeup\<close> cannot allocate the copy of a received message it returns \<open>-ENOMEM\<close> but keeps the new length with a \<open>NULL\<close> buffer; a later \<open>hdcp_lib_msg_recvd\<close> whose allocation succeeds copies from that \<open>NULL\<close> buffer.
\<close>

theorem wakeup_enomem_then_recvd_faults:
  assumes d: "wk_cmd d \<noteq> HDCP_LIB_WKUP_CMD_START" "recvd_msg_len d \<noteq> 0"
    and fail: "\<not> kzalloc_ok env (io_trace h) (unat (recvd_msg_len d))"
    and later: "kzalloc_ok env' (io_trace h) (unat (recvd_msg_len d))"
    and st: "qseecom_handle h" "\<not> hdcp_off h"
  shows "fst (hdcp_lib_wakeup env d h) = - ENOMEM
         \<and> last_msg_recvd_buf (snd (hdcp_lib_wakeup env d h)) = None
         \<and> mem_fault (hdcp_lib_msg_recvd env' (snd (hdcp_lib_wakeup env d h)))"
proof -
  have w: "hdcp_lib_wakeup env d h =
             (- ENOMEM, h\<lparr>wakeup_cmd := wk_cmd d, timeout_left := wk_timeout d,
                          last_msg_recvd_len := recvd_msg_len d, last_msg_recvd_buf := None\<rparr>)"
    using d fail by (simp add: hdcp_lib_wakeup_def Let_def hdcp_lib_check_valid_state_def)
  show ?thesis unfolding w using d later st by (simp add: msg_recvd_copy_fault)
qed
theorem wakeup_enomem_then_recvd_faults_witness:
  "fst (hdcp_lib_wakeup (coop_env\<lparr>kzalloc_ok := (\<lambda>t n. False)\<rparr>)
         (msg_wk HDCP_LIB_WKUP_CMD_MSG_RECV_SUCCESS [3, 0, 0]) (active_handle True)) = - ENOMEM
   \<and> last_msg_recvd_buf (snd (hdcp_lib_wakeup (coop_env\<lparr>kzalloc_ok := (\<lambda>t n. False)\<rparr>)
         (msg_wk HDCP_LIB_WKUP_CMD_MSG_RECV_SUCCESS [3, 0, 0]) (active_handle True))) = None
   \<and> mem_fault (hdcp_lib_msg_recvd coop_env (snd (hdcp_lib_wakeup (coop_env\<lparr>kzalloc_ok := (\<lambda>t n. False)\<rparr>)
         (msg_wk HDCP_LIB_WKUP_CMD_MSG_RECV_SUCCESS [3, 0, 0]) (active_handle True))))"
  by (rule wakeup_enomem_then_recvd_faults)
     (simp_all add: coop_env_def answering_def msg_wk_def active_handle_def fresh_handle_def)
text \<open>
  A registration whose thread starts stores a live handle in the client's
  context, and deregistering that context frees it without fault.
\<close>

lemma register_then_deregister_frees:
  assumes "reg_txmtr_ops d" "reg_client_ops d \<noteq> None" "reg_hdcp_ctx d"
    and "hdcp_library_register_mem True True 0 d m = (rc, m')"
  shows "rc = 0 \<and> hdcp_ctx m' = Some (next_addr m) \<and> lib_heap m' (next_addr m) \<noteq> None
         \<and> heap_fault (hdcp_library_deregister (hdcp_ctx m') m') = heap_fault m"
  using assms
  by (auto simp: hdcp_library_register_mem_def hdcp_library_deregister_def Let_def)

text \<open>
  C32 (registration publishes a freed handle): when the worker thread cannot be started, \<open>hdcp_library_register\<close> returns the thread's error after having stored the new handle in \<open>*data->hdcp_ctx\<close> and freed it, so the client's context points to freed memory, and deregistering that context stops a freed thread and frees the handle a second time.
\<close>

theorem register_thread_failure_publishes_freed_handle:
  assumes "reg_txmtr_ops d" "reg_client_ops d \<noteq> None" "reg_hdcp_ctx d" "thread_rc \<noteq> 0"
    and "hdcp_library_register_mem True True thread_rc d m = (rc, m')"
  shows "rc = thread_rc \<and> hdcp_ctx m' = Some (next_addr m) \<and> lib_heap m' (next_addr m) = None
         \<and> heap_fault (hdcp_library_deregister (hdcp_ctx m') m')"
  using assms
  by (auto simp: hdcp_library_register_mem_def hdcp_library_deregister_def Let_def)

theorem register_thread_failure_publishes_freed_handle_witness:
  "hdcp_library_register_mem True True (- 4)
     \<lparr>reg_txmtr_ops = True, reg_client_ops = Some True, reg_hdcp_ctx = True, reg_tethered = False\<rparr>
     empty_lib_mem =
     (- 4, \<lparr>lib_heap = Map.empty, next_addr = 1, hdcp_ctx = Some 0, heap_fault = False\<rparr>)
   \<and> heap_fault (hdcp_library_deregister (Some 0)
       \<lparr>lib_heap = Map.empty, next_addr = 1, hdcp_ctx = Some 0, heap_fault = False\<rparr>)"
proof -
  have r: "hdcp_library_register_mem True True (- 4)
     \<lparr>reg_txmtr_ops = True, reg_client_ops = Some True, reg_hdcp_ctx = True, reg_tethered = False\<rparr>
     empty_lib_mem =
     (- 4, \<lparr>lib_heap = Map.empty, next_addr = 1, hdcp_ctx = Some 0, heap_fault = False\<rparr>)"
    by (simp add: hdcp_library_register_mem_def empty_lib_mem_def)
  have "heap_fault (hdcp_library_deregister (Some 0)
       \<lparr>lib_heap = Map.empty, next_addr = 1, hdcp_ctx = Some 0, heap_fault = False\<rparr>)"
    using register_thread_failure_publishes_freed_handle [OF _ _ _ _ r] by (simp add: empty_lib_mem_def)
  with r show ?thesis by blast
qed

text \<open>
  When no wakeup completes the topology wait of a repeater session, the worker tears the session down and the client gets one \<open>STATUS_FAILED\<close>.
\<close>

theorem topology_wait_timeout_tears_down:
  assumes "\<not> hdcp_off h" "client_ops_wakeup h" "tethered h"
  shows "notifications (io_trace (hdcp_lib_topology_wait_end env (hdcp_lib_topology_wait_begin h))) =
           notifications (io_trace h) @ [HDMI_HDCP_WKUP_CMD_STATUS_FAILED]
         \<and> hdcp_off (hdcp_lib_topology_wait_end env (hdcp_lib_topology_wait_begin h))"
  using assms
  by (simp add: hdcp_lib_topology_wait_begin_def hdcp_lib_topology_wait_end_def hdcp_lib_execute_clean_def
      hdcp_lib_execute_def clean_trace_notifications)

theorem topology_wait_timeout_tears_down_witness:
  "notifications (io_trace (hdcp_lib_topology_wait_end coop_env (hdcp_lib_topology_wait_begin (active_handle True)))) =
     notifications (io_trace (active_handle True)) @ [HDMI_HDCP_WKUP_CMD_STATUS_FAILED]
   \<and> hdcp_off (hdcp_lib_topology_wait_end coop_env (hdcp_lib_topology_wait_begin (active_handle True)))"
  by (rule topology_wait_timeout_tears_down) (simp_all add: active_handle_def fresh_handle_def)

end
