(* ===== verification/HDCP1.thy ===== *)
theory HDCP1
  imports HDCP_Secure_Channel
begin

unbundle bit_operations_syntax

text \<open>
  The HDCP 1.x key provisioning of \<open>src/drivers/misc/hdcp.c\<close> (lines 1362--1462):
  \<open>hdcp1_check_if_supported_load_app\<close>, \<open>hdcp1_set_keys\<close> and
  \<open>hdcp1_set_enc\<close>.  They share the module globals \<open>hdcp1_handle\<close> and
  \<open>hdcp1_supported\<close> (lines 390--391), a record here, with the trace of what
  they asked of the secure world; the secure world is the same \<open>tee_env\<close> as
  for HDCP 2.2.  An output pointer that may be \<open>NULL\<close> is a \<open>bool\<close>
  argument, and the written values are returned.
\<close>

definition HDCP1_APP_NAME :: string where "HDCP1_APP_NAME = ''hdcp1''"

definition ENOKEY :: int where [hdcp_consts]: "ENOKEY = 126"

record hdcp1_globals =
  hdcp1_handle :: bool
  hdcp1_supported :: bool
  hdcp1_trace :: "io_event list"

definition hdcp1_init_globals :: hdcp1_globals where
  "hdcp1_init_globals = \<lparr>hdcp1_handle = False, hdcp1_supported = True, hdcp1_trace = []\<rparr>"

text \<open>
  \<open>qseecom_start_app\<close> leaves the handle \<open>NULL\<close> on failure; a failure
  clears \<open>hdcp1_supported\<close> for good.
\<close>

definition hdcp1_check_if_supported_load_app :: "tee_env \<Rightarrow> hdcp1_globals \<Rightarrow> bool \<times> hdcp1_globals" where
  "hdcp1_check_if_supported_load_app env g =
     (let g = (if hdcp1_supported g \<and> \<not> hdcp1_handle g
               then let rc = tz_start_app env (hdcp1_trace g) HDCP1_APP_NAME;
                        g = g\<lparr>hdcp1_trace := hdcp1_trace g @ [TzStartApp HDCP1_APP_NAME],
                              hdcp1_handle := (rc = 0)\<rparr>
                    in if rc \<noteq> 0 then g\<lparr>hdcp1_supported := False\<rparr> else g
               else g)
      in (hdcp1_supported g, g))"

text \<open>The eight \<open>ksv\<close> bytes of the response structure.\<close>

definition hdcp1_ksv :: "tz_rsp \<Rightarrow> bytes" where
  "hdcp1_ksv rsp = take HDCP1_AKSV_SIZE (rsp_ksv rsp @ replicate HDCP1_AKSV_SIZE 0)"

text \<open>\<open>ksv[i] << 24 | ksv[i+1] << 16 | ksv[i+2] << 8 | ksv[i+3]\<close>.\<close>

definition be32 :: "bytes \<Rightarrow> nat \<Rightarrow> u32" where
  "be32 ksv i = push_bit 24 (ucast (ksv ! i)) OR push_bit 16 (ucast (ksv ! (i + 1))) OR
                push_bit 8 (ucast (ksv ! (i + 2))) OR ucast (ksv ! (i + 3))"

definition hdcp1_set_keys ::
  "tee_env \<Rightarrow> bool \<Rightarrow> bool \<Rightarrow> hdcp1_globals \<Rightarrow> int \<times> (u32 \<times> u32) option \<times> hdcp1_globals" where
  "hdcp1_set_keys env aksv_msb aksv_lsb g =
     (if \<not> aksv_msb \<or> \<not> aksv_lsb then (- EINVAL, None, g)
      else if \<not> hdcp1_supported g \<or> \<not> hdcp1_handle g then (- EINVAL, None, g)
      else let req = Req_hdcp1_key_set HDCP1_SET_KEY_MESSAGE_ID;
               (rc, rsp) = tz_send env (hdcp1_trace g) req;
               g = g\<lparr>hdcp1_trace := hdcp1_trace g @ [TzCommand req]\<rparr>
           in if rc < 0 then (- ENOKEY, None, g)
              else if rsp_ret rsp \<noteq> 0 then (- ENOKEY, None, g)
              else (0, Some (be32 (hdcp1_ksv rsp) 0, be32 (hdcp1_ksv rsp) 4), g))"

definition hdcp1_set_enc :: "tee_env \<Rightarrow> bool \<Rightarrow> hdcp1_globals \<Rightarrow> int \<times> hdcp1_globals" where
  "hdcp1_set_enc env enable g =
     (if \<not> hdcp1_supported g \<or> \<not> hdcp1_handle g then (- EINVAL, g)
      else let req = Req_hdcp1_set_enc HDCP1_SET_ENC_MESSAGE_ID (of_bool enable);
               (rc, rsp) = tz_send env (hdcp1_trace g) req;
               g = g\<lparr>hdcp1_trace := hdcp1_trace g @ [TzCommand req]\<rparr>
           in if rc < 0 then (- EINVAL, g)
              else if rsp_ret rsp \<noteq> 0 then (- EINVAL, g)
              else (0, g))"

text \<open>Splitting a 32-bit word back into its four bytes, most significant first.\<close>

definition be32_bytes :: "u32 \<Rightarrow> bytes" where
  "be32_bytes w = [ucast (drop_bit 24 w), ucast (drop_bit 16 w), ucast (drop_bit 8 w), ucast w]"

section \<open>Fixtures\<close>

definition hdcp1_demo_rsp :: "u32 \<Rightarrow> tz_rsp" where
  "hdcp1_demo_rsp ret = \<lparr>rsp_status = 0, rsp_commandid = 0, rsp_ctxhandle = 0, rsp_state = 0, rsp_timeout = 0,
     rsp_flag = 0, rsp_msglen = 0, rsp_msg = [], rsp_ret = ret,
     rsp_ksv = [0x12, 0x34, 0x56, 0x78, 0x9A, 0xBC, 0xDE, 0xF0]\<rparr>"

definition hdcp1_demo_env :: "int \<Rightarrow> tee_env" where
  "hdcp1_demo_env start_rc = \<lparr>tz_send = (\<lambda>_ _. (0, hdcp1_demo_rsp 0)), tz_start_app = (\<lambda>_ _. start_rc),
     tz_shutdown_app = (\<lambda>_. 0), kzalloc_ok = (\<lambda>_ _. True)\<rparr>"

section \<open>Lemmas\<close>

lemma u8_high_bit [simp]: "8 \<le> m \<Longrightarrow> bit (x::u8) m = False"
  using bit_imp_le_length [of x m] by auto

lemma be32_byte0:
  fixes a b c d :: u8
  shows "(ucast (drop_bit 24 (push_bit 24 (ucast a) OR push_bit 16 (ucast b) OR push_bit 8 (ucast c) OR ucast d :: u32)) :: u8) = a"
  by (rule bit_word_eqI) (auto simp: bit_simps)

lemma be32_byte1:
  fixes a b c d :: u8
  shows "(ucast (drop_bit 16 (push_bit 24 (ucast a) OR push_bit 16 (ucast b) OR push_bit 8 (ucast c) OR ucast d :: u32)) :: u8) = b"
  by (rule bit_word_eqI) (auto simp: bit_simps)

lemma be32_byte2:
  fixes a b c d :: u8
  shows "(ucast (drop_bit 8 (push_bit 24 (ucast a) OR push_bit 16 (ucast b) OR push_bit 8 (ucast c) OR ucast d :: u32)) :: u8) = c"
  by (rule bit_word_eqI) (auto simp: bit_simps)

lemma be32_byte3:
  fixes a b c d :: u8
  shows "(ucast (push_bit 24 (ucast a) OR push_bit 16 (ucast b) OR push_bit 8 (ucast c) OR ucast d :: u32) :: u8) = d"
  by (rule bit_word_eqI) (auto simp: bit_simps)

lemma be32_bytes_be32: "be32_bytes (be32 ksv i) = [ksv ! i, ksv ! (i + 1), ksv ! (i + 2), ksv ! (i + 3)]"
  unfolding be32_bytes_def be32_def by (simp only: be32_byte0 be32_byte1 be32_byte2 be32_byte3)

lemma hdcp1_ksv_exact: "length (rsp_ksv rsp) = HDCP1_AKSV_SIZE \<Longrightarrow> hdcp1_ksv rsp = rsp_ksv rsp"
  by (simp add: hdcp1_ksv_def)

lemma eight_bytes:
  "length (xs :: bytes) = 8 \<Longrightarrow>
   [xs ! 0, xs ! 1, xs ! 2, xs ! 3] @ [xs ! 4, xs ! 5, xs ! 6, xs ! 7] = xs"
  by (simp add: list_eq_iff_nth_eq nth_append less_Suc_eq numeral_eq_Suc)

text \<open>
  C35 (roundtrip): when \<open>hdcp1_set_keys\<close> succeeds on a response with eight
  \<open>ksv\<close> bytes, splitting \<open>*aksv_msb\<close> and \<open>*aksv_lsb\<close> back into bytes, most
  significant first, gives exactly the \<open>ksv\<close> of the response.
\<close>

theorem hdcp1_set_keys_aksv_roundtrip:
  assumes "hdcp1_set_keys env True True g = (0, Some (msb, lsb), g')"
    and "length (rsp_ksv (snd (tz_send env (hdcp1_trace g) (Req_hdcp1_key_set HDCP1_SET_KEY_MESSAGE_ID)))) = 8"
  shows "be32_bytes msb @ be32_bytes lsb =
         rsp_ksv (snd (tz_send env (hdcp1_trace g) (Req_hdcp1_key_set HDCP1_SET_KEY_MESSAGE_ID)))"
proof -
  let ?rsp = "snd (tz_send env (hdcp1_trace g) (Req_hdcp1_key_set HDCP1_SET_KEY_MESSAGE_ID))"
  define k where "k = rsp_ksv ?rsp"
  have "msb = be32 (hdcp1_ksv ?rsp) 0" "lsb = be32 (hdcp1_ksv ?rsp) 4"
    using assms(1) by (auto simp: hdcp1_set_keys_def Let_def EINVAL_def ENOKEY_def split: prod.splits if_splits)
  then have "be32_bytes msb @ be32_bytes lsb = [k ! 0, k ! 1, k ! 2, k ! 3] @ [k ! 4, k ! 5, k ! 6, k ! 7]"
    using assms(2) by (simp add: be32_bytes_be32 hdcp1_ksv_exact hdcp_consts k_def numeral_eq_Suc)
  also have "\<dots> = k" by (rule eight_bytes) (simp add: k_def assms(2))
  finally show ?thesis by (simp add: k_def)
qed

theorem hdcp1_set_keys_aksv_roundtrip_witness:
  "hdcp1_set_keys (hdcp1_demo_env 0) True True (snd (hdcp1_check_if_supported_load_app (hdcp1_demo_env 0) hdcp1_init_globals))
     = (0, Some (0x12345678, 0x9ABCDEF0), snd (snd (hdcp1_set_keys (hdcp1_demo_env 0) True True
                                   (snd (hdcp1_check_if_supported_load_app (hdcp1_demo_env 0) hdcp1_init_globals)))))
   \<and> be32_bytes 0x12345678 @ be32_bytes 0x9ABCDEF0 = [0x12, 0x34, 0x56, 0x78, 0x9A, 0xBC, 0xDE, 0xF0]"
proof -
  let ?g = "snd (hdcp1_check_if_supported_load_app (hdcp1_demo_env 0) hdcp1_init_globals)"
  have r: "hdcp1_set_keys (hdcp1_demo_env 0) True True ?g
           = (0, Some (0x12345678, 0x9ABCDEF0), snd (snd (hdcp1_set_keys (hdcp1_demo_env 0) True True ?g)))"
    by (simp add: hdcp1_set_keys_def hdcp1_check_if_supported_load_app_def hdcp1_init_globals_def
                  hdcp1_demo_env_def hdcp1_demo_rsp_def hdcp1_ksv_def be32_def hdcp_consts)
  have "be32_bytes 0x12345678 @ be32_bytes 0x9ABCDEF0 =
        rsp_ksv (snd (tz_send (hdcp1_demo_env 0) (hdcp1_trace ?g) (Req_hdcp1_key_set HDCP1_SET_KEY_MESSAGE_ID)))"
    by (rule hdcp1_set_keys_aksv_roundtrip [OF r]) (simp add: hdcp1_demo_env_def hdcp1_demo_rsp_def)
  then show ?thesis using r by (simp add: hdcp1_demo_env_def hdcp1_demo_rsp_def)
qed

text \<open>
  C28 (error): after one failed \<open>qseecom_start_app\<close>, \<open>hdcp1_supported\<close> stays false: no later
  query loads the application again, and key provisioning fails with
  \<open>-EINVAL\<close> whatever the secure world would now answer.
\<close>

theorem hdcp1_load_failure_sticky:
  assumes "tz_start_app env [] HDCP1_APP_NAME \<noteq> 0"
  shows "fst (hdcp1_check_if_supported_load_app env hdcp1_init_globals) = False \<and>
         hdcp1_check_if_supported_load_app env' (snd (hdcp1_check_if_supported_load_app env hdcp1_init_globals))
           = (False, snd (hdcp1_check_if_supported_load_app env hdcp1_init_globals)) \<and>
         fst (hdcp1_set_keys env' True True (snd (hdcp1_check_if_supported_load_app env hdcp1_init_globals))) = - EINVAL"
  using assms by (simp add: hdcp1_check_if_supported_load_app_def hdcp1_init_globals_def hdcp1_set_keys_def)

theorem hdcp1_load_failure_sticky_witness:
  "fst (hdcp1_check_if_supported_load_app (hdcp1_demo_env (- 22)) hdcp1_init_globals) = False \<and>
   fst (hdcp1_set_keys (hdcp1_demo_env 0) True True
          (snd (hdcp1_check_if_supported_load_app (hdcp1_demo_env (- 22)) hdcp1_init_globals))) = - EINVAL"
  using hdcp1_load_failure_sticky [of "hdcp1_demo_env (- 22)" "hdcp1_demo_env 0"]
  by (simp add: hdcp1_demo_env_def)

end
