(* ===== verification/CPR4_Fuses.thy ===== *)
theory CPR4_Fuses
  imports HDCP_Prelude
begin

unbundle bit_operations_syntax

text \<open>
  The fuse layer of the CPR4 APSS regulator, \<open>src/drivers/regulator/cpr4-apss-regulator.c\<close>
  (lines 38--305): the fuse-parameter tables, \<open>cpr3_read_fuse_param\<close> from the
  shared CPR3 library (not under \<open>src/\<close>, modelled from its contract), the
  read-out \<open>cpr4_msmtitanium_apss_read_fuse_data\<close> and the conversion of a
  signed voltage fuse to microvolts.  Fuse rows are 64-bit words read through
  \<open>readq\<close>; the fuse memory is a function from row numbers to rows.
\<close>

section \<open>Constants\<close>

definition MSMTITANIUM_APSS_FUSE_CORNERS :: nat where [hdcp_consts]: "MSMTITANIUM_APSS_FUSE_CORNERS = 4"
definition CPR4_MSMTITANIUM_APSS_FUSE_COMBO_COUNT :: int where [hdcp_consts]:
  "CPR4_MSMTITANIUM_APSS_FUSE_COMBO_COUNT = 64"

text \<open>\<open>enum cpr4_msmtitanium_apss_fuse_corner\<close> and the corner names.\<close>

definition CPR4_MSMTITANIUM_APSS_FUSE_CORNER_LOWSVS :: nat where "CPR4_MSMTITANIUM_APSS_FUSE_CORNER_LOWSVS = 0"
definition CPR4_MSMTITANIUM_APSS_FUSE_CORNER_SVS :: nat where "CPR4_MSMTITANIUM_APSS_FUSE_CORNER_SVS = 1"
definition CPR4_MSMTITANIUM_APSS_FUSE_CORNER_NOM :: nat where "CPR4_MSMTITANIUM_APSS_FUSE_CORNER_NOM = 2"
definition CPR4_MSMTITANIUM_APSS_FUSE_CORNER_TURBO_L1 :: nat where "CPR4_MSMTITANIUM_APSS_FUSE_CORNER_TURBO_L1 = 3"

definition cpr4_msmtitanium_apss_fuse_corner_name :: "string list" where
  "cpr4_msmtitanium_apss_fuse_corner_name = [''LowSVS'', ''SVS'', ''NOM'', ''TURBO_L1'']"

definition MSMTITANIUM_APSS_FUSE_STEP_VOLT :: int where [hdcp_consts]: "MSMTITANIUM_APSS_FUSE_STEP_VOLT = 10000"
definition MSMTITANIUM_APSS_VOLTAGE_FUSE_SIZE :: nat where [hdcp_consts]: "MSMTITANIUM_APSS_VOLTAGE_FUSE_SIZE = 6"
definition MSMTITANIUM_APSS_QUOT_OFFSET_SCALE :: u64 where [hdcp_consts]: "MSMTITANIUM_APSS_QUOT_OFFSET_SCALE = 5"
definition MSMTITANIUM_APSS_CPR_SENSOR_COUNT :: nat where [hdcp_consts]: "MSMTITANIUM_APSS_CPR_SENSOR_COUNT = 13"
definition MSMTITANIUM_APSS_CPR_CLOCK_RATE :: nat where [hdcp_consts]: "MSMTITANIUM_APSS_CPR_CLOCK_RATE = 19200000"
definition MSMTITANIUM_APSS_MAX_TEMP_POINTS :: int where [hdcp_consts]: "MSMTITANIUM_APSS_MAX_TEMP_POINTS = 3"
definition MSMTITANIUM_APSS_TEMP_SENSOR_ID_START :: nat where [hdcp_consts]: "MSMTITANIUM_APSS_TEMP_SENSOR_ID_START = 4"
definition MSMTITANIUM_APSS_TEMP_SENSOR_ID_END :: nat where [hdcp_consts]: "MSMTITANIUM_APSS_TEMP_SENSOR_ID_END = 13"
definition MSMTITANIUM_APSS_BOOST_FUSE_REF_VOLT :: int where [hdcp_consts]: "MSMTITANIUM_APSS_BOOST_FUSE_REF_VOLT = 1140000"
definition MSMTITANIUM_APSS_BOOST_CEILING_VOLT :: int where [hdcp_consts]: "MSMTITANIUM_APSS_BOOST_CEILING_VOLT = 1140000"
definition MSMTITANIUM_APSS_BOOST_FLOOR_VOLT :: int where [hdcp_consts]: "MSMTITANIUM_APSS_BOOST_FLOOR_VOLT = 900000"
definition MAX_BOOST_CONFIG_FUSE_VALUE :: nat where [hdcp_consts]: "MAX_BOOST_CONFIG_FUSE_VALUE = 8"
definition MSMTITANIUM_APSS_CPR_SDELTA_CORE_COUNT :: int where [hdcp_consts]: "MSMTITANIUM_APSS_CPR_SDELTA_CORE_COUNT = 15"

text \<open>\<open>boost_fuse[]\<close>: which values of the boost configuration fuse enable boost.\<close>

definition boost_fuse :: "bool list" where
  "boost_fuse = [False, True, True, True, True, True, True, True]"

text \<open>Open-loop reference voltages of the four fuse corners, in microvolts.\<close>

definition msmtitanium_apss_fuse_ref_volt :: "int list" where
  "msmtitanium_apss_fuse_ref_volt = [645000, 720000, 865000, 1065000]"

section \<open>Fuse parameter tables\<close>

text \<open>
  \<open>struct cpr3_fuse_param\<close>: bits \<open>bit_start..bit_end\<close> of fuse row \<open>row\<close>.  A
  table is the list of segments before its all-zero terminator \<open>{}\<close>.
\<close>

record cpr3_fuse_param =
  fp_row :: nat
  fp_bit_start :: nat
  fp_bit_end :: nat

definition fseg :: "nat \<Rightarrow> nat \<Rightarrow> nat \<Rightarrow> cpr3_fuse_param" where
  "fseg r s e = \<lparr>fp_row = r, fp_bit_start = s, fp_bit_end = e\<rparr>"

definition msmtitanium_apss_ro_sel_param :: "cpr3_fuse_param list list" where
  "msmtitanium_apss_ro_sel_param = [[fseg 73 12 15], [fseg 73 8 11], [fseg 73 4 7], [fseg 73 0 3]]"

definition msmtitanium_apss_init_voltage_param :: "cpr3_fuse_param list list" where
  "msmtitanium_apss_init_voltage_param = [[fseg 71 24 29], [fseg 71 18 23], [fseg 71 12 17], [fseg 71 6 11]]"

definition msmtitanium_apss_target_quot_param :: "cpr3_fuse_param list list" where
  "msmtitanium_apss_target_quot_param = [[fseg 72 44 55], [fseg 72 32 43], [fseg 72 20 31], [fseg 72 8 19]]"

definition msmtitanium_apss_quot_offset_param :: "cpr3_fuse_param list list" where
  "msmtitanium_apss_quot_offset_param = [[], [fseg 71 46 52], [fseg 71 39 45], [fseg 71 32 38]]"

definition msmtitanium_cpr_fusing_rev_param :: "cpr3_fuse_param list" where
  "msmtitanium_cpr_fusing_rev_param = [fseg 71 53 55]"

definition msmtitanium_apss_speed_bin_param :: "cpr3_fuse_param list" where
  "msmtitanium_apss_speed_bin_param = [fseg 36 40 42]"

definition msmtitanium_cpr_boost_fuse_cfg_param :: "cpr3_fuse_param list" where
  "msmtitanium_cpr_boost_fuse_cfg_param = [fseg 36 43 45]"

definition msmtitanium_apss_boost_fuse_volt_param :: "cpr3_fuse_param list" where
  "msmtitanium_apss_boost_fuse_volt_param = [fseg 71 0 5]"

section \<open>Reading a fuse parameter\<close>

text \<open>
  \<open>cpr3_read_fuse_param\<close> (CPR3 library): each segment is checked
  (\<open>bit_start \<le> bit_end \<le> 63\<close>, at most 64 bits in total), its bits are shifted
  down and masked, and placed above the bits of the segments before it.
\<close>

definition MAX_FUSE_ROW_BIT :: nat where [hdcp_consts]: "MAX_FUSE_ROW_BIT = 63"

fun cpr3_read_fuse_segs :: "(nat \<Rightarrow> u64) \<Rightarrow> nat \<Rightarrow> cpr3_fuse_param list \<Rightarrow> int + u64" where
  "cpr3_read_fuse_segs rows bits_total [] = Inr 0"
| "cpr3_read_fuse_segs rows bits_total (p # ps) =
     (if fp_bit_start p > fp_bit_end p \<or> fp_bit_end p > MAX_FUSE_ROW_BIT then Inl (- EINVAL)
      else
        let bits = fp_bit_end p - fp_bit_start p + 1
        in if bits_total + bits > 64 then Inl (- EINVAL)
           else
             let v = drop_bit (fp_bit_start p) (rows (fp_row p)) AND mask bits
             in case cpr3_read_fuse_segs rows (bits_total + bits) ps of
                  Inl rc \<Rightarrow> Inl rc
                | Inr r \<Rightarrow> Inr (push_bit bits_total v OR r))"

definition cpr3_read_fuse_param :: "(nat \<Rightarrow> u64) \<Rightarrow> cpr3_fuse_param list \<Rightarrow> int + u64" where
  "cpr3_read_fuse_param rows ps = cpr3_read_fuse_segs rows 0 ps"

section \<open>The fuse read-out\<close>

text \<open>\<open>struct cpr4_msmtitanium_apss_fuses\<close>: one list entry per fuse corner.\<close>

record cpr4_msmtitanium_apss_fuses =
  ro_sel :: "u64 list"
  init_voltage :: "u64 list"
  target_quot :: "u64 list"
  quot_offset :: "u64 list"
  speed_bin :: u64
  cpr_fusing_rev :: u64
  boost_cfg :: u64
  boost_voltage :: u64

text \<open>
  The loop over the fuse corners of \<open>cpr4_msmtitanium_apss_read_fuse_data\<close>:
  for each corner, in order, its initial voltage, target quotient, RO select and
  quotient offset; the first failing read ends the function.
\<close>

fun cpr4_read_corner_fuses ::
  "(nat \<Rightarrow> u64) \<Rightarrow> nat list \<Rightarrow> int + (u64 list \<times> u64 list \<times> u64 list \<times> u64 list)" where
  "cpr4_read_corner_fuses rows [] = Inr ([], [], [], [])"
| "cpr4_read_corner_fuses rows (i # corners) =
     (case cpr3_read_fuse_param rows (msmtitanium_apss_init_voltage_param ! i) of Inl rc \<Rightarrow> Inl rc | Inr iv \<Rightarrow>
      case cpr3_read_fuse_param rows (msmtitanium_apss_target_quot_param ! i) of Inl rc \<Rightarrow> Inl rc | Inr tq \<Rightarrow>
      case cpr3_read_fuse_param rows (msmtitanium_apss_ro_sel_param ! i) of Inl rc \<Rightarrow> Inl rc | Inr ro \<Rightarrow>
      case cpr3_read_fuse_param rows (msmtitanium_apss_quot_offset_param ! i) of Inl rc \<Rightarrow> Inl rc | Inr qo \<Rightarrow>
      case cpr4_read_corner_fuses rows corners of
        Inl rc \<Rightarrow> Inl rc
      | Inr (ivs, tqs, ros, qos) \<Rightarrow> Inr (iv # ivs, tq # tqs, ro # ros, qo # qos))"

text \<open>
  \<open>cpr4_msmtitanium_apss_read_fuse_data\<close>: allocate the fuse structure
  (\<open>alloc_ok\<close>), read every parameter, and compute \<open>fuse_combo\<close>, an \<open>int\<close>
  assigned from the \<open>u64\<close> sum (its low 32 bits, signed).  The result is the
  fuse structure and \<open>vreg->fuse_combo\<close>.
\<close>

definition cpr4_msmtitanium_apss_read_fuse_data ::
  "bool \<Rightarrow> (nat \<Rightarrow> u64) \<Rightarrow> int + (cpr4_msmtitanium_apss_fuses \<times> int)" where
  "cpr4_msmtitanium_apss_read_fuse_data alloc_ok rows =
     (if \<not> alloc_ok then Inl (- ENOMEM) else
      case cpr3_read_fuse_param rows msmtitanium_apss_speed_bin_param of Inl rc \<Rightarrow> Inl rc | Inr sb \<Rightarrow>
      case cpr3_read_fuse_param rows msmtitanium_cpr_fusing_rev_param of Inl rc \<Rightarrow> Inl rc | Inr fusing_rev \<Rightarrow>
      case cpr4_read_corner_fuses rows [0..<MSMTITANIUM_APSS_FUSE_CORNERS] of Inl rc \<Rightarrow> Inl rc
      | Inr (ivs, tqs, ros, qos) \<Rightarrow>
      case cpr3_read_fuse_param rows msmtitanium_cpr_boost_fuse_cfg_param of Inl rc \<Rightarrow> Inl rc | Inr bc \<Rightarrow>
      case cpr3_read_fuse_param rows msmtitanium_apss_boost_fuse_volt_param of Inl rc \<Rightarrow> Inl rc | Inr bv \<Rightarrow>
        let combo = sint (ucast (fusing_rev + 8 * sb) :: 32 word)
        in if combo \<ge> CPR4_MSMTITANIUM_APSS_FUSE_COMBO_COUNT then Inl (- EINVAL)
           else Inr (\<lparr>ro_sel = ros, init_voltage = ivs, target_quot = tqs, quot_offset = qos,
                      speed_bin = sb, cpr_fusing_rev = fusing_rev, boost_cfg = bc, boost_voltage = bv\<rparr>,
                     combo))"

section \<open>Voltage fuses\<close>

text \<open>
  \<open>cpr3_convert_open_loop_voltage_fuse\<close> (CPR3 library): a sign-magnitude fuse
  of \<open>fuse_len\<close> bits counts steps of \<open>step_volt\<close> from the reference.  The
  caller passes the \<open>u64\<close> fuse value as a \<open>u32\<close>.
\<close>

definition cpr3_convert_open_loop_voltage_fuse :: "int \<Rightarrow> int \<Rightarrow> 32 word \<Rightarrow> nat \<Rightarrow> int" where
  "cpr3_convert_open_loop_voltage_fuse ref_volt step_volt fuse fuse_len =
     (let sign = (if fuse AND push_bit (fuse_len - 1) 1 \<noteq> 0 then - 1 else 1);
          steps = uint (fuse AND mask (fuse_len - 1))
      in ref_volt + sign * steps * step_volt)"

text \<open>The fused open-loop voltage of fuse corner \<open>i\<close>.\<close>

definition cpr4_fused_open_loop_volt :: "cpr4_msmtitanium_apss_fuses \<Rightarrow> nat \<Rightarrow> int" where
  "cpr4_fused_open_loop_volt fuse i =
     cpr3_convert_open_loop_voltage_fuse (msmtitanium_apss_fuse_ref_volt ! i)
       MSMTITANIUM_APSS_FUSE_STEP_VOLT (ucast (init_voltage fuse ! i)) MSMTITANIUM_APSS_VOLTAGE_FUSE_SIZE"

section \<open>Device tree\<close>

text \<open>
  A device-tree node maps each property name to its cells (\<open>u32\<close> values);
  a property that is absent is \<open>None\<close>.  The accessors of \<open>linux/of.h\<close> are
  not under \<open>src/\<close> and are modelled from their documented results:
  \<open>of_find_property\<close> gives the property's length in bytes,
  \<open>of_property_read_bool\<close> its presence, and \<open>of_property_read_u32_array\<close>
  fails with \<open>-EINVAL\<close> when the property is absent, \<open>-ENODATA\<close> when it has
  no value and \<open>-EOVERFLOW\<close> when it is shorter than asked.
\<close>

type_synonym dt_node = "string \<Rightarrow> u32 list option"

definition ENODATA :: int where [hdcp_consts]: "ENODATA = 61"
definition EOVERFLOW :: int where [hdcp_consts]: "EOVERFLOW = 75"

definition of_find_property :: "dt_node \<Rightarrow> string \<Rightarrow> nat option" where
  "of_find_property node name = map_option (\<lambda>cells. 4 * length cells) (node name)"

definition of_property_read_bool :: "dt_node \<Rightarrow> string \<Rightarrow> bool" where
  "of_property_read_bool node name = (of_find_property node name \<noteq> None)"

definition of_property_read_u32_array :: "dt_node \<Rightarrow> string \<Rightarrow> nat \<Rightarrow> int + u32 list" where
  "of_property_read_u32_array node name n =
     (case node name of
        None \<Rightarrow> Inl (- EINVAL)
      | Some cells \<Rightarrow> if cells = [] then Inl (- ENODATA)
                      else if length cells < n then Inl (- EOVERFLOW) else Inr (take n cells))"

definition of_property_read_u32 :: "dt_node \<Rightarrow> string \<Rightarrow> int + u32" where
  "of_property_read_u32 node name = map_sum id hd (of_property_read_u32_array node name 1)"

text \<open>\<open>of_property_read_string\<close>: the string's characters are the cells.\<close>

definition of_property_read_string :: "dt_node \<Rightarrow> string \<Rightarrow> int + u32 list" where
  "of_property_read_string node name =
     (case node name of None \<Rightarrow> Inl (- EINVAL)
      | Some cells \<Rightarrow> if cells = [] then Inl (- ENODATA) else Inr cells)"

section \<open>Lemmas\<close>

lemma read_fuse_seg_single:
  "fp_bit_start p \<le> fp_bit_end p \<Longrightarrow> fp_bit_end p \<le> MAX_FUSE_ROW_BIT \<Longrightarrow>
   cpr3_read_fuse_param rows [p] =
     Inr (drop_bit (fp_bit_start p) (rows (fp_row p)) AND mask (fp_bit_end p - fp_bit_start p + 1))"
  by (simp add: cpr3_read_fuse_param_def MAX_FUSE_ROW_BIT_def)

lemma field_roundtrip:
  fixes w v :: u64
  assumes "s \<le> e" "e \<le> 63" "unat v < 2 ^ (e - s + 1)"
  shows "drop_bit s ((w AND NOT (push_bit s (mask (e - s + 1)))) OR push_bit s v) AND mask (e - s + 1) = v"
proof -
  have tv: "take_bit (e - s + 1) v = v"
    using assms(3) by (simp add: word_unat_eq_iff unsigned_take_bit_eq take_bit_nat_eq_self)
  show ?thesis
  proof (rule bit_word_eqI)
    fix i assume "i < LENGTH(64)"
    then show "bit (drop_bit s ((w AND NOT (push_bit s (mask (e - s + 1)))) OR push_bit s v) AND mask (e - s + 1)) i = bit v i"
      using assms(1,2) tv [THEN arg_cong [where f = "\<lambda>x. bit x i"]]
      by (auto simp: bit_and_iff bit_or_iff bit_not_iff bit_drop_bit_eq bit_push_bit_iff bit_mask_iff
          bit_take_bit_iff)
  qed
qed

lemma unat_and_mask_lt: "unat ((x::u64) AND mask n) < 2 ^ n"
  by (simp add: take_bit_eq_mask [symmetric] unsigned_take_bit_eq take_bit_nat_less_exp)

lemma sint_small:
  assumes "unat (w::32 word) < 2 ^ 31" shows "sint w = int (unat w)"
proof -
  have b: "uint w < 2 ^ 31" using assms by transfer simp
  have "sint w = signed_take_bit 31 (uint w)" by (simp add: sint_uint)
  also have "\<dots> = uint w"
    using b by (intro signed_take_bit_int_eq_self) (simp_all add: order.trans [of _ 0])
  finally show ?thesis by simp
qed

lemma combo_int:
  fixes r s :: u64
  assumes "unat r < 8" "unat s < 8"
  shows "sint (ucast (r + 8 * s) :: 32 word) = int (unat r + 8 * unat s)"
proof -
  have u: "unat (r + 8 * s) = unat r + 8 * unat s"
    using assms by (simp add: unat_word_ariths)
  have "unat (ucast (r + 8 * s) :: 32 word) = unat r + 8 * unat s"
    using assms by (simp add: unsigned_ucast_eq u take_bit_nat_eq_self)
  moreover have "unat r + 8 * unat s < 2 ^ 31" using assms by simp
  ultimately show ?thesis by (simp add: sint_small)
qed

lemma read_three_bits:
  "s \<le> 61 \<Longrightarrow> \<exists>v. cpr3_read_fuse_param rows [fseg r s (s + 2)] = Inr v \<and> unat v < 8"
  using unat_and_mask_lt [of "drop_bit s (rows r)" 3]
  by (simp add: read_fuse_seg_single fseg_def MAX_FUSE_ROW_BIT_def)


lemma read_fuse_seg [simp]:
  "cpr3_read_fuse_param rows [fseg r s e] =
     (if s \<le> e \<and> e \<le> 63 then Inr (drop_bit s (rows r) AND mask (e - s + 1)) else Inl (- EINVAL))"
  by (auto simp add: cpr3_read_fuse_param_def fseg_def MAX_FUSE_ROW_BIT_def)

lemma read_fuse_nil [simp]: "cpr3_read_fuse_param rows [] = Inr 0"
  by (simp add: cpr3_read_fuse_param_def)

lemma unat_and_mask3 [simp]: "unat ((x::u64) AND mask 3) < 8"
  using unat_and_mask_lt [of x 3] by simp

lemma uint_and_mask3 [simp]: "uint ((x::u64) AND mask 3) < 8"
  using unat_and_mask3 [of x] by transfer simp

lemmas of_defs = of_find_property_def of_property_read_bool_def of_property_read_u32_array_def
  of_property_read_u32_def of_property_read_string_def

lemmas fuse_tables = msmtitanium_apss_ro_sel_param_def msmtitanium_apss_init_voltage_param_def
  msmtitanium_apss_target_quot_param_def msmtitanium_apss_quot_offset_param_def
  msmtitanium_cpr_fusing_rev_param_def msmtitanium_apss_speed_bin_param_def
  msmtitanium_cpr_boost_fuse_cfg_param_def msmtitanium_apss_boost_fuse_volt_param_def

text \<open>
  C22 (the fuse read-out never fails): with the allocation succeeding, \<open>cpr4_msmtitanium_apss_read_fuse_data\<close> reads every parameter of the driver's tables without error, for any fuse contents; the speed bin, fusing revision and boost configuration are 3-bit values, so \<open>fuse_combo = cpr_fusing_rev + 8 * speed_bin\<close> is below 64 and the \<open>-EINVAL\<close> check on it never fires, and \<open>boost_fuse[boost_cfg]\<close> is always in bounds.
\<close>

theorem read_fuse_data_total:
  "\<exists>fuse. cpr4_msmtitanium_apss_read_fuse_data True rows =
          Inr (fuse, int (unat (cpr_fusing_rev fuse) + 8 * unat (speed_bin fuse)))
     \<and> unat (speed_bin fuse) < 8 \<and> unat (cpr_fusing_rev fuse) < 8
     \<and> unat (boost_cfg fuse) < MAX_BOOST_CONFIG_FUSE_VALUE
     \<and> length (ro_sel fuse) = MSMTITANIUM_APSS_FUSE_CORNERS
     \<and> length (init_voltage fuse) = MSMTITANIUM_APSS_FUSE_CORNERS
     \<and> length (target_quot fuse) = MSMTITANIUM_APSS_FUSE_CORNERS
     \<and> length (quot_offset fuse) = MSMTITANIUM_APSS_FUSE_CORNERS
     \<and> quot_offset fuse ! CPR4_MSMTITANIUM_APSS_FUSE_CORNER_LOWSVS = 0"
  by (simp add: cpr4_msmtitanium_apss_read_fuse_data_def fuse_tables combo_int hdcp_consts
      CPR4_MSMTITANIUM_APSS_FUSE_CORNER_LOWSVS_def upt_rec Let_def)
     (insert uint_and_mask3 [of "drop_bit 53 (rows 71)"] uint_and_mask3 [of "drop_bit 40 (rows 36)"], linarith)


text \<open>
  Fuse field round trip: writing a value of \<open>bit_end - bit_start + 1\<close> bits into bits \<open>bit_start..bit_end\<close> of a fuse row and reading the one-segment parameter back with \<open>cpr3_read_fuse_param\<close> returns the value.
\<close>

theorem read_fuse_param_roundtrip:
  assumes "s \<le> e" "e \<le> 63" "unat v < 2 ^ (e - s + 1)"
  shows "cpr3_read_fuse_param
           (rows(r := (rows r AND NOT (push_bit s (mask (e - s + 1)))) OR push_bit s v)) [fseg r s e] = Inr v"
  using field_roundtrip [OF assms, of "rows r"] assms by simp

theorem read_fuse_param_roundtrip_witness:
  "cpr3_read_fuse_param ((\<lambda>_. 0)(36 := ((0::u64) AND NOT (push_bit 40 (mask (42 - 40 + 1)))) OR push_bit 40 5))
     [fseg 36 40 42] = Inr 5"
  by (rule read_fuse_param_roundtrip) simp_all

lemma uint_and_mask_lt: "uint ((x::'a::len word) AND mask n) < 2 ^ n"
  by (simp add: take_bit_eq_mask [symmetric] unsigned_take_bit_eq take_bit_int_less_exp)

lemma convert_open_loop_voltage_fuse_bound:
  assumes "0 \<le> step"
  shows "\<bar>cpr3_convert_open_loop_voltage_fuse ref step f len - ref\<bar> \<le> (2 ^ (len - 1) - 1) * step"
proof -
  define k where "k = uint (f AND mask (len - 1))"
  have k: "0 \<le> k" "k \<le> 2 ^ (len - 1) - 1" using uint_and_mask_lt [of f "len - 1"] by (simp_all add: k_def)
  have "\<bar>cpr3_convert_open_loop_voltage_fuse ref step f len - ref\<bar> = k * step"
    using k assms by (simp add: cpr3_convert_open_loop_voltage_fuse_def Let_def k_def abs_mult)
  also have "\<dots> \<le> (2 ^ (len - 1) - 1) * step" using k assms by (simp add: mult_right_mono)
  finally show ?thesis .
qed

text \<open>
  The open-loop voltage decoded from a 6-bit sign-magnitude fuse of each fuse corner is within 31 steps of 10 mV (310 mV) of the corner's reference voltage.
\<close>

theorem fused_open_loop_volt_bounds:
  "i < MSMTITANIUM_APSS_FUSE_CORNERS \<Longrightarrow>
   \<bar>cpr4_fused_open_loop_volt fuse i - msmtitanium_apss_fuse_ref_volt ! i\<bar> \<le> 310000"
  using convert_open_loop_voltage_fuse_bound [of MSMTITANIUM_APSS_FUSE_STEP_VOLT
      "msmtitanium_apss_fuse_ref_volt ! i" "ucast (init_voltage fuse ! i)" MSMTITANIUM_APSS_VOLTAGE_FUSE_SIZE]
  by (simp add: cpr4_fused_open_loop_volt_def hdcp_consts)

theorem fused_open_loop_volt_bounds_witness:
  "\<bar>cpr4_fused_open_loop_volt \<lparr>ro_sel = [], init_voltage = [63, 0, 0, 0], target_quot = [], quot_offset = [],
      speed_bin = 0, cpr_fusing_rev = 0, boost_cfg = 0, boost_voltage = 0\<rparr> 0
     - msmtitanium_apss_fuse_ref_volt ! 0\<bar> \<le> 310000"
  by (rule fused_open_loop_volt_bounds) (simp add: hdcp_consts)

text \<open>
  \<open>cpr3_read_fuse_param\<close> returns \<open>-EINVAL\<close> for a segment whose start bit is above its end bit or whose end bit is past bit 63, before reading anything.
\<close>

theorem read_fuse_param_invalid_segment:
  "fp_bit_start p > fp_bit_end p \<or> fp_bit_end p > MAX_FUSE_ROW_BIT \<Longrightarrow>
   cpr3_read_fuse_param rows (p # ps) = Inl (- EINVAL)"
  by (auto simp: cpr3_read_fuse_param_def)

theorem read_fuse_param_invalid_segment_witness:
  "cpr3_read_fuse_param (\<lambda>_. 0) [fseg 71 12 6] = Inl (- EINVAL)"
  by (rule read_fuse_param_invalid_segment) (simp add: fseg_def)

end
