(* ===== verification/CPR4_Voltages.thy ===== *)
theory CPR4_Voltages
  imports CPR4_Fuses "HOL-Library.Signed_Division"
begin

unbundle bit_operations_syntax

text \<open>
  The per-corner voltage and quotient computations of
  \<open>src/drivers/regulator/cpr4-apss-regulator.c\<close>:
  \<open>cpr4_msmtitanium_apss_calculate_open_loop_voltages\<close>,
  \<open>cpr4_msmtitanium_apss_set_no_interpolation_quotients\<close> and
  \<open>cpr4_msmtitanium_apss_calculate_target_quotients\<close>.  A CPR3 regulator is a
  record with its list of corners.  The functions of the shared CPR3 library that
  these call (\<open>cpr3_interpolate\<close>, \<open>cpr3_quot_adjustment\<close>, the device-tree
  driven adjustments) are not under \<open>src/\<close>: they are the fields of
  \<open>cpr3_lib\<close>, a parameter of every definition, so that each theorem holds
  whatever they compute.  Each C loop over corners or fuse corners is a
  recursion over the index list, updating the arrays in place as the C code does.
\<close>

section \<open>Corners and regulators\<close>

text \<open>
  \<open>struct cpr4_sdelta\<close>: the per-corner boost data that
  \<open>cpr4_apss_parse_boost_properties\<close> writes.
\<close>

record cpr4_sdelta =
  sd_temp_band_count :: int
  boost_num_cores :: int
  boost_table :: "int list"
  sd_allow_boost :: bool
  sd_allow_core_count_adj :: bool

text \<open>
  \<open>struct cpr3_corner\<close>, the fields this driver reads or writes; the target
  quotients are one \<open>u32\<close> per ring oscillator (\<open>CPR3_RO_COUNT = 16\<close>).
\<close>

record cpr3_corner =
  floor_volt :: int
  ceiling_volt :: int
  open_loop_volt :: int
  proc_freq :: u32
  cpr_fuse_corner :: int
  corner_target_quot :: "32 word list"
  sdelta :: "cpr4_sdelta option"

record cpr3_regulator =
  corner :: "cpr3_corner list"
  fuse_corner_count :: nat
  fuse_combo :: int
  speed_bin_fuse :: u64
  cpr_rev_fuse :: u64
  platform_fuses :: "cpr4_msmtitanium_apss_fuses option"
  vreg_allow_boost :: bool
  allow_core_count_adj :: bool
  max_core_count :: int
  vreg_of_node :: dt_node

text \<open>
  The CPR3 library functions the driver calls.  A function that returns an
  error code and fills arrays returns \<open>Inl rc\<close> or the arrays.
\<close>

record cpr3_lib =
  cpr3_adjust_fused_open_loop_voltages :: "cpr3_regulator \<Rightarrow> int list \<Rightarrow> int + int list"
  cpr3_adjust_open_loop_voltages :: "cpr3_regulator \<Rightarrow> int + cpr3_regulator"
  cpr3_interpolate :: "u64 \<Rightarrow> u64 \<Rightarrow> u64 \<Rightarrow> u64 \<Rightarrow> u64 \<Rightarrow> u64"
  cpr3_quot_adjustment :: "int \<Rightarrow> int \<Rightarrow> int"
  cpr3_parse_closed_loop_voltage_adjustments ::
    "cpr3_regulator \<Rightarrow> int + (int list \<times> int list \<times> int list)"

section \<open>Open-loop voltages\<close>

text \<open>
  The override loop: a fuse corner whose voltage is below the one before it (as
  already overridden) takes that voltage.
\<close>

fun cpr4_fuse_volt_monotonic :: "int list \<Rightarrow> int list" where
  "cpr4_fuse_volt_monotonic (x # y # zs) = x # cpr4_fuse_volt_monotonic (max x y # zs)"
| "cpr4_fuse_volt_monotonic xs = xs"

text \<open>
  "Determine highest corner mapped to each fuse corner": corners are scanned from
  the highest down; \<open>j\<close> is the fuse corner looked for, and each hit records the
  corner in \<open>fmax_corner[j]\<close> and moves to \<open>j - 1\<close>.  The scan succeeds when
  \<open>j\<close> ends below 0.  \<open>fmax_corner\<close> starts zeroed (\<open>kcalloc\<close>).  Once
  \<open>j\<close> is \<open>-1\<close>, a corner of fuse corner \<open>-1\<close> would make the C code write
  \<open>fmax_corner[-1]\<close>, before the array; the model leaves the array unchanged
  there.  \<open>cpr3_parse_common_corner_data\<close> keeps fuse corners non-negative, so
  the write does not happen on a parsed regulator.
\<close>

fun cpr4_fmax_scan :: "cpr3_corner list \<Rightarrow> int \<Rightarrow> nat list \<Rightarrow> nat list \<Rightarrow> int \<times> nat list" where
  "cpr4_fmax_scan cs j fm [] = (j, fm)"
| "cpr4_fmax_scan cs j fm (i # ixs) =
     (if cpr_fuse_corner (cs ! i) = j
      then cpr4_fmax_scan cs (j - 1) (if 0 \<le> j then fm[nat j := i] else fm) ixs
      else cpr4_fmax_scan cs j fm ixs)"

definition cpr4_fmax_corner :: "cpr3_corner list \<Rightarrow> nat \<Rightarrow> int \<times> nat list" where
  "cpr4_fmax_corner cs n = cpr4_fmax_scan cs (int n - 1) (replicate n 0) (rev [0..<length cs])"

text \<open>
  What the scan is meant to compute: for each fuse corner \<open>k < n\<close>, the highest
  corner mapped to it.
\<close>

definition fmax_spec :: "cpr3_corner list \<Rightarrow> nat \<Rightarrow> nat list" where
  "fmax_spec cs n = map (\<lambda>k. Max (set (filter (\<lambda>i. cpr_fuse_corner (cs ! i) = int k) [0..<length cs]))) [0..<n]"

text \<open>Write \<open>f j\<close> into the open-loop voltage of corners \<open>lo..hi\<close>, in order.\<close>

definition set_open_loop_range ::
  "(nat \<Rightarrow> int) \<Rightarrow> nat \<Rightarrow> nat \<Rightarrow> cpr3_corner list \<Rightarrow> cpr3_corner list" where
  "set_open_loop_range f lo hi cs =
     fold (\<lambda>j cs. cs[j := (cs ! j)\<lparr>open_loop_volt := f j\<rparr>]) [lo..<Suc hi] cs"

text \<open>
  The interpolation loop: for each fuse corner \<open>i \<ge> 1\<close>, the corners above the
  Fmax corner of \<open>i - 1\<close> up to the Fmax corner of \<open>i\<close> get the voltage
  interpolated between the two Fmax frequencies.  The voltages are \<open>u64\<close>
  variables in C (\<open>volt_low = fuse_volt[i - 1]\<close>) and the result is stored
  back into an \<open>int\<close>.
\<close>

fun cpr4_interpolate_open_loop ::
  "cpr3_lib \<Rightarrow> int list \<Rightarrow> nat list \<Rightarrow> nat list \<Rightarrow> cpr3_corner list \<Rightarrow> cpr3_corner list" where
  "cpr4_interpolate_open_loop lib fv fm [] cs = cs"
| "cpr4_interpolate_open_loop lib fv fm (i # ixs) cs =
     (let freq_low = ucast (proc_freq (cs ! (fm ! (i - 1))));
          volt_low = word_of_int (fv ! (i - 1)) :: u64;
          freq_high = ucast (proc_freq (cs ! (fm ! i)));
          volt_high = word_of_int (fv ! i) :: u64;
          cs = set_open_loop_range
                 (\<lambda>j. sint (ucast (cpr3_interpolate lib freq_low volt_low freq_high volt_high
                                     (ucast (proc_freq (cs ! j)))) :: 32 word))
                 (fm ! (i - 1) + 1) (fm ! i) cs
      in cpr4_interpolate_open_loop lib fv fm ixs cs)"

text \<open>
  \<open>cpr4_msmtitanium_apss_calculate_open_loop_voltages\<close>: \<open>alloc_ok\<close> is the
  success of the two \<open>kcalloc\<close>s; \<open>allow_interpolation\<close> is read from the
  regulator's node.  On success the per-corner voltages go
  through \<open>cpr3_adjust_open_loop_voltages\<close>, as after the \<open>done\<close> label.
\<close>

definition cpr4_msmtitanium_apss_calculate_open_loop_voltages ::
  "cpr3_lib \<Rightarrow> bool \<Rightarrow> cpr3_regulator \<Rightarrow> int + cpr3_regulator" where
  "cpr4_msmtitanium_apss_calculate_open_loop_voltages lib alloc_ok vreg =
     (if \<not> alloc_ok then Inl (- ENOMEM) else
      let fuse = the (platform_fuses vreg);
          allow_interpolation = of_property_read_bool (vreg_of_node vreg) ''qcom,allow-voltage-interpolation'';
          n = fuse_corner_count vreg;
          fuse_volt = map (cpr4_fused_open_loop_volt fuse) [0..<n]
      in case cpr3_adjust_fused_open_loop_voltages lib vreg fuse_volt of
           Inl rc \<Rightarrow> Inl rc
         | Inr fuse_volt \<Rightarrow>
             let fuse_volt = cpr4_fuse_volt_monotonic fuse_volt
             in if \<not> allow_interpolation
                then cpr3_adjust_open_loop_voltages lib
                       (vreg\<lparr>corner := map (\<lambda>c. c\<lparr>open_loop_volt := fuse_volt ! nat (cpr_fuse_corner c)\<rparr>)
                                           (corner vreg)\<rparr>)
                else case cpr4_fmax_corner (corner vreg) n of
                  (j, fm) \<Rightarrow>
                    if j \<ge> 0 then Inl (- EINVAL)
                    else
                      let cs = set_open_loop_range (\<lambda>_. fuse_volt ! 0) 0 (fm ! 0) (corner vreg);
                          cs = cpr4_interpolate_open_loop lib fuse_volt fm [1..<n] cs
                      in cpr3_adjust_open_loop_voltages lib (vreg\<lparr>corner := cs\<rparr>))"

section \<open>Target quotients\<close>

text \<open>
  \<open>ro = fuse->ro_sel[fuse_corner]\<close>: the ring oscillator of a fuse corner, and
  reading and writing \<open>corner->target_quot[ro]\<close>.
\<close>

definition cpr4_corner_ro :: "cpr4_msmtitanium_apss_fuses \<Rightarrow> cpr3_corner \<Rightarrow> nat" where
  "cpr4_corner_ro fuse c = unat (ro_sel fuse ! nat (cpr_fuse_corner c))"

definition get_target_quot :: "nat \<Rightarrow> cpr3_corner \<Rightarrow> 32 word" where
  "get_target_quot ro c = corner_target_quot c ! ro"

definition set_target_quot :: "nat \<Rightarrow> 32 word \<Rightarrow> cpr3_corner \<Rightarrow> cpr3_corner" where
  "set_target_quot ro q c = c\<lparr>corner_target_quot := (corner_target_quot c)[ro := q]\<rparr>"

text \<open>
  \<open>cpr4_msmtitanium_apss_set_no_interpolation_quotients\<close>: every corner takes the
  fused quotient of its fuse corner plus the quotient adjustment for the fuse
  corner's and the corner's closed-loop voltage adjustments.  \<open>quot\<close> is a
  \<open>u32\<close> and \<open>quot + quot_adjust\<close> wraps as \<open>u32\<close>.
\<close>

definition cpr4_msmtitanium_apss_set_no_interpolation_quotients ::
  "cpr3_lib \<Rightarrow> int list \<Rightarrow> int list \<Rightarrow> int list \<Rightarrow> cpr3_regulator \<Rightarrow> int \<times> cpr3_regulator" where
  "cpr4_msmtitanium_apss_set_no_interpolation_quotients lib volt_adjust volt_adjust_fuse ro_scale vreg =
     (let fuse = the (platform_fuses vreg)
      in (0, vreg\<lparr>corner :=
            map (\<lambda>(i, c).
                   let fc = nat (cpr_fuse_corner c);
                       quot = ucast (target_quot fuse ! fc) :: 32 word;
                       quot_adjust = cpr3_quot_adjustment lib (ro_scale ! fc)
                                       (volt_adjust_fuse ! fc + volt_adjust ! i)
                   in set_target_quot (cpr4_corner_ro fuse c) (quot + word_of_int quot_adjust) c)
                (zip [0..<length (corner vreg)] (corner vreg))\<rparr>))"

text \<open>
  The first loop over fuse corners \<open>i \<ge> 1\<close>: \<open>quot_high[i]\<close> is the fused
  quotient; \<open>quot_low[i]\<close> is the previous corner's \<open>quot_high\<close> when both use
  the same ring oscillator, else \<open>quot_high[i]\<close> minus the scaled quotient
  offset, a \<open>u64\<close> subtraction; \<open>quot_high\<close> is raised to \<open>quot_low\<close> if below.
\<close>

fun cpr4_init_quot_bounds ::
  "cpr4_msmtitanium_apss_fuses \<Rightarrow> nat list \<Rightarrow> u64 list \<times> u64 list \<Rightarrow> u64 list \<times> u64 list" where
  "cpr4_init_quot_bounds fuse [] (ql, qh) = (ql, qh)"
| "cpr4_init_quot_bounds fuse (i # ixs) (ql, qh) =
     (let qh = qh[i := target_quot fuse ! i];
          ql = (if ro_sel fuse ! i = ro_sel fuse ! (i - 1) then ql[i := qh ! (i - 1)]
                else ql[i := qh ! i - quot_offset fuse ! i * MSMTITANIUM_APSS_QUOT_OFFSET_SCALE]);
          qh = (if qh ! i < ql ! i then qh[i := ql ! i] else qh)
      in cpr4_init_quot_bounds fuse ixs (ql, qh))"

text \<open>The second loop: per-fuse-corner quotient adjustment of both bounds.\<close>

fun cpr4_adjust_quot_bounds ::
  "cpr3_lib \<Rightarrow> cpr4_msmtitanium_apss_fuses \<Rightarrow> int list \<Rightarrow> int list \<Rightarrow> nat list \<Rightarrow>
   u64 list \<times> u64 list \<Rightarrow> u64 list \<times> u64 list" where
  "cpr4_adjust_quot_bounds lib fuse ro_scale vaf [] (ql, qh) = (ql, qh)"
| "cpr4_adjust_quot_bounds lib fuse ro_scale vaf (i # ixs) (ql, qh) =
     (let quot_adjust = cpr3_quot_adjustment lib (ro_scale ! i) (vaf ! i);
          qh = (if quot_adjust \<noteq> 0 then qh[i := qh ! i + word_of_int quot_adjust] else qh);
          ql = (if ro_sel fuse ! i = ro_sel fuse ! (i - 1) then ql[i := qh ! (i - 1)]
                else ql[i := ql ! i + word_of_int (cpr3_quot_adjustment lib (ro_scale ! i) (vaf ! (i - 1)))]);
          qh = (if qh ! i < ql ! i then qh[i := ql ! i] else qh)
      in cpr4_adjust_quot_bounds lib fuse ro_scale vaf ixs (ql, qh))"

text \<open>Write \<open>f j\<close> into \<open>target_quot[ro]\<close> of corners \<open>lo..hi\<close>.\<close>

definition set_quot_range ::
  "(nat \<Rightarrow> 32 word) \<Rightarrow> nat \<Rightarrow> nat \<Rightarrow> nat \<Rightarrow> cpr3_corner list \<Rightarrow> cpr3_corner list" where
  "set_quot_range f ro lo hi cs = fold (\<lambda>j cs. cs[j := set_target_quot ro (f j) (cs ! j)]) [lo..<Suc hi] cs"

text \<open>The third loop: interpolate the quotients of the corners of each fuse corner \<open>i \<ge> 1\<close>.\<close>

fun cpr4_interpolate_quot ::
  "cpr3_lib \<Rightarrow> cpr4_msmtitanium_apss_fuses \<Rightarrow> u64 list \<Rightarrow> u64 list \<Rightarrow> nat list \<Rightarrow> nat list \<Rightarrow>
   cpr3_corner list \<Rightarrow> cpr3_corner list" where
  "cpr4_interpolate_quot lib fuse ql qh fm [] cs = cs"
| "cpr4_interpolate_quot lib fuse ql qh fm (i # ixs) cs =
     (let freq_low = ucast (proc_freq (cs ! (fm ! (i - 1))));
          freq_high = ucast (proc_freq (cs ! (fm ! i)));
          cs = set_quot_range
                 (\<lambda>j. ucast (cpr3_interpolate lib freq_low (ql ! i) freq_high (qh ! i)
                              (ucast (proc_freq (cs ! j)))))
                 (unat (ro_sel fuse ! i)) (fm ! (i - 1) + 1) (fm ! i) cs
      in cpr4_interpolate_quot lib fuse ql qh fm ixs cs)"

text \<open>The fourth loop: per-corner quotient adjustment.\<close>

definition cpr4_adjust_corner_quots ::
  "cpr3_lib \<Rightarrow> cpr4_msmtitanium_apss_fuses \<Rightarrow> int list \<Rightarrow> int list \<Rightarrow> cpr3_corner list \<Rightarrow> cpr3_corner list" where
  "cpr4_adjust_corner_quots lib fuse ro_scale volt_adjust cs =
     map (\<lambda>(i, c).
            let ro = cpr4_corner_ro fuse c;
                quot_adjust = cpr3_quot_adjustment lib (ro_scale ! nat (cpr_fuse_corner c)) (volt_adjust ! i)
            in if quot_adjust \<noteq> 0
               then set_target_quot ro (get_target_quot ro c + word_of_int quot_adjust) c else c)
         (zip [0..<length cs] cs)"

text \<open>
  The last loop, "ensure that target quotients increase monotonically": a corner
  whose quotient is below that of the corner before it (already fixed), on the
  same ring oscillator, takes that quotient.
\<close>

fun cpr4_quot_monotonic :: "cpr4_msmtitanium_apss_fuses \<Rightarrow> cpr3_corner list \<Rightarrow> cpr3_corner list" where
  "cpr4_quot_monotonic fuse (c1 # c2 # cs) =
     c1 # cpr4_quot_monotonic fuse
            ((let ro = cpr4_corner_ro fuse c2
              in if cpr4_corner_ro fuse c1 = ro \<and> get_target_quot ro c2 < get_target_quot ro c1
                 then set_target_quot ro (get_target_quot ro c1) c2 else c2) # cs)"
| "cpr4_quot_monotonic fuse cs = cs"

text \<open>
  \<open>cpr4_msmtitanium_apss_calculate_target_quotients\<close>: \<open>alloc_ok\<close> is the
  success of the six \<open>kcalloc\<close>s; \<open>allow_interpolation\<close> is read from the
  regulator's node.  Without interpolation the function
  returns the result of \<open>cpr4_msmtitanium_apss_set_no_interpolation_quotients\<close>
  directly (skipping the \<open>kfree\<close>s of the \<open>done\<close> label).
\<close>

definition cpr4_msmtitanium_apss_calculate_target_quotients ::
  "cpr3_lib \<Rightarrow> bool \<Rightarrow> cpr3_regulator \<Rightarrow> int \<times> cpr3_regulator" where
  "cpr4_msmtitanium_apss_calculate_target_quotients lib alloc_ok vreg =
     (let allow_interpolation = of_property_read_bool (vreg_of_node vreg) ''qcom,allow-quotient-interpolation''
      in if \<not> alloc_ok then (- ENOMEM, vreg) else
      let fuse = the (platform_fuses vreg);
          n = fuse_corner_count vreg
      in case cpr3_parse_closed_loop_voltage_adjustments lib vreg of
           Inl rc \<Rightarrow> (rc, vreg)
         | Inr (volt_adjust, volt_adjust_fuse, ro_scale) \<Rightarrow>
             if \<not> allow_interpolation
             then cpr4_msmtitanium_apss_set_no_interpolation_quotients lib volt_adjust volt_adjust_fuse ro_scale vreg
             else case cpr4_fmax_corner (corner vreg) n of
               (j, fm) \<Rightarrow>
                 if j \<ge> 0 then (- EINVAL, vreg)
                 else
                   let quot_adjust = cpr3_quot_adjustment lib (ro_scale ! 0) (volt_adjust_fuse ! 0);
                       quot = ucast (target_quot fuse ! 0 + word_of_int quot_adjust) :: 32 word;
                       ql = (replicate n 0)[0 := ucast quot];
                       qh = (replicate n 0)[0 := ucast quot];
                       cs = set_quot_range (\<lambda>_. quot) (unat (ro_sel fuse ! 0)) 0 (fm ! 0) (corner vreg);
                       (ql, qh) = cpr4_init_quot_bounds fuse [1..<n] (ql, qh);
                       (ql, qh) = cpr4_adjust_quot_bounds lib fuse ro_scale volt_adjust_fuse [1..<n] (ql, qh);
                       cs = cpr4_interpolate_quot lib fuse ql qh fm [1..<n] cs;
                       cs = cpr4_adjust_corner_quots lib fuse ro_scale volt_adjust cs;
                       cs = cpr4_quot_monotonic fuse cs
                   in (0, vreg\<lparr>corner := cs\<rparr>))"

section \<open>Fixtures\<close>

text \<open>A small fused part and corner table for the witnesses.\<close>

definition demo_fuses :: cpr4_msmtitanium_apss_fuses where
  "demo_fuses = \<lparr>ro_sel = [1, 2, 2, 3], init_voltage = [0, 5, 33, 10], target_quot = [100, 300, 400, 600],
                  quot_offset = [0, 100, 10, 10], speed_bin = 0, cpr_fusing_rev = 0,
                  boost_cfg = 0, boost_voltage = 0\<rparr>"

definition demo_corner :: "int \<Rightarrow> u32 \<Rightarrow> 32 word \<Rightarrow> cpr3_corner" where
  "demo_corner fc f q = \<lparr>floor_volt = 0, ceiling_volt = 0, open_loop_volt = 0, proc_freq = f,
                         cpr_fuse_corner = fc, corner_target_quot = replicate 16 q, sdelta = None\<rparr>"

definition demo_lib :: cpr3_lib where
  "demo_lib = \<lparr>cpr3_adjust_fused_open_loop_voltages = (\<lambda>_ fv. Inr fv),
                cpr3_adjust_open_loop_voltages = Inr,
                cpr3_interpolate = (\<lambda>fl vl fh vh f. vl),
                cpr3_quot_adjustment = (\<lambda>_ _. 0),
                cpr3_parse_closed_loop_voltage_adjustments = (\<lambda>_. Inr ([], [], []))\<rparr>"

definition demo_interp_node :: dt_node where
  "demo_interp_node = (\<lambda>p. if p = ''qcom,allow-voltage-interpolation'' then Some [] else None)"

definition demo_vreg :: "dt_node \<Rightarrow> cpr3_corner list \<Rightarrow> cpr3_regulator" where
  "demo_vreg node cs = \<lparr>corner = cs, fuse_corner_count = 4, fuse_combo = 0, speed_bin_fuse = 0,
                   cpr_rev_fuse = 0, platform_fuses = Some demo_fuses, vreg_allow_boost = False,
                   allow_core_count_adj = False, max_core_count = 4, vreg_of_node = node\<rparr>"

lemmas cpr4_fixture_defs = demo_fuses_def demo_corner_def demo_lib_def demo_vreg_def demo_interp_node_def
  of_defs

section \<open>Lemmas\<close>

lemma length_fuse_volt_monotonic [simp]: "length (cpr4_fuse_volt_monotonic xs) = length xs"
  by (induction xs rule: cpr4_fuse_volt_monotonic.induct) simp_all

lemma fuse_volt_monotonic_hd: "xs \<noteq> [] \<Longrightarrow> hd (cpr4_fuse_volt_monotonic xs) = hd xs"
  by (cases xs rule: cpr4_fuse_volt_monotonic.cases) simp_all

lemma sorted_fuse_volt_monotonic: "sorted (cpr4_fuse_volt_monotonic xs)"
proof (induction xs rule: cpr4_fuse_volt_monotonic.induct)
  case (1 x y zs)
  have "hd (cpr4_fuse_volt_monotonic (max x y # zs)) = max x y" by (simp add: fuse_volt_monotonic_hd)
  then have "\<forall>z\<in>set (cpr4_fuse_volt_monotonic (max x y # zs)). x \<le> z"
    using 1 by (cases "cpr4_fuse_volt_monotonic (max x y # zs)")
      (fastforce intro: order_trans [OF max.cobounded1])+
  then show ?case using 1 by simp
qed simp_all

text \<open>
  C8 (equivalence): the in-place loop that raises each fused open-loop voltage to the
  one before it computes, at each fuse corner, the maximum of the fused voltages
  up to it.
\<close>

theorem fuse_volt_monotonic_prefix_max:
  "cpr4_fuse_volt_monotonic xs = map (\<lambda>i. Max (set (take (Suc i) xs))) [0..<length xs]"
proof (induction xs rule: cpr4_fuse_volt_monotonic.induct)
  case (1 x y zs)
  have "Max (set (take (Suc (Suc i)) (x # y # zs))) = Max (set (take (Suc i) (max x y # zs)))" for i
    by (cases i) (simp_all add: max_Max_insert)
  then show ?case using 1 by (simp add: map_upt_Suc del: upt_Suc)
qed simp_all

lemma fmax_scan_missing:
  "int k \<le> j \<Longrightarrow> \<forall>i\<in>set ixs. cpr_fuse_corner (cs ! i) \<noteq> int k \<Longrightarrow>
   int k \<le> fst (cpr4_fmax_scan cs j fm ixs)"
proof (induction ixs arbitrary: j fm)
  case (Cons i ixs)
  then show ?case by (cases "cpr_fuse_corner (cs ! i) = j") force+
qed simp

lemma fmax_scan_sound:
  assumes "\<forall>i\<in>set ixs. i < length cs \<and> 0 \<le> cpr_fuse_corner (cs ! i)" "length fm = n"
    and "\<forall>k<n. j < int k \<longrightarrow> fm ! k < length cs \<and> cpr_fuse_corner (cs ! (fm ! k)) = int k"
  shows "\<forall>k<n. fst (cpr4_fmax_scan cs j fm ixs) < int k \<longrightarrow>
           snd (cpr4_fmax_scan cs j fm ixs) ! k < length cs \<and>
           cpr_fuse_corner (cs ! (snd (cpr4_fmax_scan cs j fm ixs) ! k)) = int k"
  using assms
proof (induction ixs arbitrary: j fm)
  case (Cons i ixs)
  show ?case
  proof (cases "cpr_fuse_corner (cs ! i) = j")
    case True
    with Cons.prems have j: "0 \<le> j" "i < length cs" by auto
    have "\<forall>k<n. j - 1 < int k \<longrightarrow> fm[nat j := i] ! k < length cs \<and>
             cpr_fuse_corner (cs ! (fm[nat j := i] ! k)) = int k"
      using Cons.prems True j by (auto simp: nth_list_update)
    then show ?thesis using Cons True by simp
  qed (use Cons in simp)
qed simp

text \<open>
  Soundness of the scan: when every corner has a non-negative fuse corner and the
  backward scan finds every fuse corner, \<open>fmax_corner[k]\<close> is a corner of fuse corner \<open>k\<close>.
\<close>

theorem fmax_corner_sound:
  assumes "\<forall>c\<in>set cs. 0 \<le> cpr_fuse_corner c" "cpr4_fmax_corner cs n = (j, fm)" "j < 0"
  shows "\<forall>k<n. fm ! k < length cs \<and> cpr_fuse_corner (cs ! (fm ! k)) = int k"
proof -
  have "\<forall>i\<in>set (rev [0..<length cs]). i < length cs \<and> 0 \<le> cpr_fuse_corner (cs ! i)"
    using assms(1) by simp
  from fmax_scan_sound [OF this, of "replicate n 0" n "int n - 1"] assms(2,3)
  show ?thesis by (simp add: cpr4_fmax_corner_def)
qed

lemma fmax_scan_append:
  "cpr4_fmax_scan cs j fm (xs @ ys) = (case cpr4_fmax_scan cs j fm xs of (j', fm') \<Rightarrow> cpr4_fmax_scan cs j' fm' ys)"
  by (induction xs arbitrary: j fm) simp_all

lemma fmax_scan_skip:
  "\<forall>i\<in>set ixs. cpr_fuse_corner (cs ! i) \<noteq> j \<Longrightarrow> cpr4_fmax_scan cs j fm ixs = (j, fm)"
  by (induction ixs) simp_all

lemma fmax_scan_cong:
  "\<forall>i\<in>set ixs. cs ! i = cs' ! i \<Longrightarrow> cpr4_fmax_scan cs j fm ixs = cpr4_fmax_scan cs' j fm ixs"
  by (induction ixs arbitrary: j fm) simp_all

lemma fmax_spec_snoc_block:
  assumes "\<forall>c\<in>set cs1. cpr_fuse_corner c < int m" "cs2 \<noteq> []" "\<forall>c\<in>set cs2. cpr_fuse_corner c = int m"
  shows "fmax_spec (cs1 @ cs2) (Suc m) = fmax_spec cs1 m @ [length cs1 + length cs2 - 1]"
proof -
  have lo: "filter (\<lambda>i. cpr_fuse_corner ((cs1 @ cs2) ! i) = int k) [0..<length (cs1 @ cs2)] =
            filter (\<lambda>i. cpr_fuse_corner (cs1 ! i) = int k) [0..<length cs1]" if "k < m" for k
  proof -
    have "[0..<length (cs1 @ cs2)] = [0..<length cs1] @ [length cs1..<length cs1 + length cs2]"
      by (simp add: upt_add_eq_append [symmetric])
    moreover have "filter (\<lambda>i. cpr_fuse_corner ((cs1 @ cs2) ! i) = int k) [length cs1..<length cs1 + length cs2] = []"
      using assms(3) that by (auto simp: filter_empty_conv nth_append)
    ultimately show ?thesis by (auto simp: nth_append intro!: filter_cong)
  qed
  have hi: "Max (set (filter (\<lambda>i. cpr_fuse_corner ((cs1 @ cs2) ! i) = int m) [0..<length (cs1 @ cs2)]))
            = length cs1 + length cs2 - 1"
  proof (rule Max_eqI)
    show "length cs1 + length cs2 - 1 \<in> set (filter (\<lambda>i. cpr_fuse_corner ((cs1 @ cs2) ! i) = int m) [0..<length (cs1 @ cs2)])"
    proof -
      have "length cs1 \<le> length cs1 + length cs2 - 1" "length cs1 + length cs2 - 1 - length cs1 < length cs2"
        using assms(2) by (cases cs2; simp)+
      then show ?thesis using assms(3) by (auto simp: nth_append)
    qed
  qed auto
  have "fmax_spec (cs1 @ cs2) m = fmax_spec cs1 m"
    unfolding fmax_spec_def by (rule map_cong) (simp_all only: atLeastLessThan_iff set_upt lo)
  then show ?thesis
    using hi by (simp add: fmax_spec_def)
qed

lemma fmax_scan_top_block:
  assumes "cs2 \<noteq> []" "\<forall>c\<in>set cs2. cpr_fuse_corner c = j" "0 \<le> j" "nat j < length fm"
  shows "cpr4_fmax_scan (cs1 @ cs2) j fm (rev [length cs1..<length cs1 + length cs2]) =
         (j - 1, fm[nat j := length cs1 + length cs2 - 1])"
proof -
  obtain k where k: "length cs2 = Suc k" using assms(1) by (cases cs2) auto
  have "rev [length cs1..<length cs1 + length cs2] = (length cs1 + k) # rev [length cs1..<length cs1 + k]"
    using k by simp
  moreover have "cpr_fuse_corner ((cs1 @ cs2) ! (length cs1 + k)) = j"
    using assms(2) k by (simp add: nth_append)
  moreover have "\<forall>i\<in>set (rev [length cs1..<length cs1 + k]). cpr_fuse_corner ((cs1 @ cs2) ! i) \<noteq> j - 1"
    using assms(2) k by (auto simp: nth_append)
  ultimately show ?thesis
    using assms(3) k by (simp add: fmax_scan_skip)
qed

lemma sorted_fuse_corner_split:
  assumes "sorted (map cpr_fuse_corner cs)" "set (map cpr_fuse_corner cs) = int ` {0..<Suc m}"
  defines "cs1 \<equiv> takeWhile (\<lambda>c. cpr_fuse_corner c < int m) cs"
  defines "cs2 \<equiv> dropWhile (\<lambda>c. cpr_fuse_corner c < int m) cs"
  shows "cs = cs1 @ cs2" "sorted (map cpr_fuse_corner cs1)" "set (map cpr_fuse_corner cs1) = int ` {0..<m}"
    "cs2 \<noteq> []" "\<forall>c\<in>set cs2. cpr_fuse_corner c = int m" "\<forall>c\<in>set cs1. cpr_fuse_corner c < int m"
proof -
  show cs: "cs = cs1 @ cs2" by (simp add: cs1_def cs2_def)
  show "sorted (map cpr_fuse_corner cs1)"
    using assms(1) cs by (metis map_append sorted_append)
  show lt: "\<forall>c\<in>set cs1. cpr_fuse_corner c < int m"
    unfolding cs1_def by (meson set_takeWhileD)
  have s2: "sorted (map cpr_fuse_corner cs2)"
    using assms(1) cs by (metis map_append sorted_append)
  have ge: "\<forall>c\<in>set cs2. int m \<le> cpr_fuse_corner c"
  proof (cases cs2)
    case (Cons x rest)
    have "\<not> cpr_fuse_corner x < int m"
      using Cons unfolding cs2_def by (metis hd_dropWhile list.distinct(1) list.sel(1))
    moreover have "\<forall>c\<in>set rest. cpr_fuse_corner x \<le> cpr_fuse_corner c"
      using s2 Cons by simp
    ultimately show ?thesis using Cons by force
  qed simp
  have up: "\<forall>c\<in>set cs. cpr_fuse_corner c \<le> int m"
  proof
    fix c assume "c \<in> set cs"
    then have "cpr_fuse_corner c \<in> int ` {0..<Suc m}" using assms(2) by (metis image_eqI set_map)
    then show "cpr_fuse_corner c \<le> int m" by auto
  qed
  show "\<forall>c\<in>set cs2. cpr_fuse_corner c = int m"
    using ge up cs by (metis Un_iff antisym set_append)
  have "int m \<in> set (map cpr_fuse_corner cs)" using assms(2) by simp
  then show "cs2 \<noteq> []" using lt cs by auto
  show "set (map cpr_fuse_corner cs1) = int ` {0..<m}"
  proof
    show "set (map cpr_fuse_corner cs1) \<subseteq> int ` {0..<m}"
      using lt assms(2) cs by (force simp: image_iff)
    show "int ` {0..<m} \<subseteq> set (map cpr_fuse_corner cs1)"
    proof
      fix x assume x: "x \<in> int ` {0..<m}"
      then have "x \<in> set (map cpr_fuse_corner cs)" using assms(2) by auto
      moreover have "x \<notin> set (map cpr_fuse_corner cs2)" using x ge by auto
      ultimately show "x \<in> set (map cpr_fuse_corner cs1)" using cs by auto
    qed
  qed
qed

lemma drop_list_update_here:
  "k < length xs \<Longrightarrow> drop k (xs[k := x]) = x # drop (Suc k) xs"
  by (metis Cons_nth_drop_Suc drop_update_cancel length_list_update lessI nth_list_update_eq)

lemma fmax_scan_refines:
  "sorted (map cpr_fuse_corner cs) \<Longrightarrow> set (map cpr_fuse_corner cs) = int ` {0..<n} \<Longrightarrow>
   n \<le> length fm \<Longrightarrow>
   cpr4_fmax_scan cs (int n - 1) fm (rev [0..<length cs]) = (-1, fmax_spec cs n @ drop n fm)"
proof (induction n arbitrary: cs fm)
  case 0
  then show ?case by (simp add: fmax_spec_def)
next
  case (Suc m)
  define cs1 where "cs1 = takeWhile (\<lambda>c. cpr_fuse_corner c < int m) cs"
  define cs2 where "cs2 = dropWhile (\<lambda>c. cpr_fuse_corner c < int m) cs"
  note sp = sorted_fuse_corner_split [OF Suc.prems(1,2), folded cs1_def cs2_def]
  define fm' where "fm' = fm[m := length cs1 + length cs2 - 1]"
  have "rev [0..<length cs] = rev [length cs1..<length cs1 + length cs2] @ rev [0..<length cs1]"
  proof -
    have "[0..<length cs1 + length cs2] = [0..<length cs1] @ [length cs1..<length cs1 + length cs2]"
      by (rule upt_add_eq_append) simp
    then show ?thesis by (subst sp(1)) simp
  qed
  moreover have "cpr4_fmax_scan (cs1 @ cs2) (int m) fm (rev [length cs1..<length cs1 + length cs2]) =
                 (int m - 1, fm')"
    using fmax_scan_top_block [OF sp(4,5)] Suc.prems(3) by (simp add: fm'_def)
  moreover have "cpr4_fmax_scan (cs1 @ cs2) (int m - 1) fm' (rev [0..<length cs1]) =
                 cpr4_fmax_scan cs1 (int m - 1) fm' (rev [0..<length cs1])"
    by (rule fmax_scan_cong) (simp add: nth_append)
  moreover have "cpr4_fmax_scan cs1 (int m - 1) fm' (rev [0..<length cs1]) = (-1, fmax_spec cs1 m @ drop m fm')"
    using Suc.IH [OF sp(2,3)] Suc.prems(3) by (simp add: fm'_def)
  moreover have "drop m fm' = (length cs1 + length cs2 - 1) # drop (Suc m) fm"
    using Suc.prems(3) by (simp add: fm'_def drop_list_update_here)
  moreover have "fmax_spec cs (Suc m) = fmax_spec cs1 m @ [length cs1 + length cs2 - 1]"
    using fmax_spec_snoc_block [OF sp(6,4,5)] sp(1) by simp
  ultimately show ?case
    using sp(1) by (simp add: fmax_scan_append)
qed

text \<open>
  C10 (refinement): when the corners' fuse corners are sorted and are exactly
  \<open>0..n-1\<close> (the mapping \<open>cpr3_parse_common_corner_data\<close> produces), the backward
  scan succeeds (\<open>j = -1\<close>) and \<open>fmax_corner\<close> is the abstract specification
  \<open>fmax_spec\<close>: for each fuse corner, the highest corner mapped to it.
\<close>

theorem fmax_corner_refines_spec:
  assumes "sorted (map cpr_fuse_corner cs)" "set (map cpr_fuse_corner cs) = int ` {0..<n}"
  shows "cpr4_fmax_corner cs n = (-1, fmax_spec cs n)"
  using fmax_scan_refines [OF assms, of "replicate n 0"] by (simp add: cpr4_fmax_corner_def)

lemma fmax_corner_missing:
  "k < n \<Longrightarrow> \<forall>c\<in>set cs. cpr_fuse_corner c \<noteq> int k \<Longrightarrow> 0 \<le> fst (cpr4_fmax_corner cs n)"
  using fmax_scan_missing [of k "int n - 1" "rev [0..<length cs]" cs "replicate n 0"]
  by (fastforce simp: cpr4_fmax_corner_def)

text \<open>
  With interpolation allowed, a fuse corner that no corner maps to
  makes the open-loop calculation fail with \<open>-EINVAL\<close>.
\<close>

theorem open_loop_unmapped_fuse_corner:
  assumes "of_property_read_bool (vreg_of_node vreg) ''qcom,allow-voltage-interpolation''"
    and "k < fuse_corner_count vreg" "\<forall>c\<in>set (corner vreg). cpr_fuse_corner c \<noteq> int k"
    and "cpr3_adjust_fused_open_loop_voltages lib vreg
           (map (cpr4_fused_open_loop_volt (the (platform_fuses vreg))) [0..<fuse_corner_count vreg]) = Inr fv"
  shows "cpr4_msmtitanium_apss_calculate_open_loop_voltages lib True vreg = Inl (- EINVAL)"
proof -
  obtain j fm where fm: "cpr4_fmax_corner (corner vreg) (fuse_corner_count vreg) = (j, fm)"
    by fastforce
  then have "0 \<le> j" using fmax_corner_missing [OF assms(2,3)] by simp
  then show ?thesis using fm assms(1,4)
    by (simp add: cpr4_msmtitanium_apss_calculate_open_loop_voltages_def Let_def)
qed

lemma length_quot_monotonic [simp]: "length (cpr4_quot_monotonic fuse cs) = length cs"
  by (induction fuse cs rule: cpr4_quot_monotonic.induct) simp_all

lemma quot_monotonic_nth0: "cpr4_quot_monotonic fuse (c # cs) ! 0 = c"
  by (cases cs) simp_all

lemma set_target_quot_fields [simp]:
  "cpr4_corner_ro fuse (set_target_quot ro q c) = cpr4_corner_ro fuse c"
  "length (corner_target_quot (set_target_quot ro q c)) = length (corner_target_quot c)"
  "ro < length (corner_target_quot c) \<Longrightarrow> get_target_quot ro (set_target_quot ro q c) = q"
  by (simp_all add: cpr4_corner_ro_def set_target_quot_def get_target_quot_def)

text \<open>
  C9 (functional): after the last loop of the target-quotient calculation, two
  neighbouring corners on the same ring oscillator have non-decreasing quotients.
\<close>

theorem quot_monotonic_increasing:
  assumes "\<forall>c\<in>set cs. cpr4_corner_ro fuse c < length (corner_target_quot c)" "Suc i < length cs"
    and "cpr4_corner_ro fuse (cpr4_quot_monotonic fuse cs ! i) =
         cpr4_corner_ro fuse (cpr4_quot_monotonic fuse cs ! Suc i)"
  shows "get_target_quot (cpr4_corner_ro fuse (cpr4_quot_monotonic fuse cs ! i)) (cpr4_quot_monotonic fuse cs ! i)
         \<le> get_target_quot (cpr4_corner_ro fuse (cpr4_quot_monotonic fuse cs ! i))
             (cpr4_quot_monotonic fuse cs ! Suc i)"
  using assms
proof (induction fuse cs arbitrary: i rule: cpr4_quot_monotonic.induct)
  case (1 fuse c1 c2 cs)
  define c2' where "c2' = (let ro = cpr4_corner_ro fuse c2
              in if cpr4_corner_ro fuse c1 = ro \<and> get_target_quot ro c2 < get_target_quot ro c1
                 then set_target_quot ro (get_target_quot ro c1) c2 else c2)"
  have ro2: "cpr4_corner_ro fuse c2' = cpr4_corner_ro fuse c2"
    and len2: "length (corner_target_quot c2') = length (corner_target_quot c2)"
    by (simp_all add: c2'_def Let_def)
  show ?case
  proof (cases i)
    case 0
    then show ?thesis using "1.prems" ro2
      by (auto simp: quot_monotonic_nth0 c2'_def [symmetric] c2'_def Let_def not_less)
  next
    case (Suc m)
    have "\<forall>c\<in>set (c2' # cs). cpr4_corner_ro fuse c < length (corner_target_quot c)"
      using "1.prems"(1) ro2 len2 by simp
    then show ?thesis using "1.IH" [of m] "1.prems" Suc by (simp add: c2'_def [symmetric])
  qed
qed simp_all

text \<open>
  C23 (bounds): when the scaled quotient offset of a fuse corner exceeds its fused
  quotient and the ring oscillator changes, the \<open>u64\<close> subtraction for
  \<open>quot_low\<close> wraps to \<open>2^64\<close> minus the difference and \<open>quot_high\<close> is raised to it.
\<close>

theorem init_quot_bounds_underflow:
  assumes "ro_sel fuse ! 1 \<noteq> ro_sel fuse ! 0" "2 \<le> length ql" "2 \<le> length qh"
    and "unat (target_quot fuse ! 1) < unat (quot_offset fuse ! 1) * 5"
    and "unat (quot_offset fuse ! 1) * 5 < 2 ^ 64"
  shows "unat (fst (cpr4_init_quot_bounds fuse [1] (ql, qh)) ! 1) =
           2 ^ 64 - (unat (quot_offset fuse ! 1) * 5 - unat (target_quot fuse ! 1))
         \<and> snd (cpr4_init_quot_bounds fuse [1] (ql, qh)) ! 1 = fst (cpr4_init_quot_bounds fuse [1] (ql, qh)) ! 1"
proof -
  define tq where "tq = target_quot fuse ! 1"
  define qo where "qo = quot_offset fuse ! 1"
  have m: "unat (qo * 5) = unat qo * 5" using assms(5) by (simp add: qo_def unat_word_ariths)
  have lt: "tq < qo * 5" using assms(4) m by (simp add: tq_def qo_def word_less_nat_alt)
  have u: "unat (tq - qo * 5) = 2 ^ 64 - (unat qo * 5 - unat tq)"
    using lt m by (simp add: unat_sub_if' word_less_nat_alt)
  have "unat qo * 5 < 2 ^ 64" using assms(5) by (simp add: qo_def)
  then have "tq < tq - qo * 5" using lt m u by (simp add: word_less_nat_alt)
  then show ?thesis using assms(1-3) u unfolding tq_def qo_def
    by (simp add: Let_def MSMTITANIUM_APSS_QUOT_OFFSET_SCALE_def)
qed

text \<open>
  Without interpolation, and with a CPR3 adjustment that keeps the
  voltages, a corner of a higher fuse corner never gets a lower open-loop voltage.
\<close>

theorem open_loop_no_interpolation_monotone:
  assumes "\<not> of_property_read_bool (vreg_of_node vreg) ''qcom,allow-voltage-interpolation''"
    and "cpr4_msmtitanium_apss_calculate_open_loop_voltages lib True vreg = Inr vreg'"
    and "\<forall>v. cpr3_adjust_open_loop_voltages lib v = Inr v"
    and "cpr3_adjust_fused_open_loop_voltages lib vreg
           (map (cpr4_fused_open_loop_volt (the (platform_fuses vreg))) [0..<fuse_corner_count vreg]) = Inr fv"
    and "\<forall>c\<in>set (corner vreg). 0 \<le> cpr_fuse_corner c \<and> nat (cpr_fuse_corner c) < length fv"
    and "a < length (corner vreg')" "b < length (corner vreg')"
    and "cpr_fuse_corner (corner vreg' ! a) \<le> cpr_fuse_corner (corner vreg' ! b)"
  shows "open_loop_volt (corner vreg' ! a) \<le> open_loop_volt (corner vreg' ! b)"
proof -
  let ?mv = "cpr4_fuse_volt_monotonic fv"
  have "vreg' = vreg\<lparr>corner := map (\<lambda>c. c\<lparr>open_loop_volt := ?mv ! nat (cpr_fuse_corner c)\<rparr>) (corner vreg)\<rparr>"
    using assms(1-4) by (simp add: cpr4_msmtitanium_apss_calculate_open_loop_voltages_def Let_def)
  then have v': "corner vreg' = map (\<lambda>c. c\<lparr>open_loop_volt := ?mv ! nat (cpr_fuse_corner c)\<rparr>) (corner vreg)"
    by simp
  have ab: "a < length (corner vreg)" "b < length (corner vreg)" using assms(6,7) v' by simp_all
  then have "nat (cpr_fuse_corner (corner vreg ! b)) < length ?mv"
    using assms(5) by (simp add: nth_mem)
  moreover have "nat (cpr_fuse_corner (corner vreg ! a)) \<le> nat (cpr_fuse_corner (corner vreg ! b))"
    using assms(8) ab v' by simp
  ultimately show ?thesis using ab v' sorted_nth_mono [OF sorted_fuse_volt_monotonic] by simp
qed

theorem open_loop_no_interpolation_monotone_witness:
  "let vreg = demo_vreg (\<lambda>_. None) [demo_corner 0 100 0, demo_corner 2 300 0, demo_corner 1 200 0, demo_corner 3 400 0];
       vreg' = vreg\<lparr>corner := map (\<lambda>c. c\<lparr>open_loop_volt :=
                  cpr4_fuse_volt_monotonic (map (cpr4_fused_open_loop_volt demo_fuses) [0..<4])
                    ! nat (cpr_fuse_corner c)\<rparr>) (corner vreg)\<rparr>
   in cpr4_msmtitanium_apss_calculate_open_loop_voltages demo_lib True vreg = Inr vreg'
      \<and> open_loop_volt (corner vreg' ! 2) \<le> open_loop_volt (corner vreg' ! 1)"
proof -
  let ?vreg = "demo_vreg (\<lambda>_. None) [demo_corner 0 100 0, demo_corner 2 300 0, demo_corner 1 200 0, demo_corner 3 400 0]"
  let ?fv = "map (cpr4_fused_open_loop_volt demo_fuses) [0..<4]"
  let ?vreg' = "?vreg\<lparr>corner := map (\<lambda>c. c\<lparr>open_loop_volt := cpr4_fuse_volt_monotonic ?fv
                  ! nat (cpr_fuse_corner c)\<rparr>) (corner ?vreg)\<rparr>"
  have r: "cpr4_msmtitanium_apss_calculate_open_loop_voltages demo_lib True ?vreg = Inr ?vreg'"
    by (simp add: cpr4_msmtitanium_apss_calculate_open_loop_voltages_def demo_lib_def demo_vreg_def Let_def of_defs)
  have "open_loop_volt (corner ?vreg' ! 2) \<le> open_loop_volt (corner ?vreg' ! 1)"
    by (rule open_loop_no_interpolation_monotone [OF _ r, of ?fv])
       (simp_all add: cpr4_fixture_defs)
  then show ?thesis using r by (simp add: Let_def)
qed

theorem fmax_corner_sound_witness:
  "cpr4_fmax_corner [demo_corner 0 100 0, demo_corner 1 200 0, demo_corner 1 300 0,
                     demo_corner 2 400 0, demo_corner 3 500 0] 4 = (-1, [0, 2, 3, 4])
   \<and> cpr_fuse_corner ([demo_corner 0 100 0, demo_corner 1 200 0, demo_corner 1 300 0,
                       demo_corner 2 400 0, demo_corner 3 500 0] ! ([0, 2, 3, 4] ! 1)) = 1"
proof -
  let ?cs = "[demo_corner 0 100 0, demo_corner 1 200 0, demo_corner 1 300 0,
              demo_corner 2 400 0, demo_corner 3 500 0]"
  have f: "cpr4_fmax_corner ?cs 4 = (-1, [0, 2, 3, 4])"
    by (simp add: cpr4_fmax_corner_def demo_corner_def numeral_eq_Suc)
  have "\<forall>k<4. [0, 2, 3, 4] ! k < length ?cs \<and> cpr_fuse_corner (?cs ! ([0, 2, 3, 4] ! k)) = int k"
    by (rule fmax_corner_sound [OF _ f]) (simp_all add: demo_corner_def)
  from this [rule_format, of 1] f show ?thesis by simp
qed

theorem fmax_corner_refines_spec_witness:
  "sorted (map cpr_fuse_corner [demo_corner 0 100 0, demo_corner 1 200 0, demo_corner 1 300 0,
       demo_corner 2 400 0, demo_corner 3 500 0]) \<and>
   set (map cpr_fuse_corner [demo_corner 0 100 0, demo_corner 1 200 0, demo_corner 1 300 0,
       demo_corner 2 400 0, demo_corner 3 500 0]) = int ` {0..<4} \<and>
   cpr4_fmax_corner [demo_corner 0 100 0, demo_corner 1 200 0, demo_corner 1 300 0,
       demo_corner 2 400 0, demo_corner 3 500 0] 4 =
   (-1, fmax_spec [demo_corner 0 100 0, demo_corner 1 200 0, demo_corner 1 300 0,
       demo_corner 2 400 0, demo_corner 3 500 0] 4) \<and>
   fmax_spec [demo_corner 0 100 0, demo_corner 1 200 0, demo_corner 1 300 0,
       demo_corner 2 400 0, demo_corner 3 500 0] 4 = [0, 2, 3, 4]"
proof -
  let ?cs = "[demo_corner 0 100 0, demo_corner 1 200 0, demo_corner 1 300 0,
       demo_corner 2 400 0, demo_corner 3 500 0]"
  have s: "sorted (map cpr_fuse_corner ?cs)" by (simp add: demo_corner_def)
  have "{0..<4::nat} = {0, 1, 2, 3}" by auto
  then have e: "set (map cpr_fuse_corner ?cs) = int ` {0..<4}" by (auto simp: demo_corner_def)
  have v: "fmax_spec ?cs 4 = [0, 2, 3, 4]"
    by (simp add: fmax_spec_def demo_corner_def numeral_eq_Suc upt_rec)
  show ?thesis using fmax_corner_refines_spec [OF s e] s e v by simp
qed

theorem open_loop_unmapped_fuse_corner_witness:
  "cpr4_msmtitanium_apss_calculate_open_loop_voltages demo_lib True
     (demo_vreg demo_interp_node [demo_corner 0 100 0, demo_corner 1 200 0, demo_corner 3 400 0]) = Inl (- EINVAL)"
  by (rule open_loop_unmapped_fuse_corner [of _ 2 _ "map (cpr4_fused_open_loop_volt demo_fuses) [0..<4]"])
     (simp_all add: cpr4_fixture_defs)

theorem quot_monotonic_increasing_witness:
  "get_target_quot 2 (cpr4_quot_monotonic demo_fuses [demo_corner 1 100 500, demo_corner 2 200 400] ! 0)
   \<le> get_target_quot 2 (cpr4_quot_monotonic demo_fuses [demo_corner 1 100 500, demo_corner 2 200 400] ! 1)"
proof -
  have "cpr4_corner_ro demo_fuses (cpr4_quot_monotonic demo_fuses [demo_corner 1 100 500, demo_corner 2 200 400] ! 0) = 2"
    by (simp add: quot_monotonic_nth0 cpr4_corner_ro_def cpr4_fixture_defs)
  moreover have "cpr4_corner_ro demo_fuses (cpr4_quot_monotonic demo_fuses [demo_corner 1 100 500, demo_corner 2 200 400] ! 1) = 2"
    by (simp add: cpr4_corner_ro_def cpr4_fixture_defs get_target_quot_def set_target_quot_def)
  ultimately show ?thesis
    using quot_monotonic_increasing [of "[demo_corner 1 100 500, demo_corner 2 200 400]" demo_fuses 0]
    by (simp add: cpr4_corner_ro_def cpr4_fixture_defs)
qed

theorem init_quot_bounds_underflow_witness:
  "unat (fst (cpr4_init_quot_bounds demo_fuses [1] ([0, 0, 0, 0], [0, 0, 0, 0])) ! 1) = 2 ^ 64 - 200
   \<and> snd (cpr4_init_quot_bounds demo_fuses [1] ([0, 0, 0, 0], [0, 0, 0, 0])) ! 1
     = fst (cpr4_init_quot_bounds demo_fuses [1] ([0, 0, 0, 0], [0, 0, 0, 0])) ! 1"
  using init_quot_bounds_underflow [of demo_fuses "[0, 0, 0, 0]" "[0, 0, 0, 0]"]
  by (simp add: demo_fuses_def)

end
