(* ===== verification/CPR4_Regulator.thy ===== *)
theory CPR4_Regulator
  imports CPR4_Voltages
begin

text \<open>
  The initialisation path of \<open>src/drivers/regulator/cpr4-apss-regulator.c\<close>
  (lines 307--325 and 728--1254): the temperature-band and boost properties,
  the per-regulator and per-controller initialisation, the probe and the
  power-management and remove callbacks.  A \<open>struct cpr3_controller\<close> is the
  record \<open>cpr3_controller\<close> with the fields this driver writes; its one thread
  holds the regulators.  The CPR3 library functions the driver calls are the
  fields of \<open>cpr3_init_lib\<close>; the allocator is \<open>alloc\<close>, which names the
  allocated variable and says whether the allocation succeeds.  A function that
  fails returns its error code with the state as far as the C code had written
  it when it returned.
\<close>

section \<open>Controller state\<close>

datatype cpr_ctrl_type = CPR_CTRL_TYPE_CPR3 | CPR_CTRL_TYPE_CPR4

text \<open>
  The result of \<open>devm_regulator_get\<close>: \<open>NULL\<close>, a handle, or an error pointer.
  \<open>IS_ERR\<close> holds of the error pointers \<open>-MAX_ERRNO..-1\<close> only
  (\<open>linux/err.h\<close>).
\<close>

datatype regulator_ptr = NULL_REGULATOR | ERR_PTR int | REGULATOR_HANDLE

fun IS_ERR :: "regulator_ptr \<Rightarrow> bool" where
  "IS_ERR (ERR_PTR rc) = (- MAX_ERRNO \<le> rc \<and> rc < 0)"
| "IS_ERR _ = False"

fun PTR_ERR :: "regulator_ptr \<Rightarrow> int" where
  "PTR_ERR (ERR_PTR rc) = rc"
| "PTR_ERR _ = 0"

record cpr3_thread =
  thread_id :: nat
  thread_vreg :: "cpr3_regulator list"

record cpr3_controller =
  ctrl_of_node :: dt_node
  ctrl_name :: "u32 list"
  cpr_allowed_hw :: bool
  fuse_rows :: "nat \<Rightarrow> u64"
  thread :: "cpr3_thread list"
  step_volt :: int
  temp_band_count :: int
  temp_points :: "u32 list"
  initial_temp_band :: int
  temp_sensor_id_start :: int
  temp_sensor_id_end :: int
  allow_temp_adj :: bool
  down_error_step_limit :: u32
  up_error_step_limit :: u32
  step_quot_fixed :: u32
  use_dynamic_step_quot :: bool
  saw_use_unit_mV :: bool
  voltage_settling_time :: u32
  vdd_limit_regulator :: regulator_ptr
  sensor_count :: nat
  sensor_owner :: "nat list"
  cpr_clock_rate :: nat
  ctrl_type :: cpr_ctrl_type
  supports_hw_closed_loop :: bool
  use_hw_closed_loop :: bool
  ctrl_allow_boost :: bool

text \<open>The zeroed controller of \<open>devm_kzalloc\<close>, for the device node \<open>node\<close>.\<close>

definition cpr3_controller_zero :: "dt_node \<Rightarrow> cpr3_controller" where
  "cpr3_controller_zero node =
     \<lparr>ctrl_of_node = node, ctrl_name = [], cpr_allowed_hw = False, fuse_rows = (\<lambda>_. 0), thread = [],
      step_volt = 0, temp_band_count = 0, temp_points = [], initial_temp_band = 0,
      temp_sensor_id_start = 0, temp_sensor_id_end = 0, allow_temp_adj = False,
      down_error_step_limit = 0, up_error_step_limit = 0, step_quot_fixed = 0,
      use_dynamic_step_quot = False, saw_use_unit_mV = False, voltage_settling_time = 0,
      vdd_limit_regulator = NULL_REGULATOR, sensor_count = 0, sensor_owner = [], cpr_clock_rate = 0,
      ctrl_type = CPR_CTRL_TYPE_CPR3, supports_hw_closed_loop = False, use_hw_closed_loop = False,
      ctrl_allow_boost = False\<rparr>"

text \<open>The zeroed \<open>struct cpr4_sdelta\<close> of \<open>devm_kzalloc\<close>.\<close>

definition cpr4_sdelta_zero :: cpr4_sdelta where
  "cpr4_sdelta_zero = \<lparr>sd_temp_band_count = 0, boost_num_cores = 0, boost_table = [],
                       sd_allow_boost = False, sd_allow_core_count_adj = False\<rparr>"

type_synonym alloc_env = "string \<Rightarrow> bool"

text \<open>
  The CPR3 library functions of the initialisation path (\<open>cpr3-util.c\<close>,
  \<open>cpr3-regulator.c\<close>, \<open>cpr4-regulator.c\<close>; not under \<open>src/\<close>).  As
  in C, each returns its code together with the object it updates in place (or
  the array it fills); the caller tests the code.
\<close>

record cpr3_init_lib =
  cpr3_parse_common_corner_data :: "cpr3_regulator \<Rightarrow> int \<times> cpr3_regulator"
  cpr3_mem_acc_init :: "cpr3_regulator \<Rightarrow> int"
  cpr3_limit_open_loop_voltages :: "cpr3_regulator \<Rightarrow> int \<times> cpr3_regulator"
  cpr3_open_loop_voltage_as_ceiling :: "cpr3_regulator \<Rightarrow> cpr3_regulator"
  cpr3_limit_floor_voltages :: "cpr3_regulator \<Rightarrow> int \<times> cpr3_regulator"
  cpr4_parse_core_count_temp_voltage_adj :: "cpr3_regulator \<Rightarrow> bool \<Rightarrow> int \<times> cpr3_regulator"
  cpr3_parse_array_property :: "cpr3_regulator \<Rightarrow> string \<Rightarrow> nat \<Rightarrow> int \<times> int list"
  cpr3_parse_common_ctrl_data :: "cpr3_controller \<Rightarrow> int \<times> cpr3_controller"
  devm_regulator_get :: "cpr3_controller \<Rightarrow> string \<Rightarrow> regulator_ptr"
  cpr3_apm_init :: "cpr3_controller \<Rightarrow> int \<times> cpr3_controller"
  cpr3_map_fuse_base :: "cpr3_controller \<Rightarrow> int \<times> (nat \<Rightarrow> u64)"
  cpr3_allocate_threads :: "cpr3_controller \<Rightarrow> int \<times> cpr3_thread list"
  cpr3_parse_common_thread_data :: "cpr3_thread \<Rightarrow> int \<times> cpr3_thread"
  cpr3_regulator_register :: "cpr3_controller \<Rightarrow> int"
  cpr3_regulator_unregister :: "cpr3_controller \<Rightarrow> int"
  cpr3_regulator_suspend :: "cpr3_controller \<Rightarrow> int"
  cpr3_regulator_resume :: "cpr3_controller \<Rightarrow> int"

section \<open>Corner data and threads\<close>

text \<open>
  Both wrappers return the library's code; their error branches only log.
\<close>

definition cpr4_apss_parse_corner_data :: "cpr3_init_lib \<Rightarrow> cpr3_regulator \<Rightarrow> int \<times> cpr3_regulator" where
  "cpr4_apss_parse_corner_data ilib vreg = cpr3_parse_common_corner_data ilib vreg"

definition cpr4_apss_init_thread :: "cpr3_init_lib \<Rightarrow> cpr3_thread \<Rightarrow> int \<times> cpr3_thread" where
  "cpr4_apss_init_thread ilib t = cpr3_parse_common_thread_data ilib t"

section \<open>Temperature bands\<close>

text \<open>
  \<open>cpr4_apss_parse_temp_adj_properties\<close>.  \<open>initial_temp_band\<close> is an
  \<open>int\<close> of \<open>struct cpr3_controller\<close> filled by \<open>of_property_read_u32\<close>, so
  the cell is read back as a signed 32-bit value.
\<close>

definition cpr4_apss_parse_temp_adj_properties ::
  "alloc_env \<Rightarrow> cpr3_controller \<Rightarrow> int \<times> cpr3_controller" where
  "cpr4_apss_parse_temp_adj_properties alloc ctrl =
     (let node = ctrl_of_node ctrl
      in case of_find_property node ''qcom,cpr-temp-point-map'' of
        None \<Rightarrow> (0, ctrl\<lparr>temp_band_count := 1\<rparr>)
      | Some len \<Rightarrow>
          let temp_point_count = int (len div 4)
          in if temp_point_count \<le> 0 \<or> temp_point_count > MSMTITANIUM_APSS_MAX_TEMP_POINTS
             then (- EINVAL, ctrl)
             else if \<not> alloc ''temp_points'' then (- ENOMEM, ctrl)
             else let ctrl = ctrl\<lparr>temp_points := replicate (nat temp_point_count) 0\<rparr>
             in case of_property_read_u32_array node ''qcom,cpr-temp-point-map'' (nat temp_point_count) of
               Inl rc \<Rightarrow> (rc, ctrl)
             | Inr tps \<Rightarrow>
                 let ctrl = ctrl\<lparr>temp_points := tps, temp_band_count := temp_point_count + 1\<rparr>
                 in case of_property_read_u32 node ''qcom,cpr-initial-temp-band'' of
                   Inl rc \<Rightarrow> (rc, ctrl)
                 | Inr band \<Rightarrow>
                     let ctrl = ctrl\<lparr>initial_temp_band := sint band\<rparr>
                     in if initial_temp_band ctrl \<ge> temp_band_count ctrl then (- EINVAL, ctrl)
                        else (0, ctrl\<lparr>temp_sensor_id_start := int MSMTITANIUM_APSS_TEMP_SENSOR_ID_START,
                                      temp_sensor_id_end := int MSMTITANIUM_APSS_TEMP_SENSOR_ID_END,
                                      allow_temp_adj := True\<rparr>))"

section \<open>Boost\<close>

text \<open>
  \<open>cpr4_apss_parse_boost_properties\<close>: boost applies to the highest corner.
  \<open>boost_num_cores\<close> is an \<open>int\<close> filled by \<open>of_property_read_u32\<close>; the
  margin of each temperature band is a C \<open>int\<close> division, which truncates
  towards zero (\<open>sdiv\<close>).  The optional properties are read only when present.
\<close>

definition clamp_boost_volt :: "int \<Rightarrow> int" where
  "clamp_boost_volt v = max (min v MSMTITANIUM_APSS_BOOST_CEILING_VOLT) MSMTITANIUM_APSS_BOOST_FLOOR_VOLT"

text \<open>The boost margin of each temperature band, in steps (the loop of lines 944--958).\<close>

definition cpr4_boost_table :: "int \<Rightarrow> int \<Rightarrow> int \<Rightarrow> int list option \<Rightarrow> nat \<Rightarrow> int list" where
  "cpr4_boost_table open_loop volt step boost_temp_adj n =
     map (\<lambda>i. (open_loop - clamp_boost_volt (volt + (case boost_temp_adj of None \<Rightarrow> 0 | Some adj \<Rightarrow> adj ! i)))
               sdiv step) [0..<n]"

text \<open>\<open>corner->sdelta\<close> of the highest corner, written through the pointer.\<close>

definition set_corner_sdelta :: "cpr3_corner \<Rightarrow> cpr4_sdelta \<Rightarrow> cpr3_regulator \<Rightarrow> cpr3_regulator" where
  "set_corner_sdelta c sd vreg =
     vreg\<lparr>corner := (corner vreg)[length (corner vreg) - 1 := c\<lparr>sdelta := Some sd\<rparr>]\<rparr>"

definition cpr4_apss_parse_boost_properties ::
  "cpr3_init_lib \<Rightarrow> alloc_env \<Rightarrow> cpr3_controller \<Rightarrow> cpr3_regulator \<Rightarrow>
   int \<times> cpr3_regulator \<times> cpr3_controller" where
  "cpr4_apss_parse_boost_properties ilib alloc ctrl vreg =
     (let fuse = the (platform_fuses vreg);
          node = vreg_of_node vreg
      in if \<not> boost_fuse ! unat (boost_cfg fuse) then (0, vreg, ctrl) else
      case (if of_find_property node ''qcom,allow-boost'' \<noteq> None
            then map_prod id hd (cpr3_parse_array_property ilib vreg ''qcom,allow-boost'' 1) else (0, 0)) of
        (rc, boost_allowed) \<Rightarrow>
      if rc \<noteq> 0 then (rc, vreg, ctrl) else
      if boost_allowed = 0 then (0, vreg, ctrl) else
      let boost_voltage = cpr3_convert_open_loop_voltage_fuse MSMTITANIUM_APSS_BOOST_FUSE_REF_VOLT
                            MSMTITANIUM_APSS_FUSE_STEP_VOLT (ucast (boost_voltage fuse))
                            MSMTITANIUM_APSS_VOLTAGE_FUSE_SIZE
      in case (if of_find_property node ''qcom,cpr-boost-voltage-fuse-adjustment'' \<noteq> None
               then map_prod id (\<lambda>adj. boost_voltage + hd adj)
                      (cpr3_parse_array_property ilib vreg ''qcom,cpr-boost-voltage-fuse-adjustment'' 1)
               else (0, boost_voltage)) of
        (rc, boost_voltage) \<Rightarrow>
      if rc \<noteq> 0 then (rc, vreg, ctrl) else
      let boost_voltage = clamp_boost_volt boost_voltage;
          c = last (corner vreg)
      in if sdelta c = None \<and> \<not> alloc ''sdelta'' then (- ENOMEM, vreg, ctrl) else
      let sd = (case sdelta c of None \<Rightarrow> cpr4_sdelta_zero | Some sd \<Rightarrow> sd)\<lparr>sd_temp_band_count := temp_band_count ctrl\<rparr>
      in case of_property_read_u32 node ''qcom,cpr-num-boost-cores'' of
        Inl rc \<Rightarrow> (rc, set_corner_sdelta c sd vreg, ctrl)
      | Inr cores \<Rightarrow>
      let boost_num_cores = sint cores
      in if boost_num_cores \<le> 0 \<or> boost_num_cores > MSMTITANIUM_APSS_CPR_SDELTA_CORE_COUNT
         then (- EINVAL, set_corner_sdelta c sd vreg, ctrl) else
      let sd = sd\<lparr>boost_num_cores := boost_num_cores\<rparr>;
          n = nat (sd_temp_band_count sd)
      in if \<not> alloc ''boost_table'' then (- ENOMEM, set_corner_sdelta c sd vreg, ctrl) else
      case (if of_find_property node ''qcom,cpr-boost-temp-adjustment'' \<noteq> None
            then if \<not> alloc ''boost_temp_adj'' then (- ENOMEM, None)
                 else map_prod id Some (cpr3_parse_array_property ilib vreg ''qcom,cpr-boost-temp-adjustment'' n)
            else (0, None)) of
        (rc, boost_temp_adj) \<Rightarrow>
      if rc \<noteq> 0 then (rc, set_corner_sdelta c sd vreg, ctrl) else
      let sd = sd\<lparr>boost_table := cpr4_boost_table (open_loop_volt c) boost_voltage (step_volt ctrl) boost_temp_adj n,
                  sd_allow_boost := True, sd_allow_core_count_adj := False\<rparr>;
          vreg = set_corner_sdelta (c\<lparr>ceiling_volt := MSMTITANIUM_APSS_BOOST_CEILING_VOLT\<rparr>) sd vreg
      in (0, vreg\<lparr>vreg_allow_boost := True\<rparr>, ctrl\<lparr>ctrl_allow_boost := True\<rparr>))"

section \<open>Regulator initialisation\<close>

text \<open>
  \<open>cpr4_apss_init_regulator\<close>: the fuse read-out (whose success sets the fuse
  fields of the regulator), the corner data, mem-acc, the open-loop voltages and
  their limits, the target quotients, the core-count and temperature
  adjustments, the \<open>max_core_count\<close> check and the boost properties, each
  failure returning its code.  \<open>cpr4_apss_print_settings\<close> only logs.
\<close>

definition cpr4_apss_init_regulator ::
  "cpr3_lib \<Rightarrow> cpr3_init_lib \<Rightarrow> alloc_env \<Rightarrow> cpr3_controller \<Rightarrow> cpr3_regulator \<Rightarrow>
   int \<times> cpr3_regulator \<times> cpr3_controller" where
  "cpr4_apss_init_regulator lib ilib alloc ctrl vreg =
     (case cpr4_msmtitanium_apss_read_fuse_data (alloc ''fuse'') (fuse_rows ctrl) of
        Inl rc \<Rightarrow> (rc, vreg, ctrl)
      | Inr (fuse, combo) \<Rightarrow>
      let vreg = vreg\<lparr>fuse_combo := combo, speed_bin_fuse := speed_bin fuse, cpr_rev_fuse := cpr_fusing_rev fuse,
                      fuse_corner_count := MSMTITANIUM_APSS_FUSE_CORNERS, platform_fuses := Some fuse\<rparr>
      in case cpr4_apss_parse_corner_data ilib vreg of (rc, vreg) \<Rightarrow> if rc \<noteq> 0 then (rc, vreg, ctrl) else
      let rc = cpr3_mem_acc_init ilib vreg
      in if rc \<noteq> 0 then (rc, vreg, ctrl) else
      case cpr4_msmtitanium_apss_calculate_open_loop_voltages lib
             (alloc ''fuse_volt'' \<and> alloc ''fmax_corner'') vreg of
        Inl rc \<Rightarrow> (rc, vreg, ctrl)
      | Inr vreg \<Rightarrow>
      case cpr3_limit_open_loop_voltages ilib vreg of (rc, vreg) \<Rightarrow> if rc \<noteq> 0 then (rc, vreg, ctrl) else
      let vreg = cpr3_open_loop_voltage_as_ceiling ilib vreg
      in case cpr3_limit_floor_voltages ilib vreg of (rc, vreg) \<Rightarrow> if rc \<noteq> 0 then (rc, vreg, ctrl) else
      case cpr4_msmtitanium_apss_calculate_target_quotients lib
             (alloc ''volt_adjust'' \<and> alloc ''volt_adjust_fuse'' \<and> alloc ''ro_scale'' \<and>
              alloc ''fmax_corner'' \<and> alloc ''quot_low'' \<and> alloc ''quot_high'') vreg of
        (rc, vreg) \<Rightarrow>
      if rc \<noteq> 0 then (rc, vreg, ctrl) else
      case cpr4_parse_core_count_temp_voltage_adj ilib vreg False of (rc, vreg) \<Rightarrow> if rc \<noteq> 0 then (rc, vreg, ctrl) else
      if allow_core_count_adj vreg \<and>
         (max_core_count vreg \<le> 0 \<or> max_core_count vreg > MSMTITANIUM_APSS_CPR_SDELTA_CORE_COUNT)
      then (- EINVAL, vreg, ctrl)
      else cpr4_apss_parse_boost_properties ilib alloc ctrl vreg)"

section \<open>Controller initialisation\<close>

text \<open>
  \<open>cpr4_apss_init_controller\<close>.  The step-quotient and settling-time
  properties are optional: a failed read leaves the field as it was.
\<close>

definition cpr4_apss_init_controller ::
  "cpr3_init_lib \<Rightarrow> alloc_env \<Rightarrow> cpr3_controller \<Rightarrow> int \<times> cpr3_controller" where
  "cpr4_apss_init_controller ilib alloc ctrl =
     (case cpr3_parse_common_ctrl_data ilib ctrl of (rc, ctrl) \<Rightarrow> if rc \<noteq> 0 then (rc, ctrl) else
      let node = ctrl_of_node ctrl
      in case of_property_read_u32 node ''qcom,cpr-down-error-step-limit'' of Inl rc \<Rightarrow> (rc, ctrl) | Inr d \<Rightarrow>
      let ctrl = ctrl\<lparr>down_error_step_limit := d\<rparr>
      in case of_property_read_u32 node ''qcom,cpr-up-error-step-limit'' of Inl rc \<Rightarrow> (rc, ctrl) | Inr u \<Rightarrow>
      let ctrl = ctrl\<lparr>up_error_step_limit := u\<rparr>;
          ctrl = (case of_property_read_u32 node ''qcom,cpr-step-quot-fixed'' of
                    Inl _ \<Rightarrow> ctrl | Inr q \<Rightarrow> ctrl\<lparr>step_quot_fixed := q\<rparr>);
          ctrl = ctrl\<lparr>use_dynamic_step_quot := (step_quot_fixed ctrl = 0)\<rparr>;
          ctrl = ctrl\<lparr>saw_use_unit_mV := of_property_read_bool node ''qcom,cpr-saw-use-unit-mV''\<rparr>;
          ctrl = (case of_property_read_u32 node ''qcom,cpr-voltage-settling-time'' of
                    Inl _ \<Rightarrow> ctrl | Inr s \<Rightarrow> ctrl\<lparr>voltage_settling_time := s\<rparr>);
          ctrl = ctrl\<lparr>vdd_limit_regulator := devm_regulator_get ilib ctrl ''vdd-limit''\<rparr>
      in if IS_ERR (vdd_limit_regulator ctrl) then (PTR_ERR (vdd_limit_regulator ctrl), ctrl) else
      case cpr3_apm_init ilib ctrl of (rc, ctrl) \<Rightarrow> if rc \<noteq> 0 then (rc, ctrl) else
      case cpr4_apss_parse_temp_adj_properties alloc ctrl of (rc, ctrl) \<Rightarrow>
      if rc \<noteq> 0 then (rc, ctrl) else
      let ctrl = ctrl\<lparr>sensor_count := MSMTITANIUM_APSS_CPR_SENSOR_COUNT\<rparr>
      in if \<not> alloc ''sensor_owner'' then (- ENOMEM, ctrl)
         else (0, ctrl\<lparr>sensor_owner := replicate (sensor_count ctrl) 0,
                       cpr_clock_rate := MSMTITANIUM_APSS_CPR_CLOCK_RATE,
                       ctrl_type := CPR_CTRL_TYPE_CPR4, supports_hw_closed_loop := True,
                       use_hw_closed_loop := of_property_read_bool node ''qcom,cpr-hw-closed-loop''\<rparr>))"

section \<open>Probe and the driver callbacks\<close>

text \<open>
  The loop of the probe over the regulators of thread 0: each regulator sees
  the controller as the previous ones left it (boost sets
  \<open>ctrl->allow_boost\<close>); the first failure ends the loop.
\<close>

fun cpr4_apss_init_regulators ::
  "cpr3_lib \<Rightarrow> cpr3_init_lib \<Rightarrow> alloc_env \<Rightarrow> cpr3_controller \<Rightarrow> cpr3_regulator list \<Rightarrow>
   int \<times> cpr3_regulator list \<times> cpr3_controller" where
  "cpr4_apss_init_regulators lib ilib alloc ctrl [] = (0, [], ctrl)"
| "cpr4_apss_init_regulators lib ilib alloc ctrl (v # vs) =
     (case cpr4_apss_init_regulator lib ilib alloc ctrl v of
        (rc, v, ctrl) \<Rightarrow>
          if rc \<noteq> 0 then (rc, v # vs, ctrl)
          else case cpr4_apss_init_regulators lib ilib alloc ctrl vs of
                 (rc, vs, ctrl) \<Rightarrow> (rc, v # vs, ctrl))"

text \<open>
  \<open>cpr4_apss_regulator_probe\<close>: \<open>of_node\<close> is the platform device's node.
  The result is the return code and the driver data, set just before
  \<open>cpr3_regulator_register\<close>.
\<close>

definition cpr4_apss_regulator_probe ::
  "cpr3_lib \<Rightarrow> cpr3_init_lib \<Rightarrow> alloc_env \<Rightarrow> dt_node option \<Rightarrow> int \<times> cpr3_controller option" where
  "cpr4_apss_regulator_probe lib ilib alloc of_node =
     (case of_node of None \<Rightarrow> (- EINVAL, None) | Some node \<Rightarrow>
      if \<not> alloc ''ctrl'' then (- ENOMEM, None) else
      let ctrl = (cpr3_controller_zero node)\<lparr>cpr_allowed_hw := True\<rparr>
      in case of_property_read_string node ''qcom,cpr-ctrl-name'' of Inl rc \<Rightarrow> (rc, None) | Inr name \<Rightarrow>
      let ctrl = ctrl\<lparr>ctrl_name := name\<rparr>
      in case cpr3_map_fuse_base ilib ctrl of (rc, rows) \<Rightarrow>
      let ctrl = ctrl\<lparr>fuse_rows := rows\<rparr>
      in if rc \<noteq> 0 then (rc, None) else
      case cpr3_allocate_threads ilib ctrl of (rc, ts) \<Rightarrow>
      let ctrl = ctrl\<lparr>thread := ts\<rparr>
      in if rc \<noteq> 0 then (rc, None) else
      if length (thread ctrl) \<noteq> 1 then (- EINVAL, None) else
      case cpr4_apss_init_controller ilib alloc ctrl of (rc, ctrl) \<Rightarrow>
      if rc \<noteq> 0 then (rc, None) else
      case cpr4_apss_init_thread ilib (thread ctrl ! 0) of (rc, t) \<Rightarrow>
      if rc \<noteq> 0 then (rc, None) else
      case cpr4_apss_init_regulators lib ilib alloc ctrl (thread_vreg t) of (rc, vs, ctrl) \<Rightarrow>
      if rc \<noteq> 0 then (rc, None) else
      let ctrl = ctrl\<lparr>thread := [t\<lparr>thread_vreg := vs\<rparr>]\<rparr>
      in (cpr3_regulator_register ilib ctrl, Some ctrl))"

definition cpr4_apss_regulator_suspend :: "cpr3_init_lib \<Rightarrow> cpr3_controller \<Rightarrow> int" where
  "cpr4_apss_regulator_suspend ilib ctrl = cpr3_regulator_suspend ilib ctrl"

definition cpr4_apss_regulator_resume :: "cpr3_init_lib \<Rightarrow> cpr3_controller \<Rightarrow> int" where
  "cpr4_apss_regulator_resume ilib ctrl = cpr3_regulator_resume ilib ctrl"

definition cpr4_apss_regulator_remove :: "cpr3_init_lib \<Rightarrow> cpr3_controller \<Rightarrow> int" where
  "cpr4_apss_regulator_remove ilib ctrl = cpr3_regulator_unregister ilib ctrl"

section \<open>Specification\<close>

text \<open>
  What the boost parse promises: \<open>boost_margins\<close> says that a table is the
  per-band margin of some boost voltage within the floor and ceiling, and
  \<open>boost_applied\<close> that a regulator is the input with the highest corner's
  ceiling raised to the boost ceiling and its \<open>sdelta\<close> enabling boost.
  \<open>cpr4_ctrl_initialised\<close> collects what \<open>cpr4_apss_init_controller\<close>
  sets on success.
\<close>

definition boost_margins :: "int \<Rightarrow> int \<Rightarrow> nat \<Rightarrow> int list \<Rightarrow> bool" where
  "boost_margins open_loop step n table =
     (\<exists>bv adj. MSMTITANIUM_APSS_BOOST_FLOOR_VOLT \<le> bv \<and> bv \<le> MSMTITANIUM_APSS_BOOST_CEILING_VOLT \<and>
              table = cpr4_boost_table open_loop bv step adj n)"

definition boost_applied :: "cpr3_controller \<Rightarrow> cpr3_regulator \<Rightarrow> cpr3_regulator \<Rightarrow> bool" where
  "boost_applied ctrl vreg vreg' =
     (\<exists>sd. vreg' = vreg\<lparr>corner := (corner vreg)[length (corner vreg) - 1 :=
                     (last (corner vreg))\<lparr>ceiling_volt := MSMTITANIUM_APSS_BOOST_CEILING_VOLT, sdelta := Some sd\<rparr>],
                   vreg_allow_boost := True\<rparr> \<and>
           sd_allow_boost sd \<and> \<not> sd_allow_core_count_adj sd \<and>
           0 < boost_num_cores sd \<and> boost_num_cores sd \<le> MSMTITANIUM_APSS_CPR_SDELTA_CORE_COUNT \<and>
           sd_temp_band_count sd = temp_band_count ctrl \<and>
           boost_margins (open_loop_volt (last (corner vreg))) (step_volt ctrl) (nat (temp_band_count ctrl))
             (boost_table sd))"

definition cpr4_ctrl_initialised :: "cpr3_controller \<Rightarrow> bool" where
  "cpr4_ctrl_initialised c =
     (ctrl_type c = CPR_CTRL_TYPE_CPR4 \<and> sensor_count c = MSMTITANIUM_APSS_CPR_SENSOR_COUNT \<and>
      length (sensor_owner c) = MSMTITANIUM_APSS_CPR_SENSOR_COUNT \<and> supports_hw_closed_loop c \<and>
      cpr_clock_rate c = MSMTITANIUM_APSS_CPR_CLOCK_RATE \<and>
      1 \<le> temp_band_count c \<and> temp_band_count c \<le> MSMTITANIUM_APSS_MAX_TEMP_POINTS + 1)"

section \<open>Fixtures\<close>

text \<open>A library whose calls succeed, and device-tree nodes for the witnesses.\<close>

definition demo_ilib :: cpr3_init_lib where
  "demo_ilib = \<lparr>cpr3_parse_common_corner_data = Pair 0, cpr3_mem_acc_init = (\<lambda>_. 0),
     cpr3_limit_open_loop_voltages = Pair 0, cpr3_open_loop_voltage_as_ceiling = id,
     cpr3_limit_floor_voltages = Pair 0, cpr4_parse_core_count_temp_voltage_adj = (\<lambda>v _. (0, v)),
     cpr3_parse_array_property = (\<lambda>_ _ n. (0, replicate n 1)),
     cpr3_parse_common_ctrl_data = (\<lambda>c. (0, c\<lparr>step_volt := 10000\<rparr>)),
     devm_regulator_get = (\<lambda>_ _. REGULATOR_HANDLE), cpr3_apm_init = Pair 0,
     cpr3_map_fuse_base = (\<lambda>_. (0, \<lambda>_. 0)),
     cpr3_allocate_threads = (\<lambda>_. (0, [\<lparr>thread_id = 0, thread_vreg = []\<rparr>])),
     cpr3_parse_common_thread_data = Pair 0, cpr3_regulator_register = (\<lambda>_. 0),
     cpr3_regulator_unregister = (\<lambda>_. 0), cpr3_regulator_suspend = (\<lambda>_. 0),
     cpr3_regulator_resume = (\<lambda>_. 0)\<rparr>"

definition demo_ctrl_node :: "u32 list \<Rightarrow> dt_node" where
  "demo_ctrl_node band = (\<lambda>p. if p = ''qcom,cpr-temp-point-map'' then Some [10, 20]
                              else if p = ''qcom,cpr-initial-temp-band'' then Some band
                              else if p \<in> {''qcom,cpr-ctrl-name'', ''qcom,cpr-down-error-step-limit'',
                                           ''qcom,cpr-up-error-step-limit''} then Some [1]
                              else None)"

definition demo_boost_node :: dt_node where
  "demo_boost_node = (\<lambda>p. if p = ''qcom,allow-boost'' then Some [1]
                          else if p = ''qcom,cpr-num-boost-cores'' then Some [4] else None)"

section \<open>Lemmas\<close>

lemma sdiv_mono:
  fixes a b l :: int
  assumes "0 < l" "a \<le> b"
  shows "a sdiv l \<le> b sdiv l"
proof (cases "0 \<le> a")
  case True
  then show ?thesis using assms by (simp add: signed_divide_int_def sgn_if zdiv_mono1 pos_imp_zdiv_nonneg_iff)
next
  case False
  show ?thesis
  proof (cases "0 \<le> b")
    case True
    have "0 \<le> - a div l" "0 \<le> b div l" using assms False True by (simp_all add: pos_imp_zdiv_nonneg_iff)
    then show ?thesis using assms False True by (simp add: signed_divide_int_def sgn_if)
  next
    case b: False
    then show ?thesis using assms False by (simp add: signed_divide_int_def sgn_if zdiv_mono1)
  qed
qed
lemma of_read_u32_array_error: "of_property_read_u32_array node name n = Inl rc \<Longrightarrow> rc < 0"
  by (auto simp: of_property_read_u32_array_def hdcp_consts split: option.splits if_splits)

lemma of_read_u32_error: "of_property_read_u32 node name = Inl rc \<Longrightarrow> rc < 0"
  by (cases "of_property_read_u32_array node name 1")
     (auto simp: of_property_read_u32_def dest: of_read_u32_array_error)

lemma of_read_u32_not_ok [simp]: "of_property_read_u32 node name \<noteq> Inl 0"
  using of_read_u32_error by blast

lemma of_read_u32_array_not_ok [simp]: "of_property_read_u32_array node name n \<noteq> Inl 0"
  using of_read_u32_array_error by blast

lemma clamp_boost_volt_range [simp]:
  "MSMTITANIUM_APSS_BOOST_FLOOR_VOLT \<le> clamp_boost_volt v" "clamp_boost_volt v \<le> MSMTITANIUM_APSS_BOOST_CEILING_VOLT"
  by (simp_all add: clamp_boost_volt_def hdcp_consts)

lemma boost_margins_table [simp]:
  "boost_margins open_loop step n (cpr4_boost_table open_loop (clamp_boost_volt v) step adj n)"
  unfolding boost_margins_def by (blast intro: clamp_boost_volt_range)

lemma boost_applied_intro [simp]:
  "sd_allow_boost sd \<Longrightarrow> \<not> sd_allow_core_count_adj sd \<Longrightarrow> 0 < boost_num_cores sd \<Longrightarrow>
   boost_num_cores sd \<le> MSMTITANIUM_APSS_CPR_SDELTA_CORE_COUNT \<Longrightarrow> sd_temp_band_count sd = temp_band_count ctrl \<Longrightarrow>
   boost_margins (open_loop_volt (last (corner vreg))) (step_volt ctrl) (nat (temp_band_count ctrl)) (boost_table sd) \<Longrightarrow>
   boost_applied ctrl vreg
     ((set_corner_sdelta ((last (corner vreg))\<lparr>ceiling_volt := MSMTITANIUM_APSS_BOOST_CEILING_VOLT\<rparr>) sd vreg)
        \<lparr>vreg_allow_boost := True\<rparr>)"
  unfolding boost_applied_def set_corner_sdelta_def by auto

lemma boost_ctrl:
  "snd (snd (cpr4_apss_parse_boost_properties ilib alloc ctrl vreg)) \<in> {ctrl, ctrl\<lparr>ctrl_allow_boost := True\<rparr>}"
  unfolding cpr4_apss_parse_boost_properties_def Let_def
  apply (simp only: if_distrib [of "\<lambda>x. snd (snd x) \<in> _"] prod.case_distrib [of "\<lambda>x. snd (snd x) \<in> _"]
      option.case_distrib [of "\<lambda>x. snd (snd x) \<in> _"] sum.case_distrib [of "\<lambda>x. snd (snd x) \<in> _"] snd_conv)
  apply (simp only: insert_iff singleton_iff simp_thms if_cancel sum.case_eq_if option.case_eq_if prod.case_eq_if)
  done

text \<open>
  C7 (functional): when \<open>cpr4_apss_parse_boost_properties\<close> returns 0, either boost
  is off (fuse, property or flag) and nothing changed, or the controller and
  regulator allow boost, the highest corner's ceiling is the boost ceiling and its
  \<open>sdelta\<close> enables boost with a core count in \<open>1..15\<close>, no core-count
  adjustment, the controller's band count and one margin per band.
\<close>

theorem parse_boost_properties_result:
  assumes "cpr4_apss_parse_boost_properties ilib alloc ctrl vreg = (0, vreg', ctrl')"
  shows "(vreg' = vreg \<and> ctrl' = ctrl) \<or>
         (ctrl' = ctrl\<lparr>ctrl_allow_boost := True\<rparr> \<and> boost_applied ctrl vreg vreg')"
proof -
  let ?Q = "\<lambda>x::int \<times> cpr3_regulator \<times> cpr3_controller. fst x = 0 \<longrightarrow>
         (fst (snd x) = vreg \<and> ctrl_allow_boost (snd (snd x)) = ctrl_allow_boost ctrl) \<or>
         (ctrl_allow_boost (snd (snd x)) \<and> boost_applied ctrl vreg (fst (snd x)))"
  let ?cores = "of_property_read_u32 (vreg_of_node vreg) ''qcom,cpr-num-boost-cores''"
  have "?Q (cpr4_apss_parse_boost_properties ilib alloc ctrl vreg)"
    unfolding cpr4_apss_parse_boost_properties_def Let_def
    apply (simp only: if_distrib [of ?Q] sum.case_distrib [of ?Q] option.case_distrib [of ?Q] prod.case_distrib [of ?Q])
    apply (cases ?cores)
     apply (frule of_read_u32_error)
     apply (simp_all split: if_split sum.split option.split add: prod.case_eq_if EINVAL_def ENOMEM_def)
    done
  moreover have "ctrl' = ctrl \<or> ctrl' = ctrl\<lparr>ctrl_allow_boost := True\<rparr>"
    using boost_ctrl [of ilib alloc ctrl vreg] assms by simp
  ultimately show ?thesis using assms by auto
qed

text \<open>
  With a positive step, the boost table has one entry per temperature
  band and each entry lies between the truncated step counts for the boost ceiling
  and the boost floor.
\<close>

lemma boost_margins_bounds:
  assumes "boost_margins open_loop step n table" "0 < step"
  shows "length table = n \<and>
         (\<forall>t\<in>set table. (open_loop - MSMTITANIUM_APSS_BOOST_CEILING_VOLT) sdiv step \<le> t \<and>
                         t \<le> (open_loop - MSMTITANIUM_APSS_BOOST_FLOOR_VOLT) sdiv step)"
proof -
  obtain bv adj where bv: "MSMTITANIUM_APSS_BOOST_FLOOR_VOLT \<le> bv" "bv \<le> MSMTITANIUM_APSS_BOOST_CEILING_VOLT"
    and t: "table = cpr4_boost_table open_loop bv step adj n"
    using assms(1) unfolding boost_margins_def by blast
  show ?thesis unfolding t cpr4_boost_table_def using assms(2)
    by (auto intro!: sdiv_mono clamp_boost_volt_range)
qed

lemma of_read_u32_projl [simp]:
  "isl (of_property_read_u32 node name) \<Longrightarrow> projl (of_property_read_u32 node name) \<noteq> 0"
  using of_read_u32_error by (cases "of_property_read_u32 node name") fastforce+

lemma IS_ERR_PTR_ERR [simp]: "IS_ERR p \<Longrightarrow> PTR_ERR p \<noteq> 0"
  by (cases p) simp_all

lemma temp_adj_band_count:
  "fst (cpr4_apss_parse_temp_adj_properties alloc ctrl) = 0 \<Longrightarrow>
   1 \<le> temp_band_count (snd (cpr4_apss_parse_temp_adj_properties alloc ctrl)) \<and>
   temp_band_count (snd (cpr4_apss_parse_temp_adj_properties alloc ctrl)) \<le> MSMTITANIUM_APSS_MAX_TEMP_POINTS + 1"
  unfolding cpr4_apss_parse_temp_adj_properties_def Let_def
  by (auto simp: hdcp_consts split: option.splits if_splits sum.splits)

lemma init_controller_initialised:
  "fst (cpr4_apss_init_controller ilib alloc ctrl) = 0 \<Longrightarrow>
   cpr4_ctrl_initialised (snd (cpr4_apss_init_controller ilib alloc ctrl))"
proof -
  let ?Q = "\<lambda>x::int \<times> cpr3_controller. fst x = 0 \<longrightarrow> cpr4_ctrl_initialised (snd x)"
  have "?Q (cpr4_apss_init_controller ilib alloc ctrl)"
    unfolding cpr4_apss_init_controller_def Let_def
    apply (simp only: if_distrib [of ?Q] sum.case_distrib [of ?Q] prod.case_distrib [of ?Q])
    apply (simp add: prod.case_eq_if sum.case_eq_if ENOMEM_def cpr4_ctrl_initialised_def temp_adj_band_count)
    done
  then show "fst (cpr4_apss_init_controller ilib alloc ctrl) = 0 \<Longrightarrow> ?thesis" by simp
qed

lemma init_regulator_ctrl:
  "snd (snd (cpr4_apss_init_regulator lib ilib alloc ctrl vreg)) \<in> {ctrl, ctrl\<lparr>ctrl_allow_boost := True\<rparr>}"
proof -
  define R where "R = {ctrl, ctrl\<lparr>ctrl_allow_boost := True\<rparr>}"
  have "ctrl \<in> R" "\<And>v. snd (snd (cpr4_apss_parse_boost_properties ilib alloc ctrl v)) \<in> R"
    using boost_ctrl by (simp_all add: R_def)
  then have "snd (snd (cpr4_apss_init_regulator lib ilib alloc ctrl vreg)) \<in> R"
    unfolding cpr4_apss_init_regulator_def Let_def
    by (simp only: if_distrib [of "\<lambda>x. snd (snd x) \<in> R"] prod.case_distrib [of "\<lambda>x. snd (snd x) \<in> R"]
          sum.case_distrib [of "\<lambda>x. snd (snd x) \<in> R"] snd_conv)
       (simp add: sum.case_eq_if prod.case_eq_if)
  then show ?thesis by (simp add: R_def)
qed

lemma init_regulators_ctrl:
  "\<exists>b. snd (snd (cpr4_apss_init_regulators lib ilib alloc ctrl vs)) = ctrl\<lparr>ctrl_allow_boost := b\<rparr>"
proof (induction vs arbitrary: ctrl)
  case Nil
  then show ?case by (auto intro: exI [of _ "ctrl_allow_boost ctrl"])
next
  case (Cons v vs)
  obtain rc v' c1 where r1: "cpr4_apss_init_regulator lib ilib alloc ctrl v = (rc, v', c1)"
    by (cases "cpr4_apss_init_regulator lib ilib alloc ctrl v") auto
  have c1: "\<exists>b. c1 = ctrl\<lparr>ctrl_allow_boost := b\<rparr>"
    using init_regulator_ctrl [of lib ilib alloc ctrl v] r1 by (auto intro: exI [of _ "ctrl_allow_boost ctrl"])
  then show ?case using Cons.IH [of c1] r1
    by (auto split: prod.split simp: ex_disj_distrib)
qed

lemma initialised_update [simp]:
  "cpr4_ctrl_initialised (c\<lparr>ctrl_allow_boost := b\<rparr>) = cpr4_ctrl_initialised c"
  "cpr4_ctrl_initialised (c\<lparr>thread := ts\<rparr>) = cpr4_ctrl_initialised c"
  by (simp_all add: cpr4_ctrl_initialised_def)

lemma init_regulators_initialised [simp]:
  "cpr4_ctrl_initialised (snd (snd (cpr4_apss_init_regulators lib ilib alloc ctrl vs))) = cpr4_ctrl_initialised ctrl"
  using init_regulators_ctrl [of lib ilib alloc ctrl vs] by auto

text \<open>
  Whenever the probe gets as far as registering, the controller it
  registers has one thread, is a CPR4 controller with 13 sensors, an owner entry
  per sensor, hardware closed loop supported, the CPR clock rate, and 1 to 4
  temperature bands.
\<close>

theorem probe_initialised_controller:
  assumes "cpr4_apss_regulator_probe lib ilib alloc of_node = (rc, Some ctrl)"
  shows "length (thread ctrl) = 1 \<and> cpr4_ctrl_initialised ctrl"
proof -
  let ?Q = "\<lambda>x::int \<times> cpr3_controller option. case snd x of None \<Rightarrow> True
              | Some c \<Rightarrow> length (thread c) = 1 \<and> cpr4_ctrl_initialised c"
  have "?Q (cpr4_apss_regulator_probe lib ilib alloc of_node)"
    unfolding cpr4_apss_regulator_probe_def Let_def
    apply (simp only: if_distrib [of ?Q] sum.case_distrib [of ?Q] prod.case_distrib [of ?Q] option.case_distrib [of ?Q])
    apply (simp add: prod.case_eq_if sum.case_eq_if option.case_eq_if init_controller_initialised)
    done
  then show ?thesis using assms by simp
qed

text \<open>
  A thread allocation that yields other than exactly one thread makes
  the probe fail with \<open>-EINVAL\<close> before any controller initialisation.
\<close>

theorem probe_thread_count_error:
  assumes "of_property_read_string node ''qcom,cpr-ctrl-name'' = Inr name" "alloc ''ctrl''"
    and "\<forall>c. fst (cpr3_map_fuse_base ilib c) = 0" "\<forall>c. cpr3_allocate_threads ilib c = (0, ts)"
    and "length ts \<noteq> 1"
  shows "cpr4_apss_regulator_probe lib ilib alloc (Some node) = (- EINVAL, None)"
  using assms by (simp add: cpr4_apss_regulator_probe_def Let_def prod.case_eq_if)

text \<open>
  When \<open>cpr4_apss_parse_temp_adj_properties\<close> succeeds there are
  between 1 and 4 temperature bands; with a temperature-point map, temperature
  adjustment is on, there is one point fewer than bands, and the initial band is
  below the band count.
\<close>

lemma parse_temp_adj_success:
  assumes "cpr4_apss_parse_temp_adj_properties alloc ctrl = (0, ctrl')"
  shows "1 \<le> temp_band_count ctrl' \<and> temp_band_count ctrl' \<le> MSMTITANIUM_APSS_MAX_TEMP_POINTS + 1 \<and>
         (of_find_property (ctrl_of_node ctrl) ''qcom,cpr-temp-point-map'' \<noteq> None \<longrightarrow>
            allow_temp_adj ctrl' \<and> initial_temp_band ctrl' < temp_band_count ctrl' \<and>
            int (length (temp_points ctrl')) = temp_band_count ctrl' - 1)"
  using assms unfolding cpr4_apss_parse_temp_adj_properties_def Let_def
  by (auto simp: hdcp_consts of_property_read_u32_array_def
           split: option.splits if_splits sum.splits dest!: of_read_u32_error)

lemma parse_temp_adj_success_witness:
  "cpr4_apss_parse_temp_adj_properties (\<lambda>_. True) (cpr3_controller_zero (demo_ctrl_node [1])) =
     (0, snd (cpr4_apss_parse_temp_adj_properties (\<lambda>_. True) (cpr3_controller_zero (demo_ctrl_node [1]))))
   \<and> initial_temp_band (snd (cpr4_apss_parse_temp_adj_properties (\<lambda>_. True) (cpr3_controller_zero (demo_ctrl_node [1]))))
     < temp_band_count (snd (cpr4_apss_parse_temp_adj_properties (\<lambda>_. True) (cpr3_controller_zero (demo_ctrl_node [1]))))"
proof -
  have r: "cpr4_apss_parse_temp_adj_properties (\<lambda>_. True) (cpr3_controller_zero (demo_ctrl_node [1])) =
     (0, snd (cpr4_apss_parse_temp_adj_properties (\<lambda>_. True) (cpr3_controller_zero (demo_ctrl_node [1]))))"
    by (simp add: cpr4_apss_parse_temp_adj_properties_def demo_ctrl_node_def cpr3_controller_zero_def of_defs hdcp_consts)
  have "of_find_property (ctrl_of_node (cpr3_controller_zero (demo_ctrl_node [1]))) ''qcom,cpr-temp-point-map'' \<noteq> None"
    by (simp add: demo_ctrl_node_def cpr3_controller_zero_def of_defs)
  with parse_temp_adj_success [OF r] show ?thesis using r by simp
qed

text \<open>
  \<open>qcom,cpr-initial-temp-band = <0xffffffff>\<close> is read into the
  \<open>int\<close> field as \<open>-1\<close> and passes the range check, which only tests the
  upper bound.
\<close>

lemma temp_adj_accepts_negative_band:
  "cpr4_apss_parse_temp_adj_properties (\<lambda>_. True) (cpr3_controller_zero (demo_ctrl_node [0xFFFFFFFF])) =
     (0, snd (cpr4_apss_parse_temp_adj_properties (\<lambda>_. True) (cpr3_controller_zero (demo_ctrl_node [0xFFFFFFFF]))))
   \<and> initial_temp_band (snd (cpr4_apss_parse_temp_adj_properties (\<lambda>_. True)
        (cpr3_controller_zero (demo_ctrl_node [0xFFFFFFFF])))) = -1"
  by (simp add: cpr4_apss_parse_temp_adj_properties_def demo_ctrl_node_def cpr3_controller_zero_def of_defs hdcp_consts)

lemma probe_initialised_controller_witness:
  "length (thread (the (snd (cpr4_apss_regulator_probe demo_lib demo_ilib (\<lambda>_. True) (Some (demo_ctrl_node [1])))))) = 1
   \<and> cpr4_ctrl_initialised (the (snd (cpr4_apss_regulator_probe demo_lib demo_ilib (\<lambda>_. True) (Some (demo_ctrl_node [1])))))"
proof -
  obtain c where "cpr4_apss_regulator_probe demo_lib demo_ilib (\<lambda>_. True) (Some (demo_ctrl_node [1])) = (0, Some c)"
    by (simp add: cpr4_apss_regulator_probe_def cpr4_apss_init_controller_def cpr4_apss_parse_temp_adj_properties_def
                  cpr4_apss_init_thread_def demo_ilib_def demo_ctrl_node_def cpr3_controller_zero_def of_defs hdcp_consts Let_def)
  from probe_initialised_controller [OF this] this show ?thesis by simp
qed

lemma probe_thread_count_error_witness:
  "cpr4_apss_regulator_probe demo_lib (demo_ilib\<lparr>cpr3_allocate_threads := (\<lambda>_. (0, [])) \<rparr>) (\<lambda>_. True)
     (Some (demo_ctrl_node [1])) = (- EINVAL, None)"
  by (rule probe_thread_count_error [where name = "[1]" and ts = "[]"]) (simp_all add: demo_ctrl_node_def of_defs demo_ilib_def)

lemma parse_boost_properties_result_witness:
  "let vreg = demo_vreg demo_boost_node [demo_corner 3 400 0]\<lparr>platform_fuses := Some (demo_fuses\<lparr>boost_cfg := 1\<rparr>)\<rparr>;
       ctrl = (cpr3_controller_zero (\<lambda>_. None))\<lparr>temp_band_count := 1, step_volt := 10000\<rparr>;
       r = cpr4_apss_parse_boost_properties demo_ilib (\<lambda>_. True) ctrl vreg
   in fst r = 0 \<and> ((fst (snd r) = vreg \<and> snd (snd r) = ctrl) \<or>
        (snd (snd r) = ctrl\<lparr>ctrl_allow_boost := True\<rparr> \<and> boost_applied ctrl vreg (fst (snd r))))"
proof -
  let ?vreg = "demo_vreg demo_boost_node [demo_corner 3 400 0]\<lparr>platform_fuses := Some (demo_fuses\<lparr>boost_cfg := 1\<rparr>)\<rparr>"
  let ?ctrl = "(cpr3_controller_zero (\<lambda>_. None))\<lparr>temp_band_count := 1, step_volt := 10000\<rparr>"
  obtain v c where r: "cpr4_apss_parse_boost_properties demo_ilib (\<lambda>_. True) ?ctrl ?vreg = (0, v, c)"
    by (simp add: cpr4_apss_parse_boost_properties_def demo_boost_node_def demo_ilib_def boost_fuse_def
                  cpr4_fixture_defs hdcp_consts Let_def)
  from parse_boost_properties_result [OF r] r show ?thesis by (simp add: Let_def)
qed

lemma boost_margins_bounds_witness:
  "length (cpr4_boost_table 1000000 950000 10000 None 2) = 2 \<and>
   (1000000 - 1140000) sdiv 10000 \<le> hd (cpr4_boost_table 1000000 950000 10000 None 2) \<and>
   hd (cpr4_boost_table 1000000 950000 10000 None 2) \<le> (1000000 - 900000) sdiv 10000"
proof -
  have "boost_margins 1000000 10000 2 (cpr4_boost_table 1000000 950000 10000 None 2)"
    unfolding boost_margins_def by (rule exI [of _ 950000], rule exI [of _ None]) (simp add: hdcp_consts)
  from boost_margins_bounds [OF this] show ?thesis by (simp add: hdcp_consts cpr4_boost_table_def upt_rec)
qed

end
