(* ===== verification/MDSS_Data.thy ===== *)
theory MDSS_Data
  imports HDCP_Prelude
begin

unbundle bit_operations_syntax

text \<open>
  The MDSS MDP display driver (\<open>src/drivers/video/msm/mdss/mdss_mdp.c\<close>): the
  global \<open>struct mdss_data_type\<close> (\<open>mdss_res\<close>) as a record holding the parts
  that the modelled functions read and write, the hardware register blocks as
  maps from offsets to values, the observable hardware interactions as a trace of
  events, and the environment (clock, bus, SMMU and register answers).  The register
  offsets and the bit positions are the values of the driver's headers
  \<open>mdss_mdp_hwio.h\<close>, \<open>mdss_hwio.h\<close> and \<open>mdss_mdp.h\<close>, which are not in the
  snapshot.
\<close>

section \<open>Constants\<close>

text \<open>Register offsets of the MDP interrupt block (\<open>mdss_mdp_hwio.h\<close>).\<close>

definition MDSS_MDP_REG_INTR_EN :: u32 where [hdcp_consts]: "MDSS_MDP_REG_INTR_EN = 0x10"
definition MDSS_MDP_REG_INTR_STATUS :: u32 where [hdcp_consts]: "MDSS_MDP_REG_INTR_STATUS = 0x14"
definition MDSS_MDP_REG_INTR_CLEAR :: u32 where [hdcp_consts]: "MDSS_MDP_REG_INTR_CLEAR = 0x18"
definition MDSS_MDP_REG_HIST_INTR_EN :: u32 where [hdcp_consts]: "MDSS_MDP_REG_HIST_INTR_EN = 0x1C"
definition MDSS_MDP_REG_HIST_INTR_CLEAR :: u32 where [hdcp_consts]: "MDSS_MDP_REG_HIST_INTR_CLEAR = 0x24"

text \<open>Interrupt types whose bit position depends on the interface (\<open>mdss_mdp.h\<close>).\<close>

definition MDSS_MDP_IRQ_INTF_UNDER_RUN :: u32 where [hdcp_consts]: "MDSS_MDP_IRQ_INTF_UNDER_RUN = 24"
definition MDSS_MDP_IRQ_INTF_VSYNC :: u32 where [hdcp_consts]: "MDSS_MDP_IRQ_INTF_VSYNC = 25"
definition MDSS_MDP_INTF0 :: u32 where [hdcp_consts]: "MDSS_MDP_INTF0 = 1"

text \<open>VBIF registers and timeouts (\<open>mdss_mdp_hwio.h\<close>, \<open>mdss_mdp.h\<close>).\<close>

definition MMSS_VBIF_CLKON :: u32 where [hdcp_consts]: "MMSS_VBIF_CLKON = 0x4"
definition MMSS_VBIF_RD_LIM_CONF :: u32 where [hdcp_consts]: "MMSS_VBIF_RD_LIM_CONF = 0xB0"
definition MMSS_VBIF_WR_LIM_CONF :: u32 where [hdcp_consts]: "MMSS_VBIF_WR_LIM_CONF = 0xC0"
definition MMSS_VBIF_XIN_HALT_CTRL0 :: u32 where [hdcp_consts]: "MMSS_VBIF_XIN_HALT_CTRL0 = 0x200"
definition MMSS_VBIF_XIN_HALT_CTRL1 :: u32 where [hdcp_consts]: "MMSS_VBIF_XIN_HALT_CTRL1 = 0x204"
definition MMSS_VBIF_AXI_HALT_CTRL0 :: u32 where [hdcp_consts]: "MMSS_VBIF_AXI_HALT_CTRL0 = 0x208"
definition MMSS_VBIF_AXI_HALT_CTRL1 :: u32 where [hdcp_consts]: "MMSS_VBIF_AXI_HALT_CTRL1 = 0x20C"

text \<open>The top-level MDSS interrupt status and its per-block bits (\<open>mdss_hwio.h\<close>).\<close>

definition MDSS_REG_HW_INTR_STATUS :: u32 where [hdcp_consts]: "MDSS_REG_HW_INTR_STATUS = 0x10"
definition MDSS_INTR_MDP :: u32 where [hdcp_consts]: "MDSS_INTR_MDP = 0x1"
definition MDSS_INTR_DSI0 :: u32 where [hdcp_consts]: "MDSS_INTR_DSI0 = 0x10"
definition MDSS_INTR_DSI1 :: u32 where [hdcp_consts]: "MDSS_INTR_DSI1 = 0x20"
definition MDSS_INTR_HDMI :: u32 where [hdcp_consts]: "MDSS_INTR_HDMI = 0x100"
definition MDSS_INTR_EDP :: u32 where [hdcp_consts]: "MDSS_INTR_EDP = 0x1000"

text \<open>Polling timeouts of the VBIF halts, in microseconds.\<close>

definition XIN_HALT_TIMEOUT_US :: nat where [hdcp_consts]: "XIN_HALT_TIMEOUT_US = 0x4000"
definition AXI_HALT_TIMEOUT_US :: nat where [hdcp_consts]: "AXI_HALT_TIMEOUT_US = 0x4000"

section \<open>Hardware, events and the environment\<close>

text \<open>
  The register blocks the driver maps: \<open>mdss_io\<close> (the top level), \<open>mdp_base\<close>, \<open>vbif_io\<close> and
  \<open>vbif_nrt_io\<close>.  The clocks of \<open>mdss_mdp_clk_update\<close> by their index.
\<close>

datatype mdss_io = MDSS_IO | MDP_IO | VBIF_IO | VBIF_NRT_IO

datatype mdss_clk_idx = MDSS_CLK_AHB | MDSS_CLK_AXI | MDSS_CLK_MDP_CORE | MDSS_CLK_MDP_LUT
  | MDSS_CLK_MDP_VSYNC

text \<open>The hardware blocks that share the MDSS interrupt line (\<open>enum mdss_hw_index\<close>).\<close>

datatype mdss_hw_ndx = MDSS_HW_MDP | MDSS_HW_DSI0 | MDSS_HW_DSI1 | MDSS_HW_HDMI | MDSS_HW_EDP

text \<open>The retention flags of \<open>clk_set_flags\<close> (\<open>linux/clk/msm-clk.h\<close>).\<close>

datatype clk_flag = CLKFLAG_RETAIN_MEM | CLKFLAG_PERIPH_OFF_SET | CLKFLAG_NORETAIN_PERIPH
  | CLKFLAG_RETAIN_PERIPH | CLKFLAG_PERIPH_OFF_CLEAR

text \<open>
  The power rails the driver holds regulators for: the MDSS GDSC footswitch
  (\<open>mdata->fs\<close>, supply \<open>vdd\<close>), the Venus GDSC (\<open>mdata->venus\<close>), the CX rail
  (\<open>mdata->vdd_cx\<close>) and the battery FET (\<open>mdata->batfet\<close>).
\<close>

datatype mdss_rail = RAIL_FS | RAIL_VENUS | RAIL_VDD_CX | RAIL_BATFET

text \<open>
  What the driver does to the hardware and to the kernel services it calls, in
  order: register writes, \<open>mdss_util\<close>'s interrupt enable/disable for the MDP
  block, clock calls, bus votes (on the data bus client or the register bus
  client, registration of either client), SMMU attach/detach, runtime-PM get/put, clock flags, delays, the
  debug dump of \<open>MDSS_XLOG_TOUT_HANDLER\<close>, regulator calls with their return codes
  (\<open>devm_regulator_get\<close> with its success), the SVS-plus votes sent to the RPM
  (active and sleep set), the reset of the runtime-PM status on resume, and the
  suspend or resume of the panels (\<open>mdss_fb_suspres_panel\<close> on every child).
\<close>

datatype mdss_hw_event =
    RegWrite mdss_io u32 u32
  | UtilEnableIrq | UtilDisableIrq | UtilDisableIrqNosync | IrqDispatch mdss_hw_ndx
  | ClkSetRate mdss_clk_idx nat | ClkPrepareEnable mdss_clk_idx | ClkDisableUnprepare mdss_clk_idx
  | BusUpdateRequest u32 nat | BusUpdateContext u32 bool nat
  | SmmuAttach | SmmuDetach
  | PmRuntimeGetSync | PmRuntimePutAutosuspend
  | BusRegisterClient bool | BusUnregisterClient u32
  | ClkSetFlags clk_flag | Udelay nat | HwInit | CtlRestore | XlogToutHandler
  | RegulatorGet mdss_rail bool | RegulatorEnable mdss_rail int | RegulatorDisable mdss_rail int
  | RegulatorSetVoltage mdss_rail int int int | RpmSvsVote bool u8
  | PmRuntimeSetSuspended | PanelSuspRes bool

text \<open>A client of the register-bus vote (\<open>struct reg_bus_client\<close>).\<close>

record reg_bus_client =
  rbc_name :: string
  rbc_usecase_ndx :: u32
  rbc_id :: u32

text \<open>
  The parts of \<open>struct mdss_data_type\<close> the modelled functions use.  The static
  counter \<open>mdp_clk_cnt\<close> of \<open>mdss_mdp_clk_ctrl\<close> and the static \<open>id\<close> of
  \<open>mdss_reg_bus_vote_client_create\<close> are fields too.  \<open>mdp_hw_irq_ena\<close> is the
  bit of \<open>MDSS_HW_MDP\<close> in \<open>mdss_util\<close>'s interrupt mask, which
  \<open>mdss_get_irq_enable_state\<close> reads.  \<open>qos_otlim\<close> is the
  \<open>MDSS_QOS_OTLIM\<close> bit of \<open>mdss_qos_map\<close>; \<open>reg_bus_clt\<close> is the
  driver's own register-bus client (by its id); \<open>clk_rates\<close> are the rates
  the clocks run at.  Reference counts are \<open>nat\<close>: every
  decrement of the source is guarded by a test against zero.
\<close>

text \<open>
  The command-line panel configuration (\<open>struct mdss_panel_cfg\<close>,
  \<open>mdss_panel.h\<close>): the panel name (\<open>arg_cfg\<close>, a NUL-terminated string held
  as its characters), the primary interface, whether the bootloader configured it,
  and whether it is set up.
\<close>

record mdss_panel_cfg =
  arg_cfg :: string
  pan_intf :: int
  lk_cfg :: bool
  init_done :: bool

record mdss_data =
  io_regs :: "mdss_io \<Rightarrow> u32 \<Rightarrow> u32"
  io_mapped :: "mdss_io \<Rightarrow> bool"
  mdp_irq_mask :: u32
  mdp_intf_irq_mask :: u32
  mdp_hist_irq_mask :: u32
  mdp_hw_irq_ena :: bool
  bus_hdl :: u32
  reg_bus_hdl :: u32
  bus_ref_cnt :: nat
  curr_bw_uc_idx :: nat
  ao_bw_uc_idx :: nat
  bus_usecases :: "(u64 \<times> u64) list list"
  axi_port_cnt :: u32
  nrt_axi_port_cnt :: u32
  bus_channels :: u32
  has_fixed_qos_arbiter_enabled :: bool
  ab :: "u64 list"
  ib :: "u64 list"
  reg_bus_clist :: "reg_bus_client list"
  reg_bus_usecase_ndx :: u32
  reg_bus_next_id :: u32
  reg_bus_clt :: "u32 option"
  iommu_ref_cnt :: nat
  iommu_attached :: bool
  handoff_pending :: bool
  quirk_min_bus_vote :: bool
  clk_ena :: bool
  vsync_ena :: int
  idle_pc :: bool
  mdp_clk_cnt :: nat
  qos_otlim :: bool
  mdp_rev :: u32
  default_ot_wr_limit :: u32
  default_ot_rd_limit :: u32
  clk_rates :: "mdss_clk_idx \<Rightarrow> nat"
  max_mdp_clk_rate :: nat
  min_mdp_clk :: nat
  hw_trace :: "mdss_hw_event list"
  fs_ena :: bool
  suspend_fs_ena :: bool
  en_svs_high :: bool
  active_intf_cnt :: nat
  batfet_required :: bool
  rail_present :: "mdss_rail \<Rightarrow> bool"
  svs_en :: u8
  pan_cfg :: mdss_panel_cfg

text \<open>
  The environment: which clocks exist (\<open>mdss_mdp_get_clk\<close> is not \<open>NULL\<close>),
  the return codes of the kernel services as functions of the trace so far, the
  values successive reads of a polled register return, and the time each turn of
  a polling loop sleeps beyond the minimum of \<open>usleep_range\<close>, whether
  \<open>kzalloc\<close> succeeds, the answers of \<open>clk_round_rate\<close> and
  \<open>clk_set_rate\<close>, the handle \<open>msm_bus_scale_register_client\<close> returns, and the
  answers of the regulator framework to \<open>devm_regulator_get\<close>,
  \<open>regulator_enable\<close> and \<open>regulator_set_voltage\<close>.
\<close>

record mdss_env =
  clk_present :: "mdss_clk_idx \<Rightarrow> bool"
  clk_enable_rc :: "mdss_hw_event list \<Rightarrow> int"
  bus_update_rc :: "mdss_hw_event list \<Rightarrow> int"
  smmu_attach_rc :: "mdss_hw_event list \<Rightarrow> int"
  smmu_detach_rc :: "mdss_hw_event list \<Rightarrow> int"
  poll_read :: "mdss_io \<Rightarrow> u32 \<Rightarrow> nat \<Rightarrow> u32"
  poll_extra_us :: "nat \<Rightarrow> nat"
  alloc_ok :: "mdss_hw_event list \<Rightarrow> bool"
  clk_round_rate :: "nat \<Rightarrow> int"
  clk_set_rate_rc :: "mdss_hw_event list \<Rightarrow> int"
  bus_register_hdl :: "mdss_hw_event list \<Rightarrow> u32"
  regulator_get_ok :: "mdss_rail \<Rightarrow> mdss_hw_event list \<Rightarrow> bool"
  regulator_enable_rc :: "mdss_rail \<Rightarrow> mdss_hw_event list \<Rightarrow> int"
  regulator_set_voltage_rc :: "mdss_rail \<Rightarrow> mdss_hw_event list \<Rightarrow> int"

section \<open>Register access\<close>

text \<open>
  \<open>readl_relaxed(base + off)\<close> and \<open>writel_relaxed(v, base + off)\<close>
  (and \<open>MDSS_VBIF_READ/WRITE\<close>): a written register reads back the value written;
  status registers hold what the hardware put there.
\<close>

definition mdss_readl :: "mdss_data \<Rightarrow> mdss_io \<Rightarrow> u32 \<Rightarrow> u32" where
  "mdss_readl md io off = io_regs md io off"

definition mdss_writel :: "mdss_io \<Rightarrow> u32 \<Rightarrow> u32 \<Rightarrow> mdss_data \<Rightarrow> mdss_data" where
  "mdss_writel io off v md =
     md\<lparr>io_regs := (io_regs md)(io := (io_regs md io)(off := v)),
        hw_trace := hw_trace md @ [RegWrite io off v]\<rparr>"

definition mdss_emit :: "mdss_hw_event \<Rightarrow> mdss_data \<Rightarrow> mdss_data" where
  "mdss_emit e md = md\<lparr>hw_trace := hw_trace md @ [e]\<rparr>"

section \<open>Framebuffer pitch\<close>

text \<open>
  \<open>mdss_mdp_fb_stride\<close>: the pitch of framebuffer 0 is aligned to 32 pixels for
  the GPU (\<open>ALIGN(xres, 32)\<close>); the 32-bit products wrap.
\<close>

definition mdss_mdp_fb_stride :: "u32 \<Rightarrow> u32 \<Rightarrow> int \<Rightarrow> u32" where
  "mdss_mdp_fb_stride fb_index xres bpp =
     (if fb_index = 0 then ((xres + 31) AND NOT 31) * word_of_int bpp else xres * word_of_int bpp)"

section \<open>Fixtures\<close>

text \<open>
  A driver state right after probe for the examples: registers zero, all blocks
  mapped, no interrupt enabled, MDP revision 1.7 with the OT-limit feature and a
  default write OT limit of 16, bus and register-bus clients registered (handles 1
  and 2; the driver's own register-bus client \<open>mdp\<close> has id 0), two real-time
  AXI ports over two channels, three bus usecases, no clock, bus or SMMU reference
  taken, no overlay active; footswitch, Venus and CX regulators present and off, no
  battery FET, the primary panel a DSI panel set up from the command line.
\<close>

definition mdss_demo :: mdss_data where
  "mdss_demo =
     \<lparr>io_regs = (\<lambda>_ _. 0), io_mapped = (\<lambda>_. True), mdp_irq_mask = 0, mdp_intf_irq_mask = 0,
      mdp_hist_irq_mask = 0, mdp_hw_irq_ena = False, bus_hdl = 1, reg_bus_hdl = 2, bus_ref_cnt = 0,
      curr_bw_uc_idx = 0, ao_bw_uc_idx = 0, bus_usecases = replicate 3 (replicate 2 (0, 0)),
      axi_port_cnt = 2, nrt_axi_port_cnt = 0, bus_channels = 2, has_fixed_qos_arbiter_enabled = False,
      ab = [0, 0, 0, 0], ib = [0, 0, 0, 0],
      reg_bus_clist = [\<lparr>rbc_name = ''mdp'', rbc_usecase_ndx = 0, rbc_id = 0\<rparr>],
      reg_bus_usecase_ndx = 0, reg_bus_next_id = 1, reg_bus_clt = Some 0,
      iommu_ref_cnt = 0, iommu_attached = False, handoff_pending = False, quirk_min_bus_vote = False,
      clk_ena = False, vsync_ena = 0, idle_pc = False, mdp_clk_cnt = 0, qos_otlim = True,
      mdp_rev = 0x10070000, default_ot_wr_limit = 16, default_ot_rd_limit = 0,
      clk_rates = (\<lambda>_. 0), max_mdp_clk_rate = 320000000, min_mdp_clk = 0, hw_trace = [],
      fs_ena = False, suspend_fs_ena = False, en_svs_high = False, active_intf_cnt = 0,
      batfet_required = False, rail_present = (\<lambda>r. r \<noteq> RAIL_BATFET), svs_en = 0,
      pan_cfg = \<lparr>arg_cfg = ''qcom,mdss_dsi_panel'', pan_intf = 0, lk_cfg = True, init_done = True\<rparr>\<rparr>"

text \<open>
  An environment in which every service succeeds, every polled register reads
  all ones (the first poll sees the acknowledge) and sleeps take their minimum.
\<close>

definition mdss_demo_env :: mdss_env where
  "mdss_demo_env =
     \<lparr>clk_present = (\<lambda>_. True), clk_enable_rc = (\<lambda>_. 0), bus_update_rc = (\<lambda>_. 0),
      smmu_attach_rc = (\<lambda>_. 0), smmu_detach_rc = (\<lambda>_. 0), poll_read = (\<lambda>_ _ _. 0xFFFFFFFF),
      poll_extra_us = (\<lambda>_. 0), alloc_ok = (\<lambda>_. True), clk_round_rate = int,
      clk_set_rate_rc = (\<lambda>_. 0), bus_register_hdl = (\<lambda>_. 1), regulator_get_ok = (\<lambda>_ _. True),
      regulator_enable_rc = (\<lambda>_ _. 0), regulator_set_voltage_rc = (\<lambda>_ _. 0)\<rparr>"

lemmas mdss_io_defs = mdss_readl_def mdss_writel_def mdss_emit_def

section \<open>Generic lemmas\<close>

lemma mdss_writel_read [simp]:
  "mdss_readl (mdss_writel io off v md) io' off' =
     (if io' = io \<and> off' = off then v else mdss_readl md io' off')"
  by (simp add: mdss_io_defs)

lemma mdss_writel_fields [simp, hdcp_frame]:
  "mdp_irq_mask (mdss_writel io off v md) = mdp_irq_mask md"
  "mdp_hist_irq_mask (mdss_writel io off v md) = mdp_hist_irq_mask md"
  "mdp_intf_irq_mask (mdss_writel io off v md) = mdp_intf_irq_mask md"
  "mdp_hw_irq_ena (mdss_writel io off v md) = mdp_hw_irq_ena md"
  "io_mapped (mdss_writel io off v md) = io_mapped md"
  "hw_trace (mdss_writel io off v md) = hw_trace md @ [RegWrite io off v]"
  by (simp_all add: mdss_writel_def)

lemma mdss_emit_fields [simp, hdcp_frame]:
  "mdp_irq_mask (mdss_emit e md) = mdp_irq_mask md"
  "mdp_hist_irq_mask (mdss_emit e md) = mdp_hist_irq_mask md"
  "mdp_intf_irq_mask (mdss_emit e md) = mdp_intf_irq_mask md"
  "mdp_hw_irq_ena (mdss_emit e md) = mdp_hw_irq_ena md"
  "io_regs (mdss_emit e md) = io_regs md"
  "io_mapped (mdss_emit e md) = io_mapped md"
  "hw_trace (mdss_emit e md) = hw_trace md @ [e]"
  "mdss_readl (mdss_emit e md) = mdss_readl md"
  by (simp_all add: mdss_emit_def mdss_readl_def fun_eq_iff)


lemma mdss_demo_fields:
  "bus_hdl mdss_demo = 1" "reg_bus_hdl mdss_demo = 2" "bus_ref_cnt mdss_demo = 0"
  "curr_bw_uc_idx mdss_demo = 0" "bus_usecases mdss_demo = replicate 3 (replicate 2 (0, 0))"
  "axi_port_cnt mdss_demo = 2" "nrt_axi_port_cnt mdss_demo = 0" "bus_channels mdss_demo = 2"
  "has_fixed_qos_arbiter_enabled mdss_demo = False" "reg_bus_usecase_ndx mdss_demo = 0"
  "reg_bus_clist mdss_demo = [\<lparr>rbc_name = ''mdp'', rbc_usecase_ndx = 0, rbc_id = 0\<rparr>]"
  "reg_bus_clt mdss_demo = Some 0" "iommu_ref_cnt mdss_demo = 0" "iommu_attached mdss_demo = False"
  "handoff_pending mdss_demo = False" "quirk_min_bus_vote mdss_demo = False" "clk_ena mdss_demo = False"
  "vsync_ena mdss_demo = 0" "idle_pc mdss_demo = False" "mdp_clk_cnt mdss_demo = 0"
  "hw_trace mdss_demo = []" "ab mdss_demo = [0, 0, 0, 0]" "ib mdss_demo = [0, 0, 0, 0]"
  "mdp_irq_mask mdss_demo = 0" "mdp_hist_irq_mask mdss_demo = 0" "mdp_intf_irq_mask mdss_demo = 0"
  "mdp_hw_irq_ena mdss_demo = False" "io_mapped mdss_demo = (\<lambda>_. True)"
  "mdss_readl mdss_demo io off = 0" "fs_ena mdss_demo = False" "active_intf_cnt mdss_demo = 0"
  "en_svs_high mdss_demo = False" "batfet_required mdss_demo = False"
  "rail_present mdss_demo = (\<lambda>r. r \<noteq> RAIL_BATFET)" "suspend_fs_ena mdss_demo = False"
  "pan_cfg mdss_demo = \<lparr>arg_cfg = ''qcom,mdss_dsi_panel'', pan_intf = 0, lk_cfg = True, init_done = True\<rparr>"
  by (simp_all add: mdss_demo_def mdss_readl_def)

end
