(* ===== verification/MDSS_Irq.thy ===== *)
theory MDSS_Irq
  imports MDSS_Data
begin

unbundle bit_operations_syntax

text \<open>
  The MDP interrupt masks of \<open>mdss_mdp.c\<close> (lines 177--212 and 488--670): the
  bit of an interrupt type, the enable and disable functions for the main and the
  histogram interrupt blocks, the clear functions and the top-level interrupt
  handler; then the interrupt functions as a transition system, with the invariant
  that the enable registers mirror the software masks and that the MDP interrupt
  is on in \<open>mdss_util\<close> whenever a mask has a bit set.
\<close>

section \<open>The MDP block in mdss_util\<close>

text \<open>
  \<open>mdss_enable_irq\<close>, \<open>mdss_disable_irq\<close> and \<open>mdss_disable_irq_nosync\<close> of
  \<open>mdss_util.c\<close> (not in the snapshot) on \<open>mdss_mdp_hw\<close>: each sets or clears
  the MDP bit of the shared interrupt mask and touches the interrupt line only when
  the bit changes.
\<close>

definition mdss_enable_irq :: "mdss_data \<Rightarrow> mdss_data" where
  "mdss_enable_irq md =
     (if mdp_hw_irq_ena md then md else (mdss_emit UtilEnableIrq md)\<lparr>mdp_hw_irq_ena := True\<rparr>)"

definition mdss_disable_irq :: "mdss_data \<Rightarrow> mdss_data" where
  "mdss_disable_irq md =
     (if mdp_hw_irq_ena md then (mdss_emit UtilDisableIrq md)\<lparr>mdp_hw_irq_ena := False\<rparr> else md)"

definition mdss_disable_irq_nosync :: "mdss_data \<Rightarrow> mdss_data" where
  "mdss_disable_irq_nosync md =
     (if mdp_hw_irq_ena md then (mdss_emit UtilDisableIrqNosync md)\<lparr>mdp_hw_irq_ena := False\<rparr> else md)"

section \<open>Interrupt bits and masks\<close>

text \<open>
  \<open>mdss_mdp_irq_mask\<close>: interface interrupts take two bits per interface starting
  at \<open>INTF0\<close>; the bit is \<open>1 << (intr_type + intf_num)\<close>.  A shift of 32 or more
  is undefined in C; the model gives 0 there, the value of \<open>push_bit\<close> on a
  32-bit word.
\<close>

definition mdss_mdp_irq_mask :: "u32 \<Rightarrow> u32 \<Rightarrow> u32" where
  "mdss_mdp_irq_mask intr_type intf_num =
     (let intf_num = (if intr_type = MDSS_MDP_IRQ_INTF_UNDER_RUN \<or> intr_type = MDSS_MDP_IRQ_INTF_VSYNC
                      then (intf_num - MDSS_MDP_INTF0) * 2 else intf_num)
      in push_bit (unat (intr_type + intf_num)) 1)"

definition masks_clear :: "mdss_data \<Rightarrow> bool" where
  "masks_clear md \<longleftrightarrow> mdp_irq_mask md = 0 \<and> mdp_hist_irq_mask md = 0 \<and> mdp_intf_irq_mask md = 0"

definition mdss_mdp_enable_hw_irq :: "mdss_data \<Rightarrow> mdss_data" where
  "mdss_mdp_enable_hw_irq md = mdss_enable_irq md"

definition mdss_mdp_disable_hw_irq :: "mdss_data \<Rightarrow> mdss_data" where
  "mdss_mdp_disable_hw_irq md = (if masks_clear md then mdss_disable_irq md else md)"

definition mdss_mdp_irq_clear :: "u32 \<Rightarrow> u32 \<Rightarrow> mdss_data \<Rightarrow> mdss_data" where
  "mdss_mdp_irq_clear intr_type intf_num md =
     mdss_writel MDP_IO MDSS_MDP_REG_INTR_CLEAR (mdss_mdp_irq_mask intr_type intf_num) md"

definition mdss_mdp_irq_enable :: "u32 \<Rightarrow> u32 \<Rightarrow> mdss_data \<Rightarrow> int \<times> mdss_data" where
  "mdss_mdp_irq_enable intr_type intf_num md =
     (let irq = mdss_mdp_irq_mask intr_type intf_num in
      if mdp_irq_mask md AND irq \<noteq> 0 then (- EBUSY, md)
      else
        let md = md\<lparr>mdp_irq_mask := mdp_irq_mask md OR irq\<rparr>;
            md = mdss_writel MDP_IO MDSS_MDP_REG_INTR_CLEAR irq md;
            md = mdss_writel MDP_IO MDSS_MDP_REG_INTR_EN (mdp_irq_mask md) md
        in (0, mdss_enable_irq md))"

definition mdss_mdp_hist_irq_enable :: "u32 \<Rightarrow> mdss_data \<Rightarrow> int \<times> mdss_data" where
  "mdss_mdp_hist_irq_enable irq md =
     (if mdp_hist_irq_mask md AND irq \<noteq> 0 then (- EBUSY, md)
      else
        let md = md\<lparr>mdp_hist_irq_mask := mdp_hist_irq_mask md OR irq\<rparr>;
            md = mdss_writel MDP_IO MDSS_MDP_REG_HIST_INTR_CLEAR irq md;
            md = mdss_writel MDP_IO MDSS_MDP_REG_HIST_INTR_EN (mdp_hist_irq_mask md) md
        in (0, mdss_enable_irq md))"

text \<open>
  \<open>mdss_mdp_irq_disable\<close> and \<open>mdss_mdp_irq_disable_nosync\<close> differ only in the
  \<open>mdss_util\<close> call; the spin lock of the former is not modelled (each function is
  one step).
\<close>

definition mdss_mdp_irq_disable :: "u32 \<Rightarrow> u32 \<Rightarrow> mdss_data \<Rightarrow> mdss_data" where
  "mdss_mdp_irq_disable intr_type intf_num md =
     (let irq = mdss_mdp_irq_mask intr_type intf_num in
      if mdp_irq_mask md AND irq = 0 then md
      else
        let md = md\<lparr>mdp_irq_mask := mdp_irq_mask md AND NOT irq\<rparr>;
            md = mdss_writel MDP_IO MDSS_MDP_REG_INTR_EN (mdp_irq_mask md) md
        in if masks_clear md then mdss_disable_irq md else md)"

definition mdss_mdp_intr_check_and_clear :: "u32 \<Rightarrow> u32 \<Rightarrow> mdss_data \<Rightarrow> mdss_data" where
  "mdss_mdp_intr_check_and_clear intr_type intf_num md =
     (let irq = mdss_mdp_irq_mask intr_type intf_num;
          status = irq AND mdss_readl md MDP_IO MDSS_MDP_REG_INTR_STATUS
      in if status \<noteq> 0 then mdss_writel MDP_IO MDSS_MDP_REG_INTR_CLEAR irq md else md)"

definition mdss_mdp_hist_irq_disable :: "u32 \<Rightarrow> mdss_data \<Rightarrow> mdss_data" where
  "mdss_mdp_hist_irq_disable irq md =
     (if mdp_hist_irq_mask md AND irq = 0 then md
      else
        let md = md\<lparr>mdp_hist_irq_mask := mdp_hist_irq_mask md AND NOT irq\<rparr>;
            md = mdss_writel MDP_IO MDSS_MDP_REG_HIST_INTR_EN (mdp_hist_irq_mask md) md
        in if masks_clear md then mdss_disable_irq md else md)"

definition mdss_mdp_irq_disable_nosync :: "u32 \<Rightarrow> u32 \<Rightarrow> mdss_data \<Rightarrow> mdss_data" where
  "mdss_mdp_irq_disable_nosync intr_type intf_num md =
     (let irq = mdss_mdp_irq_mask intr_type intf_num in
      if mdp_irq_mask md AND irq = 0 then md
      else
        let md = md\<lparr>mdp_irq_mask := mdp_irq_mask md AND NOT irq\<rparr>;
            md = mdss_writel MDP_IO MDSS_MDP_REG_INTR_EN (mdp_irq_mask md) md
        in if masks_clear md then mdss_disable_irq_nosync md else md)"

section \<open>The interrupt handler\<close>

datatype irqreturn = IRQ_NONE | IRQ_HANDLED

text \<open>
  \<open>mdss_irq_handler\<close>: with no driver data it does nothing; with the MDP block
  off in \<open>mdss_util\<close> it claims the interrupt without reading it; otherwise it
  dispatches each block whose bit is set in the top-level status, in the order of
  the source.  \<open>irq_buzy\<close> is set and cleared around the dispatch and is not
  observable afterwards.
\<close>

definition dispatch_if :: "u32 \<Rightarrow> u32 \<Rightarrow> mdss_hw_ndx \<Rightarrow> mdss_data \<Rightarrow> mdss_data" where
  "dispatch_if intr b hw md = (if intr AND b \<noteq> 0 then mdss_emit (IrqDispatch hw) md else md)"

definition mdss_irq_handler :: "mdss_data option \<Rightarrow> irqreturn \<times> mdss_data option" where
  "mdss_irq_handler mdo =
     (case mdo of None \<Rightarrow> (IRQ_NONE, None)
      | Some md \<Rightarrow>
          if \<not> mdp_hw_irq_ena md then (IRQ_HANDLED, Some md)
          else
            let intr = mdss_readl md MDSS_IO MDSS_REG_HW_INTR_STATUS;
                md = dispatch_if intr MDSS_INTR_MDP MDSS_HW_MDP md;
                md = dispatch_if intr MDSS_INTR_DSI0 MDSS_HW_DSI0 md;
                md = dispatch_if intr MDSS_INTR_DSI1 MDSS_HW_DSI1 md;
                md = dispatch_if intr MDSS_INTR_EDP MDSS_HW_EDP md;
                md = dispatch_if intr MDSS_INTR_HDMI MDSS_HW_HDMI md
            in (IRQ_HANDLED, Some md))"

section \<open>The interrupt functions as a transition system\<close>

datatype mdss_irq_op =
    OpIrqEnable u32 u32 | OpIrqDisable u32 u32 | OpIrqDisableNosync u32 u32
  | OpHistIrqEnable u32 | OpHistIrqDisable u32 | OpEnableHwIrq | OpDisableHwIrq
  | OpIrqClear u32 u32 | OpCheckAndClear u32 u32 | OpIrqHandler

fun mdss_irq_step :: "mdss_irq_op \<Rightarrow> mdss_data \<Rightarrow> mdss_data" where
  "mdss_irq_step (OpIrqEnable t n) md = snd (mdss_mdp_irq_enable t n md)"
| "mdss_irq_step (OpIrqDisable t n) md = mdss_mdp_irq_disable t n md"
| "mdss_irq_step (OpIrqDisableNosync t n) md = mdss_mdp_irq_disable_nosync t n md"
| "mdss_irq_step (OpHistIrqEnable irq) md = snd (mdss_mdp_hist_irq_enable irq md)"
| "mdss_irq_step (OpHistIrqDisable irq) md = mdss_mdp_hist_irq_disable irq md"
| "mdss_irq_step OpEnableHwIrq md = mdss_mdp_enable_hw_irq md"
| "mdss_irq_step OpDisableHwIrq md = mdss_mdp_disable_hw_irq md"
| "mdss_irq_step (OpIrqClear t n) md = mdss_mdp_irq_clear t n md"
| "mdss_irq_step (OpCheckAndClear t n) md = mdss_mdp_intr_check_and_clear t n md"
| "mdss_irq_step OpIrqHandler md = (case snd (mdss_irq_handler (Some md)) of Some md' \<Rightarrow> md' | None \<Rightarrow> md)"

inductive mdss_irq_reachable :: "mdss_data \<Rightarrow> mdss_data \<Rightarrow> bool" where
  irq_init: "mdss_irq_reachable md0 md0"
| irq_step: "mdss_irq_reachable md0 md \<Longrightarrow> mdss_irq_reachable md0 (mdss_irq_step op md)"

text \<open>
  The invariant: the enable registers hold the software masks, and a set mask bit
  implies that the MDP interrupt is on in \<open>mdss_util\<close> (no enabled interrupt is
  lost because the line was turned off).
\<close>

definition mdss_irq_inv :: "mdss_data \<Rightarrow> bool" where
  "mdss_irq_inv md \<longleftrightarrow>
     mdss_readl md MDP_IO MDSS_MDP_REG_INTR_EN = mdp_irq_mask md \<and>
     mdss_readl md MDP_IO MDSS_MDP_REG_HIST_INTR_EN = mdp_hist_irq_mask md \<and>
     (\<not> masks_clear md \<longrightarrow> mdp_hw_irq_ena md)"

section \<open>Lemmas\<close>

named_theorems mdss_irq_inv_rules "preservation of the interrupt invariant by one function"

lemma mdss_irq_reg_offsets_distinct [simp]:
  "MDSS_MDP_REG_INTR_CLEAR \<noteq> MDSS_MDP_REG_INTR_EN" "MDSS_MDP_REG_INTR_EN \<noteq> MDSS_MDP_REG_INTR_CLEAR"
  "MDSS_MDP_REG_INTR_CLEAR \<noteq> MDSS_MDP_REG_HIST_INTR_EN" "MDSS_MDP_REG_HIST_INTR_EN \<noteq> MDSS_MDP_REG_INTR_CLEAR"
  "MDSS_MDP_REG_HIST_INTR_CLEAR \<noteq> MDSS_MDP_REG_INTR_EN" "MDSS_MDP_REG_INTR_EN \<noteq> MDSS_MDP_REG_HIST_INTR_CLEAR"
  "MDSS_MDP_REG_HIST_INTR_CLEAR \<noteq> MDSS_MDP_REG_HIST_INTR_EN" "MDSS_MDP_REG_HIST_INTR_EN \<noteq> MDSS_MDP_REG_HIST_INTR_CLEAR"
  "MDSS_MDP_REG_INTR_EN \<noteq> MDSS_MDP_REG_HIST_INTR_EN" "MDSS_MDP_REG_HIST_INTR_EN \<noteq> MDSS_MDP_REG_INTR_EN"
  by (simp_all add: hdcp_consts)

lemma mdss_readl_mask_update [simp]:
  "mdss_readl (md\<lparr>mdp_irq_mask := x\<rparr>) = mdss_readl md"
  "mdss_readl (md\<lparr>mdp_hist_irq_mask := x\<rparr>) = mdss_readl md"
  "mdss_readl (md\<lparr>mdp_hw_irq_ena := b\<rparr>) = mdss_readl md"
  by (simp_all add: mdss_readl_def fun_eq_iff)

lemma mdss_util_irq_fields [simp]:
  "mdp_irq_mask (mdss_enable_irq md) = mdp_irq_mask md"
  "mdp_hist_irq_mask (mdss_enable_irq md) = mdp_hist_irq_mask md"
  "mdp_intf_irq_mask (mdss_enable_irq md) = mdp_intf_irq_mask md"
  "mdss_readl (mdss_enable_irq md) = mdss_readl md"
  "mdp_hw_irq_ena (mdss_enable_irq md)"
  "mdp_irq_mask (mdss_disable_irq md) = mdp_irq_mask md"
  "mdp_hist_irq_mask (mdss_disable_irq md) = mdp_hist_irq_mask md"
  "mdp_intf_irq_mask (mdss_disable_irq md) = mdp_intf_irq_mask md"
  "mdss_readl (mdss_disable_irq md) = mdss_readl md"
  "mdp_irq_mask (mdss_disable_irq_nosync md) = mdp_irq_mask md"
  "mdp_hist_irq_mask (mdss_disable_irq_nosync md) = mdp_hist_irq_mask md"
  "mdp_intf_irq_mask (mdss_disable_irq_nosync md) = mdp_intf_irq_mask md"
  "mdss_readl (mdss_disable_irq_nosync md) = mdss_readl md"
  by (simp_all add: mdss_enable_irq_def mdss_disable_irq_def mdss_disable_irq_nosync_def
      mdss_io_defs fun_eq_iff)

lemma masks_clear_cong:
  "masks_clear md' = masks_clear md"
  if "mdp_irq_mask md' = mdp_irq_mask md" "mdp_hist_irq_mask md' = mdp_hist_irq_mask md"
     "mdp_intf_irq_mask md' = mdp_intf_irq_mask md"
  using that by (simp add: masks_clear_def)

lemma mdss_disable_irq_when_clear:
  "masks_clear md \<Longrightarrow> mdss_irq_inv md' \<Longrightarrow> md' = md \<Longrightarrow> mdss_irq_inv (mdss_disable_irq md)"
  "masks_clear md \<Longrightarrow> mdss_irq_inv md' \<Longrightarrow> md' = md \<Longrightarrow> mdss_irq_inv (mdss_disable_irq_nosync md)"
  by (simp_all add: mdss_irq_inv_def masks_clear_def)

lemma irq_enable_inv [mdss_irq_inv_rules]:
  "mdss_irq_inv md \<Longrightarrow> mdss_irq_inv (snd (mdss_mdp_irq_enable t n md))"
  by (auto simp: mdss_mdp_irq_enable_def mdss_irq_inv_def Let_def masks_clear_def)

lemma hist_irq_enable_inv [mdss_irq_inv_rules]:
  "mdss_irq_inv md \<Longrightarrow> mdss_irq_inv (snd (mdss_mdp_hist_irq_enable irq md))"
  by (auto simp: mdss_mdp_hist_irq_enable_def mdss_irq_inv_def Let_def masks_clear_def)

lemma irq_disable_inv [mdss_irq_inv_rules]:
  "mdss_irq_inv md \<Longrightarrow> mdss_irq_inv (mdss_mdp_irq_disable t n md)"
  "mdss_irq_inv md \<Longrightarrow> mdss_irq_inv (mdss_mdp_irq_disable_nosync t n md)"
  by (auto simp: mdss_mdp_irq_disable_def mdss_mdp_irq_disable_nosync_def mdss_irq_inv_def
      Let_def masks_clear_def mdss_disable_irq_def mdss_disable_irq_nosync_def)

lemma hist_irq_disable_inv [mdss_irq_inv_rules]:
  "mdss_irq_inv md \<Longrightarrow> mdss_irq_inv (mdss_mdp_hist_irq_disable irq md)"
  by (auto simp: mdss_mdp_hist_irq_disable_def mdss_irq_inv_def Let_def masks_clear_def
      mdss_disable_irq_def)

lemma hw_irq_inv [mdss_irq_inv_rules]:
  "mdss_irq_inv md \<Longrightarrow> mdss_irq_inv (mdss_mdp_enable_hw_irq md)"
  "mdss_irq_inv md \<Longrightarrow> mdss_irq_inv (mdss_mdp_disable_hw_irq md)"
  by (auto simp: mdss_mdp_enable_hw_irq_def mdss_mdp_disable_hw_irq_def mdss_irq_inv_def
      masks_clear_def mdss_disable_irq_def)

lemma irq_clear_inv [mdss_irq_inv_rules]:
  "mdss_irq_inv md \<Longrightarrow> mdss_irq_inv (mdss_mdp_irq_clear t n md)"
  "mdss_irq_inv md \<Longrightarrow> mdss_irq_inv (mdss_mdp_intr_check_and_clear t n md)"
  by (auto simp: mdss_mdp_irq_clear_def mdss_mdp_intr_check_and_clear_def mdss_irq_inv_def
      Let_def masks_clear_def)

lemma dispatch_if_fields [simp]:
  "mdp_irq_mask (dispatch_if i b hw md) = mdp_irq_mask md"
  "mdp_hist_irq_mask (dispatch_if i b hw md) = mdp_hist_irq_mask md"
  "mdp_intf_irq_mask (dispatch_if i b hw md) = mdp_intf_irq_mask md"
  "mdp_hw_irq_ena (dispatch_if i b hw md) = mdp_hw_irq_ena md"
  "mdss_readl (dispatch_if i b hw md) = mdss_readl md"
  by (simp_all add: dispatch_if_def mdss_io_defs fun_eq_iff)

lemma irq_handler_inv [mdss_irq_inv_rules]:
  "mdss_irq_inv md \<Longrightarrow> mdss_irq_inv (mdss_irq_step OpIrqHandler md)"
  by (auto simp: mdss_irq_handler_def mdss_irq_inv_def masks_clear_def Let_def)

lemma irq_step_inv:
  "mdss_irq_inv md \<Longrightarrow> mdss_irq_inv (mdss_irq_step op md)"
  by (cases op) (simp_all only: mdss_irq_step.simps(1-9) mdss_irq_inv_rules)

text \<open>
  C16 (invariant): from a state where the enable registers hold the masks and a set
  mask implies an enabled MDP interrupt, every sequence of the interrupt functions
  (enable, disable, the no-sync disable, the histogram pair, the hardware enable and
  disable, the clears and the handler) keeps both properties.
\<close>

theorem irq_reachable_inv:
  assumes "mdss_irq_inv md0" "mdss_irq_reachable md0 md"
  shows "mdss_irq_inv md"
  using assms(2,1) by induction (simp_all add: irq_step_inv)

text \<open>
  Enabling an interrupt whose bit is already in the mask fails with
  \<open>-EBUSY\<close> and changes nothing, neither the mask nor the registers nor the trace.
\<close>

theorem irq_enable_busy:
  assumes "mdp_irq_mask md AND mdss_mdp_irq_mask t n \<noteq> 0"
  shows "mdss_mdp_irq_enable t n md = (- EBUSY, md)"
  using assms by (simp add: mdss_mdp_irq_enable_def)

text \<open>
  Enabling an interrupt that is not in the mask and disabling it
  again gives back the mask, and the enable register again holds the old mask.
\<close>

theorem irq_enable_disable_roundtrip:
  assumes "mdp_irq_mask md AND mdss_mdp_irq_mask t n = 0"
  shows "mdp_irq_mask (mdss_mdp_irq_disable t n (snd (mdss_mdp_irq_enable t n md))) = mdp_irq_mask md \<and>
         mdss_readl (mdss_mdp_irq_disable t n (snd (mdss_mdp_irq_enable t n md))) MDP_IO MDSS_MDP_REG_INTR_EN
           = mdp_irq_mask md"
proof -
  let ?irq = "mdss_mdp_irq_mask t n"
  have restore: "(mdp_irq_mask md OR ?irq) AND NOT ?irq = mdp_irq_mask md"
    using assms by (rule mask_or_and_not)
  show ?thesis
    using assms restore by (auto simp: mdss_mdp_irq_enable_def mdss_mdp_irq_disable_def Let_def)
qed


section \<open>Witnesses\<close>

theorem irq_reachable_inv_witness:
  "mdss_irq_inv (mdss_irq_step (OpIrqDisable 24 1) (mdss_irq_step (OpIrqEnable 24 1) mdss_demo))"
proof (rule irq_reachable_inv [of mdss_demo])
  show "mdss_irq_inv mdss_demo"
    by (simp add: mdss_irq_inv_def mdss_demo_def masks_clear_def mdss_readl_def)
  show "mdss_irq_reachable mdss_demo (mdss_irq_step (OpIrqDisable 24 1) (mdss_irq_step (OpIrqEnable 24 1) mdss_demo))"
    by (intro irq_step irq_init)
qed

theorem irq_enable_busy_witness:
  "mdss_mdp_irq_enable 24 1 (snd (mdss_mdp_irq_enable 24 1 mdss_demo)) =
     (- EBUSY, snd (mdss_mdp_irq_enable 24 1 mdss_demo))"
  by (rule irq_enable_busy)
     (simp add: mdss_mdp_irq_enable_def mdss_mdp_irq_mask_def mdss_demo_def mdss_enable_irq_def hdcp_consts)

theorem irq_enable_disable_roundtrip_witness:
  "mdp_irq_mask (mdss_mdp_irq_disable 25 2 (snd (mdss_mdp_irq_enable 25 2 mdss_demo))) = 0 \<and>
   mdss_readl (mdss_mdp_irq_disable 25 2 (snd (mdss_mdp_irq_enable 25 2 mdss_demo))) MDP_IO MDSS_MDP_REG_INTR_EN = 0"
  using irq_enable_disable_roundtrip [of mdss_demo 25 2] by (simp add: mdss_demo_def)

end
