(* ===== verification/MDSS_Vbif.thy ===== *)
theory MDSS_Vbif
  imports MDSS_Data
begin

unbundle bit_operations_syntax

text \<open>
  The VBIF (the MDP's bus interface) functions of \<open>mdss_mdp.c\<close>: the polling loop
  \<open>readl_poll_timeout\<close> of \<open>linux/iopoll.h\<close> as a partial function with its
  termination proof, \<open>__mdss_mdp_vbif_halt\<close> (lines 783--819),
  \<open>mdss_mdp_wait_for_xin_halt\<close>, \<open>force_on_xin_clk\<close> and the outstanding
  transaction (OT) limit programming \<open>apply_dynamic_ot_limit\<close>,
  \<open>get_ot_limit\<close>, \<open>mdss_mdp_set_ot_limit\<close> (lines 3772--3973).
\<close>

section \<open>Constants\<close>

definition MDSS_MDP_HW_REV_114 :: u32 where [hdcp_consts]: "MDSS_MDP_HW_REV_114 = 0x100E0000"
definition MDSS_MDP_HW_REV_115 :: u32 where [hdcp_consts]: "MDSS_MDP_HW_REV_115 = 0x100F0000"
definition MDSS_MDP_HW_REV_116 :: u32 where [hdcp_consts]: "MDSS_MDP_HW_REV_116 = 0x10100000"
definition RES_1080p :: u32 where [hdcp_consts]: "RES_1080p = 1088 * 1920"
definition RES_UHD :: u32 where [hdcp_consts]: "RES_UHD = 3840 * 2160"

section \<open>Polling a register\<close>

text \<open>
  \<open>readl_poll_timeout(addr, val, cond, sleep_us, timeout_us)\<close>: read; stop if
  \<open>cond\<close> holds; stop after one more read if the time since the start exceeds
  \<open>timeout_us\<close> (when it is not 0); otherwise sleep with
  \<open>usleep_range((sleep_us >> 2) + 1, sleep_us)\<close> and repeat.  The \<open>k\<close>-th read
  returns \<open>rd k\<close>; turn \<open>k\<close> takes the minimum sleep plus \<open>extra k\<close>
  microseconds.  The result is the last value read and the number of reads.  With
  \<open>timeout_us = 0\<close> the C loop may spin forever, so the loop is a partial
  function; \<open>readl_poll_loop_bound\<close> shows that it returns whenever both
  times are positive, as at every call in the driver.
\<close>

definition poll_step_us :: "nat \<Rightarrow> nat" where
  "poll_step_us sleep_us = (if 0 < sleep_us then sleep_us div 4 + 1 else 0)"

partial_function (option) readl_poll_loop ::
  "(nat \<Rightarrow> u32) \<Rightarrow> (u32 \<Rightarrow> bool) \<Rightarrow> nat \<Rightarrow> nat \<Rightarrow> (nat \<Rightarrow> nat) \<Rightarrow> nat \<Rightarrow> nat \<Rightarrow> (u32 \<times> nat) option"
where
  "readl_poll_loop rd cond sleep_us timeout_us extra k t =
     (if cond (rd k) then Some (rd k, Suc k)
      else if 0 < timeout_us \<and> timeout_us < t then Some (rd (Suc k), Suc (Suc k))
      else readl_poll_loop rd cond sleep_us timeout_us extra (Suc k) (t + poll_step_us sleep_us + extra k))"

definition readl_poll_timeout ::
  "mdss_env \<Rightarrow> mdss_io \<Rightarrow> u32 \<Rightarrow> (u32 \<Rightarrow> bool) \<Rightarrow> nat \<Rightarrow> nat \<Rightarrow> int option" where
  "readl_poll_timeout env io off cond sleep_us timeout_us =
     map_option (\<lambda>(v, n). if cond v then 0 else - ETIMEDOUT)
       (readl_poll_loop (poll_read env io off) cond sleep_us timeout_us (poll_extra_us env) 0 0)"

section \<open>Halting the VBIF\<close>

definition vbif_io :: "bool \<Rightarrow> mdss_io" where
  "vbif_io is_nrt = (if is_nrt then VBIF_NRT_IO else VBIF_IO)"

text \<open>
  \<open>__mdss_mdp_vbif_halt\<close>: a block that is not mapped (no NRT port) is skipped
  with 0; otherwise force the VBIF clock on, request the AXI halt and poll the
  acknowledge bit.
\<close>

definition mdss_mdp_vbif_halt :: "mdss_env \<Rightarrow> bool \<Rightarrow> mdss_data \<Rightarrow> (int \<times> mdss_data) option" where
  "mdss_mdp_vbif_halt env is_nrt md =
     (let io = vbif_io is_nrt in
      if \<not> io_mapped md io then Some (0, md)
      else
        let md = mdss_writel io MMSS_VBIF_CLKON 1 md;
            md = mdss_writel io MMSS_VBIF_AXI_HALT_CTRL0 1 md
        in map_option (\<lambda>rc. (rc, md))
             (readl_poll_timeout env io MMSS_VBIF_AXI_HALT_CTRL1 (\<lambda>status. status AND 1 \<noteq> 0)
                1000 AXI_HALT_TIMEOUT_US))"

text \<open>
  \<open>mdss_mdp_wait_for_xin_halt\<close>: poll the idle bit of one client; on a timeout
  dump the debug state.
\<close>

definition mdss_mdp_wait_for_xin_halt ::
  "mdss_env \<Rightarrow> u32 \<Rightarrow> bool \<Rightarrow> mdss_data \<Rightarrow> (int \<times> mdss_data) option" where
  "mdss_mdp_wait_for_xin_halt env xin_id is_vbif_nrt md =
     (let idle_mask = push_bit (unat xin_id) 1 in
      map_option (\<lambda>rc. (rc, if rc = - ETIMEDOUT then mdss_emit XlogToutHandler md else md))
        (readl_poll_timeout env (vbif_io is_vbif_nrt) MMSS_VBIF_XIN_HALT_CTRL1
           (\<lambda>status. status AND idle_mask \<noteq> 0) 1000 XIN_HALT_TIMEOUT_US))"

section \<open>Forcing a client clock on\<close>

text \<open>
  \<open>force_on_xin_clk\<close>: set or clear bit \<open>bit_off\<close> of an MDP clock-control
  register; the result says whether the bit was clear before, i.e. whether this
  call forced the clock on.
\<close>

definition force_on_xin_clk :: "u32 \<Rightarrow> u32 \<Rightarrow> bool \<Rightarrow> mdss_data \<Rightarrow> bool \<times> mdss_data" where
  "force_on_xin_clk bit_off clk_ctl_reg_off enable md =
     (let force_on_mask = push_bit (unat bit_off) 1;
          val = mdss_readl md MDP_IO clk_ctl_reg_off;
          clk_forced_on = (force_on_mask AND val = 0);
          val = (if enable then val OR force_on_mask else val AND NOT force_on_mask)
      in (clk_forced_on, mdss_writel MDP_IO clk_ctl_reg_off val md))"

section \<open>Outstanding transaction limits\<close>

text \<open>\<open>struct mdss_mdp_set_ot_params\<close>.\<close>

record mdss_mdp_set_ot_params =
  ot_xin_id :: u32
  ot_num :: u32
  ot_width :: u32
  ot_height :: u32
  ot_frame_rate :: u32
  ot_is_rot :: bool
  ot_is_wb :: bool
  ot_is_yuv :: bool
  ot_is_vbif_nrt :: bool
  ot_reg_off_vbif_lim_conf :: u32
  ot_reg_off_mdp_clk_ctrl :: u32
  ot_bit_off_mdp_clk_ctrl :: u32

text \<open>
  \<open>apply_dynamic_ot_limit\<close>: only with the OT-limit feature and only for the
  rotator on YUV or for write-back; \<open>res = width * height\<close> is a 32-bit product.
\<close>

definition apply_dynamic_ot_limit :: "u32 \<Rightarrow> mdss_mdp_set_ot_params \<Rightarrow> mdss_data \<Rightarrow> u32" where
  "apply_dynamic_ot_limit ot_lim params md =
     (if \<not> qos_otlim md then ot_lim
      else if \<not> ((ot_is_rot params \<and> ot_is_yuv params) \<or> ot_is_wb params) then ot_lim
      else
        let res = ot_width params * ot_height params in
        if mdp_rev md \<in> {MDSS_MDP_HW_REV_114, MDSS_MDP_HW_REV_115, MDSS_MDP_HW_REV_116} then
          (if res \<le> RES_1080p \<and> ot_frame_rate params \<le> 30 then 2
           else if ot_is_rot params \<and> ot_is_yuv params then 4 else 6)
        else if res \<le> RES_1080p then 2
        else if res \<le> RES_UHD then (if ot_is_rot params \<and> ot_is_yuv params then 8 else 16)
        else ot_lim)"

text \<open>
  \<open>get_ot_limit\<close>: the default limit of the device tree for the read or write
  configuration register, adjusted, and 0 (nothing to program) when there is no
  default or when the byte field already holds the limit.
\<close>

definition get_ot_limit :: "u32 \<Rightarrow> u32 \<Rightarrow> mdss_mdp_set_ot_params \<Rightarrow> mdss_data \<Rightarrow> u32" where
  "get_ot_limit reg_off bit_off params md =
     (let ot_lim =
        (if default_ot_wr_limit md \<noteq> 0 \<and> ot_reg_off_vbif_lim_conf params = MMSS_VBIF_WR_LIM_CONF
         then default_ot_wr_limit md
         else if default_ot_rd_limit md \<noteq> 0 \<and> ot_reg_off_vbif_lim_conf params = MMSS_VBIF_RD_LIM_CONF
         then default_ot_rd_limit md else 0)
      in if ot_lim = 0 then 0
         else
           let ot_lim = apply_dynamic_ot_limit ot_lim params md;
               val = mdss_readl md (vbif_io (ot_is_vbif_nrt params)) reg_off;
               val = drop_bit (unat bit_off) (val AND push_bit (unat bit_off) 0xFF)
           in if val = ot_lim then 0 else ot_lim)"

text \<open>
  The configuration register of a VBIF client and the position of its byte.
\<close>

definition ot_lim_conf_off :: "mdss_mdp_set_ot_params \<Rightarrow> u32" where
  "ot_lim_conf_off params = (ot_xin_id params div 4) * 4 + ot_reg_off_vbif_lim_conf params"

definition ot_lim_conf_shift :: "mdss_mdp_set_ot_params \<Rightarrow> u32" where
  "ot_lim_conf_shift params = (ot_xin_id params mod 4) * 8"

text \<open>
  \<open>mdss_mdp_set_ot_limit\<close>: the client's limit sits in byte \<open>xin_id mod 4\<close> of
  the configuration register \<open>4 * (xin_id div 4)\<close> bytes past the base.  Program
  it with the client clock forced on, halt the client and wait for it, release the
  halt, and drop the force-on if this call set it.  The register lock and the
  trace point are not modelled.
\<close>

definition mdss_mdp_set_ot_limit ::
  "mdss_env \<Rightarrow> mdss_mdp_set_ot_params \<Rightarrow> mdss_data \<Rightarrow> mdss_data option" where
  "mdss_mdp_set_ot_limit env params md =
     (let reg_off = ot_lim_conf_off params;
          bit_off = ot_lim_conf_shift params;
          io = vbif_io (ot_is_vbif_nrt params);
          ot_lim = get_ot_limit reg_off bit_off params md AND 0xFF
      in if ot_lim = 0 then Some md
         else
           let (forced_on, md) = force_on_xin_clk (ot_bit_off_mdp_clk_ctrl params)
                                   (ot_reg_off_mdp_clk_ctrl params) True md;
               reg_val = mdss_readl md io reg_off AND NOT (push_bit (unat bit_off) 0xFF);
               reg_val = reg_val OR push_bit (unat bit_off) ot_lim;
               md = mdss_writel io reg_off reg_val md;
               reg_val = mdss_readl md io MMSS_VBIF_XIN_HALT_CTRL0;
               md = mdss_writel io MMSS_VBIF_XIN_HALT_CTRL0 (reg_val OR push_bit (unat (ot_xin_id params)) 1) md
           in case mdss_mdp_wait_for_xin_halt env (ot_xin_id params) (ot_is_vbif_nrt params) md of
                None \<Rightarrow> None
              | Some (_, md) \<Rightarrow>
                  let reg_val = mdss_readl md io MMSS_VBIF_XIN_HALT_CTRL0;
                      md = mdss_writel io MMSS_VBIF_XIN_HALT_CTRL0
                             (reg_val AND NOT (push_bit (unat (ot_xin_id params)) 1)) md
                  in Some (if forced_on
                           then snd (force_on_xin_clk (ot_bit_off_mdp_clk_ctrl params)
                                       (ot_reg_off_mdp_clk_ctrl params) False md)
                           else md))"

section \<open>Fixtures\<close>

text \<open>Write-back client 1 on the real-time VBIF, 1080p at 60 Hz.\<close>

definition ot_demo_params :: mdss_mdp_set_ot_params where
  "ot_demo_params =
     \<lparr>ot_xin_id = 1, ot_num = 0, ot_width = 1920, ot_height = 1080, ot_frame_rate = 60,
      ot_is_rot = False, ot_is_wb = True, ot_is_yuv = False, ot_is_vbif_nrt = False,
      ot_reg_off_vbif_lim_conf = MMSS_VBIF_WR_LIM_CONF, ot_reg_off_mdp_clk_ctrl = 0x2AC,
      ot_bit_off_mdp_clk_ctrl = 8\<rparr>"

section \<open>Lemmas\<close>

lemma poll_step_pos [simp]: "0 < sleep_us \<Longrightarrow> 0 < poll_step_us sleep_us"
  by (simp add: poll_step_us_def)

text \<open>
  The loop returns, after at most \<open>(timeout_us + s - t) div s + 2\<close> further
  reads where \<open>s\<close> is the minimum sleep: every turn that goes on advances the time
  by at least \<open>s\<close>, and a turn that finds the time past the timeout stops.
\<close>

lemma readl_poll_loop_bound:
  assumes "0 < sleep_us" "0 < timeout_us"
  shows "\<exists>v n. readl_poll_loop rd cond sleep_us timeout_us extra k t = Some (v, n) \<and>
           n \<le> k + (timeout_us + poll_step_us sleep_us - t) div poll_step_us sleep_us + 2"
proof (induction "timeout_us + 1 - t" arbitrary: k t rule: less_induct)
  case less
  let ?s = "poll_step_us sleep_us"
  have s: "0 < ?s" using assms(1) by simp
  show ?case
  proof (cases "cond (rd k) \<or> timeout_us < t")
    case True
    then show ?thesis using assms(2) by (subst readl_poll_loop.simps) auto
  next
    case False
    let ?t' = "t + ?s + extra k"
    have dec: "timeout_us + 1 - ?t' < timeout_us + 1 - t" using False s by linarith
    from less [OF dec, of "Suc k"] obtain v n where
      r: "readl_poll_loop rd cond sleep_us timeout_us extra (Suc k) ?t' = Some (v, n)" and
      n: "n \<le> Suc k + (timeout_us + ?s - ?t') div ?s + 2"
      by blast
    have "timeout_us + ?s - ?t' \<le> (timeout_us + ?s - t) - ?s" by simp
    then have "(timeout_us + ?s - ?t') div ?s \<le> ((timeout_us + ?s - t) - ?s) div ?s"
      by (rule div_le_mono)
    moreover have "((timeout_us + ?s - t) - ?s) div ?s + 1 = (timeout_us + ?s - t) div ?s"
    proof -
      have "?s \<le> timeout_us + ?s - t" using False by linarith
      from le_div_geq [OF s this] show ?thesis by simp
    qed
    ultimately have "n \<le> k + (timeout_us + ?s - t) div ?s + 2" using n by linarith
    then show ?thesis using False r by (subst readl_poll_loop.simps) auto
  qed
qed


lemma readl_poll_timeout_returns:
  assumes "0 < sleep_us" "0 < timeout_us"
  shows "\<exists>rc. readl_poll_timeout env io off cond sleep_us timeout_us = Some rc \<and> (rc = 0 \<or> rc = - ETIMEDOUT)"
proof -
  obtain v n where "readl_poll_loop (poll_read env io off) cond sleep_us timeout_us (poll_extra_us env) 0 0 = Some (v, n)"
    using readl_poll_loop_bound [OF assms] by blast
  then show ?thesis by (simp add: readl_poll_timeout_def)
qed

lemma wait_for_xin_halt_readl:
  "mdss_mdp_wait_for_xin_halt env xin nrt md = Some (rc, md') \<Longrightarrow> mdss_readl md' = mdss_readl md"
  by (auto simp: mdss_mdp_wait_for_xin_halt_def Let_def split: if_splits)

lemma vbif_halt_returns:
  "\<exists>rc md'. mdss_mdp_vbif_halt env is_nrt md = Some (rc, md') \<and> (rc = 0 \<or> rc = - ETIMEDOUT)"
  using readl_poll_timeout_returns [of 1000 AXI_HALT_TIMEOUT_US env "vbif_io is_nrt" MMSS_VBIF_AXI_HALT_CTRL1]
  by (auto simp: mdss_mdp_vbif_halt_def Let_def hdcp_consts)

lemma push_bit_one_set:
  "push_bit n 1 AND (v::'a::len word) \<noteq> 0 \<Longrightarrow> v OR push_bit n 1 = v"
  by (rule bit_word_eqI) (auto simp: bit_simps and.commute [of "2 ^ n"] and_exp_eq_0_iff_not_bit)

lemma u32_byte_mask: "(0xFF::u32) = mask 8"
  by (simp add: mask_eq_exp_minus_1)

lemma byte_field_update:
  fixes w x :: u32
  assumes "b \<le> 24"
  shows "drop_bit b (((w AND NOT (push_bit b 0xFF)) OR push_bit b (x AND 0xFF)) AND push_bit b 0xFF) = x AND 0xFF"
    and "((w AND NOT (push_bit b 0xFF)) OR push_bit b (x AND 0xFF)) AND NOT (push_bit b 0xFF) = w AND NOT (push_bit b 0xFF)"
  using assms by (auto intro!: bit_word_eqI simp: bit_simps u32_byte_mask)


lemma unat_mult_small:
  "unat (x::u32) < 2 ^ 28 \<Longrightarrow> unat (y::u32) \<le> 8 \<Longrightarrow> unat (x * y) = unat x * unat y"
proof (rule unat_mult_lem [THEN iffD1])
  assume "unat x < 2 ^ 28" "unat y \<le> 8"
  then have a: "unat x * unat y \<le> unat x * 8" and b: "unat x * 8 < 2 ^ 31" by simp_all
  have "unat x * unat y < 2 ^ 31" using a b by linarith
  then show "unat x * unat y < 2 ^ LENGTH(32)" by simp
qed

lemma ot_lim_conf_off_not_halt:
  assumes "ot_xin_id p < 16"
    "ot_reg_off_vbif_lim_conf p = MMSS_VBIF_RD_LIM_CONF \<or> ot_reg_off_vbif_lim_conf p = MMSS_VBIF_WR_LIM_CONF"
  shows "ot_lim_conf_off p \<noteq> MMSS_VBIF_XIN_HALT_CTRL0"
proof -
  have "unat (ot_xin_id p div 4) < 4" using assms(1) by unat_arith
  then have "unat (ot_xin_id p div 4 * 4) < 16" by (simp add: unat_mult_small)
  then show ?thesis using assms(2) unfolding ot_lim_conf_off_def hdcp_consts by unat_arith
qed

lemma ot_lim_conf_shift_le: "unat (ot_lim_conf_shift p) \<le> 24"
proof -
  have "unat (ot_xin_id p mod 4) < 4" by unat_arith
  then show ?thesis unfolding ot_lim_conf_shift_def by (simp add: unat_mult_small)
qed
lemma wait_for_xin_halt_returns:
  "\<exists>rc md'. mdss_mdp_wait_for_xin_halt env xin nrt md = Some (rc, md') \<and> (rc = 0 \<or> rc = - ETIMEDOUT)"
  using readl_poll_timeout_returns [of 1000 XIN_HALT_TIMEOUT_US env "vbif_io nrt" MMSS_VBIF_XIN_HALT_CTRL1]
  by (fastforce simp: mdss_mdp_wait_for_xin_halt_def Let_def hdcp_consts)

lemma word_or_exp_set:
  "(v::'a::len word) AND 2 ^ n \<noteq> 0 \<Longrightarrow> v OR 2 ^ n = v"
  by (rule bit_word_eqI) (auto simp: bit_simps and_exp_eq_0_iff_not_bit)

lemma vbif_io_not_mdp [simp]: "vbif_io nrt \<noteq> MDP_IO" "MDP_IO \<noteq> vbif_io nrt"
  by (simp_all add: vbif_io_def)

lemma force_on_xin_clk_readl [simp]:
  "mdss_readl (snd (force_on_xin_clk b r en md)) io off =
     (if io = MDP_IO \<and> off = r
      then (if en then mdss_readl md MDP_IO r OR push_bit (unat b) 1
            else mdss_readl md MDP_IO r AND NOT (push_bit (unat b) 1))
      else mdss_readl md io off)"
  by (simp add: force_on_xin_clk_def Let_def)

lemma force_on_xin_clk_restore:
  "(if fst (force_on_xin_clk b r True md)
    then (mdss_readl md MDP_IO r OR 2 ^ unat b) AND NOT (2 ^ unat b)
    else mdss_readl md MDP_IO r OR 2 ^ unat b) = mdss_readl md MDP_IO r"
proof (cases "bit (mdss_readl md MDP_IO r) (unat b)")
  case True
  have "push_bit (unat b) 1 AND mdss_readl md MDP_IO r \<noteq> 0"
    using True by (simp add: and.commute [of "2 ^ unat b"] and_exp_eq_0_iff_not_bit)
  then show ?thesis using True
    by (auto simp: force_on_xin_clk_def Let_def intro!: bit_word_eqI simp: bit_simps)
next
  case False
  have "push_bit (unat b) 1 AND mdss_readl md MDP_IO r = 0"
    by (rule bit_word_eqI) (use False in \<open>auto simp: bit_simps\<close>)
  then show ?thesis using False
    by (auto simp: force_on_xin_clk_def Let_def intro!: bit_word_eqI simp: bit_simps)
qed

text \<open>
  C17 (functional): when a client (below 16) has a limit to program, the OT limit
  ends up in its byte of the configuration register, the other bytes of that
  register are unchanged, and the MDP clock-control register is back to its old
  value, whether the call forced the clock on or found it forced already.
\<close>

theorem set_ot_limit_programs_field:
  assumes "ot_xin_id p < 16"
    and "get_ot_limit (ot_lim_conf_off p) (ot_lim_conf_shift p) p md AND 0xFF \<noteq> 0"
  shows "\<exists>md'. mdss_mdp_set_ot_limit env p md = Some md' \<and>
     drop_bit (unat (ot_lim_conf_shift p))
       (mdss_readl md' (vbif_io (ot_is_vbif_nrt p)) (ot_lim_conf_off p) AND push_bit (unat (ot_lim_conf_shift p)) 0xFF)
       = get_ot_limit (ot_lim_conf_off p) (ot_lim_conf_shift p) p md AND 0xFF \<and>
     mdss_readl md' (vbif_io (ot_is_vbif_nrt p)) (ot_lim_conf_off p) AND NOT (push_bit (unat (ot_lim_conf_shift p)) 0xFF)
       = mdss_readl md (vbif_io (ot_is_vbif_nrt p)) (ot_lim_conf_off p) AND NOT (push_bit (unat (ot_lim_conf_shift p)) 0xFF) \<and>
     mdss_readl md' MDP_IO (ot_reg_off_mdp_clk_ctrl p) = mdss_readl md MDP_IO (ot_reg_off_mdp_clk_ctrl p)"
proof -
  let ?io = "vbif_io (ot_is_vbif_nrt p)" and ?off = "ot_lim_conf_off p"
  let ?sh = "unat (ot_lim_conf_shift p)" and ?ot = "get_ot_limit (ot_lim_conf_off p) (ot_lim_conf_shift p) p md"
  let ?b = "ot_bit_off_mdp_clk_ctrl p" and ?r = "ot_reg_off_mdp_clk_ctrl p"
  have conf: "ot_reg_off_vbif_lim_conf p = MMSS_VBIF_RD_LIM_CONF \<or> ot_reg_off_vbif_lim_conf p = MMSS_VBIF_WR_LIM_CONF"
    using assms(2) by (auto simp: get_ot_limit_def Let_def split: if_splits)
  have off: "?off \<noteq> MMSS_VBIF_XIN_HALT_CTRL0" by (rule ot_lim_conf_off_not_halt [OF assms(1) conf])
  have sh: "?sh \<le> 24" by (rule ot_lim_conf_shift_le)
  define md1 where "md1 = snd (force_on_xin_clk ?b ?r True md)"
  define md3 where "md3 = mdss_writel ?io MMSS_VBIF_XIN_HALT_CTRL0
                      (mdss_readl md1 ?io MMSS_VBIF_XIN_HALT_CTRL0 OR push_bit (unat (ot_xin_id p)) 1)
                      (mdss_writel ?io ?off ((mdss_readl md1 ?io ?off AND NOT (push_bit ?sh 0xFF)) OR push_bit ?sh (?ot AND 0xFF)) md1)"
  obtain rc md4 where w: "mdss_mdp_wait_for_xin_halt env (ot_xin_id p) (ot_is_vbif_nrt p) md3 = Some (rc, md4)"
    using wait_for_xin_halt_returns by blast
  have r4: "mdss_readl md4 = mdss_readl md3" by (rule wait_for_xin_halt_readl [OF w])
  define md5 where "md5 = mdss_writel ?io MMSS_VBIF_XIN_HALT_CTRL0
                      (mdss_readl md4 ?io MMSS_VBIF_XIN_HALT_CTRL0 AND NOT (push_bit (unat (ot_xin_id p)) 1)) md4"
  define md' where "md' = (if fst (force_on_xin_clk ?b ?r True md) then snd (force_on_xin_clk ?b ?r False md5) else md5)"
  have run: "mdss_mdp_set_ot_limit env p md = Some md'"
    using assms(2) w off unfolding mdss_mdp_set_ot_limit_def md'_def md5_def md3_def md1_def
    by (simp add: Let_def prod.case_eq_if)
  have v: "mdss_readl md' ?io ?off = (mdss_readl md ?io ?off AND NOT (push_bit ?sh 0xFF)) OR push_bit ?sh (?ot AND 0xFF)"
    using off r4 by (simp add: md'_def md5_def md3_def md1_def)
  have c: "mdss_readl md' MDP_IO ?r = mdss_readl md MDP_IO ?r"
    using r4 force_on_xin_clk_restore [of ?b ?r md]
    by (simp add: md'_def md5_def md3_def md1_def split: if_splits)
  show ?thesis
    using run v c byte_field_update [OF sh] by simp
qed

section \<open>Witnesses\<close>

theorem set_ot_limit_programs_field_witness:
  "ot_xin_id ot_demo_params < 16 \<and>
   get_ot_limit (ot_lim_conf_off ot_demo_params) (ot_lim_conf_shift ot_demo_params) ot_demo_params mdss_demo
     AND 0xFF = 2 \<and>
   (\<exists>md'. mdss_mdp_set_ot_limit mdss_demo_env ot_demo_params mdss_demo = Some md' \<and>
     drop_bit 8 (mdss_readl md' VBIF_IO 0xC0 AND push_bit 8 0xFF) = 2 \<and>
     mdss_readl md' MDP_IO 0x2AC = 0)"
proof -
  have l: "get_ot_limit (ot_lim_conf_off ot_demo_params) (ot_lim_conf_shift ot_demo_params) ot_demo_params mdss_demo
             AND 0xFF = 2"
    by (simp add: get_ot_limit_def apply_dynamic_ot_limit_def ot_lim_conf_off_def ot_lim_conf_shift_def
        ot_demo_params_def mdss_demo_def mdss_readl_def vbif_io_def hdcp_consts)
  have x: "ot_xin_id ot_demo_params < 16" by (simp add: ot_demo_params_def)
  have f: "ot_lim_conf_off ot_demo_params = 0xC0" "unat (ot_lim_conf_shift ot_demo_params) = 8"
    "vbif_io (ot_is_vbif_nrt ot_demo_params) = VBIF_IO" "ot_reg_off_mdp_clk_ctrl ot_demo_params = 0x2AC"
    by (simp_all add: ot_lim_conf_off_def ot_lim_conf_shift_def ot_demo_params_def vbif_io_def hdcp_consts)
  have z: "mdss_readl mdss_demo MDP_IO 0x2AC = 0" by (simp add: mdss_demo_def mdss_readl_def)
  from set_ot_limit_programs_field [of ot_demo_params mdss_demo mdss_demo_env] x l
  obtain md' where "mdss_mdp_set_ot_limit mdss_demo_env ot_demo_params mdss_demo = Some md'"
    "drop_bit 8 (mdss_readl md' VBIF_IO 0xC0 AND push_bit 8 0xFF) = 2"
    "mdss_readl md' MDP_IO 0x2AC = 0"
    unfolding f z by auto
  then show ?thesis using x l by blast
qed

end
