(* ===== verification/MDSS_Bus.thy ===== *)
theory MDSS_Bus
  imports MDSS_Data
begin

unbundle bit_operations_syntax

text \<open>
  The bus bandwidth votes of \<open>mdss_mdp.c\<close> (lines 274--486): the data-bus vote
  \<open>mdss_mdp_bus_scale_set_quota\<close>, which splits the real-time and
  non-real-time quotas over the AXI ports and writes them into a spare usecase of
  the bus table, the per-client front end \<open>mdss_bus_scale_set_quota\<close>, and the
  register-bus vote: its clients (\<open>mdss_reg_bus_vote_client_create/destroy\<close>) and
  \<open>mdss_update_reg_bus_vote\<close>, which votes the highest usecase any client asks
  for.  A \<open>div_u64\<close> or \<open>%\<close> by zero, a kernel oops, is the value \<open>None\<close>.
\<close>

section \<open>Constants\<close>

text \<open>\<open>mdss.h\<close>: the bus clients and the register-bus vote levels.\<close>

definition MAX_AXI_PORT_COUNT :: nat where [hdcp_consts]: "MAX_AXI_PORT_COUNT = 2"
definition MDSS_MDP_RT :: nat where [hdcp_consts]: "MDSS_MDP_RT = 0"
definition MDSS_DSI_RT :: nat where [hdcp_consts]: "MDSS_DSI_RT = 1"
definition MDSS_HW_RT :: nat where [hdcp_consts]: "MDSS_HW_RT = 2"
definition MDSS_MDP_NRT :: nat where [hdcp_consts]: "MDSS_MDP_NRT = 3"
definition MDSS_MAX_BUS_CLIENTS :: nat where [hdcp_consts]: "MDSS_MAX_BUS_CLIENTS = 4"
definition VOTE_INDEX_DISABLE :: u32 where [hdcp_consts]: "VOTE_INDEX_DISABLE = 0"
definition VOTE_INDEX_19_MHZ :: u32 where [hdcp_consts]: "VOTE_INDEX_19_MHZ = 1"
definition VOTE_INDEX_MAX :: u32 where [hdcp_consts]: "VOTE_INDEX_MAX = 4"
definition MAX_CLIENT_NAME_LEN :: nat where [hdcp_consts]: "MAX_CLIENT_NAME_LEN = 20"
definition SZ_1M :: u64 where [hdcp_consts]: "SZ_1M = 0x100000"

text \<open>The quota voted at registration (\<open>mdss_mdp.c\<close>, lines 85--86).\<close>

definition IB_QUOTA :: u64 where [hdcp_consts]: "IB_QUOTA = 2000000000"
definition AB_QUOTA :: u64 where [hdcp_consts]: "AB_QUOTA = 2000000000"

section \<open>The data-bus vote\<close>

text \<open>
  The \<open>(ab, ib)\<close> quota of each AXI port.  With the fixed QoS arbiter or
  non-real-time ports, the real-time ports share the real-time \<open>ab\<close> and the
  others the non-real-time \<open>ab\<close> (\<open>rt_axi_port_cnt = total - nrt\<close>, a
  32-bit difference), each port getting the whole \<open>ib\<close> of its kind; otherwise
  every port gets an equal share of the sum of the two \<open>ab\<close> and the sum of the
  two \<open>ib\<close>.  A division by a zero port count is \<open>None\<close>.
\<close>

definition axi_port_quotas :: "mdss_data \<Rightarrow> u64 \<Rightarrow> u64 \<Rightarrow> u64 \<Rightarrow> u64 \<Rightarrow> (u64 \<times> u64) list option" where
  "axi_port_quotas md ab_rt ab_nrt ib_rt ib_nrt =
     (let nrt = nrt_axi_port_cnt md; total = axi_port_cnt md; rt = total - nrt in
      if has_fixed_qos_arbiter_enabled md \<or> nrt \<noteq> 0 then
        if rt = 0 \<or> nrt = 0 then None
        else Some (map (\<lambda>i. if i < unat rt then (ab_rt div ucast rt, ib_rt) else (ab_nrt div ucast nrt, ib_nrt))
                       [0..<unat total])
      else Some (replicate (unat total) ((ab_rt + ab_nrt) div ucast total, ib_rt + ib_nrt)))"

text \<open>
  The tail of \<open>mdss_mdp_bus_scale_set_quota\<close>: record the new usecase as current
  and active-only, and vote it unless no bus reference is held and the usecase is
  not the off vote 0.
\<close>

definition mdss_bus_vote :: "mdss_env \<Rightarrow> nat \<Rightarrow> mdss_data \<Rightarrow> int \<times> mdss_data" where
  "mdss_bus_vote env new_uc_idx md =
     (let md = md\<lparr>curr_bw_uc_idx := new_uc_idx, ao_bw_uc_idx := new_uc_idx\<rparr> in
      if bus_ref_cnt md = 0 \<and> curr_bw_uc_idx md \<noteq> 0 then (0, md)
      else (bus_update_rc env (hw_trace md), mdss_emit (BusUpdateRequest (bus_hdl md) new_uc_idx) md))"

text \<open>
  \<open>mdss_mdp_bus_scale_set_quota\<close>: an all-zero request votes usecase 0; otherwise
  the per-port quotas are compared with the current usecase (an unchanged vote is
  skipped) and written into usecase \<open>curr % (num_usecases - 1) + 1\<close>, so that
  the bus driver sees a new usecase.  Each usecase of the table is assumed to hold
  a vector per AXI port, as the device tree provides.
\<close>

definition mdss_mdp_bus_scale_set_quota ::
  "mdss_env \<Rightarrow> u64 \<Rightarrow> u64 \<Rightarrow> u64 \<Rightarrow> u64 \<Rightarrow> mdss_data \<Rightarrow> (int \<times> mdss_data) option" where
  "mdss_mdp_bus_scale_set_quota env ab_quota_rt ab_quota_nrt ib_quota_rt ib_quota_nrt md =
     (if bus_hdl md < 1 then Some (- EINVAL, md)
      else if ab_quota_rt = 0 \<and> ab_quota_nrt = 0 \<and> ib_quota_rt = 0 \<and> ib_quota_nrt = 0
      then Some (mdss_bus_vote env 0 md)
      else
        let uc = bus_usecases md; total = axi_port_cnt md in
        if uc = [] \<or> total = 0 \<or> MAX_AXI_PORT_COUNT < unat total then Some (- EINVAL, md)
        else
          let ib_rt = (if bus_channels md \<noteq> 0 then ib_quota_rt div ucast (bus_channels md) else ib_quota_rt);
              ib_nrt = (if bus_channels md \<noteq> 0 then ib_quota_nrt div ucast (bus_channels md) else ib_quota_nrt)
          in case axi_port_quotas md ab_quota_rt ab_quota_nrt ib_rt ib_nrt of
               None \<Rightarrow> None
             | Some q \<Rightarrow>
                 if take (unat total) (uc ! curr_bw_uc_idx md) = q then Some (0, md)
                 else if length uc - 1 = 0 then None
                 else
                   let new_uc_idx = curr_bw_uc_idx md mod (length uc - 1) + 1;
                       vect = q @ drop (unat total) (uc ! new_uc_idx)
                   in Some (mdss_bus_vote env new_uc_idx (md\<lparr>bus_usecases := uc[new_uc_idx := vect]\<rparr>)))"

text \<open>
  \<open>mdss_bus_scale_set_quota\<close>: record the client's quota, then vote the sum of
  the real-time \<open>ab\<close> (64-bit, wrapping), the largest real-time \<open>ib\<close>, and the
  non-real-time client's quota.
\<close>

definition mdss_bus_scale_set_quota ::
  "mdss_env \<Rightarrow> nat \<Rightarrow> u64 \<Rightarrow> u64 \<Rightarrow> mdss_data \<Rightarrow> (int \<times> mdss_data) option" where
  "mdss_bus_scale_set_quota env client ab_quota ib_quota md =
     (let md = md\<lparr>ab := (ab md)[client := ab_quota], ib := (ib md)[client := ib_quota]\<rparr>;
          rt = filter (\<lambda>i. i \<noteq> MDSS_MDP_NRT) [0..<MDSS_MAX_BUS_CLIENTS];
          total_ab_rt = sum_list (map ((!) (ab md)) rt);
          total_ib_rt = fold (\<lambda>i m. max m (ib md ! i)) rt 0
      in mdss_mdp_bus_scale_set_quota env total_ab_rt (ab md ! MDSS_MDP_NRT) total_ib_rt
           (ib md ! MDSS_MDP_NRT) md)"

section \<open>Registering the bus clients\<close>

text \<open>
  \<open>mdss_mdp_bus_scale_register\<close>: register the data-bus client (a failure is
  \<open>-EINVAL\<close>) and the register-bus client (a failure only loses register-bus
  scaling) unless already registered, then record the initial real-time quota;
  setting up the static register-bus usecase table is not modelled.
  \<open>mdss_mdp_bus_scale_unregister\<close> releases both and forgets only the
  register-bus handle.
\<close>

definition mdss_mdp_bus_scale_register :: "mdss_env \<Rightarrow> mdss_data \<Rightarrow> (int \<times> mdss_data) option" where
  "mdss_mdp_bus_scale_register env md =
     (let r = (if bus_hdl md = 0 then
                 let h = bus_register_hdl env (hw_trace md);
                     md = mdss_emit (BusRegisterClient True) md
                 in if h = 0 then Inl (- EINVAL, md) else Inr (md\<lparr>bus_hdl := h\<rparr>)
               else Inr md)
      in case r of
           Inl res \<Rightarrow> Some res
         | Inr md \<Rightarrow>
             let md = (if reg_bus_hdl md = 0 then
                         let h = bus_register_hdl env (hw_trace md)
                         in (mdss_emit (BusRegisterClient False) md)\<lparr>reg_bus_hdl := h\<rparr>
                       else md)
             in mdss_bus_scale_set_quota env MDSS_MDP_RT AB_QUOTA IB_QUOTA md)"

definition mdss_mdp_bus_scale_unregister :: "mdss_data \<Rightarrow> mdss_data" where
  "mdss_mdp_bus_scale_unregister md =
     (let md = (if bus_hdl md \<noteq> 0 then mdss_emit (BusUnregisterClient (bus_hdl md)) md else md)
      in if reg_bus_hdl md \<noteq> 0
         then (mdss_emit (BusUnregisterClient (reg_bus_hdl md)) md)\<lparr>reg_bus_hdl := 0\<rparr>
         else md)"

section \<open>The register-bus vote\<close>

text \<open>
  \<open>mdss_reg_bus_vote_client_create\<close>: a client named after the (truncated) name,
  not voting, with the next id, added at the head of the list; \<open>NULL\<close> name and
  failed allocation are errors.  The result is the client's id.
\<close>

definition mdss_reg_bus_vote_client_create ::
  "mdss_env \<Rightarrow> string option \<Rightarrow> mdss_data \<Rightarrow> (int + u32) \<times> mdss_data" where
  "mdss_reg_bus_vote_client_create env client_name md =
     (case client_name of
        None \<Rightarrow> (Inl (- EINVAL), md)
      | Some name \<Rightarrow>
          if \<not> alloc_ok env (hw_trace md) then (Inl (- ENOMEM), md)
          else
            let client = \<lparr>rbc_name = take (MAX_CLIENT_NAME_LEN - 1) name,
                          rbc_usecase_ndx = VOTE_INDEX_DISABLE, rbc_id = reg_bus_next_id md\<rparr>
            in (Inr (reg_bus_next_id md),
                md\<lparr>reg_bus_next_id := reg_bus_next_id md + 1,
                   reg_bus_clist := client # reg_bus_clist md\<rparr>))"

definition mdss_reg_bus_vote_client_destroy :: "u32 option \<Rightarrow> mdss_data \<Rightarrow> mdss_data" where
  "mdss_reg_bus_vote_client_destroy client md =
     (case client of
        None \<Rightarrow> md
      | Some cid \<Rightarrow> md\<lparr>reg_bus_clist := filter (\<lambda>c. rbc_id c \<noteq> cid) (reg_bus_clist md)\<rparr>)"

text \<open>
  The loop of \<open>mdss_update_reg_bus_vote\<close>: the highest valid usecase any client
  asks for, starting from \<open>VOTE_INDEX_DISABLE\<close>.
\<close>

fun reg_bus_max_vote :: "reg_bus_client list \<Rightarrow> u32 \<Rightarrow> u32" where
  "reg_bus_max_vote [] m = m"
| "reg_bus_max_vote (c # cs) m =
     reg_bus_max_vote cs (if rbc_usecase_ndx c < VOTE_INDEX_MAX \<and> rbc_usecase_ndx c > m
                          then rbc_usecase_ndx c else m)"

definition set_client_usecase :: "u32 \<Rightarrow> u32 \<Rightarrow> reg_bus_client list \<Rightarrow> reg_bus_client list" where
  "set_client_usecase cid ndx cs =
     map (\<lambda>c. if rbc_id c = cid then c\<lparr>rbc_usecase_ndx := ndx\<rparr> else c) cs"

definition mdss_update_reg_bus_vote ::
  "mdss_env \<Rightarrow> u32 option \<Rightarrow> u32 \<Rightarrow> mdss_data \<Rightarrow> int \<times> mdss_data" where
  "mdss_update_reg_bus_vote env bus_client usecase_ndx md =
     (case bus_client of
        None \<Rightarrow> (0, md)
      | Some cid \<Rightarrow>
          if reg_bus_hdl md = 0 then (0, md)
          else
            let md = md\<lparr>reg_bus_clist := set_client_usecase cid usecase_ndx (reg_bus_clist md)\<rparr>;
                max_usecase_ndx = reg_bus_max_vote (reg_bus_clist md) VOTE_INDEX_DISABLE
            in if reg_bus_usecase_ndx md \<noteq> max_usecase_ndx
               then (bus_update_rc env (hw_trace md),
                     mdss_emit (BusUpdateRequest (reg_bus_hdl md) (unat max_usecase_ndx))
                       (md\<lparr>reg_bus_usecase_ndx := max_usecase_ndx\<rparr>))
               else (0, md))"

text \<open>
  What the register-bus vote is meant to be: the largest of \<open>VOTE_INDEX_DISABLE\<close>
  and the valid usecases (below \<open>VOTE_INDEX_MAX\<close>) of all clients.
\<close>

definition reg_bus_vote_spec :: "reg_bus_client list \<Rightarrow> u32" where
  "reg_bus_vote_spec cs =
     Max (insert VOTE_INDEX_DISABLE (set (filter (\<lambda>u. u < VOTE_INDEX_MAX) (map rbc_usecase_ndx cs))))"


section \<open>Lemmas\<close>

text \<open>The loop computes the maximum from any starting value.\<close>

lemma reg_bus_max_vote_Max:
  "reg_bus_max_vote cs m = Max (insert m (set (filter (\<lambda>u. u < VOTE_INDEX_MAX) (map rbc_usecase_ndx cs))))"
proof (induction cs arbitrary: m)
  case Nil
  then show ?case by simp
next
  case (Cons c cs)
  let ?S = "set (filter (\<lambda>u. u < VOTE_INDEX_MAX) (map rbc_usecase_ndx cs))"
  have fin: "finite ?S" by simp
  show ?case
  proof (cases "rbc_usecase_ndx c < VOTE_INDEX_MAX")
    case True
    have "Max (insert (if m < rbc_usecase_ndx c then rbc_usecase_ndx c else m) ?S) =
          Max (insert m (insert (rbc_usecase_ndx c) ?S))"
    proof -
      have "(if m < rbc_usecase_ndx c then rbc_usecase_ndx c else m) = max m (rbc_usecase_ndx c)"
        by (auto simp: max_def)
      then show ?thesis using Max_insert_insert [OF fin, of m "rbc_usecase_ndx c"] by simp
    qed
    then show ?thesis using True Cons by (simp add: not_less)
  next
    case False
    then show ?thesis using Cons by simp
  qed
qed

lemma set_client_usecase_ids [simp]:
  "map rbc_id (set_client_usecase cid ndx cs) = map rbc_id cs"
  by (simp add: set_client_usecase_def comp_def)

lemma quota_vote_usecases [simp]:
  "bus_usecases (snd (mdss_bus_vote env n md)) = bus_usecases md"
  "curr_bw_uc_idx (snd (mdss_bus_vote env n md)) = n"
  by (simp_all add: mdss_bus_vote_def Let_def mdss_emit_def)


lemma new_uc_idx_fresh:
  fixes L cur :: nat
  assumes "3 \<le> L" "cur < L"
  shows "cur mod (L - 1) + 1 \<noteq> cur" "cur mod (L - 1) + 1 < L"
proof -
  have "cur mod (L - 1) < L - 1" using assms(1) by simp
  then show "cur mod (L - 1) + 1 < L" by linarith
  show "cur mod (L - 1) + 1 \<noteq> cur"
  proof (cases "cur < L - 1")
    case True
    then show ?thesis by simp
  next
    case False
    then have "cur = L - 1" using assms(2) by linarith
    then show ?thesis using assms(1) by simp
  qed
qed

text \<open>
  C18 (refinement): after \<open>mdss_update_reg_bus_vote\<close> with a registered bus handle,
  the register-bus vote is the abstract one: the largest valid usecase any client
  now asks for, or \<open>VOTE_INDEX_DISABLE\<close>.
\<close>

theorem reg_bus_vote_refines_spec:
  assumes "reg_bus_hdl md \<noteq> 0"
  shows "reg_bus_usecase_ndx (snd (mdss_update_reg_bus_vote env (Some cid) ndx md)) =
         reg_bus_vote_spec (reg_bus_clist (snd (mdss_update_reg_bus_vote env (Some cid) ndx md)))"
proof -
  have "\<And>L. reg_bus_max_vote L VOTE_INDEX_DISABLE = reg_bus_vote_spec L"
    by (simp add: reg_bus_vote_spec_def reg_bus_max_vote_Max)
  then show ?thesis
    using assms by (simp add: mdss_update_reg_bus_vote_def Let_def mdss_emit_def)
qed

text \<open>
  C19 (safety): with at least three usecases in the bus table, a data-bus vote never
  rewrites the usecase the bus driver is using: the vectors of the current usecase
  are unchanged and the new current usecase is an entry of the table.
\<close>

theorem set_quota_keeps_usecase_in_use:
  assumes "3 \<le> length (bus_usecases md)" "curr_bw_uc_idx md < length (bus_usecases md)"
    and "mdss_mdp_bus_scale_set_quota env a b c d md = Some (rc, md')"
  shows "bus_usecases md' ! curr_bw_uc_idx md = bus_usecases md ! curr_bw_uc_idx md \<and>
         curr_bw_uc_idx md' < length (bus_usecases md')"
  using assms new_uc_idx_fresh [OF assms(1,2)]
  by (auto simp: mdss_mdp_bus_scale_set_quota_def Let_def mdss_bus_vote_def mdss_emit_def
      split: if_splits option.splits)

text \<open>
  C24 (error): with the fixed QoS arbiter enabled and no non-real-time AXI port, a
  non-zero real-time request divides by the zero port count (\<open>div_u64\<close>): the
  vote oopses.
\<close>

theorem set_quota_fixed_qos_no_nrt_oops:
  assumes "1 \<le> bus_hdl md" "bus_usecases md \<noteq> []" "axi_port_cnt md \<noteq> 0"
    and "unat (axi_port_cnt md) \<le> MAX_AXI_PORT_COUNT" "has_fixed_qos_arbiter_enabled md"
    and "nrt_axi_port_cnt md = 0" "ab_rt \<noteq> 0"
  shows "mdss_mdp_bus_scale_set_quota env ab_rt ab_nrt ib_rt ib_nrt md = None"
proof -
  have "bus_hdl md \<noteq> 0" using assms(1) by auto
  then show ?thesis
    using assms by (simp add: mdss_mdp_bus_scale_set_quota_def Let_def axi_port_quotas_def not_less)
qed

section \<open>Witnesses\<close>

theorem reg_bus_vote_refines_spec_witness:
  "reg_bus_usecase_ndx (snd (mdss_update_reg_bus_vote mdss_demo_env (Some 0) VOTE_INDEX_19_MHZ mdss_demo)) =
     reg_bus_vote_spec (reg_bus_clist (snd (mdss_update_reg_bus_vote mdss_demo_env (Some 0) VOTE_INDEX_19_MHZ mdss_demo))) \<and>
   reg_bus_usecase_ndx (snd (mdss_update_reg_bus_vote mdss_demo_env (Some 0) VOTE_INDEX_19_MHZ mdss_demo)) = 1"
proof -
  have h: "reg_bus_hdl mdss_demo \<noteq> 0" by (simp add: mdss_demo_def)
  have v: "reg_bus_usecase_ndx (snd (mdss_update_reg_bus_vote mdss_demo_env (Some 0) VOTE_INDEX_19_MHZ mdss_demo)) = 1"
    by (simp add: mdss_update_reg_bus_vote_def mdss_demo_def set_client_usecase_def hdcp_consts Let_def mdss_emit_def)
  show ?thesis using reg_bus_vote_refines_spec [OF h] v by simp
qed

theorem set_quota_keeps_usecase_in_use_witness:
  "\<exists>rc md'. mdss_mdp_bus_scale_set_quota mdss_demo_env 1000 0 2000 0 mdss_demo = Some (rc, md') \<and>
     bus_usecases md' ! 0 = [(0, 0), (0, 0)] \<and> curr_bw_uc_idx md' = 1 \<and>
     bus_usecases md' ! 1 = [(500, 1000), (500, 1000)]"
proof -
  let ?U = "[[(0, 0), (0, 0)], [(500, 1000), (500, 1000)], [(0, 0), (0, 0)]] :: (u64 \<times> u64) list list"
  let ?md' = "snd (mdss_bus_vote mdss_demo_env 1 (mdss_demo\<lparr>bus_usecases := ?U\<rparr>))"
  have q: "axi_port_quotas mdss_demo 1000 0 1000 0 = Some [(500, 1000), (500, 1000)]"
  proof -
    have u1: "unat (2::u32) = 2" "(ucast (2::u32) :: u64) = 2" by simp_all
    have u2: "replicate 2 x = [x, x]" for x :: "u64 \<times> u64" by (simp add: numeral_2_eq_2)
    note u = u1 u2
    show ?thesis by (simp add: axi_port_quotas_def mdss_demo_fields u)
  qed
  have r: "mdss_mdp_bus_scale_set_quota mdss_demo_env 1000 0 2000 0 mdss_demo =
             Some (fst (mdss_bus_vote mdss_demo_env 1 (mdss_demo\<lparr>bus_usecases := ?U\<rparr>)), ?md')"
  proof -
    have u: "unat (2::u32) = 2" "(ucast (2::u32) :: u64) = 2" "(2000::u64) div 2 = 1000" by simp_all
    have l: "replicate 3 x = [x, x, x]" for x :: "(u64 \<times> u64) list" by (simp add: numeral_3_eq_3)
    have t: "replicate 2 x = [x, x]" for x :: "u64 \<times> u64" by (simp add: numeral_2_eq_2)
    show ?thesis
      by (simp add: mdss_mdp_bus_scale_set_quota_def Let_def q mdss_demo_fields hdcp_consts u l t)
  qed
  have "bus_usecases ?md' ! curr_bw_uc_idx mdss_demo = bus_usecases mdss_demo ! curr_bw_uc_idx mdss_demo"
    using set_quota_keeps_usecase_in_use [OF _ _ r] by (simp add: mdss_demo_fields)
  then show ?thesis
    using r by (intro exI [of _ "fst (mdss_bus_vote mdss_demo_env 1 (mdss_demo\<lparr>bus_usecases := ?U\<rparr>))"]
                      exI [of _ ?md']) (simp add: mdss_demo_fields)
qed

theorem set_quota_fixed_qos_no_nrt_oops_witness:
  "mdss_mdp_bus_scale_set_quota mdss_demo_env 1000 0 0 0 (mdss_demo\<lparr>has_fixed_qos_arbiter_enabled := True\<rparr>) = None"
  by (rule set_quota_fixed_qos_no_nrt_oops) (simp_all add: mdss_demo_def hdcp_consts)

end
