(* ===== verification/MDSS_Power.thy ===== *)
theory MDSS_Power
  imports MDSS_Vbif MDSS_Bus
begin

unbundle bit_operations_syntax

text \<open>
  Clocks, the IOMMU and the bus reference of \<open>mdss_mdp.c\<close> (lines 672--1090):
  \<open>mdss_mdp_clk_update\<close>, \<open>mdss_mdp_vsync_clk_enable\<close>,
  \<open>mdss_mdp_set_clk_rate\<close>, \<open>mdss_mdp_get_clk_rate\<close>, the register-access
  clocks and the AXI halt, the reference-counted \<open>mdss_iommu_ctrl\<close>, the memory
  retention flags, \<open>mdss_mdp_idle_pc_restore\<close>, and the reference-counted
  \<open>mdss_bus_bandwidth_ctrl\<close> and \<open>mdss_mdp_clk_ctrl\<close>; then the two
  reference-counted entry points as a transition system.  A nested bus vote that
  oopses makes the whole call \<open>None\<close>.
\<close>

section \<open>Clocks\<close>

text \<open>
  \<open>mdss_mdp_clk_update\<close>: a missing clock is \<open>-ENODEV\<close>; the vsync clock gets
  19.2 MHz before it is enabled; disabling always succeeds.
\<close>

definition mdss_mdp_clk_update :: "mdss_env \<Rightarrow> mdss_clk_idx \<Rightarrow> bool \<Rightarrow> mdss_data \<Rightarrow> int \<times> mdss_data" where
  "mdss_mdp_clk_update env clk_idx enable md =
     (if \<not> clk_present env clk_idx then (- ENODEV, md)
      else if enable then
        let md = (if clk_idx = MDSS_CLK_MDP_VSYNC
                  then (mdss_emit (ClkSetRate MDSS_CLK_MDP_VSYNC 19200000) md)
                         \<lparr>clk_rates := (clk_rates md)(MDSS_CLK_MDP_VSYNC := 19200000)\<rparr>
                  else md)
        in (clk_enable_rc env (hw_trace md), mdss_emit (ClkPrepareEnable clk_idx) md)
      else (0, mdss_emit (ClkDisableUnprepare clk_idx) md))"

definition mdss_mdp_vsync_clk_enable :: "mdss_env \<Rightarrow> int \<Rightarrow> mdss_data \<Rightarrow> int \<times> mdss_data" where
  "mdss_mdp_vsync_clk_enable env enable md =
     (if vsync_ena md \<noteq> enable
      then mdss_mdp_clk_update env MDSS_CLK_MDP_VSYNC (enable \<noteq> 0) (md\<lparr>vsync_ena := enable\<rparr>)
      else (0, md))"

text \<open>
  \<open>mdss_mdp_set_clk_rate\<close>: the core clock runs at least at the tuned minimum,
  rounded by the clock driver below the maximum and capped at the maximum; it is
  changed only when the rate differs.  A rounding error is logged.
\<close>

definition mdss_mdp_set_clk_rate :: "mdss_env \<Rightarrow> nat \<Rightarrow> mdss_data \<Rightarrow> mdss_data" where
  "mdss_mdp_set_clk_rate env rate md =
     (let min_clk_rate = max rate (min_mdp_clk md) in
      if \<not> clk_present env MDSS_CLK_MDP_CORE then md
      else
        let clk_rate = (if min_clk_rate < max_mdp_clk_rate md then clk_round_rate env min_clk_rate
                        else int (max_mdp_clk_rate md))
        in if IS_ERR_VALUE clk_rate then md
           else if nat clk_rate \<noteq> clk_rates md MDSS_CLK_MDP_CORE then
             let rc = clk_set_rate_rc env (hw_trace md);
                 md = mdss_emit (ClkSetRate MDSS_CLK_MDP_CORE (nat clk_rate)) md
             in if IS_ERR_VALUE rc then md
                else md\<lparr>clk_rates := (clk_rates md)(MDSS_CLK_MDP_CORE := nat clk_rate)\<rparr>
           else md)"

definition mdss_mdp_get_clk_rate :: "mdss_env \<Rightarrow> mdss_clk_idx \<Rightarrow> mdss_data \<Rightarrow> nat" where
  "mdss_mdp_get_clk_rate env clk_idx md = (if clk_present env clk_idx then clk_rates md clk_idx else 0)"

text \<open>
  \<open>__mdss_mdp_reg_access_clk_enable\<close>: the register bus vote, the minimum data-bus
  vote of the \<open>MIN_BUS_VOTE\<close> quirk, and the AHB, AXI and core clocks, undone in
  the reverse order.
\<close>

definition mdss_mdp_reg_access_clk_enable :: "mdss_env \<Rightarrow> bool \<Rightarrow> mdss_data \<Rightarrow> mdss_data option" where
  "mdss_mdp_reg_access_clk_enable env enable md =
     (if enable then
        let md = snd (mdss_update_reg_bus_vote env (reg_bus_clt md) VOTE_INDEX_19_MHZ md) in
        case (if quirk_min_bus_vote md then map_option snd (mdss_bus_scale_set_quota env MDSS_HW_RT SZ_1M SZ_1M md)
              else Some md) of
          None \<Rightarrow> None
        | Some md \<Rightarrow>
            let md = snd (mdss_mdp_clk_update env MDSS_CLK_AHB True md);
                md = snd (mdss_mdp_clk_update env MDSS_CLK_AXI True md)
            in Some (snd (mdss_mdp_clk_update env MDSS_CLK_MDP_CORE True md))
      else
        let md = snd (mdss_mdp_clk_update env MDSS_CLK_MDP_CORE False md);
            md = snd (mdss_mdp_clk_update env MDSS_CLK_AXI False md);
            md = snd (mdss_mdp_clk_update env MDSS_CLK_AHB False md)
        in case (if quirk_min_bus_vote md then map_option snd (mdss_bus_scale_set_quota env MDSS_HW_RT 0 0 md)
                 else Some md) of
             None \<Rightarrow> None
           | Some md \<Rightarrow> Some (snd (mdss_update_reg_bus_vote env (reg_bus_clt md) VOTE_INDEX_DISABLE md)))"

text \<open>\<open>mdss_mdp_vbif_axi_halt\<close>: halt the real-time and then the non-real-time ports.\<close>

definition mdss_mdp_vbif_axi_halt :: "mdss_env \<Rightarrow> mdss_data \<Rightarrow> mdss_data option" where
  "mdss_mdp_vbif_axi_halt env md =
     (case mdss_mdp_reg_access_clk_enable env True md of
        None \<Rightarrow> None
      | Some md \<Rightarrow>
          (case mdss_mdp_vbif_halt env False md of
             None \<Rightarrow> None
           | Some (_, md) \<Rightarrow>
               (case mdss_mdp_vbif_halt env True md of
                  None \<Rightarrow> None
                | Some (_, md) \<Rightarrow> mdss_mdp_reg_access_clk_enable env False md)))"

section \<open>The IOMMU\<close>

text \<open>
  \<open>mdss_smmu_attach\<close> and \<open>mdss_smmu_detach\<close> of \<open>mdss_smmu.h\<close> (not in the
  snapshot): nothing to do when already in the requested state; otherwise the
  SMMU's answer decides whether \<open>iommu_attached\<close> changes.
\<close>

definition mdss_smmu_attach :: "mdss_env \<Rightarrow> mdss_data \<Rightarrow> int \<times> mdss_data" where
  "mdss_smmu_attach env md =
     (if iommu_attached md then (0, md)
      else let rc = smmu_attach_rc env (hw_trace md); md = mdss_emit SmmuAttach md
           in (rc, if rc = 0 then md\<lparr>iommu_attached := True\<rparr> else md))"

definition mdss_smmu_detach :: "mdss_env \<Rightarrow> mdss_data \<Rightarrow> int \<times> mdss_data" where
  "mdss_smmu_detach env md =
     (if \<not> iommu_attached md then (0, md)
      else let rc = smmu_detach_rc env (hw_trace md); md = mdss_emit SmmuDetach md
           in (rc, if rc = 0 then md\<lparr>iommu_attached := False\<rparr> else md))"

text \<open>
  \<open>mdss_iommu_ctrl\<close>: the first reference attaches (unless a splash handoff is
  pending), the last one detaches; the count is taken even when the attach fails.
  The result is the error or the new count.
\<close>

definition mdss_iommu_ctrl :: "mdss_env \<Rightarrow> bool \<Rightarrow> mdss_data \<Rightarrow> (int \<times> mdss_data) option" where
  "mdss_iommu_ctrl env enable md =
     (let res =
        (if enable then
           Option.bind
           (if \<not> iommu_attached md \<and> \<not> handoff_pending md then
              case (if quirk_min_bus_vote md then map_option snd (mdss_bus_scale_set_quota env MDSS_HW_RT SZ_1M SZ_1M md)
                    else Some md) of
                None \<Rightarrow> None
              | Some md \<Rightarrow> Some (mdss_smmu_attach env md)
            else Some (0, md))
           (\<lambda>(rc, md). Some (rc, md\<lparr>iommu_ref_cnt := iommu_ref_cnt md + 1\<rparr>))
         else if iommu_ref_cnt md \<noteq> 0 then
           let md = md\<lparr>iommu_ref_cnt := iommu_ref_cnt md - 1\<rparr> in
           if iommu_ref_cnt md = 0 then
             let (rc, md) = mdss_smmu_detach env md in
             if quirk_min_bus_vote md then map_option (\<lambda>(_, md). (rc, md)) (mdss_bus_scale_set_quota env MDSS_HW_RT 0 0 md)
             else Some (rc, md)
           else Some (0, md)
         else Some (0, md))
      in map_option (\<lambda>(rc, md). (if IS_ERR_VALUE rc then rc else int (iommu_ref_cnt md), md)) res)"

section \<open>Idle power collapse\<close>

definition mdss_mdp_memory_retention_enter :: "mdss_env \<Rightarrow> mdss_data \<Rightarrow> mdss_data" where
  "mdss_mdp_memory_retention_enter env md =
     (if clk_present env MDSS_CLK_MDP_CORE
      then mdss_emit (ClkSetFlags CLKFLAG_NORETAIN_PERIPH) (mdss_emit (ClkSetFlags CLKFLAG_PERIPH_OFF_SET)
             (mdss_emit (ClkSetFlags CLKFLAG_RETAIN_MEM) md))
      else md)"

definition mdss_mdp_memory_retention_exit :: "mdss_env \<Rightarrow> mdss_data \<Rightarrow> mdss_data" where
  "mdss_mdp_memory_retention_exit env md =
     (if clk_present env MDSS_CLK_MDP_CORE
      then mdss_emit (ClkSetFlags CLKFLAG_PERIPH_OFF_CLEAR) (mdss_emit (ClkSetFlags CLKFLAG_RETAIN_PERIPH)
             (mdss_emit (ClkSetFlags CLKFLAG_RETAIN_MEM) md))
      else md)"

text \<open>
  \<open>mdss_mdp_idle_pc_restore\<close>: after an idle power collapse, take an IOMMU
  reference, re-initialise the hardware (\<open>mdss_hw_init\<close>, an event), drop the
  reference, wait 10 us, leave retention and restore the controllers.  A failed
  IOMMU reference ends the function early, without dropping it.
\<close>

definition mdss_mdp_idle_pc_restore :: "mdss_env \<Rightarrow> mdss_data \<Rightarrow> (int \<times> mdss_data) option" where
  "mdss_mdp_idle_pc_restore env md =
     (if \<not> idle_pc md then Some (0, md)
      else
        case mdss_iommu_ctrl env True md of
          None \<Rightarrow> None
        | Some (rc, md) \<Rightarrow>
            if IS_ERR_VALUE rc then Some (rc, md)
            else
              case mdss_iommu_ctrl env False (mdss_emit HwInit md) of
                None \<Rightarrow> None
              | Some (_, md) \<Rightarrow>
                  let md = mdss_mdp_memory_retention_exit env (mdss_emit (Udelay 10) md);
                      md = mdss_emit CtlRestore md
                  in Some (rc, md\<lparr>idle_pc := False\<rparr>))"

section \<open>Reference-counted bus and clocks\<close>

text \<open>
  \<open>mdss_bus_bandwidth_ctrl\<close>: the first reference takes a runtime-PM reference
  and votes the current usecase; the last one votes 0 (unless a splash handoff is
  pending) and releases runtime PM.  An unbalanced release only logs.
\<close>

definition mdss_bus_bandwidth_ctrl :: "mdss_env \<Rightarrow> bool \<Rightarrow> mdss_data \<Rightarrow> mdss_data" where
  "mdss_bus_bandwidth_ctrl env enable md =
     (let (changed, md) =
        (if enable then (bus_ref_cnt md = 0, md\<lparr>bus_ref_cnt := bus_ref_cnt md + 1\<rparr>)
         else if bus_ref_cnt md \<noteq> 0 then (bus_ref_cnt md = 1, md\<lparr>bus_ref_cnt := bus_ref_cnt md - 1\<rparr>)
         else (False, md))
      in if \<not> changed then md
         else if \<not> enable then
           let md = (if \<not> handoff_pending md
                     then (mdss_emit (BusUpdateRequest (bus_hdl md) 0) md)\<lparr>ao_bw_uc_idx := 0\<rparr>
                     else md)
           in mdss_emit PmRuntimePutAutosuspend md
         else mdss_emit (BusUpdateRequest (bus_hdl md) (curr_bw_uc_idx md)) (mdss_emit PmRuntimeGetSync md))"

text \<open>
  \<open>mdss_mdp_clk_ctrl\<close>: the first reference takes runtime PM, votes the register
  bus, takes an IOMMU reference and switches the bus vote to active+sleep; every
  change sets \<open>clk_ena\<close> and switches the AHB, AXI, core, LUT (and, when vsync is
  on, vsync) clocks; the last reference undoes the IOMMU, bus and register-bus
  votes and releases runtime PM.  The first reference also restores from idle
  power collapse.
\<close>

definition mdss_mdp_clk_ctrl :: "mdss_env \<Rightarrow> bool \<Rightarrow> mdss_data \<Rightarrow> mdss_data option" where
  "mdss_mdp_clk_ctrl env enable md =
     (let (changed, md) =
        (if enable then (mdp_clk_cnt md = 0, md\<lparr>mdp_clk_cnt := mdp_clk_cnt md + 1\<rparr>)
         else if mdp_clk_cnt md \<noteq> 0 then (mdp_clk_cnt md = 1, md\<lparr>mdp_clk_cnt := mdp_clk_cnt md - 1\<rparr>)
         else (False, md))
      in if \<not> changed then Some md
         else
           Option.bind
           (if enable then
              let md = mdss_emit PmRuntimeGetSync md;
                  md = snd (mdss_update_reg_bus_vote env (reg_bus_clt md) VOTE_INDEX_19_MHZ md)
              in map_option (\<lambda>(_, md). mdss_emit (BusUpdateContext (bus_hdl md) False (curr_bw_uc_idx md)) md)
                   (mdss_iommu_ctrl env True md)
            else Some md)
           (\<lambda>md.
              let md = md\<lparr>clk_ena := enable\<rparr>;
                  md = snd (mdss_mdp_clk_update env MDSS_CLK_AHB enable md);
                  md = snd (mdss_mdp_clk_update env MDSS_CLK_AXI enable md);
                  md = snd (mdss_mdp_clk_update env MDSS_CLK_MDP_CORE enable md);
                  md = snd (mdss_mdp_clk_update env MDSS_CLK_MDP_LUT enable md);
                  md = (if vsync_ena md \<noteq> 0 then snd (mdss_mdp_clk_update env MDSS_CLK_MDP_VSYNC enable md) else md)
              in if \<not> enable then
                   map_option (\<lambda>(_, md).
                       let md = mdss_emit (BusUpdateContext (bus_hdl md) True (ao_bw_uc_idx md)) md;
                           md = snd (mdss_update_reg_bus_vote env (reg_bus_clt md) VOTE_INDEX_DISABLE md)
                       in mdss_emit PmRuntimePutAutosuspend md)
                     (mdss_iommu_ctrl env False md)
                 else map_option snd (mdss_mdp_idle_pc_restore env md)))"


section \<open>The reference-counted entry points as a transition system\<close>

datatype mdss_pm_op = ClkCtrl bool | BusBwCtrl bool

fun mdss_pm_step :: "mdss_env \<Rightarrow> mdss_pm_op \<Rightarrow> mdss_data \<Rightarrow> mdss_data option" where
  "mdss_pm_step env (ClkCtrl en) md = mdss_mdp_clk_ctrl env en md"
| "mdss_pm_step env (BusBwCtrl en) md = Some (mdss_bus_bandwidth_ctrl env en md)"

fun mdss_pm_run :: "mdss_env \<Rightarrow> mdss_pm_op list \<Rightarrow> mdss_data \<Rightarrow> mdss_data option" where
  "mdss_pm_run env [] md = Some md"
| "mdss_pm_run env (op # ops) md = Option.bind (mdss_pm_step env op md) (mdss_pm_run env ops)"

text \<open>
  Runtime-PM references taken minus released, as the trace records them, and the
  invariant of the two reference counts: the clocks are on exactly while the clock
  count is positive, and each positive count holds one runtime-PM reference.
\<close>

definition pm_balance :: "mdss_hw_event list \<Rightarrow> int" where
  "pm_balance tr = int (count_list tr PmRuntimeGetSync) - int (count_list tr PmRuntimePutAutosuspend)"

definition mdss_pm_inv :: "mdss_data \<Rightarrow> bool" where
  "mdss_pm_inv md \<longleftrightarrow>
     (clk_ena md \<longleftrightarrow> 0 < mdp_clk_cnt md) \<and>
     pm_balance (hw_trace md) = of_bool (0 < mdp_clk_cnt md) + of_bool (0 < bus_ref_cnt md)"

text \<open>What the functions nested in the two entry points leave alone.\<close>

definition pm_frame :: "mdss_data \<Rightarrow> mdss_data \<Rightarrow> bool" where
  "pm_frame md md' \<longleftrightarrow>
     mdp_clk_cnt md' = mdp_clk_cnt md \<and> bus_ref_cnt md' = bus_ref_cnt md \<and> clk_ena md' = clk_ena md \<and>
     quirk_min_bus_vote md' = quirk_min_bus_vote md \<and> pm_balance (hw_trace md') = pm_balance (hw_trace md)"


section \<open>Lemmas\<close>

lemma pm_balance_simps [simp]:
  "pm_balance [] = 0"
  "pm_balance (e # tr) =
     (if e = PmRuntimeGetSync then 1 else if e = PmRuntimePutAutosuspend then -1 else 0) + pm_balance tr"
  "pm_balance (tr @ tr') = pm_balance tr + pm_balance tr'"
  by (simp_all add: pm_balance_def)

lemma pm_frame_refl [simp]: "pm_frame md md"
  by (simp add: pm_frame_def mdss_emit_def)

lemma pm_frame_trans: "pm_frame a b \<Longrightarrow> pm_frame b c \<Longrightarrow> pm_frame a c"
  by (simp add: pm_frame_def mdss_emit_def)

lemma pm_frame_emit [simp]:
  "e \<noteq> PmRuntimeGetSync \<Longrightarrow> e \<noteq> PmRuntimePutAutosuspend \<Longrightarrow> pm_frame md (mdss_emit e md)"
  by (simp add: pm_frame_def mdss_emit_def)

lemma pm_frame_reg_bus_vote: "pm_frame md (snd (mdss_update_reg_bus_vote env c n md))"
  by (auto simp: mdss_update_reg_bus_vote_def Let_def pm_frame_def mdss_emit_def split: option.split)

lemma pm_frame_bus_vote: "pm_frame md (snd (mdss_bus_vote env n md))"
  by (simp add: mdss_bus_vote_def Let_def pm_frame_def mdss_emit_def)

lemma pm_frame_set_quota:
  "mdss_bus_scale_set_quota env c a b md = Some (rc, md') \<Longrightarrow> pm_frame md md'"
  by (auto simp: mdss_bus_scale_set_quota_def mdss_mdp_bus_scale_set_quota_def Let_def pm_frame_def
      mdss_bus_vote_def mdss_emit_def split: if_splits option.splits)

lemma pm_frame_clk_update: "pm_frame md (snd (mdss_mdp_clk_update env c en md))"
  by (simp add: mdss_mdp_clk_update_def Let_def pm_frame_def mdss_emit_def)

lemma pm_frame_iommu_ctrl:
  "mdss_iommu_ctrl env en md = Some (rc, md') \<Longrightarrow> pm_frame md md'"
  by (auto simp: mdss_iommu_ctrl_def Let_def mdss_smmu_attach_def mdss_smmu_detach_def pm_frame_def mdss_emit_def
      split: if_splits option.splits prod.splits dest!: pm_frame_set_quota)

lemma pm_fields_total [simp]:
  "mdp_clk_cnt (snd (mdss_update_reg_bus_vote env c n md)) = mdp_clk_cnt md"
  "bus_ref_cnt (snd (mdss_update_reg_bus_vote env c n md)) = bus_ref_cnt md"
  "clk_ena (snd (mdss_update_reg_bus_vote env c n md)) = clk_ena md"
  "quirk_min_bus_vote (snd (mdss_update_reg_bus_vote env c n md)) = quirk_min_bus_vote md"
  "pm_balance (hw_trace (snd (mdss_update_reg_bus_vote env c n md))) = pm_balance (hw_trace md)"
  "mdp_clk_cnt (snd (mdss_mdp_clk_update env k en md)) = mdp_clk_cnt md"
  "bus_ref_cnt (snd (mdss_mdp_clk_update env k en md)) = bus_ref_cnt md"
  "clk_ena (snd (mdss_mdp_clk_update env k en md)) = clk_ena md"
  "quirk_min_bus_vote (snd (mdss_mdp_clk_update env k en md)) = quirk_min_bus_vote md"
  "pm_balance (hw_trace (snd (mdss_mdp_clk_update env k en md))) = pm_balance (hw_trace md)"
  using pm_frame_reg_bus_vote [of md env c n] pm_frame_clk_update [of md env k en]
  by (simp_all add: pm_frame_def)

lemma pm_frame_idle_pc_restore:
  "mdss_mdp_idle_pc_restore env md = Some (rc, md') \<Longrightarrow> pm_frame md md'"
  by (auto simp: mdss_mdp_idle_pc_restore_def Let_def mdss_mdp_memory_retention_exit_def
      pm_frame_def mdss_emit_def split: if_splits option.splits
      dest!: pm_frame_iommu_ctrl)

lemma clk_ctrl_pm:
  assumes "mdss_mdp_clk_ctrl env en md = Some md'"
  shows "mdp_clk_cnt md' = (if en then mdp_clk_cnt md + 1 else mdp_clk_cnt md - 1) \<and>
         bus_ref_cnt md' = bus_ref_cnt md \<and> quirk_min_bus_vote md' = quirk_min_bus_vote md \<and>
         clk_ena md' = (if (en \<and> mdp_clk_cnt md = 0) \<or> (\<not> en \<and> mdp_clk_cnt md = 1) then en else clk_ena md) \<and>
         pm_balance (hw_trace md') = pm_balance (hw_trace md) +
           (if en \<and> mdp_clk_cnt md = 0 then 1 else if \<not> en \<and> mdp_clk_cnt md = 1 then -1 else 0)"
  using assms
  by (auto simp: mdss_mdp_clk_ctrl_def Let_def pm_frame_def mdss_emit_def bind_eq_Some_conv map_option_eq_Some
      split: if_splits option.splits prod.splits dest!: pm_frame_iommu_ctrl pm_frame_idle_pc_restore)

lemma bus_bandwidth_ctrl_pm:
  "mdp_clk_cnt (mdss_bus_bandwidth_ctrl env en md) = mdp_clk_cnt md \<and>
   clk_ena (mdss_bus_bandwidth_ctrl env en md) = clk_ena md \<and>
   quirk_min_bus_vote (mdss_bus_bandwidth_ctrl env en md) = quirk_min_bus_vote md \<and>
   bus_ref_cnt (mdss_bus_bandwidth_ctrl env en md) = (if en then bus_ref_cnt md + 1 else bus_ref_cnt md - 1) \<and>
   pm_balance (hw_trace (mdss_bus_bandwidth_ctrl env en md)) = pm_balance (hw_trace md) +
     (if en \<and> bus_ref_cnt md = 0 then 1 else if \<not> en \<and> bus_ref_cnt md = 1 then -1 else 0)"
  by (simp add: mdss_bus_bandwidth_ctrl_def Let_def mdss_emit_def)

lemma pm_step_inv:
  "mdss_pm_inv md \<Longrightarrow> mdss_pm_step env op md = Some md' \<Longrightarrow> mdss_pm_inv md'"
  by (cases op) (auto simp: mdss_pm_inv_def bus_bandwidth_ctrl_pm split: if_splits dest!: clk_ctrl_pm)

lemma pm_step_quirk:
  "mdss_pm_step env op md = Some md' \<Longrightarrow> quirk_min_bus_vote md' = quirk_min_bus_vote md"
  by (cases op) (auto simp: bus_bandwidth_ctrl_pm dest!: clk_ctrl_pm)

lemma smmu_quirk [simp]:
  "quirk_min_bus_vote (snd (mdss_smmu_detach env md)) = quirk_min_bus_vote md"
  "quirk_min_bus_vote (snd (mdss_smmu_attach env md)) = quirk_min_bus_vote md"
  by (simp_all add: mdss_smmu_detach_def mdss_smmu_attach_def Let_def mdss_emit_def)

lemma iommu_ctrl_off_some:
  "\<not> quirk_min_bus_vote md \<Longrightarrow> mdss_iommu_ctrl env False md \<noteq> None"
  by (simp add: mdss_iommu_ctrl_def Let_def prod.case_eq_if)

lemma iommu_ctrl_off_some_pair:
  "\<not> quirk_min_bus_vote md \<Longrightarrow> \<exists>a b. mdss_iommu_ctrl env False md = Some (a, b)"
  using iommu_ctrl_off_some [of md env] by auto

lemma clk_ctrl_off_some:
  "\<not> quirk_min_bus_vote md \<Longrightarrow> mdss_mdp_clk_ctrl env False md \<noteq> None"
  by (simp add: mdss_mdp_clk_ctrl_def Let_def iommu_ctrl_off_some_pair)

lemma clk_ctrl_off_steps:
  "\<not> quirk_min_bus_vote md \<Longrightarrow> mdss_pm_inv md \<Longrightarrow> mdp_clk_cnt md = n \<Longrightarrow>
   \<exists>md'. mdss_pm_run env (replicate n (ClkCtrl False)) md = Some md' \<and> mdss_pm_inv md' \<and>
         mdp_clk_cnt md' = 0 \<and> bus_ref_cnt md' = bus_ref_cnt md"
proof (induction n arbitrary: md)
  case 0
  then show ?case by simp
next
  case (Suc n)
  obtain md1 where s: "mdss_mdp_clk_ctrl env False md = Some md1"
    using clk_ctrl_off_some [OF Suc.prems(1), of env] by blast
  have p: "mdp_clk_cnt md1 = n" "bus_ref_cnt md1 = bus_ref_cnt md"
      "quirk_min_bus_vote md1 = quirk_min_bus_vote md"
    using clk_ctrl_pm [OF s] Suc.prems(3) by simp_all
  have i: "mdss_pm_inv md1" using pm_step_inv [of md env "ClkCtrl False" md1] Suc.prems(2) s by simp
  from Suc.IH [of md1] p i Suc.prems(1) obtain md' where
    "mdss_pm_run env (replicate n (ClkCtrl False)) md1 = Some md'" "mdss_pm_inv md'"
    "mdp_clk_cnt md' = 0" "bus_ref_cnt md' = bus_ref_cnt md1" by auto
  then show ?case using s p by simp
qed

lemma iommu_fields_total [simp]:
  "iommu_ref_cnt (snd (mdss_update_reg_bus_vote env c n md)) = iommu_ref_cnt md"
  "iommu_attached (snd (mdss_update_reg_bus_vote env c n md)) = iommu_attached md"
  "handoff_pending (snd (mdss_update_reg_bus_vote env c n md)) = handoff_pending md"
  "idle_pc (snd (mdss_update_reg_bus_vote env c n md)) = idle_pc md"
  "iommu_ref_cnt (snd (mdss_mdp_clk_update env k en md)) = iommu_ref_cnt md"
  "iommu_attached (snd (mdss_mdp_clk_update env k en md)) = iommu_attached md"
  "handoff_pending (snd (mdss_mdp_clk_update env k en md)) = handoff_pending md"
  "idle_pc (snd (mdss_mdp_clk_update env k en md)) = idle_pc md"
  by (auto simp: mdss_update_reg_bus_vote_def mdss_mdp_clk_update_def Let_def mdss_emit_def
      split: option.split)

lemma iommu_ctrl_on_attach_fails:
  "\<not> iommu_attached md \<Longrightarrow> \<not> handoff_pending md \<Longrightarrow> \<not> quirk_min_bus_vote md \<Longrightarrow>
   IS_ERR_VALUE (smmu_attach_rc env (hw_trace md)) \<Longrightarrow>
   mdss_iommu_ctrl env True md =
     Some (smmu_attach_rc env (hw_trace md), (mdss_emit SmmuAttach md)\<lparr>iommu_ref_cnt := iommu_ref_cnt md + 1\<rparr>)"
  by (auto simp: mdss_iommu_ctrl_def mdss_smmu_attach_def Let_def IS_ERR_VALUE_def mdss_emit_def)

lemma iommu_ctrl_off_shared:
  "2 \<le> iommu_ref_cnt md \<Longrightarrow>
   mdss_iommu_ctrl env False md = Some (int (iommu_ref_cnt md - 1), md\<lparr>iommu_ref_cnt := iommu_ref_cnt md - 1\<rparr>)"
  by (simp add: mdss_iommu_ctrl_def Let_def IS_ERR_VALUE_def)

text \<open>
  C11 (invariant): from a state where the clocks are on exactly while the clock count
  is positive and each positive count holds one runtime-PM reference, every
  sequence of \<open>mdss_mdp_clk_ctrl\<close> and \<open>mdss_bus_bandwidth_ctrl\<close> calls that
  returns keeps both properties, unbalanced releases included.
\<close>

theorem pm_run_inv:
  assumes "mdss_pm_inv md" "mdss_pm_run env ops md = Some md'"
  shows "mdss_pm_inv md'"
  using assms
proof (induction ops arbitrary: md)
  case Nil
  then show ?case by simp
next
  case (Cons op ops)
  then show ?case by (auto simp: bind_eq_Some_conv intro: pm_step_inv)
qed

text \<open>
  C13 (liveness): without the minimum-bus-vote quirk, as many \<open>mdss_mdp_clk_ctrl(0)\<close>
  calls as the clock count always return and turn the MDP clocks off, and the only
  runtime-PM reference left is the bus's, if it holds one.
\<close>

theorem clk_ctrl_release_all:
  assumes "\<not> quirk_min_bus_vote md" "mdss_pm_inv md"
  shows "\<exists>md'. mdss_pm_run env (replicate (mdp_clk_cnt md) (ClkCtrl False)) md = Some md' \<and>
           \<not> clk_ena md' \<and> mdp_clk_cnt md' = 0 \<and>
           pm_balance (hw_trace md') = of_bool (0 < bus_ref_cnt md)"
  using clk_ctrl_off_steps [OF assms refl, of env] by (auto simp: mdss_pm_inv_def)

text \<open>
  C14 (error): when the SMMU cannot attach, turning the clocks on out of idle power
  collapse takes two IOMMU references (one in \<open>mdss_mdp_clk_ctrl\<close>, one in
  \<open>mdss_mdp_idle_pc_restore\<close>, which returns early without dropping it), and
  turning them off drops one: each such cycle leaks an IOMMU reference, so the
  SMMU is never detached again.
\<close>

theorem idle_pc_restore_leaks_iommu_ref:
  assumes "idle_pc md" "\<not> iommu_attached md" "\<not> handoff_pending md" "\<not> quirk_min_bus_vote md"
    and "mdp_clk_cnt md = 0" "\<And>tr. IS_ERR_VALUE (smmu_attach_rc env tr)"
  shows "\<exists>md'. mdss_pm_run env [ClkCtrl True, ClkCtrl False] md = Some md' \<and>
           mdp_clk_cnt md' = 0 \<and> iommu_ref_cnt md' = iommu_ref_cnt md + 1"
  using assms
  by (simp add: mdss_mdp_clk_ctrl_def mdss_mdp_idle_pc_restore_def Let_def iommu_ctrl_on_attach_fails
      iommu_ctrl_off_shared mdss_emit_def)

section \<open>Witnesses\<close>

theorem pm_run_inv_witness:
  "mdss_pm_inv (mdss_bus_bandwidth_ctrl mdss_demo_env False (mdss_bus_bandwidth_ctrl mdss_demo_env True mdss_demo))"
proof (rule pm_run_inv)
  show "mdss_pm_inv mdss_demo" by (simp add: mdss_pm_inv_def mdss_demo_fields)
  show "mdss_pm_run mdss_demo_env [BusBwCtrl True, BusBwCtrl False] mdss_demo =
          Some (mdss_bus_bandwidth_ctrl mdss_demo_env False (mdss_bus_bandwidth_ctrl mdss_demo_env True mdss_demo))"
    by simp
qed

theorem clk_ctrl_release_all_witness:
  "\<exists>md'. mdss_pm_run mdss_demo_env (replicate 2 (ClkCtrl False))
           (mdss_demo\<lparr>mdp_clk_cnt := 2, clk_ena := True, hw_trace := [PmRuntimeGetSync]\<rparr>) = Some md' \<and>
         \<not> clk_ena md' \<and> mdp_clk_cnt md' = 0 \<and> pm_balance (hw_trace md') = 0"
  using clk_ctrl_release_all [of "mdss_demo\<lparr>mdp_clk_cnt := 2, clk_ena := True, hw_trace := [PmRuntimeGetSync]\<rparr>"
      mdss_demo_env]
  by (simp add: mdss_pm_inv_def mdss_demo_fields)

theorem idle_pc_restore_leaks_iommu_ref_witness:
  "\<exists>md'. mdss_pm_run (mdss_demo_env\<lparr>smmu_attach_rc := (\<lambda>_. - ENODEV)\<rparr>) [ClkCtrl True, ClkCtrl False]
           (mdss_demo\<lparr>idle_pc := True\<rparr>) = Some md' \<and> mdp_clk_cnt md' = 0 \<and> iommu_ref_cnt md' = 1"
  using idle_pc_restore_leaks_iommu_ref [of "mdss_demo\<lparr>idle_pc := True\<rparr>" "mdss_demo_env\<lparr>smmu_attach_rc := (\<lambda>_. - ENODEV)\<rparr>"]
  by (simp add: mdss_demo_fields IS_ERR_VALUE_def hdcp_consts)

end
