(* ===== verification/MDSS_Panel.thy ===== *)
theory MDSS_Panel
  imports MDSS_Power
begin

unbundle bit_operations_syntax

text \<open>
  The primary-panel configuration of \<open>mdss_mdp.c\<close>: the module parameter
  \<open>panel\<close> (\<open>mdss_mdp_panel\<close>, of the form \<open>"1:<intf>:<name>"\<close> when the
  bootloader chose the panel), its parser \<open>mdss_mdp_get_pan_cfg\<close> with the
  interface table \<open>pan_types\<close>, the device-tree fallback
  \<open>mdss_mdp_parse_dt_pan_intf\<close>, \<open>mdss_mdp_get_cmdline_config\<close> that combines
  them, and the two queries the panel drivers call, \<open>mdss_panel_intf_type\<close>
  and \<open>mdss_panel_get_intf_status\<close> (which turns the MDP clocks on around its
  register read).  C strings are the lists of their characters; a character array
  is the list of its cells, and cells past its end read as NUL, as the zeroed
  static buffers of the driver do.
\<close>

section \<open>Constants\<close>

text \<open>\<open>mdss_panel.h\<close>: buffer length, interface types and display numbers.\<close>

definition MDSS_MAX_PANEL_LEN :: nat where [hdcp_consts]: "MDSS_MAX_PANEL_LEN = 256"
definition MDSS_PANEL_INTF_INVALID :: int where [hdcp_consts]: "MDSS_PANEL_INTF_INVALID = -1"
definition MDSS_PANEL_INTF_DSI :: int where [hdcp_consts]: "MDSS_PANEL_INTF_DSI = 0"
definition MDSS_PANEL_INTF_EDP :: int where [hdcp_consts]: "MDSS_PANEL_INTF_EDP = 1"
definition MDSS_PANEL_INTF_HDMI :: int where [hdcp_consts]: "MDSS_PANEL_INTF_HDMI = 2"
definition DISPLAY_1 :: u32 where [hdcp_consts]: "DISPLAY_1 = 0"
definition DISPLAY_2 :: u32 where [hdcp_consts]: "DISPLAY_2 = 1"

text \<open>The interface-select register and its fields (\<open>mdss_mdp_hwio.h\<close>).\<close>

definition MDSS_MDP_REG_DISP_INTF_SEL :: u32 where [hdcp_consts]: "MDSS_MDP_REG_DISP_INTF_SEL = 0x38"
definition MDSS_MDP_INTF_EDP_SEL :: u32 where [hdcp_consts]: "MDSS_MDP_INTF_EDP_SEL = 0xA"
definition MDSS_MDP_INTF_HDMI_SEL :: u32 where [hdcp_consts]: "MDSS_MDP_INTF_HDMI_SEL = 0x3000000"
definition MDSS_MDP_INTF_DSI0_SEL :: u32 where [hdcp_consts]: "MDSS_MDP_INTF_DSI0_SEL = 0x100"
definition MDSS_MDP_INTF_DSI1_SEL :: u32 where [hdcp_consts]: "MDSS_MDP_INTF_DSI1_SEL = 0x10000"

text \<open>The interface names of the command line (\<open>pan_types\<close>, lines 98--102).\<close>

definition pan_types :: "(string \<times> int) list" where
  "pan_types = [(''dsi'', MDSS_PANEL_INTF_DSI), (''edp'', MDSS_PANEL_INTF_EDP), (''hdmi'', MDSS_PANEL_INTF_HDMI)]"

section \<open>C strings\<close>

text \<open>
  \<open>cstr\<close>: the string a character array holds (up to its first NUL);
  \<open>arr_at\<close>: a cell of the array; \<open>strlcpy\<close> into a buffer of \<open>sz\<close> bytes
  keeps at most \<open>sz - 1\<close> characters.
\<close>

definition cstr :: "string \<Rightarrow> string" where
  "cstr a = takeWhile (\<lambda>c. c \<noteq> CHR 0x00) a"

definition arr_at :: "string \<Rightarrow> nat \<Rightarrow> char" where
  "arr_at a i = (if i < length a then a ! i else CHR 0x00)"

definition strlcpy :: "nat \<Rightarrow> string \<Rightarrow> string" where
  "strlcpy sz src = take (sz - 1) (cstr src)"

section \<open>Parsing the panel parameter\<close>

text \<open>
  \<open>mdss_mdp_get_pan_intf\<close>: the first entry of \<open>pan_types\<close> whose name equals the
  string (\<open>strcmp\<close>), \<open>MDSS_PANEL_INTF_INVALID\<close> for none or for \<open>NULL\<close>.
\<close>

fun pan_intf_lookup :: "(string \<times> int) list \<Rightarrow> string \<Rightarrow> int" where
  "pan_intf_lookup [] s = MDSS_PANEL_INTF_INVALID"
| "pan_intf_lookup ((n, t) # ps) s = (if s = n then t else pan_intf_lookup ps s)"

definition mdss_mdp_get_pan_intf :: "string option \<Rightarrow> int" where
  "mdss_mdp_get_pan_intf s = (case s of None \<Rightarrow> MDSS_PANEL_INTF_INVALID | Some s \<Rightarrow> pan_intf_lookup pan_types s)"

text \<open>
  \<open>mdss_mdp_get_pan_cfg\<close>: \<open>'0'\<close> first means no panel, anything but \<open>'1'\<close>
  means the device tree decides; after the two characters \<open>"1:"\<close> the name is
  copied into \<open>pan_name\<close> (at most 255 characters), the first \<open>':'\<close> found by
  \<open>strnstr\<close> ends the interface, of which at most four characters are kept, and
  what follows it is the panel name, which must not be empty.  A \<open>NULL\<close>
  configuration is \<open>None\<close>.
\<close>

definition mdss_mdp_get_pan_cfg ::
  "string \<Rightarrow> mdss_panel_cfg option \<Rightarrow> int \<times> mdss_panel_cfg option" where
  "mdss_mdp_get_pan_cfg panel pc =
     (case pc of None \<Rightarrow> (- EINVAL, None)
      | Some pc \<Rightarrow>
        if arr_at panel 0 = CHR ''0''
        then (- EINVAL, Some (pc\<lparr>lk_cfg := False, pan_intf := MDSS_PANEL_INTF_INVALID\<rparr>))
        else if arr_at panel 0 \<noteq> CHR ''1''
        then (- EINVAL, Some (pc\<lparr>lk_cfg := True, pan_intf := MDSS_PANEL_INTF_INVALID\<rparr>))
        else
          let pc = pc\<lparr>lk_cfg := True\<rparr>;
              pan_name = strlcpy MDSS_MAX_PANEL_LEN (drop 2 panel);
              t = length (takeWhile (\<lambda>c. c \<noteq> CHR '':'') pan_name)
          in if t = length pan_name
             then (- EINVAL, Some (pc\<lparr>pan_intf := MDSS_PANEL_INTF_INVALID\<rparr>))
             else
               let pan_intf_str = take (min t 4) pan_name;
                   pc = pc\<lparr>arg_cfg := strlcpy (MDSS_MAX_PANEL_LEN + 1) (drop (Suc t) pan_name)\<rparr>
               in if length (arg_cfg pc) = 0
                  then (- EINVAL, Some (pc\<lparr>pan_intf := MDSS_PANEL_INTF_INVALID\<rparr>))
                  else
                    let rc = mdss_mdp_get_pan_intf (Some pan_intf_str)
                    in (0, Some (pc\<lparr>pan_intf := (if rc < 0 then MDSS_PANEL_INTF_INVALID else rc)\<rparr>)))"

text \<open>
  \<open>mdss_mdp_parse_dt_pan_intf\<close>: the string property
  \<open>qcom,mdss-pref-prim-intf\<close> (\<open>None\<close> when \<open>of_property_read_string\<close> fails).
\<close>

definition mdss_mdp_parse_dt_pan_intf :: "string option \<Rightarrow> mdss_panel_cfg \<Rightarrow> int \<times> mdss_panel_cfg" where
  "mdss_mdp_parse_dt_pan_intf prim_intf pc =
     (case prim_intf of None \<Rightarrow> (- ENODEV, pc)
      | Some s \<Rightarrow>
          let rc = mdss_mdp_get_pan_intf (Some s)
          in if rc < 0 then (rc, pc\<lparr>pan_intf := MDSS_PANEL_INTF_INVALID\<rparr>)
             else (0, pc\<lparr>pan_intf := rc\<rparr>))"

text \<open>
  \<open>mdss_mdp_get_cmdline_config\<close>: the command line first, when it is not empty;
  the device tree when the command line is empty or is refused.
\<close>

definition mdss_mdp_get_cmdline_config ::
  "string \<Rightarrow> string option \<Rightarrow> mdss_data \<Rightarrow> int \<times> mdss_data" where
  "mdss_mdp_get_cmdline_config panel prim_intf md =
     (let pc = (pan_cfg md)\<lparr>arg_cfg := take MDSS_MAX_PANEL_LEN (arg_cfg (pan_cfg md)), lk_cfg := True\<rparr>;
          tried = 0 < length (cstr panel);
          (rc, pco) = mdss_mdp_get_pan_cfg panel (Some pc)
      in if tried \<and> rc = 0 then (0, md\<lparr>pan_cfg := (case pco of None \<Rightarrow> pc | Some p \<Rightarrow> p)\<lparr>init_done := True\<rparr>\<rparr>)
         else
           let pc = (if tried then (case pco of None \<Rightarrow> pc | Some p \<Rightarrow> p) else pc);
               (rc, pc) = mdss_mdp_parse_dt_pan_intf prim_intf pc
           in (rc, md\<lparr>pan_cfg := (if rc = 0 then pc\<lparr>init_done := True\<rparr> else pc)\<rparr>))"

section \<open>Queries of the panel drivers\<close>

text \<open>
  \<open>mdss_panel_intf_type\<close>: \<open>ERR_PTR(-EPROBE_DEFER)\<close> before the configuration
  is set up, the configuration when it names the interface, \<open>NULL\<close> otherwise.
\<close>

datatype panel_cfg_ptr = PanelErrPtr int | PanelCfg mdss_panel_cfg | PanelNull

definition mdss_panel_intf_type :: "mdss_data option \<Rightarrow> int \<Rightarrow> panel_cfg_ptr" where
  "mdss_panel_intf_type mdo intf_val =
     (case mdo of None \<Rightarrow> PanelErrPtr (- EPROBE_DEFER)
      | Some md \<Rightarrow>
          if \<not> init_done (pan_cfg md) then PanelErrPtr (- EPROBE_DEFER)
          else if pan_intf (pan_cfg md) = intf_val then PanelCfg (pan_cfg md) else PanelNull)"

text \<open>
  \<open>mdss_panel_get_intf_status\<close>: while the splash screen is handed off, whether the
  bootloader routed the display to the given interface, read from
  \<open>MDSS_MDP_REG_DISP_INTF_SEL\<close> with the MDP clocks held on; \<open>None\<close> when the
  nested clock control oopses.
\<close>

definition intf_sel_status :: "u32 \<Rightarrow> u32 \<Rightarrow> u32 \<Rightarrow> int" where
  "intf_sel_status disp_num intf_type st =
     (if intf_type = word_of_int MDSS_PANEL_INTF_DSI then
        (if disp_num = DISPLAY_1 then uint (st AND MDSS_MDP_INTF_DSI0_SEL)
         else if disp_num = DISPLAY_2 then uint (st AND MDSS_MDP_INTF_DSI1_SEL) else 0)
      else if intf_type = word_of_int MDSS_PANEL_INTF_EDP then
        of_bool (st AND MDSS_MDP_INTF_EDP_SEL = MDSS_MDP_INTF_EDP_SEL)
      else if intf_type = word_of_int MDSS_PANEL_INTF_HDMI then
        of_bool (st AND MDSS_MDP_INTF_HDMI_SEL = MDSS_MDP_INTF_HDMI_SEL)
      else 0)"

definition mdss_panel_get_intf_status ::
  "mdss_env \<Rightarrow> u32 \<Rightarrow> u32 \<Rightarrow> mdss_data option \<Rightarrow> (int \<times> mdss_data option) option" where
  "mdss_panel_get_intf_status env disp_num intf_type mdo =
     (case mdo of None \<Rightarrow> Some (- EPROBE_DEFER, None)
      | Some md \<Rightarrow>
          if \<not> init_done (pan_cfg md) then Some (- EPROBE_DEFER, Some md)
          else if \<not> handoff_pending md then Some (0, Some md)
          else
            Option.bind (mdss_mdp_clk_ctrl env True md) (\<lambda>md.
              let st = mdss_readl md MDP_IO MDSS_MDP_REG_DISP_INTF_SEL
              in map_option (\<lambda>md. (intf_sel_status disp_num intf_type st, Some md))
                   (mdss_mdp_clk_ctrl env False md)))"

text \<open>The parameter the bootloader passes for an interface and a panel name.\<close>

definition pan_cfg_param :: "string \<Rightarrow> string \<Rightarrow> string" where
  "pan_cfg_param intf name = ''1:'' @ intf @ '':'' @ name"

section \<open>Lemmas\<close>

lemma cstr_no_nul [simp]: "CHR 0x00 \<notin> set s \<Longrightarrow> cstr s = s"
  by (auto simp: cstr_def takeWhile_eq_all_conv)

lemma takeWhile_colon:
  "CHR '':'' \<notin> set intf \<Longrightarrow> takeWhile (\<lambda>c. c \<noteq> CHR '':'') (intf @ CHR '':'' # name) = intf"
  by (induction intf) auto

text \<open>
  A well-formed parameter \<open>"1:<intf>:<name>"\<close> is accepted: the name is the panel
  name and the interface is looked up from its first four characters.
\<close>

lemma get_pan_cfg_param:
  assumes "CHR '':'' \<notin> set intf" "CHR 0x00 \<notin> set intf" "CHR 0x00 \<notin> set name" "name \<noteq> []"
    and "length intf + length name < 255"
  shows "mdss_mdp_get_pan_cfg (pan_cfg_param intf name) (Some pc) =
           (0, Some (pc\<lparr>lk_cfg := True, arg_cfg := name,
                       pan_intf := pan_intf_lookup pan_types (take 4 intf)\<rparr>))"
proof -
  let ?s = "intf @ CHR '':'' # name"
  have nz: "CHR 0x00 \<notin> set ?s" using assms(2,3) by auto
  have a0: "arr_at (pan_cfg_param intf name) 0 = CHR ''1''" by (simp add: arr_at_def pan_cfg_param_def)
  have pn: "strlcpy MDSS_MAX_PANEL_LEN (drop 2 (pan_cfg_param intf name)) = ?s"
    using nz assms(5) by (simp add: strlcpy_def pan_cfg_param_def MDSS_MAX_PANEL_LEN_def)
  have t: "takeWhile (\<lambda>c. c \<noteq> CHR '':'') ?s = intf" by (rule takeWhile_colon [OF assms(1)])
  have nm: "strlcpy (MDSS_MAX_PANEL_LEN + 1) (drop (Suc (length intf)) ?s) = name"
    using assms(3,5) by (simp add: strlcpy_def MDSS_MAX_PANEL_LEN_def)
  have lk: "mdss_mdp_get_pan_intf (Some (take (min (length intf) 4) ?s)) = pan_intf_lookup pan_types (take 4 intf)"
    by (simp add: mdss_mdp_get_pan_intf_def min_def)
  have ng: "(if pan_intf_lookup pan_types s < 0 then MDSS_PANEL_INTF_INVALID else pan_intf_lookup pan_types s)
              = pan_intf_lookup pan_types s" for s
    by (simp add: pan_types_def hdcp_consts)
  show ?thesis
    unfolding mdss_mdp_get_pan_cfg_def option.case Let_def a0 pn t nm lk ng
    using assms(4) by simp
qed

text \<open>Without the minimum-bus-vote quirk the clock control never oopses.\<close>

lemma iommu_ctrl_not_None: "\<not> quirk_min_bus_vote md \<Longrightarrow> mdss_iommu_ctrl env en md \<noteq> None"
  by (simp add: mdss_iommu_ctrl_def Let_def prod.case_eq_if)

lemma iommu_ctrl_quirk:
  "mdss_iommu_ctrl env en md = Some (rc, md') \<Longrightarrow> quirk_min_bus_vote md' = quirk_min_bus_vote md"
  by (drule pm_frame_iommu_ctrl) (simp add: pm_frame_def)

lemma clk_update_quirk [simp]:
  "quirk_min_bus_vote (snd (mdss_mdp_clk_update env c e m)) = quirk_min_bus_vote m"
  using pm_frame_clk_update [of m env c e] by (simp add: pm_frame_def)

lemma idle_pc_restore_not_None:
  assumes "\<not> quirk_min_bus_vote md"
  shows "mdss_mdp_idle_pc_restore env md \<noteq> None"
proof (cases "idle_pc md")
  case True
  obtain rc md1 where a: "mdss_iommu_ctrl env True md = Some (rc, md1)"
    using iommu_ctrl_not_None [OF assms, of env True] by auto
  have q: "\<not> quirk_min_bus_vote (mdss_emit HwInit md1)"
    using iommu_ctrl_quirk [OF a] assms by (simp add: mdss_emit_def)
  show ?thesis
    using True a iommu_ctrl_not_None [OF q, of env False]
    by (auto simp: mdss_mdp_idle_pc_restore_def Let_def split: option.split)
qed (simp add: mdss_mdp_idle_pc_restore_def)

lemma clk_ctrl_tail_not_None:
  assumes "\<not> quirk_min_bus_vote md1"
  shows "Option.bind (Some md1) (\<lambda>md. let md = md\<lparr>clk_ena := en\<rparr>;
                  md = snd (mdss_mdp_clk_update env MDSS_CLK_AHB en md);
                  md = snd (mdss_mdp_clk_update env MDSS_CLK_AXI en md);
                  md = snd (mdss_mdp_clk_update env MDSS_CLK_MDP_CORE en md);
                  md = snd (mdss_mdp_clk_update env MDSS_CLK_MDP_LUT en md);
                  md = (if vsync_ena md \<noteq> 0 then snd (mdss_mdp_clk_update env MDSS_CLK_MDP_VSYNC en md) else md)
              in if \<not> en then
                   map_option (\<lambda>(_, md).
                       let md = mdss_emit (BusUpdateContext (bus_hdl md) True (ao_bw_uc_idx md)) md;
                           md = snd (mdss_update_reg_bus_vote env (reg_bus_clt md) VOTE_INDEX_DISABLE md)
                       in mdss_emit PmRuntimePutAutosuspend md)
                     (mdss_iommu_ctrl env False md)
                 else map_option snd (mdss_mdp_idle_pc_restore env md)) \<noteq> None"
  using assms by (simp add: Let_def iommu_ctrl_not_None idle_pc_restore_not_None del: not_None_eq)

lemma clk_ctrl_on_branch_not_None:
  assumes "\<not> quirk_min_bus_vote md"
  shows "Option.bind
           (let md = mdss_emit PmRuntimeGetSync md;
                md = snd (mdss_update_reg_bus_vote env (reg_bus_clt md) VOTE_INDEX_19_MHZ md)
            in map_option (\<lambda>(_, md). mdss_emit (BusUpdateContext (bus_hdl md) False (curr_bw_uc_idx md)) md)
                 (mdss_iommu_ctrl env True md))
           (\<lambda>md. let md = md\<lparr>clk_ena := True\<rparr>;
                  md = snd (mdss_mdp_clk_update env MDSS_CLK_AHB True md);
                  md = snd (mdss_mdp_clk_update env MDSS_CLK_AXI True md);
                  md = snd (mdss_mdp_clk_update env MDSS_CLK_MDP_CORE True md);
                  md = snd (mdss_mdp_clk_update env MDSS_CLK_MDP_LUT True md);
                  md = (if vsync_ena md \<noteq> 0 then snd (mdss_mdp_clk_update env MDSS_CLK_MDP_VSYNC True md) else md)
              in if \<not> True then
                   map_option (\<lambda>(_, md).
                       let md = mdss_emit (BusUpdateContext (bus_hdl md) True (ao_bw_uc_idx md)) md;
                           md = snd (mdss_update_reg_bus_vote env (reg_bus_clt md) VOTE_INDEX_DISABLE md)
                       in mdss_emit PmRuntimePutAutosuspend md)
                     (mdss_iommu_ctrl env False md)
                 else map_option snd (mdss_mdp_idle_pc_restore env md)) \<noteq> None"
proof -
  let ?m = "snd (mdss_update_reg_bus_vote env (reg_bus_clt (mdss_emit PmRuntimeGetSync md)) VOTE_INDEX_19_MHZ
              (mdss_emit PmRuntimeGetSync md))"
  have q: "\<not> quirk_min_bus_vote ?m"
    using pm_frame_reg_bus_vote [of "mdss_emit PmRuntimeGetSync md" env] assms
    by (simp add: pm_frame_def mdss_emit_def)
  obtain rc md2 where a: "mdss_iommu_ctrl env True ?m = Some (rc, md2)"
    using iommu_ctrl_not_None [OF q, of env True] by auto
  have q2: "\<not> quirk_min_bus_vote (mdss_emit (BusUpdateContext (bus_hdl md2) False (curr_bw_uc_idx md2)) md2)"
    using iommu_ctrl_quirk [OF a] q by (simp add: mdss_emit_def)
  show ?thesis
    using a clk_ctrl_tail_not_None [OF q2, of True env] by (simp add: Let_def del: not_None_eq)
qed

lemma clk_ctrl_on_not_None:
  "\<not> quirk_min_bus_vote md \<Longrightarrow> mdss_mdp_clk_ctrl env True md \<noteq> None"
proof (cases "mdp_clk_cnt md = 0")
  case True
  assume "\<not> quirk_min_bus_vote md"
  then show ?thesis
    using True clk_ctrl_on_branch_not_None [of "md\<lparr>mdp_clk_cnt := Suc 0\<rparr>" env]
    by (simp add: mdss_mdp_clk_ctrl_def Let_def del: not_None_eq)
qed (simp add: mdss_mdp_clk_ctrl_def Let_def)

lemma clk_ctrl_not_None:
  "\<not> quirk_min_bus_vote md \<Longrightarrow> mdss_mdp_clk_ctrl env en md \<noteq> None"
  by (cases en) (simp_all add: clk_ctrl_on_not_None clk_ctrl_off_some)

lemma pan_intf_lookup_unknown:
  "s \<notin> fst ` set ps \<Longrightarrow> pan_intf_lookup ps s = MDSS_PANEL_INTF_INVALID"
  by (induction ps s rule: pan_intf_lookup.induct) auto

section \<open>Properties\<close>

text \<open>
  C20 (roundtrip): the parameter the bootloader prints for one of the interfaces of
  \<open>pan_types\<close> and a panel name is parsed back into that interface and that name.
\<close>

theorem get_pan_cfg_roundtrip:
  assumes "(intf, ty) \<in> set pan_types" "name \<noteq> []" "CHR 0x00 \<notin> set name" "length name < 250"
  shows "mdss_mdp_get_pan_cfg (pan_cfg_param intf name) (Some pc) =
           (0, Some (pc\<lparr>lk_cfg := True, arg_cfg := name, pan_intf := ty\<rparr>))"
proof -
  have "intf = ''dsi'' \<and> ty = 0 \<or> intf = ''edp'' \<and> ty = 1 \<or> intf = ''hdmi'' \<and> ty = 2"
    using assms(1) by (auto simp: pan_types_def hdcp_consts)
  then show ?thesis
    using get_pan_cfg_param [of intf name pc] assms(2-4)
    by (auto simp: pan_types_def hdcp_consts)
qed

text \<open>
  C27 (functional): the interface of the parameter is matched on its first four
  characters only: any interface word that starts with \<open>hdmi\<close> selects HDMI.
\<close>

theorem pan_intf_matched_on_prefix:
  assumes "CHR '':'' \<notin> set sfx" "CHR 0x00 \<notin> set (sfx @ name)" "name \<noteq> []"
    and "length sfx + length name < 250"
  shows "mdss_mdp_get_pan_cfg (pan_cfg_param (''hdmi'' @ sfx) name) (Some pc) =
           (0, Some (pc\<lparr>lk_cfg := True, arg_cfg := name, pan_intf := MDSS_PANEL_INTF_HDMI\<rparr>))"
  using get_pan_cfg_param [of "''hdmi'' @ sfx" name pc] assms
  by (simp add: pan_types_def)

text \<open>
  C26 (error): a command line that names an unknown interface is still accepted:
  \<open>mdss_mdp_get_cmdline_config\<close> returns 0 and marks the configuration done with
  an invalid interface, and the interface the device tree prefers is never read.
\<close>

theorem cmdline_unknown_intf_skips_dt:
  assumes "CHR '':'' \<notin> set intf" "CHR 0x00 \<notin> set (intf @ name)" "name \<noteq> []"
    and "length intf + length name < 250" "take 4 intf \<notin> fst ` set pan_types"
  shows "mdss_mdp_get_cmdline_config (pan_cfg_param intf name) prim md =
           (0, md\<lparr>pan_cfg := (pan_cfg md)\<lparr>arg_cfg := name, pan_intf := MDSS_PANEL_INTF_INVALID,
                                         lk_cfg := True, init_done := True\<rparr>\<rparr>)"
proof -
  have ne: "0 < length (cstr (pan_cfg_param intf name))"
    by (simp add: cstr_def pan_cfg_param_def)
  show ?thesis
    using get_pan_cfg_param [of intf name] assms pan_intf_lookup_unknown [OF assms(5)] ne
    by (simp add: mdss_mdp_get_cmdline_config_def Let_def)
qed

text \<open>
  C21 (safety): reading the interface selection during the splash hand-off leaves the
  clocks as it found them: it returns, the clock and bus references, the clock state
  and the runtime-PM balance are those it started with, and the reference invariant
  still holds.
\<close>

theorem get_intf_status_clk_balanced:
  assumes "mdss_pm_inv md" "\<not> quirk_min_bus_vote md"
  shows "\<exists>rc md'. mdss_panel_get_intf_status env disp intf (Some md) = Some (rc, Some md') \<and>
           mdss_pm_inv md' \<and> mdp_clk_cnt md' = mdp_clk_cnt md \<and> bus_ref_cnt md' = bus_ref_cnt md \<and>
           clk_ena md' = clk_ena md \<and> pm_balance (hw_trace md') = pm_balance (hw_trace md)"
proof (cases "init_done (pan_cfg md) \<and> handoff_pending md")
  case True
  obtain md1 where on: "mdss_mdp_clk_ctrl env True md = Some md1"
    using clk_ctrl_not_None [OF assms(2), of env True] by auto
  note p1 = clk_ctrl_pm [OF on]
  obtain md2 where off: "mdss_mdp_clk_ctrl env False md1 = Some md2"
    using clk_ctrl_not_None [of md1 env False] p1 assms(2) by auto
  note p2 = clk_ctrl_pm [OF off]
  have "mdss_pm_inv md2"
    using pm_step_inv [of md env "ClkCtrl True" md1] pm_step_inv [of md1 env "ClkCtrl False" md2] assms(1) on off
    by simp
  then show ?thesis
    using True on off p1 p2 assms(1) by (auto simp: mdss_panel_get_intf_status_def mdss_pm_inv_def)
next
  case False
  then show ?thesis using assms(1) by (auto simp: mdss_panel_get_intf_status_def)
qed

section \<open>Witnesses\<close>

theorem get_pan_cfg_roundtrip_witness:
  "mdss_mdp_get_pan_cfg ''1:hdmi:hdmi_panel'' (Some (pan_cfg mdss_demo)) =
     (0, Some ((pan_cfg mdss_demo)\<lparr>lk_cfg := True, arg_cfg := ''hdmi_panel'', pan_intf := 2\<rparr>))"
proof -
  have "(''hdmi'', 2) \<in> set pan_types" by (simp add: pan_types_def hdcp_consts)
  from get_pan_cfg_roundtrip [OF this, of "''hdmi_panel''" "pan_cfg mdss_demo"]
  show ?thesis by (simp add: pan_cfg_param_def)
qed

theorem pan_intf_matched_on_prefix_witness:
  "mdss_mdp_get_pan_cfg ''1:hdmi_tx:panel'' (Some (pan_cfg mdss_demo)) =
     (0, Some ((pan_cfg mdss_demo)\<lparr>lk_cfg := True, arg_cfg := ''panel'', pan_intf := MDSS_PANEL_INTF_HDMI\<rparr>))"
  using pan_intf_matched_on_prefix [of "''_tx''" "''panel''" "pan_cfg mdss_demo"]
  by (simp add: pan_cfg_param_def)

theorem cmdline_unknown_intf_skips_dt_witness:
  "mdss_mdp_get_cmdline_config ''1:dsi0:panel'' (Some ''hdmi'') mdss_demo =
     (0, mdss_demo\<lparr>pan_cfg := (pan_cfg mdss_demo)\<lparr>arg_cfg := ''panel'', pan_intf := MDSS_PANEL_INTF_INVALID,
                                                lk_cfg := True, init_done := True\<rparr>\<rparr>)"
  using cmdline_unknown_intf_skips_dt [of "''dsi0''" "''panel''" "Some ''hdmi''" mdss_demo]
  by (simp add: pan_cfg_param_def pan_types_def)

theorem get_intf_status_clk_balanced_witness:
  "\<exists>rc md'. mdss_panel_get_intf_status mdss_demo_env DISPLAY_1 0 (Some (mdss_demo\<lparr>handoff_pending := True\<rparr>))
      = Some (rc, Some md') \<and> mdss_pm_inv md' \<and> mdp_clk_cnt md' = 0 \<and> bus_ref_cnt md' = 0 \<and>
      \<not> clk_ena md' \<and> pm_balance (hw_trace md') = 0"
  using get_intf_status_clk_balanced [of "mdss_demo\<lparr>handoff_pending := True\<rparr>" mdss_demo_env DISPLAY_1 0]
  by (simp add: mdss_pm_inv_def mdss_demo_fields)

end
