(* ===== verification/MDSS_Footswitch.thy ===== *)
theory MDSS_Footswitch
  imports MDSS_Panel
begin

text \<open>
  Power rails and power management of \<open>mdss_mdp.c\<close>: the CX rail
  (\<open>mdss_mdp_cx_ctrl\<close>, \<open>mdss_mdp_config_cx_voltage\<close>), the battery FET
  (\<open>mdss_mdp_batfet_ctrl\<close>), the MDSS footswitch (\<open>mdss_mdp_footswitch_ctrl\<close>
  and its splash-screen variant), and the callbacks of \<open>mdss_mdp_pm_ops\<close>: system
  suspend and resume, runtime suspend, resume and idle.  The regulator framework
  is modelled from its interface: \<open>regulator_enable\<close> answers what the
  environment says and counts a use on success, \<open>regulator_disable\<close> refuses
  with \<open>-EIO\<close> (the \<open>"unbalanced disables"\<close> warning) when the rail has no use
  left; the use count of a rail is read off the trace.  It counts only this
  driver's enables and disables: on a rail shared with other consumers
  (\<open>vdd_cx\<close>) an unbalanced disable that the model refuses with \<open>-EIO\<close>
  would, in the kernel, drop another consumer's vote.  The runtime-PM core is a
  status bit: a device that is suspended is resumed by the first reference a
  \<open>pm_runtime_get_sync\<close> takes, and suspended when the driver asks for it
  after the last reference is dropped.
\<close>

section \<open>Constants\<close>

definition EIO :: int where [hdcp_consts]: "EIO = 5"

text \<open>Voltage corners of the RPM regulators (\<open>rpm-smd-regulator.h\<close>).\<close>

definition RPM_REGULATOR_CORNER_NONE :: int where [hdcp_consts]: "RPM_REGULATOR_CORNER_NONE = 1"
definition RPM_REGULATOR_CORNER_SVS_SOC :: int where [hdcp_consts]: "RPM_REGULATOR_CORNER_SVS_SOC = 4"
definition RPM_REGULATOR_CORNER_SUPER_TURBO :: int where [hdcp_consts]: "RPM_REGULATOR_CORNER_SUPER_TURBO = 7"

section \<open>The regulator framework\<close>

fun rail_delta :: "mdss_rail \<Rightarrow> mdss_hw_event \<Rightarrow> int" where
  "rail_delta r (RegulatorEnable r' rc) = (if r' = r \<and> rc = 0 then 1 else 0)"
| "rail_delta r (RegulatorDisable r' rc) = (if r' = r \<and> rc = 0 then -1 else 0)"
| "rail_delta r _ = 0"

definition rail_use :: "mdss_rail \<Rightarrow> mdss_hw_event list \<Rightarrow> int" where
  "rail_use r tr = sum_list (map (rail_delta r) tr)"

definition regulator_enable :: "mdss_env \<Rightarrow> mdss_rail \<Rightarrow> mdss_data \<Rightarrow> int \<times> mdss_data" where
  "regulator_enable env r md =
     (let rc = regulator_enable_rc env r (hw_trace md) in (rc, mdss_emit (RegulatorEnable r rc) md))"

definition regulator_disable :: "mdss_rail \<Rightarrow> mdss_data \<Rightarrow> int \<times> mdss_data" where
  "regulator_disable r md =
     (let rc = (if rail_use r (hw_trace md) \<le> 0 then - EIO else 0) in (rc, mdss_emit (RegulatorDisable r rc) md))"

definition regulator_set_voltage ::
  "mdss_env \<Rightarrow> mdss_rail \<Rightarrow> int \<Rightarrow> int \<Rightarrow> mdss_data \<Rightarrow> int \<times> mdss_data" where
  "regulator_set_voltage env r lo hi md =
     (let rc = regulator_set_voltage_rc env r (hw_trace md) in (rc, mdss_emit (RegulatorSetVoltage r lo hi rc) md))"

definition devm_regulator_get :: "mdss_env \<Rightarrow> mdss_rail \<Rightarrow> mdss_data \<Rightarrow> bool \<times> mdss_data" where
  "devm_regulator_get env r md =
     (let ok = regulator_get_ok env r (hw_trace md) in (ok, mdss_emit (RegulatorGet r ok) md))"

section \<open>Rails\<close>

text \<open>
  \<open>mdss_mdp_config_cx_voltage\<close>: with \<open>qcom,en-svs-high\<close>, vote SVS-plus on
  the active and the sleep set (the static \<open>svs_en\<close>); the answers are only
  logged.
\<close>

definition mdss_mdp_config_cx_voltage :: "bool \<Rightarrow> mdss_data \<Rightarrow> mdss_data" where
  "mdss_mdp_config_cx_voltage enable md =
     (if \<not> en_svs_high md then md
      else
        let v = (if enable then 1 else 0);
            md = md\<lparr>svs_en := v\<rparr>
        in mdss_emit (RpmSvsVote False v) (mdss_emit (RpmSvsVote True v) md))"

text \<open>
  \<open>mdss_mdp_cx_ctrl\<close>: on, set the corner range and enable; off, disable and
  drop the corner; each failure returns its code.
\<close>

definition mdss_mdp_cx_ctrl :: "mdss_env \<Rightarrow> bool \<Rightarrow> mdss_data \<Rightarrow> int \<times> mdss_data" where
  "mdss_mdp_cx_ctrl env enable md =
     (if \<not> rail_present md RAIL_VDD_CX then (0, md)
      else if enable then
        let (rc, md) = regulator_set_voltage env RAIL_VDD_CX RPM_REGULATOR_CORNER_SVS_SOC
                         RPM_REGULATOR_CORNER_SUPER_TURBO md
        in if rc < 0 then (rc, md) else regulator_enable env RAIL_VDD_CX md
      else
        let (rc, md) = regulator_disable RAIL_VDD_CX md
        in if rc \<noteq> 0 then (rc, md)
           else regulator_set_voltage env RAIL_VDD_CX RPM_REGULATOR_CORNER_NONE
                  RPM_REGULATOR_CORNER_SUPER_TURBO md)"

text \<open>
  \<open>mdss_mdp_batfet_ctrl\<close>: the battery FET regulator is looked up on the first
  enable (and stays \<open>NULL\<close> when that fails); a disable without it is ignored.
\<close>

definition mdss_mdp_batfet_ctrl :: "mdss_env \<Rightarrow> bool \<Rightarrow> mdss_data \<Rightarrow> mdss_data" where
  "mdss_mdp_batfet_ctrl env enable md =
     (if \<not> batfet_required md then md
      else
        let (got, md) =
              (if rail_present md RAIL_BATFET then (True, md)
               else if enable then
                 let (ok, md) = devm_regulator_get env RAIL_BATFET md
                 in (ok, md\<lparr>rail_present := (rail_present md)(RAIL_BATFET := ok)\<rparr>)
               else (False, md))
        in if \<not> got then md
           else if enable then snd (regulator_enable env RAIL_BATFET md)
           else snd (regulator_disable RAIL_BATFET md))"

text \<open>
  \<open>mdss_mdp_footswitch_ctrl\<close>: turning on a footswitch that is off enables the
  Venus and MDSS GDSCs and, unless the MDP comes back from an idle power collapse,
  the CX rail and the battery FET; turning off a footswitch that is on keeps the CX
  and battery FET votes while overlays are active (entering idle power collapse
  with memory retention) and releases them otherwise.  The return codes of the
  regulator calls are ignored, as in the source.
\<close>

definition mdss_mdp_footswitch_ctrl :: "mdss_env \<Rightarrow> bool \<Rightarrow> mdss_data \<Rightarrow> mdss_data" where
  "mdss_mdp_footswitch_ctrl env on md =
     (if \<not> rail_present md RAIL_FS then md
      else if on then
        let md = (if \<not> fs_ena md then
                    let md = (if rail_present md RAIL_VENUS then snd (regulator_enable env RAIL_VENUS md) else md);
                        md = snd (regulator_enable env RAIL_FS md)
                    in if \<not> idle_pc md
                       then mdss_mdp_batfet_ctrl env True (snd (mdss_mdp_cx_ctrl env True md))
                       else md
                  else md);
            md = (if en_svs_high md then mdss_mdp_config_cx_voltage True md else md)
        in md\<lparr>fs_ena := True\<rparr>
      else
        let md = (if fs_ena md then
                    let md = (if active_intf_cnt md \<noteq> 0
                              then mdss_mdp_memory_retention_enter env (md\<lparr>idle_pc := True\<rparr>)
                              else mdss_mdp_batfet_ctrl env False (snd (mdss_mdp_cx_ctrl env False md)));
                        md = (if en_svs_high md then mdss_mdp_config_cx_voltage False md else md);
                        md = snd (regulator_disable RAIL_FS md)
                    in if rail_present md RAIL_VENUS then snd (regulator_disable RAIL_VENUS md) else md
                  else md)
        in md\<lparr>fs_ena := False\<rparr>)"

text \<open>
  \<open>mdss_mdp_footswitch_ctrl_splash\<close>: the continuous-splash hand-off powers the
  MDP directly (GDSCs, clocks, bus) and releases it when the hand-off ends;
  \<open>None\<close> when the nested clock control oopses.
\<close>

definition mdss_mdp_footswitch_ctrl_splash :: "mdss_env \<Rightarrow> bool \<Rightarrow> mdss_data \<Rightarrow> mdss_data option" where
  "mdss_mdp_footswitch_ctrl_splash env on md =
     (if on then
        let md = (if rail_present md RAIL_VENUS then snd (regulator_enable env RAIL_VENUS md) else md);
            md = snd (regulator_enable env RAIL_FS md)
        in map_option (mdss_bus_bandwidth_ctrl env True) (mdss_mdp_clk_ctrl env True md)
      else
        let md = mdss_bus_bandwidth_ctrl env False md
        in map_option (\<lambda>md.
             let md = snd (regulator_disable RAIL_FS md);
                 md = (if rail_present md RAIL_VENUS then snd (regulator_disable RAIL_VENUS md) else md)
             in md\<lparr>handoff_pending := False\<rparr>)
           (mdss_mdp_clk_ctrl env False md))"

section \<open>Power-management callbacks\<close>

text \<open>
  \<open>mdss_mdp_suspend_sub\<close> and \<open>mdss_mdp_resume_sub\<close>: system suspend remembers
  whether the footswitch was on and turns it off; resume turns it back on if it
  was.  The callbacks take the driver data, \<open>None\<close> for \<open>NULL\<close>.
\<close>

definition mdss_mdp_suspend_sub :: "mdss_env \<Rightarrow> mdss_data \<Rightarrow> int \<times> mdss_data" where
  "mdss_mdp_suspend_sub env md =
     (0, mdss_mdp_footswitch_ctrl env False (md\<lparr>suspend_fs_ena := fs_ena md\<rparr>))"

definition mdss_mdp_resume_sub :: "mdss_env \<Rightarrow> mdss_data \<Rightarrow> int \<times> mdss_data" where
  "mdss_mdp_resume_sub env md =
     (0, if suspend_fs_ena md then mdss_mdp_footswitch_ctrl env True md else md)"

definition mdss_mdp_pm_suspend :: "mdss_env \<Rightarrow> mdss_data option \<Rightarrow> int \<times> mdss_data option" where
  "mdss_mdp_pm_suspend env mdo =
     (case mdo of None \<Rightarrow> (- ENODEV, None)
      | Some md \<Rightarrow> let (rc, md) = mdss_mdp_suspend_sub env md in (rc, Some md))"

definition mdss_mdp_pm_resume :: "mdss_env \<Rightarrow> mdss_data option \<Rightarrow> int \<times> mdss_data option" where
  "mdss_mdp_pm_resume env mdo =
     (case mdo of None \<Rightarrow> (- ENODEV, None)
      | Some md \<Rightarrow> let (rc, md) = mdss_mdp_resume_sub env (mdss_emit PmRuntimeSetSuspended md) in (rc, Some md))"

text \<open>
  Runtime PM: resume powers the footswitch (and the panels, except when coming
  out of idle power collapse); suspend refuses while the MDP clocks are on.
\<close>

definition mdss_mdp_runtime_resume :: "mdss_env \<Rightarrow> mdss_data option \<Rightarrow> int \<times> mdss_data option" where
  "mdss_mdp_runtime_resume env mdo =
     (case mdo of None \<Rightarrow> (- ENODEV, None)
      | Some md \<Rightarrow>
          let md = (if \<not> idle_pc md then mdss_emit (PanelSuspRes True) md else md)
          in (0, Some (mdss_mdp_footswitch_ctrl env True md)))"

definition mdss_mdp_runtime_idle :: "mdss_data option \<Rightarrow> int" where
  "mdss_mdp_runtime_idle mdo = (case mdo of None \<Rightarrow> - ENODEV | Some _ \<Rightarrow> 0)"

definition mdss_mdp_runtime_suspend :: "mdss_env \<Rightarrow> mdss_data option \<Rightarrow> int \<times> mdss_data option" where
  "mdss_mdp_runtime_suspend env mdo =
     (case mdo of None \<Rightarrow> (- ENODEV, None)
      | Some md \<Rightarrow>
          if clk_ena md then (- EBUSY, Some md)
          else
            let md = mdss_mdp_footswitch_ctrl env False md
            in (0, Some (if \<not> idle_pc md then mdss_emit (PanelSuspRes False) md else md)))"

section \<open>The device under runtime PM\<close>

text \<open>
  The driver together with its runtime-PM status (\<open>True\<close> when active).  The
  operations are the two reference-taking entry points, a runtime suspend
  requested once no reference is left, a change of the number of active overlays
  by the overlay code, and system suspend and resume.  Taking the first clock or
  bus reference of a suspended device runs the runtime resume callback at the
  \<open>pm_runtime_get_sync\<close> of the entry point, before the rest of it; the
  system resume leaves the device marked suspended.
\<close>

datatype mdss_dev_op = DevClkCtrl bool | DevBusBwCtrl bool | DevRuntimeSuspend | DevSetActive nat
  | DevPmSuspend | DevPmResume

definition dev_get_resume :: "mdss_env \<Rightarrow> bool \<Rightarrow> bool \<times> mdss_data \<Rightarrow> bool \<times> mdss_data" where
  "dev_get_resume env takes st =
     (if takes \<and> \<not> fst st then (True, the (snd (mdss_mdp_runtime_resume env (Some (snd st))))) else st)"

fun mdss_dev_step :: "mdss_env \<Rightarrow> mdss_dev_op \<Rightarrow> bool \<times> mdss_data \<Rightarrow> (bool \<times> mdss_data) option" where
  "mdss_dev_step env (DevClkCtrl en) st =
     (let (act, md) = dev_get_resume env (en \<and> mdp_clk_cnt (snd st) = 0) st
      in map_option (Pair act) (mdss_mdp_clk_ctrl env en md))"
| "mdss_dev_step env (DevBusBwCtrl en) st =
     (let (act, md) = dev_get_resume env (en \<and> bus_ref_cnt (snd st) = 0) st
      in Some (act, mdss_bus_bandwidth_ctrl env en md))"
| "mdss_dev_step env DevRuntimeSuspend (act, md) =
     (if act \<and> pm_balance (hw_trace md) = 0
      then let (rc, mdo) = mdss_mdp_runtime_suspend env (Some md)
           in Some (rc \<noteq> 0, the mdo)
      else Some (act, md))"
| "mdss_dev_step env (DevSetActive n) (act, md) = Some (act, md\<lparr>active_intf_cnt := n\<rparr>)"
| "mdss_dev_step env DevPmSuspend (act, md) = Some (act, snd (mdss_mdp_suspend_sub env md))"
| "mdss_dev_step env DevPmResume (act, md) = Some (False, the (snd (mdss_mdp_pm_resume env (Some md))))"

fun mdss_dev_run :: "mdss_env \<Rightarrow> mdss_dev_op list \<Rightarrow> bool \<times> mdss_data \<Rightarrow> (bool \<times> mdss_data) option" where
  "mdss_dev_run env [] st = Some st"
| "mdss_dev_run env (op # ops) st = Option.bind (mdss_dev_step env op st) (mdss_dev_run env ops)"

section \<open>Lemmas\<close>

lemma rail_use_simps [simp]:
  "rail_use r [] = 0" "rail_use r (e # tr) = rail_delta r e + rail_use r tr"
  "rail_use r (xs @ ys) = rail_use r xs + rail_use r ys"
  by (simp_all add: rail_use_def)

text \<open>What the clock, bus and IOMMU code leaves alone: the footswitch and the rails.\<close>

fun is_rail_event :: "mdss_hw_event \<Rightarrow> bool" where
  "is_rail_event (RegulatorEnable r rc) = True"
| "is_rail_event (RegulatorDisable r rc) = True"
| "is_rail_event _ = False"

lemma rail_use_filter: "rail_use r tr = rail_use r (filter is_rail_event tr)"
proof (induction tr)
  case (Cons e tr)
  then show ?case by (cases e) simp_all
qed simp

definition rail_frame :: "mdss_data \<Rightarrow> mdss_data \<Rightarrow> bool" where
  "rail_frame md md' \<longleftrightarrow>
     fs_ena md' = fs_ena md \<and> rail_present md' = rail_present md \<and> active_intf_cnt md' = active_intf_cnt md \<and>
     en_svs_high md' = en_svs_high md \<and> batfet_required md' = batfet_required md \<and>
     filter is_rail_event (hw_trace md') = filter is_rail_event (hw_trace md)"

lemma rail_frame_use: "rail_frame md md' \<Longrightarrow> rail_use r (hw_trace md') = rail_use r (hw_trace md)"
  by (metis rail_frame_def rail_use_filter)

lemma rail_frame_refl [simp]: "rail_frame md md"
  by (simp add: rail_frame_def)

lemma rail_frame_trans: "rail_frame a b \<Longrightarrow> rail_frame b c \<Longrightarrow> rail_frame a c"
  by (simp add: rail_frame_def)

lemma rail_frame_emit [simp]:
  "\<not> is_rail_event e \<Longrightarrow> rail_frame md (mdss_emit e md)"
  by (simp add: rail_frame_def mdss_emit_def)

lemma rail_frame_reg_bus_vote: "rail_frame md (snd (mdss_update_reg_bus_vote env c n md))"
  by (auto simp: mdss_update_reg_bus_vote_def Let_def rail_frame_def mdss_emit_def split: option.split)

lemma rail_frame_bus_vote:
  "mdss_bus_vote env n m = (rc, md') \<Longrightarrow> rail_frame m md'"
  by (auto simp: mdss_bus_vote_def Let_def rail_frame_def mdss_emit_def split: if_splits)

lemma rail_frame_mdp_set_quota:
  "mdss_mdp_bus_scale_set_quota env a b c d md = Some (rc, md') \<Longrightarrow> rail_frame md md'"
  unfolding mdss_mdp_bus_scale_set_quota_def Let_def
  by (auto split: if_splits option.splits dest!: rail_frame_bus_vote simp: rail_frame_def)

lemma rail_frame_set_quota:
  "mdss_bus_scale_set_quota env c a b md = Some (rc, md') \<Longrightarrow> rail_frame md md'"
  unfolding mdss_bus_scale_set_quota_def Let_def
  by (drule rail_frame_mdp_set_quota) (simp add: rail_frame_def)

lemma rail_frame_clk_update: "rail_frame md (snd (mdss_mdp_clk_update env c en md))"
  by (simp add: mdss_mdp_clk_update_def Let_def rail_frame_def mdss_emit_def)

lemma rail_frame_iommu_ctrl:
  "mdss_iommu_ctrl env en md = Some (rc, md') \<Longrightarrow> rail_frame md md'"
  by (auto simp: mdss_iommu_ctrl_def Let_def mdss_smmu_attach_def mdss_smmu_detach_def rail_frame_def mdss_emit_def
      split: if_splits option.splits prod.splits dest!: rail_frame_set_quota)

lemma rail_frame_clk_update_trans:
  "rail_frame a b \<Longrightarrow> rail_frame a (snd (mdss_mdp_clk_update env c en b))"
  using rail_frame_clk_update rail_frame_trans by blast

lemma rail_frame_upd [simp]:
  "rail_frame md (md\<lparr>clk_ena := b\<rparr>)" "rail_frame md (md\<lparr>idle_pc := b\<rparr>)"
  "rail_frame md (md\<lparr>mdp_clk_cnt := n\<rparr>)"
  by (simp_all add: rail_frame_def)

lemma rail_frame_emit_trans: "\<not> is_rail_event e \<Longrightarrow> rail_frame a b \<Longrightarrow> rail_frame a (mdss_emit e b)"
  using rail_frame_emit rail_frame_trans by blast

lemma rail_frame_retention_exit: "rail_frame md (mdss_mdp_memory_retention_exit env md)"
  by (simp add: mdss_mdp_memory_retention_exit_def mdss_emit_def rail_frame_def)

lemma rail_frame_idle_pc_restore:
  assumes "mdss_mdp_idle_pc_restore env md = Some (rc, md')"
  shows "rail_frame md md'"
proof (cases "idle_pc md")
  case True
  with assms obtain rc1 md1 where a: "mdss_iommu_ctrl env True md = Some (rc1, md1)"
    by (auto simp: mdss_mdp_idle_pc_restore_def split: option.splits)
  have f1: "rail_frame md md1" by (rule rail_frame_iommu_ctrl [OF a])
  show ?thesis
  proof (cases "IS_ERR_VALUE rc1")
    case True
    then show ?thesis using assms a f1 \<open>idle_pc md\<close> by (simp add: mdss_mdp_idle_pc_restore_def)
  next
    case False
    with assms a \<open>idle_pc md\<close> obtain rc2 md2 where
      b: "mdss_iommu_ctrl env False (mdss_emit HwInit md1) = Some (rc2, md2)" and
      e: "md' = (mdss_emit CtlRestore (mdss_mdp_memory_retention_exit env (mdss_emit (Udelay 10) md2)))\<lparr>idle_pc := False\<rparr>"
      by (auto simp: mdss_mdp_idle_pc_restore_def Let_def split: option.splits)
    have "rail_frame md (mdss_emit HwInit md1)" by (rule rail_frame_emit_trans [OF _ f1]) simp
    then have f2: "rail_frame md md2" by (rule rail_frame_trans [OF _ rail_frame_iommu_ctrl [OF b]])
    have "rail_frame md (mdss_emit (Udelay 10) md2)" by (rule rail_frame_emit_trans [OF _ f2]) simp
    then have "rail_frame md (mdss_mdp_memory_retention_exit env (mdss_emit (Udelay 10) md2))"
      by (rule rail_frame_trans [OF _ rail_frame_retention_exit])
    then have "rail_frame md (mdss_emit CtlRestore (mdss_mdp_memory_retention_exit env (mdss_emit (Udelay 10) md2)))"
      by (rule rail_frame_emit_trans [rotated]) simp
    then show ?thesis unfolding e by (rule rail_frame_trans) simp
  qed
qed (use assms in \<open>simp add: mdss_mdp_idle_pc_restore_def\<close>)

lemma rail_frame_clk_tail:
  assumes "Option.bind (Some md1) (\<lambda>md. let md = md\<lparr>clk_ena := en\<rparr>;
                  md = snd (mdss_mdp_clk_update env MDSS_CLK_AHB en md);
                  md = snd (mdss_mdp_clk_update env MDSS_CLK_AXI en md);
                  md = snd (mdss_mdp_clk_update env MDSS_CLK_MDP_CORE en md);
                  md = snd (mdss_mdp_clk_update env MDSS_CLK_MDP_LUT en md);
                  md = (if vsync_ena md \<noteq> 0 then snd (mdss_mdp_clk_update env MDSS_CLK_MDP_VSYNC en md) else md)
              in if \<not> en then
                   map_option (\<lambda>(_, md).
                       let md = mdss_emit (BusUpdateContext (bus_hdl md) True (ao_bw_uc_idx md)) md;
                           md = snd (mdss_update_reg_bus_vote env (reg_bus_clt md) VOTE_INDEX_DISABLE md)
                       in mdss_emit PmRuntimePutAutosuspend md)
                     (mdss_iommu_ctrl env False md)
                 else map_option snd (mdss_mdp_idle_pc_restore env md)) = Some md'"
  shows "rail_frame md1 md'"
proof -
  define m where "m = (let md = md1\<lparr>clk_ena := en\<rparr>;
                  md = snd (mdss_mdp_clk_update env MDSS_CLK_AHB en md);
                  md = snd (mdss_mdp_clk_update env MDSS_CLK_AXI en md);
                  md = snd (mdss_mdp_clk_update env MDSS_CLK_MDP_CORE en md);
                  md = snd (mdss_mdp_clk_update env MDSS_CLK_MDP_LUT en md)
              in if vsync_ena md \<noteq> 0 then snd (mdss_mdp_clk_update env MDSS_CLK_MDP_VSYNC en md) else md)"
  have fm: "rail_frame md1 m"
    unfolding m_def Let_def by (simp add: rail_frame_clk_update_trans)
  show ?thesis
  proof (cases en)
    case True
    with assms obtain rc where "mdss_mdp_idle_pc_restore env m = Some (rc, md')"
      by (auto simp: m_def Let_def)
    then show ?thesis using fm rail_frame_idle_pc_restore rail_frame_trans by blast
  next
    case False
    with assms obtain rc m2 where i: "mdss_iommu_ctrl env False m = Some (rc, m2)" and
      e: "md' = mdss_emit PmRuntimePutAutosuspend (snd (mdss_update_reg_bus_vote env
             (reg_bus_clt (mdss_emit (BusUpdateContext (bus_hdl m2) True (ao_bw_uc_idx m2)) m2)) VOTE_INDEX_DISABLE
             (mdss_emit (BusUpdateContext (bus_hdl m2) True (ao_bw_uc_idx m2)) m2)))"
      by (auto simp: m_def Let_def)
    have "rail_frame md1 m2" using rail_frame_trans [OF fm rail_frame_iommu_ctrl [OF i]] .
    then have "rail_frame md1 (mdss_emit (BusUpdateContext (bus_hdl m2) True (ao_bw_uc_idx m2)) m2)"
      by (rule rail_frame_emit_trans [rotated]) simp
    then have "rail_frame md1 (snd (mdss_update_reg_bus_vote env
             (reg_bus_clt (mdss_emit (BusUpdateContext (bus_hdl m2) True (ao_bw_uc_idx m2)) m2)) VOTE_INDEX_DISABLE
             (mdss_emit (BusUpdateContext (bus_hdl m2) True (ao_bw_uc_idx m2)) m2)))"
      by (rule rail_frame_trans [OF _ rail_frame_reg_bus_vote])
    then show ?thesis unfolding e by (rule rail_frame_emit_trans [rotated]) simp
  qed
qed

lemma rail_frame_clk_ctrl_on:
  assumes "Option.bind
           (let md = mdss_emit PmRuntimeGetSync md;
                md = snd (mdss_update_reg_bus_vote env (reg_bus_clt md) VOTE_INDEX_19_MHZ md)
            in map_option (\<lambda>(_, md). mdss_emit (BusUpdateContext (bus_hdl md) False (curr_bw_uc_idx md)) md)
                 (mdss_iommu_ctrl env True md)) (\<lambda>md. let md = md\<lparr>clk_ena := True\<rparr>;
                    md = snd (mdss_mdp_clk_update env MDSS_CLK_AHB True md);
                    md = snd (mdss_mdp_clk_update env MDSS_CLK_AXI True md);
                    md = snd (mdss_mdp_clk_update env MDSS_CLK_MDP_CORE True md);
                    md = snd (mdss_mdp_clk_update env MDSS_CLK_MDP_LUT True md);
                    md = (if vsync_ena md \<noteq> 0 then snd (mdss_mdp_clk_update env MDSS_CLK_MDP_VSYNC True md) else md)
                in if \<not> True then
                     map_option (\<lambda>(_, md).
                         let md = mdss_emit (BusUpdateContext (bus_hdl md) True (ao_bw_uc_idx md)) md;
                             md = snd (mdss_update_reg_bus_vote env (reg_bus_clt md) VOTE_INDEX_DISABLE md)
                         in mdss_emit PmRuntimePutAutosuspend md)
                       (mdss_iommu_ctrl env False md)
                   else map_option snd (mdss_mdp_idle_pc_restore env md)) = Some md'"
  shows "rail_frame md md'"
proof -
  let ?m = "snd (mdss_update_reg_bus_vote env (reg_bus_clt (mdss_emit PmRuntimeGetSync md)) VOTE_INDEX_19_MHZ
              (mdss_emit PmRuntimeGetSync md))"
  have "rail_frame md (mdss_emit PmRuntimeGetSync md)" by simp
  then have f1: "rail_frame md ?m" by (rule rail_frame_trans [OF _ rail_frame_reg_bus_vote])
  obtain rc md2 where a: "mdss_iommu_ctrl env True ?m = Some (rc, md2)"
    using assms by (cases "mdss_iommu_ctrl env True ?m") (auto simp: Let_def)
  have b: "Option.bind (Some (mdss_emit (BusUpdateContext (bus_hdl md2) False (curr_bw_uc_idx md2)) md2)) (\<lambda>md. let md = md\<lparr>clk_ena := True\<rparr>;
                    md = snd (mdss_mdp_clk_update env MDSS_CLK_AHB True md);
                    md = snd (mdss_mdp_clk_update env MDSS_CLK_AXI True md);
                    md = snd (mdss_mdp_clk_update env MDSS_CLK_MDP_CORE True md);
                    md = snd (mdss_mdp_clk_update env MDSS_CLK_MDP_LUT True md);
                    md = (if vsync_ena md \<noteq> 0 then snd (mdss_mdp_clk_update env MDSS_CLK_MDP_VSYNC True md) else md)
                in if \<not> True then
                     map_option (\<lambda>(_, md).
                         let md = mdss_emit (BusUpdateContext (bus_hdl md) True (ao_bw_uc_idx md)) md;
                             md = snd (mdss_update_reg_bus_vote env (reg_bus_clt md) VOTE_INDEX_DISABLE md)
                         in mdss_emit PmRuntimePutAutosuspend md)
                       (mdss_iommu_ctrl env False md)
                   else map_option snd (mdss_mdp_idle_pc_restore env md))
            = Some md'"
    using assms a by (simp add: Let_def)
  have "rail_frame md (mdss_emit (BusUpdateContext (bus_hdl md2) False (curr_bw_uc_idx md2)) md2)"
    using rail_frame_trans [OF f1 rail_frame_iommu_ctrl [OF a]] rail_frame_emit_trans by simp
  then show ?thesis using rail_frame_clk_tail [OF b] rail_frame_trans by blast
qed

lemma rail_frame_clk_ctrl:
  assumes "mdss_mdp_clk_ctrl env en md = Some md'"
  shows "rail_frame md md'"
proof -
  consider "en" "mdp_clk_cnt md = 0" | "\<not> en" "mdp_clk_cnt md = 1"
    | "\<not> (en \<and> mdp_clk_cnt md = 0) \<and> \<not> (\<not> en \<and> mdp_clk_cnt md = 1)" by auto
  then show ?thesis
  proof cases
    case 1
    then have "Option.bind
           (let md = mdss_emit PmRuntimeGetSync (md\<lparr>mdp_clk_cnt := Suc 0\<rparr>);
                md = snd (mdss_update_reg_bus_vote env (reg_bus_clt md) VOTE_INDEX_19_MHZ md)
            in map_option (\<lambda>(_, md). mdss_emit (BusUpdateContext (bus_hdl md) False (curr_bw_uc_idx md)) md)
                 (mdss_iommu_ctrl env True md)) (\<lambda>md. let md = md\<lparr>clk_ena := True\<rparr>;
                    md = snd (mdss_mdp_clk_update env MDSS_CLK_AHB True md);
                    md = snd (mdss_mdp_clk_update env MDSS_CLK_AXI True md);
                    md = snd (mdss_mdp_clk_update env MDSS_CLK_MDP_CORE True md);
                    md = snd (mdss_mdp_clk_update env MDSS_CLK_MDP_LUT True md);
                    md = (if vsync_ena md \<noteq> 0 then snd (mdss_mdp_clk_update env MDSS_CLK_MDP_VSYNC True md) else md)
                in if \<not> True then
                     map_option (\<lambda>(_, md).
                         let md = mdss_emit (BusUpdateContext (bus_hdl md) True (ao_bw_uc_idx md)) md;
                             md = snd (mdss_update_reg_bus_vote env (reg_bus_clt md) VOTE_INDEX_DISABLE md)
                         in mdss_emit PmRuntimePutAutosuspend md)
                       (mdss_iommu_ctrl env False md)
                   else map_option snd (mdss_mdp_idle_pc_restore env md)) = Some md'"
      using assms by (simp add: mdss_mdp_clk_ctrl_def Let_def)
    then show ?thesis using rail_frame_clk_ctrl_on rail_frame_trans rail_frame_upd(3) by blast
  next
    case 2
    then have "Option.bind (Some (md\<lparr>mdp_clk_cnt := 0\<rparr>)) (\<lambda>md. let md = md\<lparr>clk_ena := False\<rparr>;
                    md = snd (mdss_mdp_clk_update env MDSS_CLK_AHB False md);
                    md = snd (mdss_mdp_clk_update env MDSS_CLK_AXI False md);
                    md = snd (mdss_mdp_clk_update env MDSS_CLK_MDP_CORE False md);
                    md = snd (mdss_mdp_clk_update env MDSS_CLK_MDP_LUT False md);
                    md = (if vsync_ena md \<noteq> 0 then snd (mdss_mdp_clk_update env MDSS_CLK_MDP_VSYNC False md) else md)
                in if \<not> False then
                     map_option (\<lambda>(_, md).
                         let md = mdss_emit (BusUpdateContext (bus_hdl md) True (ao_bw_uc_idx md)) md;
                             md = snd (mdss_update_reg_bus_vote env (reg_bus_clt md) VOTE_INDEX_DISABLE md)
                         in mdss_emit PmRuntimePutAutosuspend md)
                       (mdss_iommu_ctrl env False md)
                   else map_option snd (mdss_mdp_idle_pc_restore env md)) = Some md'"
      using assms by (simp add: mdss_mdp_clk_ctrl_def Let_def)
    then show ?thesis using rail_frame_clk_tail rail_frame_trans rail_frame_upd(3) by blast
  next
    case 3
    then show ?thesis using assms by (cases en) (auto simp: mdss_mdp_clk_ctrl_def Let_def split: if_splits)
  qed
qed

lemma rail_frame_bus_bandwidth_ctrl: "rail_frame md (mdss_bus_bandwidth_ctrl env en md)"
  by (simp add: mdss_bus_bandwidth_ctrl_def Let_def rail_frame_def mdss_emit_def)

text \<open>The rail helpers only append regulator and RPM events and touch their own rail.\<close>

lemma config_cx_voltage_fields [simp]:
  "fs_ena (mdss_mdp_config_cx_voltage b md) = fs_ena md"
  "idle_pc (mdss_mdp_config_cx_voltage b md) = idle_pc md"
  "rail_present (mdss_mdp_config_cx_voltage b md) = rail_present md"
  "active_intf_cnt (mdss_mdp_config_cx_voltage b md) = active_intf_cnt md"
  "en_svs_high (mdss_mdp_config_cx_voltage b md) = en_svs_high md"
  "batfet_required (mdss_mdp_config_cx_voltage b md) = batfet_required md"
  "mdp_clk_cnt (mdss_mdp_config_cx_voltage b md) = mdp_clk_cnt md"
  "bus_ref_cnt (mdss_mdp_config_cx_voltage b md) = bus_ref_cnt md"
  "clk_ena (mdss_mdp_config_cx_voltage b md) = clk_ena md"
  "quirk_min_bus_vote (mdss_mdp_config_cx_voltage b md) = quirk_min_bus_vote md"
  "suspend_fs_ena (mdss_mdp_config_cx_voltage b md) = suspend_fs_ena md"
  "pm_balance (hw_trace (mdss_mdp_config_cx_voltage b md)) = pm_balance (hw_trace md)"
  "rail_use r (hw_trace (mdss_mdp_config_cx_voltage b md)) = rail_use r (hw_trace md)"
  "set (hw_trace (mdss_mdp_config_cx_voltage b md)) =
     set (hw_trace md) \<union> (if en_svs_high md then {RpmSvsVote True (if b then 1 else 0), RpmSvsVote False (if b then 1 else 0)} else {})"
  by (simp_all add: mdss_mdp_config_cx_voltage_def Let_def mdss_emit_def pm_frame_def)

lemma cx_ctrl_fields [simp]:
  "fs_ena (snd (mdss_mdp_cx_ctrl env b md)) = fs_ena md"
  "idle_pc (snd (mdss_mdp_cx_ctrl env b md)) = idle_pc md"
  "rail_present (snd (mdss_mdp_cx_ctrl env b md)) = rail_present md"
  "active_intf_cnt (snd (mdss_mdp_cx_ctrl env b md)) = active_intf_cnt md"
  "en_svs_high (snd (mdss_mdp_cx_ctrl env b md)) = en_svs_high md"
  "batfet_required (snd (mdss_mdp_cx_ctrl env b md)) = batfet_required md"
  "mdp_clk_cnt (snd (mdss_mdp_cx_ctrl env b md)) = mdp_clk_cnt md"
  "bus_ref_cnt (snd (mdss_mdp_cx_ctrl env b md)) = bus_ref_cnt md"
  "clk_ena (snd (mdss_mdp_cx_ctrl env b md)) = clk_ena md"
  "quirk_min_bus_vote (snd (mdss_mdp_cx_ctrl env b md)) = quirk_min_bus_vote md"
  "suspend_fs_ena (snd (mdss_mdp_cx_ctrl env b md)) = suspend_fs_ena md"
  "pm_balance (hw_trace (snd (mdss_mdp_cx_ctrl env b md))) = pm_balance (hw_trace md)"
  "r \<noteq> RAIL_VDD_CX \<Longrightarrow> rail_use r (hw_trace (snd (mdss_mdp_cx_ctrl env b md))) = rail_use r (hw_trace md)"
  by (simp_all add: mdss_mdp_cx_ctrl_def regulator_set_voltage_def regulator_enable_def regulator_disable_def
      Let_def mdss_emit_def pm_frame_def split: prod.split)

lemma batfet_ctrl_fields [simp]:
  "fs_ena (mdss_mdp_batfet_ctrl env b md) = fs_ena md"
  "idle_pc (mdss_mdp_batfet_ctrl env b md) = idle_pc md"
  "r \<noteq> RAIL_BATFET \<Longrightarrow> rail_present (mdss_mdp_batfet_ctrl env b md) r = rail_present md r"
  "active_intf_cnt (mdss_mdp_batfet_ctrl env b md) = active_intf_cnt md"
  "en_svs_high (mdss_mdp_batfet_ctrl env b md) = en_svs_high md"
  "batfet_required (mdss_mdp_batfet_ctrl env b md) = batfet_required md"
  "mdp_clk_cnt (mdss_mdp_batfet_ctrl env b md) = mdp_clk_cnt md"
  "bus_ref_cnt (mdss_mdp_batfet_ctrl env b md) = bus_ref_cnt md"
  "clk_ena (mdss_mdp_batfet_ctrl env b md) = clk_ena md"
  "quirk_min_bus_vote (mdss_mdp_batfet_ctrl env b md) = quirk_min_bus_vote md"
  "suspend_fs_ena (mdss_mdp_batfet_ctrl env b md) = suspend_fs_ena md"
  "pm_balance (hw_trace (mdss_mdp_batfet_ctrl env b md)) = pm_balance (hw_trace md)"
  "r \<noteq> RAIL_BATFET \<Longrightarrow> rail_use r (hw_trace (mdss_mdp_batfet_ctrl env b md)) = rail_use r (hw_trace md)"
  by (simp_all add: mdss_mdp_batfet_ctrl_def devm_regulator_get_def regulator_enable_def regulator_disable_def
      Let_def mdss_emit_def pm_frame_def split: prod.split)

lemma retention_enter_fields [simp]:
  "fs_ena (mdss_mdp_memory_retention_enter env md) = fs_ena md"
  "idle_pc (mdss_mdp_memory_retention_enter env md) = idle_pc md"
  "rail_present (mdss_mdp_memory_retention_enter env md) = rail_present md"
  "en_svs_high (mdss_mdp_memory_retention_enter env md) = en_svs_high md"
  "active_intf_cnt (mdss_mdp_memory_retention_enter env md) = active_intf_cnt md"
  "batfet_required (mdss_mdp_memory_retention_enter env md) = batfet_required md"
  "mdp_clk_cnt (mdss_mdp_memory_retention_enter env md) = mdp_clk_cnt md"
  "bus_ref_cnt (mdss_mdp_memory_retention_enter env md) = bus_ref_cnt md"
  "clk_ena (mdss_mdp_memory_retention_enter env md) = clk_ena md"
  "quirk_min_bus_vote (mdss_mdp_memory_retention_enter env md) = quirk_min_bus_vote md"
  "suspend_fs_ena (mdss_mdp_memory_retention_enter env md) = suspend_fs_ena md"
  "pm_balance (hw_trace (mdss_mdp_memory_retention_enter env md)) = pm_balance (hw_trace md)"
  "rail_use r (hw_trace (mdss_mdp_memory_retention_enter env md)) = rail_use r (hw_trace md)"
  by (simp_all add: mdss_mdp_memory_retention_enter_def mdss_emit_def pm_frame_def)

lemma regulator_snd [simp]:
  "snd (regulator_enable env r md) =
     md\<lparr>hw_trace := hw_trace md @ [RegulatorEnable r (regulator_enable_rc env r (hw_trace md))]\<rparr>"
  "snd (regulator_disable r md) =
     md\<lparr>hw_trace := hw_trace md @ [RegulatorDisable r (if rail_use r (hw_trace md) \<le> 0 then - EIO else 0)]\<rparr>"
  by (simp_all add: regulator_enable_def regulator_disable_def Let_def mdss_emit_def)

text \<open>
  The footswitch invariant: the MDSS GDSC is used exactly while the footswitch is
  on, the Venus GDSC likewise when it exists.
\<close>

definition gdsc_inv :: "mdss_data \<Rightarrow> bool" where
  "gdsc_inv md \<longleftrightarrow>
     rail_use RAIL_FS (hw_trace md) = of_bool (fs_ena md) \<and>
     rail_use RAIL_VENUS (hw_trace md) = of_bool (fs_ena md \<and> rail_present md RAIL_VENUS)"

lemma footswitch_pm_fields [simp]:
  "mdp_clk_cnt (mdss_mdp_footswitch_ctrl env on md) = mdp_clk_cnt md"
  "bus_ref_cnt (mdss_mdp_footswitch_ctrl env on md) = bus_ref_cnt md"
  "clk_ena (mdss_mdp_footswitch_ctrl env on md) = clk_ena md"
  "quirk_min_bus_vote (mdss_mdp_footswitch_ctrl env on md) = quirk_min_bus_vote md"
  "pm_balance (hw_trace (mdss_mdp_footswitch_ctrl env on md)) = pm_balance (hw_trace md)"
  by (simp_all add: mdss_mdp_footswitch_ctrl_def Let_def)

lemma footswitch_gdsc_inv:
  assumes "\<And>r tr. r \<in> {RAIL_FS, RAIL_VENUS} \<Longrightarrow> regulator_enable_rc env r tr = 0" "gdsc_inv md"
  shows "gdsc_inv (mdss_mdp_footswitch_ctrl env on md)"
  using assms
  by (auto simp: mdss_mdp_footswitch_ctrl_def gdsc_inv_def Let_def)

lemma mdss_emit_more_fields [simp]:
  "mdp_clk_cnt (mdss_emit e md) = mdp_clk_cnt md" "bus_ref_cnt (mdss_emit e md) = bus_ref_cnt md"
  "clk_ena (mdss_emit e md) = clk_ena md" "idle_pc (mdss_emit e md) = idle_pc md"
  "fs_ena (mdss_emit e md) = fs_ena md" "rail_present (mdss_emit e md) = rail_present md"
  by (simp_all add: mdss_emit_def)

lemma rail_delta_non_rail [simp]: "\<not> is_rail_event e \<Longrightarrow> rail_delta r e = 0"
  by (cases e) simp_all

lemma gdsc_inv_rail_frame: "rail_frame md md' \<Longrightarrow> gdsc_inv md \<Longrightarrow> gdsc_inv md'"
  by (simp add: gdsc_inv_def rail_frame_use) (simp add: rail_frame_def)

lemma gdsc_inv_emit [simp]: "\<not> is_rail_event e \<Longrightarrow> gdsc_inv (mdss_emit e md) = gdsc_inv md"
  by (simp add: gdsc_inv_def mdss_emit_def)

lemma pm_inv_emit [simp]:
  "e \<noteq> PmRuntimeGetSync \<Longrightarrow> e \<noteq> PmRuntimePutAutosuspend \<Longrightarrow> mdss_pm_inv (mdss_emit e md) = mdss_pm_inv md"
  by (simp add: mdss_pm_inv_def mdss_emit_def)

lemma pm_inv_footswitch [simp]: "mdss_pm_inv (mdss_mdp_footswitch_ctrl env on md) = mdss_pm_inv md"
  by (simp add: mdss_pm_inv_def)

text \<open>
  The driver and its runtime-PM status keep the reference invariant of
  \<open>mdss_pm_inv\<close> and the footswitch invariant.
\<close>

definition mdss_dev_inv :: "bool \<times> mdss_data \<Rightarrow> bool" where
  "mdss_dev_inv st \<longleftrightarrow> mdss_pm_inv (snd st) \<and> gdsc_inv (snd st)"

lemma dev_get_resume_inv:
  assumes "\<And>r tr. r \<in> {RAIL_FS, RAIL_VENUS} \<Longrightarrow> regulator_enable_rc env r tr = 0" "mdss_dev_inv st"
  shows "mdss_dev_inv (dev_get_resume env t st) \<and>
         mdp_clk_cnt (snd (dev_get_resume env t st)) = mdp_clk_cnt (snd st) \<and>
         bus_ref_cnt (snd (dev_get_resume env t st)) = bus_ref_cnt (snd st)"
  using assms footswitch_gdsc_inv [OF assms(1)]
  by (auto simp: dev_get_resume_def mdss_mdp_runtime_resume_def mdss_dev_inv_def Let_def)

lemma dev_step_inv:
  assumes "\<And>r tr. r \<in> {RAIL_FS, RAIL_VENUS} \<Longrightarrow> regulator_enable_rc env r tr = 0"
    and "mdss_dev_inv st" "mdss_dev_step env op st = Some st'"
  shows "mdss_dev_inv st'"
proof (cases op)
  case (DevClkCtrl en)
  obtain act md where r: "dev_get_resume env (en \<and> mdp_clk_cnt (snd st) = 0) st = (act, md)" by fastforce
  from assms(3) DevClkCtrl r obtain md' where c: "mdss_mdp_clk_ctrl env en md = Some md'" and e: "st' = (act, md')"
    by auto
  from dev_get_resume_inv [OF assms(1,2), of "en \<and> mdp_clk_cnt (snd st) = 0"] r
  have "mdss_pm_inv md" "gdsc_inv md" by (simp_all add: mdss_dev_inv_def)
  then show ?thesis
    using pm_step_inv [of md env "ClkCtrl en" md'] c gdsc_inv_rail_frame [OF rail_frame_clk_ctrl [OF c]]
    by (simp add: e mdss_dev_inv_def)
next
  case (DevBusBwCtrl en)
  obtain act md where r: "dev_get_resume env (en \<and> bus_ref_cnt (snd st) = 0) st = (act, md)" by fastforce
  from assms(3) DevBusBwCtrl r have e: "st' = (act, mdss_bus_bandwidth_ctrl env en md)" by auto
  from dev_get_resume_inv [OF assms(1,2), of "en \<and> bus_ref_cnt (snd st) = 0"] r
  have "mdss_pm_inv md" "gdsc_inv md" by (simp_all add: mdss_dev_inv_def)
  then show ?thesis
    using pm_step_inv [of md env "BusBwCtrl en"] gdsc_inv_rail_frame [OF rail_frame_bus_bandwidth_ctrl]
    by (simp add: e mdss_dev_inv_def)
next
  case DevRuntimeSuspend
  then show ?thesis
    using assms footswitch_gdsc_inv [OF assms(1)]
    by (cases st) (auto simp: mdss_dev_inv_def mdss_mdp_runtime_suspend_def Let_def split: if_splits)
next
  case (DevSetActive n)
  then show ?thesis using assms
    by (cases st) (auto simp: mdss_dev_inv_def mdss_pm_inv_def gdsc_inv_def)
next
  case DevPmSuspend
  then show ?thesis
    using assms footswitch_gdsc_inv [OF assms(1)]
    by (cases st) (auto simp: mdss_dev_inv_def mdss_mdp_suspend_sub_def mdss_pm_inv_def gdsc_inv_def)
next
  case DevPmResume
  then show ?thesis
    using assms footswitch_gdsc_inv [OF assms(1)]
    by (cases st) (auto simp: mdss_dev_inv_def mdss_mdp_pm_resume_def mdss_mdp_resume_sub_def)
qed

lemma dev_run_append:
  "mdss_dev_run env (xs @ ys) st = Option.bind (mdss_dev_run env xs st) (mdss_dev_run env ys)"
proof (induction xs arbitrary: st)
  case (Cons a xs)
  then show ?case by (cases "mdss_dev_step env a st") simp_all
qed simp

lemma dev_run_append_Some:
  "mdss_dev_run env xs st = Some st1 \<Longrightarrow> mdss_dev_run env (xs @ ys) st = mdss_dev_run env ys st1"
  by (simp add: dev_run_append)

text \<open>The three footswitch transitions of an idle power collapse.\<close>

lemma fs_off_active:
  assumes "rail_present md RAIL_FS" "fs_ena md" "active_intf_cnt md \<noteq> 0"
  shows "\<not> fs_ena (mdss_mdp_footswitch_ctrl env False md) \<and> idle_pc (mdss_mdp_footswitch_ctrl env False md) \<and>
         active_intf_cnt (mdss_mdp_footswitch_ctrl env False md) = active_intf_cnt md \<and>
         rail_present (mdss_mdp_footswitch_ctrl env False md) = rail_present md \<and>
         batfet_required (mdss_mdp_footswitch_ctrl env False md) = batfet_required md \<and>
         rail_use RAIL_VDD_CX (hw_trace (mdss_mdp_footswitch_ctrl env False md)) = rail_use RAIL_VDD_CX (hw_trace md)"
  using assms by (simp add: mdss_mdp_footswitch_ctrl_def Let_def)

lemma fs_on_idle:
  assumes "rail_present md RAIL_FS" "idle_pc md"
  shows "fs_ena (mdss_mdp_footswitch_ctrl env True md) \<and> idle_pc (mdss_mdp_footswitch_ctrl env True md) \<and>
         active_intf_cnt (mdss_mdp_footswitch_ctrl env True md) = active_intf_cnt md \<and>
         rail_present (mdss_mdp_footswitch_ctrl env True md) = rail_present md \<and>
         batfet_required (mdss_mdp_footswitch_ctrl env True md) = batfet_required md \<and>
         rail_use RAIL_VDD_CX (hw_trace (mdss_mdp_footswitch_ctrl env True md)) = rail_use RAIL_VDD_CX (hw_trace md)"
  using assms by (simp add: mdss_mdp_footswitch_ctrl_def Let_def)

lemma fs_off_release:
  assumes "rail_present md RAIL_FS" "rail_present md RAIL_VDD_CX" "\<not> batfet_required md" "fs_ena md"
    "active_intf_cnt md = 0"
  shows "\<not> fs_ena (mdss_mdp_footswitch_ctrl env False md) \<and>
         idle_pc (mdss_mdp_footswitch_ctrl env False md) = idle_pc md \<and>
         active_intf_cnt (mdss_mdp_footswitch_ctrl env False md) = 0 \<and>
         rail_present (mdss_mdp_footswitch_ctrl env False md) = rail_present md \<and>
         batfet_required (mdss_mdp_footswitch_ctrl env False md) = batfet_required md \<and>
         rail_use RAIL_VDD_CX (hw_trace (mdss_mdp_footswitch_ctrl env False md)) =
           (if rail_use RAIL_VDD_CX (hw_trace md) \<le> 0 then rail_use RAIL_VDD_CX (hw_trace md)
            else rail_use RAIL_VDD_CX (hw_trace md) - 1) \<and>
         (rail_use RAIL_VDD_CX (hw_trace md) \<le> 0 \<longrightarrow>
            RegulatorDisable RAIL_VDD_CX (- EIO) \<in> set (hw_trace (mdss_mdp_footswitch_ctrl env False md)))"
  using assms
  by (simp add: mdss_mdp_footswitch_ctrl_def Let_def mdss_mdp_cx_ctrl_def mdss_mdp_batfet_ctrl_def
      regulator_set_voltage_def regulator_disable_def mdss_emit_def EIO_def)

lemma bus_bandwidth_ctrl_fs_fields [simp]:
  "fs_ena (mdss_bus_bandwidth_ctrl env en md) = fs_ena md"
  "idle_pc (mdss_bus_bandwidth_ctrl env en md) = idle_pc md"
  "active_intf_cnt (mdss_bus_bandwidth_ctrl env en md) = active_intf_cnt md"
  "rail_present (mdss_bus_bandwidth_ctrl env en md) = rail_present md"
  "batfet_required (mdss_bus_bandwidth_ctrl env en md) = batfet_required md"
  "rail_use r (hw_trace (mdss_bus_bandwidth_ctrl env en md)) = rail_use r (hw_trace md)"
  by (simp_all add: mdss_bus_bandwidth_ctrl_def Let_def mdss_emit_def)

text \<open>
  Entering idle power collapse with an overlay active keeps the CX vote; when the
  overlays are gone, a bus reference alone resumes the device and the next runtime
  suspend releases the CX rail while \<open>idle_pc\<close> is still set.
\<close>

lemma idle_pc_enter_then_release:
  assumes "\<not> quirk_min_bus_vote md" "mdss_pm_inv md" "mdp_clk_cnt md = 0" "bus_ref_cnt md = 0"
    and "rail_present md RAIL_FS" "rail_present md RAIL_VDD_CX" "\<not> batfet_required md"
    and "fs_ena md" "0 < active_intf_cnt md" "rail_use RAIL_VDD_CX (hw_trace md) = 1"
  shows "\<exists>m. mdss_dev_run env [DevRuntimeSuspend, DevSetActive 0, DevBusBwCtrl True, DevBusBwCtrl False,
              DevRuntimeSuspend] (True, md) = Some (False, m) \<and>
           \<not> quirk_min_bus_vote m \<and> mdss_pm_inv m \<and> mdp_clk_cnt m = 0 \<and> bus_ref_cnt m = 0 \<and>
           rail_present m = rail_present md \<and> \<not> batfet_required m \<and> \<not> fs_ena m \<and> idle_pc m \<and>
           active_intf_cnt m = 0 \<and> rail_use RAIL_VDD_CX (hw_trace m) = 0"
proof -
  have pb: "pm_balance (hw_trace md) = 0" "\<not> clk_ena md" using assms(2-4) by (simp_all add: mdss_pm_inv_def)
  define m1 where "m1 = mdss_mdp_footswitch_ctrl env False md"
  have f1: "\<not> fs_ena m1" "idle_pc m1" "rail_present m1 = rail_present md" "\<not> batfet_required m1"
      "rail_use RAIL_VDD_CX (hw_trace m1) = 1"
    using fs_off_active [OF assms(5,8), of env] assms(7,9,10) by (simp_all add: m1_def)
  have s1: "mdss_dev_step env DevRuntimeSuspend (True, md) = Some (False, m1)"
    using pb f1(2) by (simp add: mdss_mdp_runtime_suspend_def m1_def Let_def)
  define m2 where "m2 = mdss_mdp_footswitch_ctrl env True (m1\<lparr>active_intf_cnt := 0\<rparr>)"
  have f2: "fs_ena m2" "idle_pc m2" "rail_present m2 = rail_present md" "\<not> batfet_required m2"
      "rail_use RAIL_VDD_CX (hw_trace m2) = 1" "active_intf_cnt m2 = 0"
    using fs_on_idle [of "m1\<lparr>active_intf_cnt := 0\<rparr>" env] f1 assms(5) by (simp_all add: m2_def)
  define m4 where "m4 = mdss_bus_bandwidth_ctrl env False (mdss_bus_bandwidth_ctrl env True m2)"
  have s3: "mdss_dev_run env [DevSetActive 0, DevBusBwCtrl True, DevBusBwCtrl False] (False, m1) = Some (True, m4)"
    using f1(2) assms(4) by (simp add: dev_get_resume_def mdss_mdp_runtime_resume_def m1_def m2_def m4_def)
  have p4: "pm_balance (hw_trace m4) = 0" "\<not> clk_ena m4" "mdp_clk_cnt m4 = 0" "bus_ref_cnt m4 = 0"
      "\<not> quirk_min_bus_vote m4"
    using pb assms(1,3,4) by (simp_all add: m4_def m2_def m1_def bus_bandwidth_ctrl_pm)
  have f4: "fs_ena m4" "idle_pc m4" "rail_present m4 = rail_present md" "\<not> batfet_required m4"
      "rail_use RAIL_VDD_CX (hw_trace m4) = 1" "active_intf_cnt m4 = 0"
    using f2 by (simp_all add: m4_def)
  define m5 where "m5 = mdss_mdp_footswitch_ctrl env False m4"
  have f5: "\<not> fs_ena m5" "idle_pc m5" "rail_present m5 = rail_present md" "\<not> batfet_required m5"
      "rail_use RAIL_VDD_CX (hw_trace m5) = 0" "active_intf_cnt m5 = 0"
    using fs_off_release [of m4 env] f4 assms(5,6) by (simp_all add: m5_def)
  have s5: "mdss_dev_step env DevRuntimeSuspend (True, m4) = Some (False, m5)"
    using p4 f5(2) by (simp add: mdss_mdp_runtime_suspend_def m5_def Let_def)
  have p5: "mdss_pm_inv m5" "\<not> quirk_min_bus_vote m5" "mdp_clk_cnt m5 = 0" "bus_ref_cnt m5 = 0"
    using p4 by (simp_all add: m5_def mdss_pm_inv_def)
  have r1: "mdss_dev_run env [DevRuntimeSuspend] (True, md) = Some (False, m1)" using s1 by simp
  have r5: "mdss_dev_run env [DevRuntimeSuspend] (True, m4) = Some (False, m5)" using s5 by simp
  have "mdss_dev_run env ([DevRuntimeSuspend] @ [DevSetActive 0, DevBusBwCtrl True, DevBusBwCtrl False] @
          [DevRuntimeSuspend]) (True, md) = Some (False, m5)"
    by (rule trans [OF dev_run_append_Some [OF r1] trans [OF dev_run_append_Some [OF s3] r5]])
  then have "mdss_dev_run env [DevRuntimeSuspend, DevSetActive 0, DevBusBwCtrl True, DevBusBwCtrl False,
          DevRuntimeSuspend] (True, md) = Some (False, m5)"
    by (simp only: append_Cons append_Nil)
  then show ?thesis using f5 p5 by blast
qed

lemma idle_pc_resume_without_cx:
  assumes "\<not> quirk_min_bus_vote m" "mdss_pm_inv m" "mdp_clk_cnt m = 0" "bus_ref_cnt m = 0"
    and "rail_present m RAIL_FS" "rail_present m RAIL_VDD_CX" "\<not> batfet_required m"
    and "idle_pc m" "active_intf_cnt m = 0" "rail_use RAIL_VDD_CX (hw_trace m) = 0"
  shows "\<exists>m1 m2. mdss_dev_step env (DevClkCtrl True) (False, m) = Some (True, m1) \<and>
           clk_ena m1 \<and> fs_ena m1 \<and> rail_use RAIL_VDD_CX (hw_trace m1) = 0 \<and>
           mdss_dev_run env [DevClkCtrl False, DevRuntimeSuspend] (True, m1) = Some (False, m2) \<and>
           RegulatorDisable RAIL_VDD_CX (- EIO) \<in> set (hw_trace m2)"
proof -
  have pb: "pm_balance (hw_trace m) = 0" using assms(2-4) by (simp add: mdss_pm_inv_def)
  define m0 where "m0 = mdss_mdp_footswitch_ctrl env True m"
  have f0: "fs_ena m0" "rail_use RAIL_VDD_CX (hw_trace m0) = 0" "\<not> quirk_min_bus_vote m0"
      "mdp_clk_cnt m0 = 0" "pm_balance (hw_trace m0) = 0" "active_intf_cnt m0 = 0"
      "rail_present m0 = rail_present m" "\<not> batfet_required m0"
    using fs_on_idle [OF assms(5,8), of env] assms(1,3,7,9,10) pb by (simp_all add: m0_def)
  obtain m1 where c1: "mdss_mdp_clk_ctrl env True m0 = Some m1"
    using clk_ctrl_not_None [OF f0(3), of env True] by auto
  have s1: "mdss_dev_step env (DevClkCtrl True) (False, m) = Some (True, m1)"
    using c1 assms(3,8) by (simp add: dev_get_resume_def mdss_mdp_runtime_resume_def m0_def)
  have p1: "mdp_clk_cnt m1 = 1" "clk_ena m1" "\<not> quirk_min_bus_vote m1" "pm_balance (hw_trace m1) = 1"
    using clk_ctrl_pm [OF c1] f0(3-5) by simp_all
  have q1: "fs_ena m1" "active_intf_cnt m1 = 0" "rail_present m1 = rail_present m" "\<not> batfet_required m1"
      "rail_use RAIL_VDD_CX (hw_trace m1) = 0"
    using rail_frame_clk_ctrl [OF c1] rail_frame_use [OF rail_frame_clk_ctrl [OF c1]] f0
    by (simp_all add: rail_frame_def)
  obtain m2 where c2: "mdss_mdp_clk_ctrl env False m1 = Some m2"
    using clk_ctrl_not_None [OF p1(3), of env False] by auto
  have f2: "fs_ena m2" "active_intf_cnt m2 = 0" "rail_present m2 = rail_present m" "\<not> batfet_required m2"
      "rail_use RAIL_VDD_CX (hw_trace m2) = 0" "\<not> clk_ena m2" "pm_balance (hw_trace m2) = 0"
    using rail_frame_clk_ctrl [OF c2] rail_frame_use [OF rail_frame_clk_ctrl [OF c2]] q1
      clk_ctrl_pm [OF c2] p1
    by (simp_all add: rail_frame_def)
  define m3 where "m3 = mdss_mdp_footswitch_ctrl env False m2"
  have e3: "RegulatorDisable RAIL_VDD_CX (- EIO) \<in> set (hw_trace m3)"
    using fs_off_release [of m2 env] f2 assms(5,6) by (simp add: m3_def)
  have "mdss_dev_run env [DevClkCtrl False, DevRuntimeSuspend] (True, m1) =
          Some (False, if \<not> idle_pc m3 then mdss_emit (PanelSuspRes False) m3 else m3)"
    using c2 f2(6,7) by (simp add: dev_get_resume_def mdss_mdp_runtime_suspend_def m3_def Let_def)
  moreover have "RegulatorDisable RAIL_VDD_CX (- EIO) \<in>
      set (hw_trace (if \<not> idle_pc m3 then mdss_emit (PanelSuspRes False) m3 else m3))"
    using e3 by (simp add: mdss_emit_def)
  ultimately show ?thesis
    using s1 p1(2) q1(1,5) by blast
qed

section \<open>Properties\<close>

text \<open>
  C12 (invariant): whatever sequence of clock and bus references, runtime and system
  suspends and resumes and overlay changes the display stack issues, the reference
  invariant of the clocks and the bus holds and the MDSS and Venus GDSCs are in use
  exactly while the footswitch is on, as long as the GDSC regulators can be enabled.
\<close>

theorem dev_run_inv:
  assumes "\<And>r tr. r \<in> {RAIL_FS, RAIL_VENUS} \<Longrightarrow> regulator_enable_rc env r tr = 0"
    and "mdss_dev_inv st" "mdss_dev_run env ops st = Some st'"
  shows "mdss_dev_inv st'"
  using assms(2,3)
proof (induction ops arbitrary: st)
  case (Cons op ops)
  then obtain st1 where "mdss_dev_step env op st = Some st1" "mdss_dev_run env ops st1 = Some st'"
    by (auto simp: bind_eq_Some_conv)
  then show ?case using Cons.IH dev_step_inv [OF assms(1) Cons.prems(1)] by blast
qed simp

text \<open>
  C25 (error): \<open>mdss_mdp_footswitch_ctrl\<close> ignores a failed \<open>regulator_enable\<close>
  of the MDSS GDSC: the footswitch is marked on anyway, and turning it off again
  disables a regulator that was never enabled (\<open>regulator_disable\<close> answers
  \<open>-EIO\<close>, the unbalanced-disable warning).
\<close>

theorem fs_enable_failure_unbalanced_disable:
  assumes "rail_present md RAIL_FS" "\<not> fs_ena md" "rail_use RAIL_FS (hw_trace md) = 0"
    and "\<And>tr. regulator_enable_rc env RAIL_FS tr \<noteq> 0"
  shows "fs_ena (mdss_mdp_footswitch_ctrl env True md) \<and>
         RegulatorDisable RAIL_FS (- EIO) \<in>
           set (hw_trace (mdss_mdp_footswitch_ctrl env False (mdss_mdp_footswitch_ctrl env True md)))"
  using assms by (simp add: mdss_mdp_footswitch_ctrl_def Let_def)

text \<open>
  C15 (error): the CX vote is lost across an idle power collapse.  If the device
  runtime-suspends while an overlay is active (idle power collapse, CX kept), the
  overlays then go away, and a bus reference alone resumes and releases the device,
  the next runtime suspend turns the CX rail off with \<open>idle_pc\<close> still set.  The
  following clock enable then powers the footswitch without voting CX (it skips the
  vote because of \<open>idle_pc\<close>) and runs the MDP clocks with the CX rail unvoted,
  and the suspend after it disables the CX regulator once more than it enabled it.
\<close>

theorem idle_pc_cx_vote_lost:
  assumes "\<not> quirk_min_bus_vote md" "mdss_pm_inv md" "mdp_clk_cnt md = 0" "bus_ref_cnt md = 0"
    and "rail_present md RAIL_FS" "rail_present md RAIL_VDD_CX" "\<not> batfet_required md"
    and "fs_ena md" "0 < active_intf_cnt md" "rail_use RAIL_VDD_CX (hw_trace md) = 1"
  shows "\<exists>act md1 md2.
           mdss_dev_run env [DevRuntimeSuspend, DevSetActive 0, DevBusBwCtrl True, DevBusBwCtrl False,
             DevRuntimeSuspend, DevClkCtrl True] (True, md) = Some (act, md1) \<and>
           clk_ena md1 \<and> fs_ena md1 \<and> rail_use RAIL_VDD_CX (hw_trace md1) = 0 \<and>
           mdss_dev_run env [DevClkCtrl False, DevRuntimeSuspend] (act, md1) = Some (False, md2) \<and>
           RegulatorDisable RAIL_VDD_CX (- EIO) \<in> set (hw_trace md2)"
proof -
  obtain m where r: "mdss_dev_run env [DevRuntimeSuspend, DevSetActive 0, DevBusBwCtrl True, DevBusBwCtrl False,
              DevRuntimeSuspend] (True, md) = Some (False, m)" and
    m0: "\<not> quirk_min_bus_vote m" "mdss_pm_inv m" "mdp_clk_cnt m = 0" "bus_ref_cnt m = 0"
       "rail_present m = rail_present md" "\<not> batfet_required m" "idle_pc m"
       "active_intf_cnt m = 0" "rail_use RAIL_VDD_CX (hw_trace m) = 0"
    using idle_pc_enter_then_release [OF assms, where env = env] by blast
  have m: "\<not> quirk_min_bus_vote m" "mdss_pm_inv m" "mdp_clk_cnt m = 0" "bus_ref_cnt m = 0"
       "rail_present m RAIL_FS" "rail_present m RAIL_VDD_CX" "\<not> batfet_required m" "idle_pc m"
       "active_intf_cnt m = 0" "rail_use RAIL_VDD_CX (hw_trace m) = 0"
    using m0 assms(5,6) by simp_all
  obtain m1 m2 where s: "mdss_dev_step env (DevClkCtrl True) (False, m) = Some (True, m1)" and
    f: "clk_ena m1" "fs_ena m1" "rail_use RAIL_VDD_CX (hw_trace m1) = 0"
       "mdss_dev_run env [DevClkCtrl False, DevRuntimeSuspend] (True, m1) = Some (False, m2)"
       "RegulatorDisable RAIL_VDD_CX (- EIO) \<in> set (hw_trace m2)"
    using idle_pc_resume_without_cx [OF m] by blast
  have "mdss_dev_run env [DevClkCtrl True] (False, m) = Some (True, m1)" using s by simp
  then have "mdss_dev_run env ([DevRuntimeSuspend, DevSetActive 0, DevBusBwCtrl True, DevBusBwCtrl False,
              DevRuntimeSuspend] @ [DevClkCtrl True]) (True, md) = Some (True, m1)"
    by (rule trans [OF dev_run_append_Some [OF r]])
  then show ?thesis using f by auto
qed

section \<open>Witnesses\<close>

theorem dev_run_inv_witness:
  "mdss_dev_inv (False, mdss_demo\<lparr>active_intf_cnt := 1, suspend_fs_ena := False, fs_ena := False,
     hw_trace := [PmRuntimeSetSuspended]\<rparr>)"
proof (rule dev_run_inv)
  show "\<And>r tr. r \<in> {RAIL_FS, RAIL_VENUS} \<Longrightarrow> regulator_enable_rc mdss_demo_env r tr = 0"
    by (simp add: mdss_demo_env_def)
  show "mdss_dev_inv (False, mdss_demo)"
    by (simp add: mdss_dev_inv_def mdss_pm_inv_def gdsc_inv_def mdss_demo_fields)
  show "mdss_dev_run mdss_demo_env [DevSetActive 1, DevPmSuspend, DevPmResume] (False, mdss_demo) =
          Some (False, mdss_demo\<lparr>active_intf_cnt := 1, suspend_fs_ena := False, fs_ena := False,
            hw_trace := [PmRuntimeSetSuspended]\<rparr>)"
    by (simp add: mdss_mdp_suspend_sub_def mdss_mdp_pm_resume_def mdss_mdp_resume_sub_def
        mdss_mdp_footswitch_ctrl_def mdss_demo_fields mdss_emit_def)
qed

theorem fs_enable_failure_unbalanced_disable_witness:
  "fs_ena (mdss_mdp_footswitch_ctrl (mdss_demo_env\<lparr>regulator_enable_rc := (\<lambda>r tr. if r = RAIL_FS then - EIO else 0)\<rparr>)
      True mdss_demo) \<and>
   RegulatorDisable RAIL_FS (- EIO) \<in>
     set (hw_trace (mdss_mdp_footswitch_ctrl (mdss_demo_env\<lparr>regulator_enable_rc := (\<lambda>r tr. if r = RAIL_FS then - EIO else 0)\<rparr>)
       False (mdss_mdp_footswitch_ctrl (mdss_demo_env\<lparr>regulator_enable_rc := (\<lambda>r tr. if r = RAIL_FS then - EIO else 0)\<rparr>)
         True mdss_demo)))"
  by (rule fs_enable_failure_unbalanced_disable) (simp_all add: mdss_demo_fields EIO_def)

theorem idle_pc_cx_vote_lost_witness:
  "\<exists>act md1 md2.
     mdss_dev_run mdss_demo_env [DevRuntimeSuspend, DevSetActive 0, DevBusBwCtrl True, DevBusBwCtrl False,
       DevRuntimeSuspend, DevClkCtrl True]
       (True, mdss_demo\<lparr>fs_ena := True, active_intf_cnt := 1, hw_trace := [RegulatorEnable RAIL_VDD_CX 0]\<rparr>)
       = Some (act, md1) \<and>
     clk_ena md1 \<and> fs_ena md1 \<and> rail_use RAIL_VDD_CX (hw_trace md1) = 0 \<and>
     mdss_dev_run mdss_demo_env [DevClkCtrl False, DevRuntimeSuspend] (act, md1) = Some (False, md2) \<and>
     RegulatorDisable RAIL_VDD_CX (- EIO) \<in> set (hw_trace md2)"
  by (rule idle_pc_cx_vote_lost) (simp_all add: mdss_demo_fields mdss_pm_inv_def)

end
