(* ===== verification/Spec2Isabelle.thy ===== *)
theory Spec2Isabelle
  imports HDCP_Dispatch HDCP1 CPR4_Regulator MDSS_Irq MDSS_Footswitch
begin

text \<open>
  \<^bold>\<open>A verification library for three drivers of the msm8996 kernel snapshot:\<close>
  the HDCP 2.2/1.x transmitter library \<open>src/drivers/misc/hdcp.c\<close> (the core,
  which the specification describes) and the CPR4 APSS voltage regulator
  \<open>src/drivers/regulator/cpr4-apss-regulator.c\<close>, and the core of the MDSS
  display driver \<open>src/drivers/video/msm/mdss/mdss_mdp.c\<close> (interrupt masks,
  bus bandwidth votes, clocks, IOMMU and power references, VBIF halt and OT
  limits, panel configuration, the footswitch and power rails, the system and
  runtime power-management callbacks).  The three drivers share no state; the MDSS theories reuse the
  prelude's machine types and named collections.

  \<^bold>\<open>The HDCP library.\<close>  \<open>hdcp.c\<close> drives HDCP 2.2 authentication for the
  HDMI transmitter.  Its collaborators are the HDMI driver (the client), which
  calls the library's entry points and receives notifications through a callback,
  and a trusted application in the secure world, reached through QSEECOM
  commands written into a shared buffer.  One \<open>struct hdcp_lib_handle\<close> holds a
  session: its state bitmask, the message buffers, the protocol flags and a
  kthread worker.  The client's commands arrive through \<open>hdcp_lib_wakeup\<close>; each
  protocol step runs either on the caller's thread (tethered mode) or as a work
  item of the worker (\<open>HDCP_LIB_EXECUTE\<close>).  The HDCP 1.x functions at the end
  of the file provision keys through a second secure application, with their own
  module globals.

  \<^item> \<open>HDCP_Prelude\<close>: machine types (\<open>u8\<close>, \<open>u32\<close> as \<open>word\<close>s, byte lists),
    \<open>memcpy\<close>/\<open>memset\<close> on fixed buffers (\<open>copy_bytes\<close>, \<open>zero_fill\<close>,
    \<open>overflows\<close>), single-bit flags of the state bitmask (\<open>flag_set\<close>),
    \<open>queue_kthread_work\<close>, the kernel error numbers; the named collections
    \<open>hdcp_frame\<close>, \<open>hdcp_consts\<close>, \<open>hdcp_inv_rules\<close>, \<open>hdcp_safe_rules\<close>.
  \<^item> \<open>HDCP_Messages\<close>: the message IDs and sizes (\<open>#define\<close>s of lines 40--93)
    and \<open>hdcp_lib_message_name\<close> with its table.
  \<^item> \<open>HDCP_Interfaces\<close>: what is not under \<open>src/\<close> and is modelled from its
    interface: the client's wakeup and notification types
    (\<open>linux/hdcp_qseecom.h\<close>), the secure-world requests (\<open>tz_req\<close>, one
    constructor per request structure of \<open>hdcp.c\<close>) and responses
    (\<open>tz_rsp\<close>), the observable trace (\<open>io_event\<close>) and the environment
    \<open>tee_env\<close>.
  \<^item> \<open>HDCP_Secure_Channel\<close>: command IDs, the packed layouts of the request and
    response structures, \<open>QSEECOM_ALIGN\<close>.
  \<^item> \<open>HDCP_Session\<close>: the handle as a record, \<open>hdcp_lib_wakeup_client\<close>,
    \<open>hdcp_lib_send_message\<close>, \<open>HDCP_LIB_EXECUTE\<close>, the application and
    transmitter lifecycle (\<open>hdcp_lib_library_load/unload\<close>,
    \<open>hdcp_lib_txmtr_init/deinit\<close>) and the teardown \<open>hdcp_lib_clean\<close>.
  \<^item> \<open>HDCP_Protocol\<close>: \<open>hdcp_lib_stream\<close>, \<open>hdcp_lib_enable_encryption\<close>,
    \<open>hdcp_lib_msg_sent\<close>, \<open>hdcp_lib_init\<close>, \<open>hdcp_lib_timeout\<close>,
    \<open>hdcp_lib_msg_recvd\<close> and the topology wait of \<open>hdcp_lib_topology_work\<close>.
  \<^item> \<open>HDCP_Dispatch\<close>: \<open>hdcp_lib_check_valid_state\<close>, \<open>hdcp_lib_wakeup\<close>,
    \<open>hdcp_lib_update_exec_type\<close>, \<open>hdcp_lib_client_feature_supported\<close>, the
    work functions, \<open>hdcp_library_register/deregister\<close> over a heap of
    handles with the client's context pointer (\<open>hdcp_lib_mem\<close>), and the library as a
    transition system (\<open>hdcp_event_step\<close>, \<open>run_events\<close>, the inductive
    \<open>hdcp_reachable\<close>).
  \<^item> \<open>HDCP1\<close>: \<open>hdcp1_check_if_supported_load_app\<close>, \<open>hdcp1_set_keys\<close>,
    \<open>hdcp1_set_enc\<close> over the globals \<open>hdcp1_handle\<close>/\<open>hdcp1_supported\<close>.

  Every C function becomes a HOL function of the environment and the handle with
  the same name, returning the new handle (and the return code where the C function
  has one); each early return and \<open>goto\<close> of the source is a branch.  Pointers
  that may be \<open>NULL\<close> are \<open>bool\<close> or \<open>option\<close> fields; \<open>uint32_t\<close> fields are
  \<open>32 word\<close>, so a C test \<open>x < 0\<close> on them is the constant \<open>False\<close> it is in
  C.  Every secure-world call, client notification and \<open>msleep\<close> is appended to
  a trace; a \<open>memcpy\<close> past the end of its buffer (or from a \<open>NULL\<close> buffer)
  sets \<open>mem_fault\<close>.  The secure world's answers (\<open>tz_send\<close>), the return
  codes of \<open>qseecom_start_app\<close>/\<open>qseecom_shutdown_app\<close> and the success of
  \<open>kzalloc\<close> are functions of the whole trace so far, so a theorem stated for
  every \<open>tee_env\<close> holds for every stateful secure application and allocator.
  \<open>qseecom_start_app\<close> is assumed to leave the handle \<open>NULL\<close> on failure, as its
  kernel implementation does.  Client calls are serialised by
  \<open>wakeup_mutex\<close>; a worker step is one event between client calls, except the
  topology wait, which blocks and is split into its start and its end.

  \<^bold>\<open>The CPR4 regulator.\<close>  \<open>cpr4-apss-regulator.c\<close> reads per-part fuses
  (ring-oscillator selects, open-loop voltages, target quotients and offsets,
  speed bin, revision, boost), turns them into per-corner open-loop voltages and
  closed-loop target quotients, parses the temperature bands and boost settings of
  the device tree, and registers the controller with the CPR3 core.

  \<^item> \<open>CPR4_Fuses\<close>: the constants and fuse tables (lines 38--195), the fuse
    record, \<open>cpr3_read_fuse_param\<close> from its contract (64-bit rows, segments
    concatenated low first), \<open>cpr4_msmtitanium_apss_read_fuse_data\<close>, the
    sign-magnitude voltage decoding, and the device-tree accessors of
    \<open>linux/of.h\<close> over a node that maps property names to cells.
  \<^item> \<open>CPR4_Voltages\<close>: \<open>cpr4_msmtitanium_apss_calculate_open_loop_voltages\<close>,
    \<open>cpr4_msmtitanium_apss_set_no_interpolation_quotients\<close> and
    \<open>cpr4_msmtitanium_apss_calculate_target_quotients\<close>, one recursive function
    per loop of the C code (\<open>cpr4_fuse_volt_monotonic\<close>, \<open>cpr4_fmax_scan\<close>,
    \<open>cpr4_init_quot_bounds\<close>, \<open>cpr4_quot_monotonic\<close>, ...), with \<open>u64\<close> and
    \<open>u32\<close> arithmetic that wraps as in C.
  \<^item> \<open>CPR4_Regulator\<close>: the controller record, \<open>cpr4_apss_parse_temp_adj_properties\<close>,
    \<open>cpr4_apss_parse_boost_properties\<close> (C division as \<open>sdiv\<close>),
    \<open>cpr4_apss_init_regulator\<close>, \<open>cpr4_apss_init_controller\<close>, the probe with
    its loop over the regulators, and the suspend, resume and remove callbacks.

  The CPR3 library that these call (\<open>cpr3-util.c\<close>, \<open>cpr3-regulator.c\<close>,
  \<open>cpr4-regulator.c\<close>) is not in the snapshot: its functions are the fields of
  two parameter records, \<open>cpr3_lib\<close> and \<open>cpr3_init_lib\<close>, each returning its
  code with the object it updates, as the C functions do through their pointer
  arguments; every theorem holds for all of them.  Allocations are an oracle
  \<open>alloc\<close> on the allocated variable's name.

  \<^bold>\<open>The MDSS display driver.\<close>  \<open>mdss_mdp.c\<close> owns one global
  \<open>struct mdss_data_type\<close> (\<open>mdss_res\<close>): the mapped register blocks, the
  interrupt masks, the bus-scaling handles and usecase tables, the register-bus
  clients, the clock and IOMMU reference counts.  Display controllers call its
  exported functions; the rest of MDSS (\<open>mdss_util\<close>, \<open>mdss_smmu\<close>, the
  bus-scaling and clock frameworks, runtime PM) is reached through calls whose
  results the model takes from an environment record \<open>mdss_env\<close>, each a
  function of the trace of hardware events so far.

  \<^item> \<open>MDSS_Data\<close>: the driver state as the record \<open>mdss_data\<close> (the fields of
    \<open>mdss_data_type\<close> that the modelled functions read or write), the register
    blocks (\<open>mdss_io\<close>) as maps from offsets to \<open>u32\<close>, \<open>readl\<close>/\<open>writel\<close>
    (\<open>mdss_readl\<close>, \<open>mdss_writel\<close>, every write recorded in \<open>hw_trace\<close>), the
    hardware-event trace (\<open>mdss_hw_event\<close>), the environment \<open>mdss_env\<close>, and
    \<open>mdss_mdp_fb_stride\<close>.
  \<^item> \<open>MDSS_Irq\<close>: \<open>mdss_mdp_irq_mask\<close>, \<open>mdss_mdp_enable/disable_hw_irq\<close>,
    \<open>mdss_mdp_irq_enable/disable(_nosync)\<close>, the histogram variants,
    \<open>mdss_mdp_irq_clear\<close>, \<open>mdss_mdp_intr_check_and_clear\<close>, the top-level
    \<open>mdss_irq_handler\<close>, and the interrupt operations as a transition system
    (\<open>mdss_irq_step\<close>, the inductive \<open>mdss_irq_reachable\<close>).
  \<^item> \<open>MDSS_Vbif\<close>: \<open>readl_poll_timeout\<close> (from \<open>linux/iopoll.h\<close>) as a
    \<open>partial_function (option)\<close>, \<open>__mdss_mdp_vbif_halt\<close>,
    \<open>mdss_mdp_wait_for_xin_halt\<close>, \<open>force_on_xin_clk\<close>,
    \<open>apply_dynamic_ot_limit\<close>, \<open>get_ot_limit\<close> and \<open>mdss_mdp_set_ot_limit\<close>.
  \<^item> \<open>MDSS_Bus\<close>: \<open>mdss_mdp_bus_scale_register/unregister\<close>,
    \<open>mdss_mdp_bus_scale_set_quota\<close> (the AXI port split and the usecase
    rotation), \<open>mdss_bus_scale_set_quota\<close>, the register-bus clients
    (\<open>mdss_reg_bus_vote_client_create/destroy\<close>, \<open>mdss_update_reg_bus_vote\<close>).
  \<^item> \<open>MDSS_Power\<close>: the clock helpers (\<open>mdss_mdp_clk_update\<close>,
    \<open>mdss_mdp_set/get_clk_rate\<close>, \<open>mdss_mdp_vsync_clk_enable\<close>),
    \<open>mdss_iommu_ctrl\<close>, memory retention, \<open>mdss_mdp_idle_pc_restore\<close>,
    \<open>mdss_bus_bandwidth_ctrl\<close>, \<open>mdss_mdp_clk_ctrl\<close>, and the two reference
    counted entry points as a run over a list of operations (\<open>mdss_pm_run\<close>).
  \<^item> \<open>MDSS_Panel\<close>: the bootloader's panel parameter (\<open>mdss_mdp_get_pan_intf\<close>,
    \<open>mdss_mdp_get_pan_cfg\<close>, with \<open>strlcpy\<close> and C strings as lists that end
    at the first NUL), the device-tree fallback
    \<open>mdss_mdp_parse_dt_pan_intf\<close>, \<open>mdss_mdp_get_cmdline_config\<close>,
    \<open>mdss_panel_intf_type\<close> and \<open>mdss_panel_get_intf_status\<close>, which takes and
    releases a clock reference through \<open>mdss_mdp_clk_ctrl\<close> around its read.
  \<^item> \<open>MDSS_Footswitch\<close>: the regulator framework from its interface (the use
    count of a rail is read off the trace; \<open>regulator_disable\<close> at use count 0
    is \<open>-EIO\<close>; the count is this driver's own enables and disables, so for a
    rail shared with other consumers, such as \<open>vdd_cx\<close>, a disable the model
    refuses would instead drop another consumer's vote),
    \<open>mdss_mdp_config_cx_voltage\<close>, \<open>mdss_mdp_cx_ctrl\<close>,
    \<open>mdss_mdp_batfet_ctrl\<close>, \<open>mdss_mdp_footswitch_ctrl\<close> and its splash
    variant, the system PM callbacks (\<open>mdss_mdp_suspend_sub\<close>,
    \<open>mdss_mdp_resume_sub\<close>, \<open>mdss_mdp_pm_suspend/resume\<close>) and the runtime PM
    callbacks (\<open>mdss_mdp_runtime_resume/idle/suspend\<close>).  The device as a whole
    is a run (\<open>mdss_dev_run\<close>) of operations \<open>mdss_dev_op\<close> over the runtime
    status and the state: clock and bus references, runtime suspend, overlay
    count changes, system suspend and resume.  Runtime PM is a status bit: the
    first \<open>pm_runtime_get_sync\<close> of a suspended device runs
    \<open>mdss_mdp_runtime_resume\<close> (\<open>dev_get_resume\<close>), the autosuspend runs
    \<open>mdss_mdp_runtime_suspend\<close> when no clock or bus reference is held.

  The mutexes and spinlocks of the driver serialise every modelled function, so
  each is one step on the state.  \<open>div_u64\<close> or \<open>%\<close> by zero, which oopses
  the kernel, is the value \<open>None\<close>.  \<open>mdss_hw_init\<close> and the controller
  restore after idle power collapse are recorded as events of the trace, not
  expanded.

  \<^bold>\<open>What the lemmas show.\<close>
  \<^item> HDCP invariants over every reachable handle (\<open>hdcp_reachable_inv\<close>, by rule
    induction from per-operation lemmas collected in \<open>hdcp_inv_rules\<close>): the
    transmit buffer keeps 129 bytes, each work item is pending once,
    \<open>HDCP_STATE_ERROR\<close> is never set, a loaded application has a channel.
  \<^item> HDCP memory safety (\<open>no_memory_fault\<close>, from \<open>hdcp_safe_rules\<close>) under a
    secure world whose responses fit the transmit buffer, allocations that succeed
    and client messages within \<open>MAX_RX_MESSAGE_SIZE\<close>, with the counterexamples
    when a condition fails.
  \<^item> The functional behaviour of each HDCP step on its branches, and the
    behaviours the code gets wrong, each a theorem with a concrete witness
    (unchecked unsigned statuses, the missing braces of the repeater check, the
    validation that rejects nothing, the rejected \<open>START\<close> that drops queued
    work, the feature query that unloads a live session, the handle stored in
    the client's context and then freed when the worker thread cannot start,
    so that deregistering the context frees it twice, the permanent HDCP 1.x
    failure after one failed load).
  \<^item> Round trips: the AKSV bytes packed into \<open>aksv_msb\<close>/\<open>aksv_lsb\<close> and
    split again (\<open>hdcp1_set_keys_aksv_roundtrip\<close>), and the bootloader's panel
    parameter parsed back to its interface and name (\<open>get_pan_cfg_roundtrip\<close>).
  \<^item> CPR4: the fuse read-out never fails and yields a well-formed record; the
    in-place override loop equals the prefix maximum; the Fmax scan finds a
    corner of each fuse corner or the calculation fails with \<open>-EINVAL\<close>; target
    quotients end monotone per ring oscillator; the \<open>u64\<close> \<open>quot_low\<close>
    underflow; the decoded voltages, the temperature bands and the boost margins
    stay within their bounds; a successful boost parse has exactly the promised
    effect (\<open>boost_applied\<close>); a probe that registers hands over an initialised
    controller (\<open>cpr4_ctrl_initialised\<close>).  The proofs over the long C functions
    push the property through every branch (\<open>if_distrib\<close>,
    \<open>prod.case_distrib\<close>) and close the leaves with the callee's lemma.

  \<^item> CPR4 Fmax: on a sorted, gap-free corner table the C scan, with its
    decrement of the target fuse corner, computes for each fuse corner the largest
    corner that maps to it (\<open>fmax_corner_refines_spec\<close>, a refinement of the
    \<open>Max\<close>-based \<open>fmax_spec\<close>).
  \<^item> MDSS interrupts: every reachable state keeps the interrupt and histogram
    enable registers equal to their software masks and the MDP interrupt line
    enabled whenever some mask is set (\<open>irq_reachable_inv\<close>); enable then
    disable restores the mask and the register; enabling an enabled interrupt is
    \<open>-EBUSY\<close>.
  \<^item> MDSS power: the clock/bandwidth reference invariant holds after every run
    of \<open>mdss_mdp_clk_ctrl\<close>/\<open>mdss_bus_bandwidth_ctrl\<close> (\<open>pm_run_inv\<close>);
    releasing every clock reference turns the clocks off and balances runtime PM
    (\<open>clk_ctrl_release_all\<close>); a failed IOMMU attach in the idle-PC restore
    leaks an IOMMU reference (\<open>idle_pc_restore_leaks_iommu_ref\<close>).
  \<^item> MDSS footswitch: under every run of the device the reference invariant
    holds and the MDSS and Venus GDSC regulators are enabled exactly while
    \<open>fs_ena\<close> says so (\<open>dev_run_inv\<close>); a failed GDSC enable is ignored and
    the next footswitch-off disables an unenabled regulator; after an idle
    power collapse a bus-only resume and suspend drop the CX vote, so the next
    clock enable runs with CX unvoted and the next suspend disables CX
    unbalanced (\<open>idle_pc_cx_vote_lost\<close>).
  \<^item> MDSS panel: the parameter \<open>1:intf:name\<close> parses back to its interface and
    name; the interface is matched on four characters only; an unknown
    interface on the command line skips the device-tree fallback; reading the
    interface selection leaves the clock references balanced.
  \<^item> MDSS bus and VBIF: \<open>mdss_update_reg_bus_vote\<close> votes the maximum of the
    clients' usecases (a refinement of a \<open>Max\<close> specification); a new bus
    quota never rewrites the usecase in use (three usecases or more); the fixed
    QoS arbiter without NRT ports divides by zero; \<open>mdss_mdp_set_ot_limit\<close>
    programs exactly its byte of the limit register and restores the
    clock-control register.

  \<^bold>\<open>Bounds and fuel.\<close>  No loop of the HDCP or CPR4 files can run forever:
  every loop is a recursion over a finite index list (fuse corners, corners,
  temperature bands, regulators, the message table, the register-bus clients),
  and event sequences are finite lists.  The one unbounded loop is the register
  poll of \<open>readl_poll_timeout\<close>, a \<open>partial_function (option)\<close> over the read
  count and the elapsed time, where the time of each sleep is the lower bound of
  its \<open>usleep_range\<close> plus an environment-chosen overrun; its termination is
  proved (\<open>readl_poll_timeout_returns\<close>), with the bound
  \<open>timeout / (sleep / 4 + 1) + 2\<close> on the reads (\<open>readl_poll_loop_bound\<close>).
  No fuel is needed.

  \<^bold>\<open>Not modelled.\<close>  Logging, \<open>hdcp_lib_check_worker_status\<close> and
  \<open>cpr4_apss_print_settings\<close> (debug output only); the mutexes beyond the
  serialisation of client calls; the platform-driver registration
  (\<open>cpr4_regulator_init/exit\<close>, the match table).  Of \<open>mdss_mdp.c\<close>: the
  probe and its device-tree parsers (\<open>mdss_mdp_parse_dt_*\<close>, about 2000
  lines that only copy properties into the state), the hardware-revision
  capability tables, \<open>mdss_hw_init\<close> and the per-pipe register setup, the sysfs
  and debugfs files, \<open>mdss_mdp_secure_display_ctrl\<close> (a secure-world call
  with no state of this file), the legacy \<open>mdss_mdp_suspend/resume\<close>
  platform callbacks (compiled only without \<open>CONFIG_PM_SLEEP\<close>, where the
  modelled \<open>mdss_mdp_pm_suspend/resume\<close> are compiled), and the remaining
  callbacks of the display controllers; they are register programming or I/O
  that no theorem here would constrain.  The regulator framework, runtime PM
  and the RPM SMD voting are modelled from their interfaces, not their code.
\<close>

end
